(* ===== verification/GoPrelude.thy ===== *)
theory GoPrelude
  imports Main "HOL-Library.Multiset"
begin

text \<open>
  Shared vocabulary of the development: the fragments of the Go language and of its standard
  library that the operator's source uses. Integers are HOL integers with Go's 32 and 64 bit
  wrap-around written out; \<open>time.Duration\<close> is an \<open>int64\<close> count of nanoseconds and
  \<open>time.Time\<close> a count of nanoseconds since the epoch; strings are byte lists; maps
  are partial functions (nil and empty maps are one value, as the API machinery's semantic equality
  has it). The generic lemmas on these are collected in named theorem lists that the component
  theories pass to the simplifier.
\<close>

named_theorems go_defs \<open>definitions of Go library functions, for evaluation\<close>
named_theorems str_simps \<open>facts about Go string functions\<close>

section \<open>Integers\<close>

type_synonym int32 = int
type_synonym int64 = int
type_synonym duration = int
type_synonym time = int

definition in_int32 :: "int \<Rightarrow> bool" where
  "in_int32 x \<longleftrightarrow> - (2 ^ 31) \<le> x \<and> x < 2 ^ 31"

definition in_int64 :: "int \<Rightarrow> bool" where
  "in_int64 x \<longleftrightarrow> - (2 ^ 63) \<le> x \<and> x < 2 ^ 63"

definition wrap32 :: "int \<Rightarrow> int" where
  "wrap32 x = (x + 2 ^ 31) mod 2 ^ 32 - 2 ^ 31"

definition wrap64 :: "int \<Rightarrow> int" where
  "wrap64 x = (x + 2 ^ 63) mod 2 ^ 64 - 2 ^ 63"

text \<open>\<open>Time.Sub\<close> saturates instead of wrapping.\<close>

definition clamp64 :: "int \<Rightarrow> int" where
  "clamp64 x = max (- (2 ^ 63)) (min (2 ^ 63 - 1) x)"

section \<open>Durations and times\<close>

definition Second :: duration where
  "Second = 1000000000"

definition Minute :: duration where
  "Minute = 60 * Second"

text \<open>\<open>time.Duration(n) * time.Second\<close> and \<open>* time.Minute\<close>: 64 bit products.\<close>

definition secs :: "int \<Rightarrow> duration" where
  "secs n = wrap64 (n * Second)"

definition mins :: "int \<Rightarrow> duration" where
  "mins n = wrap64 (n * Minute)"

definition timeAdd :: "time \<Rightarrow> duration \<Rightarrow> time" where
  "timeAdd t d = t + d"

definition timeSub :: "time \<Rightarrow> time \<Rightarrow> duration" where
  "timeSub t u = clamp64 (t - u)"

text \<open>\<open>metav1.Time\<close> and RFC 3339 keep whole seconds when they are written out.\<close>

definition truncSec :: "time \<Rightarrow> time" where
  "truncSec t = (t div Second) * Second"

text \<open>\<open>Time.Unix\<close>: whole seconds since the epoch, rounded down.\<close>

definition timeUnix :: "time \<Rightarrow> int" where
  "timeUnix t = t div Second"

text \<open>\<open>Duration.Round(time.Second)\<close>: half away from zero, saturating.\<close>

definition roundSec :: "duration \<Rightarrow> duration" where
  "roundSec d =
     (if d < 0 then
        (let r = (- d) mod Second in
         if r + r < Second then d + r
         else if - (2 ^ 63) \<le> d - Second + r then d - Second + r else - (2 ^ 63))
      else
        (let r = d mod Second in
         if r + r < Second then d - r
         else if d + Second - r < 2 ^ 63 then d + Second - r else 2 ^ 63 - 1))"

text \<open>\<open>int(d.Seconds())\<close>: truncation towards zero.\<close>

definition secondsInt :: "duration \<Rightarrow> int" where
  "secondsInt d = (if d < 0 then - ((- d) div Second) else d div Second)"

lemmas time_defs = Second_def Minute_def secs_def mins_def timeAdd_def timeSub_def
  truncSec_def timeUnix_def roundSec_def secondsInt_def

section \<open>Strings\<close>

definition digitChar :: "nat \<Rightarrow> char" where
  "digitChar d = char_of (48 + d)"

fun natStr :: "nat \<Rightarrow> string" where
  "natStr n = (if n < 10 then [digitChar n] else natStr (n div 10) @ [digitChar (n mod 10)])"

declare natStr.simps [simp del]

text \<open>\<open>strconv.Itoa\<close> and \<open>FormatInt\<close> in base ten.\<close>

definition itoa :: "int \<Rightarrow> string" where
  "itoa i = (if i < 0 then ''-'' @ natStr (nat (- i)) else natStr (nat i))"

text \<open>\<open>strings.ReplaceAll\<close> for a non-empty pattern: leftmost, non-overlapping.\<close>

fun hasPrefix :: "string \<Rightarrow> string \<Rightarrow> bool" where
  "hasPrefix s [] = True"
| "hasPrefix [] (p # ps) = False"
| "hasPrefix (c # s) (p # ps) = (c = p \<and> hasPrefix s ps)"

function replaceAll :: "string \<Rightarrow> string \<Rightarrow> string \<Rightarrow> string" where
  "replaceAll s old new =
     (if s = [] then []
      else if old \<noteq> [] \<and> hasPrefix s old then new @ replaceAll (drop (length old) s) old new
      else hd s # replaceAll (tl s) old new)"
  by pat_completeness auto
termination
  by (relation "measure (\<lambda>(s, old, new). length s)") auto

declare replaceAll.simps [simp del]

fun containsStr :: "string \<Rightarrow> string \<Rightarrow> bool" where
  "containsStr [] p = (p = [])"
| "containsStr (c # s) p = (hasPrefix (c # s) p \<or> containsStr s p)"

definition containsAny :: "string \<Rightarrow> string \<Rightarrow> bool" where
  "containsAny s cs = list_ex (\<lambda>c. c \<in> set cs) s"

fun joinStr :: "string list \<Rightarrow> string \<Rightarrow> string" where
  "joinStr [] sep = []"
| "joinStr [x] sep = x"
| "joinStr (x # y # xs) sep = x @ sep @ joinStr (y # xs) sep"

text \<open>\<open>strings.Split\<close> with a one-byte separator.\<close>

fun splitOn :: "char \<Rightarrow> string \<Rightarrow> string list" where
  "splitOn sep [] = [[]]"
| "splitOn sep (c # s) =
     (if c = sep then [] # splitOn sep s
      else (case splitOn sep s of [] \<Rightarrow> [[c]] | w # ws \<Rightarrow> (c # w) # ws))"

text \<open>\<open>strings.LastIndex\<close> for a one-byte pattern (\<open>None\<close> is Go's -1).\<close>

fun lastIndex :: "char \<Rightarrow> string \<Rightarrow> nat option" where
  "lastIndex x [] = None"
| "lastIndex x (c # s) =
     (case lastIndex x s of
        Some i \<Rightarrow> Some (Suc i)
      | None \<Rightarrow> if c = x then Some 0 else None)"

definition trimRightSlash :: "string \<Rightarrow> string" where
  "trimRightSlash s = rev (dropWhile (\<lambda>c. c = CHR ''/'') (rev s))"

text \<open>
  \<open>strings.TrimSpace\<close> on ASCII white space, and \<open>strings.ToLower\<close> on ASCII letters.
\<close>

definition isSpace :: "char \<Rightarrow> bool" where
  "isSpace c \<longleftrightarrow> c \<in> {CHR '' '', CHR 0x09, CHR 0x0A, CHR 0x0B, CHR 0x0C, CHR 0x0D}"

definition trimSpace :: "string \<Rightarrow> string" where
  "trimSpace s = rev (dropWhile isSpace (rev (dropWhile isSpace s)))"

definition lowerChar :: "char \<Rightarrow> char" where
  "lowerChar c = (let n = of_char c :: nat in if 65 \<le> n \<and> n \<le> 90 then char_of (n + 32) else c)"

definition toLower :: "string \<Rightarrow> string" where
  "toLower s = map lowerChar s"

text \<open>
  The verb \<open>%q\<close>: a double-quoted Go string literal. The escapes are those of \<open>strconv.Quote\<close>
  on ASCII; bytes of multi-byte characters are kept, which is what \<open>Quote\<close> does with printable
  ones.
\<close>

definition hexChar :: "nat \<Rightarrow> char" where
  "hexChar d = (if d < 10 then char_of (48 + d) else char_of (87 + d))"

definition quoteChar :: "char \<Rightarrow> string" where
  "quoteChar c = (let n = of_char c :: nat in
     if n = 34 then [CHR 0x5C, CHR 0x22]
     else if n = 92 then [CHR 0x5C, CHR 0x5C]
     else if n = 7 then [CHR 0x5C, CHR ''a'']
     else if n = 8 then [CHR 0x5C, CHR ''b'']
     else if n = 9 then [CHR 0x5C, CHR ''t'']
     else if n = 10 then [CHR 0x5C, CHR ''n'']
     else if n = 11 then [CHR 0x5C, CHR ''v'']
     else if n = 12 then [CHR 0x5C, CHR ''f'']
     else if n = 13 then [CHR 0x5C, CHR ''r'']
     else if n < 32 \<or> n = 127 then [CHR 0x5C, CHR ''x'', hexChar (n div 16), hexChar (n mod 16)]
     else [c])"

definition quote :: "string \<Rightarrow> string" where
  "quote s = CHR 0x22 # concat (map quoteChar s) @ [CHR 0x22]"

section \<open>Maps\<close>

type_synonym labels = "string \<rightharpoonup> string"

text \<open>A map literal, or a loop over the entries of a map, as a list of entries.\<close>

definition mapOf :: "(string \<times> 'a) list \<Rightarrow> (string \<rightharpoonup> 'a)" where
  "mapOf kvs = foldl (\<lambda>m (k, v). m(k \<mapsto> v)) Map.empty kvs"

section \<open>\<open>sort.Slice\<close> and \<open>sort.Strings\<close>\<close>

text \<open>
  Both sort by comparison and are not stable in general; on up to twelve elements Go runs the
  insertion sort below. The correctness proofs use only what \<open>slice_sorter\<close> promises.
\<close>

fun insertBy :: "('a \<Rightarrow> 'a \<Rightarrow> bool) \<Rightarrow> 'a \<Rightarrow> 'a list \<Rightarrow> 'a list" where
  "insertBy lt x [] = [x]"
| "insertBy lt x (y # ys) = (if lt y x then y # insertBy lt x ys else x # y # ys)"

fun sortSlice :: "('a \<Rightarrow> 'a \<Rightarrow> bool) \<Rightarrow> 'a list \<Rightarrow> 'a list" where
  "sortSlice lt [] = []"
| "sortSlice lt (x # xs) = insertBy lt x (sortSlice lt xs)"

text \<open>The byte-wise order on strings that \<open>sort.Strings\<close> uses.\<close>

fun strLess :: "string \<Rightarrow> string \<Rightarrow> bool" where
  "strLess s [] = False"
| "strLess [] (d # t) = True"
| "strLess (c # s) (d # t) =
     ((of_char c :: nat) < of_char d \<or> (c = d \<and> strLess s t))"

definition sortStrings :: "string list \<Rightarrow> string list" where
  "sortStrings xs = sortSlice strLess xs"

section \<open>Lemmas\<close>

subsection \<open>Integers, durations, times\<close>

lemma wrap64_id: "in_int64 x \<Longrightarrow> wrap64 x = x"
  unfolding wrap64_def in_int64_def by (simp add: mod_pos_pos_trivial)

lemma wrap32_id: "in_int32 x \<Longrightarrow> wrap32 x = x"
  unfolding wrap32_def in_int32_def by (simp add: mod_pos_pos_trivial)

lemma wrap64_range: "in_int64 (wrap64 x)"
proof -
  have "0 \<le> (x + 2 ^ 63) mod 2 ^ 64" and "(x + 2 ^ 63) mod 2 ^ 64 < (2 ^ 64 :: int)"
    by (rule pos_mod_sign, simp) (rule pos_mod_bound, simp)
  then show ?thesis by (simp add: wrap64_def in_int64_def)
qed

lemma secs_int32: "in_int32 n \<Longrightarrow> secs n = n * Second"
  unfolding secs_def by (rule wrap64_id) (auto simp: in_int64_def in_int32_def Second_def)

lemma secs_pos_iff: "in_int32 n \<Longrightarrow> 0 < secs n \<longleftrightarrow> 0 < n"
  by (simp add: secs_int32 Second_def)

lemma clamp64_pos_iff [simp]: "0 < clamp64 x \<longleftrightarrow> 0 < x"
  by (auto simp: clamp64_def)

lemma truncSec_le: "truncSec t \<le> t"
  unfolding truncSec_def Second_def by presburger

lemma truncSec_gt: "t < truncSec t + Second"
  unfolding truncSec_def Second_def by presburger

lemma truncSec_idem [simp]: "truncSec (truncSec t) = truncSec t"
  by (simp add: truncSec_def Second_def)

subsection \<open>Strings\<close>

lemma digitChar_inj: "i < 10 \<Longrightarrow> j < 10 \<Longrightarrow> digitChar i = digitChar j \<Longrightarrow> i = j"
  by (simp add: digitChar_def)

lemma natStr_ne [simp]: "natStr n \<noteq> []"
  by (subst natStr.simps) simp

lemma natStr_inj: "natStr m = natStr n \<Longrightarrow> m = n"
proof (induction m arbitrary: n rule: natStr.induct)
  case (1 m)
  show ?case
  proof (cases "m < 10")
    case True
    show ?thesis
    proof (cases "n < 10")
      case True
      with \<open>m < 10\<close> "1.prems" show ?thesis
        by (auto simp: natStr.simps [of m] natStr.simps [of n] dest: digitChar_inj)
    next
      case False
      with \<open>m < 10\<close> "1.prems" have "[] = natStr (n div 10)"
        by (simp add: natStr.simps [of m] natStr.simps [of n])
      with natStr_ne [of "n div 10"] show ?thesis by simp
    qed
  next
    case False
    then have n: "\<not> n < 10"
      using "1.prems" by (auto simp: natStr.simps [of m] natStr.simps [of n])
    with False "1.prems" have eq: "natStr (m div 10) = natStr (n div 10)"
      and d: "digitChar (m mod 10) = digitChar (n mod 10)"
      by (simp_all add: natStr.simps [of m] natStr.simps [of n])
    from eq False have "m div 10 = n div 10" by (intro "1.IH") auto
    moreover from d have "m mod 10 = n mod 10" by (rule digitChar_inj [rotated 2]) simp_all
    ultimately show ?thesis by (metis div_mult_mod_eq)
  qed
qed

lemma digitChar_not_minus: "d < 10 \<Longrightarrow> digitChar d \<noteq> CHR ''-''"
proof
  assume "d < 10" and "digitChar d = CHR ''-''"
  then have "of_char (digitChar d) = (45 :: nat)" by simp
  with \<open>d < 10\<close> show False by (simp add: digitChar_def)
qed

lemma natStr_digits: "c \<in> set (natStr n) \<Longrightarrow> \<exists>d < 10. c = digitChar d"
proof (induction n rule: natStr.induct)
  case (1 n)
  show ?case
  proof (cases "n < 10")
    case True
    with "1.prems" show ?thesis by (auto simp: natStr.simps [of n])
  next
    case False
    with "1.prems" have "c \<in> set (natStr (n div 10)) \<or> c = digitChar (n mod 10)"
      by (auto simp: natStr.simps [of n])
    with False "1.IH" show ?thesis by (metis mod_less_divisor zero_less_numeral)
  qed
qed

lemma itoa_inj: "itoa i = itoa j \<Longrightarrow> i = j"
proof -
  have minus: "CHR ''-'' \<notin> set (natStr n)" for n
    using natStr_digits digitChar_not_minus by metis
  have ne: "natStr n \<noteq> CHR ''-'' # t" for n t
    using minus [of n] by auto
  assume "itoa i = itoa j"
  then show "i = j"
    using ne ne [symmetric] by (auto simp: itoa_def split: if_splits dest!: natStr_inj)
qed

lemma itoa_ne [simp]: "itoa i \<noteq> []"
  by (simp add: itoa_def)

lemma hasPrefix_iff: "hasPrefix s p \<longleftrightarrow> (\<exists>t. s = p @ t)"
  by (induction s p rule: hasPrefix.induct) auto

lemma containsStr_iff: "containsStr s p \<longleftrightarrow> (\<exists>u v. s = u @ p @ v)"
proof (induction s)
  case (Cons c s)
  show ?case
  proof
    assume "containsStr (c # s) p"
    then consider "hasPrefix (c # s) p" | "containsStr s p" by auto
    then show "\<exists>u v. c # s = u @ p @ v"
    proof cases
      case 1
      then show ?thesis by (metis append_Nil hasPrefix_iff)
    next
      case 2
      then show ?thesis using Cons.IH by (metis append_Cons)
    qed
  next
    assume "\<exists>u v. c # s = u @ p @ v"
    then obtain u v where uv: "c # s = u @ p @ v" by blast
    show "containsStr (c # s) p"
    proof (cases u)
      case Nil
      with uv have "hasPrefix (c # s) p" by (auto simp: hasPrefix_iff)
      then show ?thesis by simp
    next
      case (Cons d u')
      with uv Cons.IH show ?thesis by auto
    qed
  qed
qed simp

lemma containsAny_iff: "containsAny s cs \<longleftrightarrow> (\<exists>c \<in> set s. c \<in> set cs)"
  by (auto simp: containsAny_def list_ex_iff)

text \<open>Replacing a single character is a map over the string.\<close>

lemma replaceAll_char: "replaceAll s [c] new = concat (map (\<lambda>x. if x = c then new else [x]) s)"
proof (induction s)
  case Nil
  show ?case by (simp add: replaceAll.simps)
next
  case (Cons x s)
  then show ?case by (subst replaceAll.simps) (auto simp: hasPrefix_iff)
qed

lemma replaceAll_absent: "\<not> containsStr s old \<Longrightarrow> replaceAll s old new = s"
proof (induction s)
  case Nil
  show ?case by (simp add: replaceAll.simps)
next
  case (Cons x s)
  then show ?case by (subst replaceAll.simps) auto
qed

lemma joinStr_chars: "set (joinStr xs sep) \<subseteq> \<Union> (set ` set xs) \<union> set sep"
  by (induction xs sep rule: joinStr.induct) auto

lemma lastIndex_Some:
  "lastIndex x s = Some i \<Longrightarrow> i < length s \<and> s ! i = x \<and> x \<notin> set (drop (Suc i) s)"
proof (induction s arbitrary: i)
  case (Cons c s)
  show ?case
  proof (cases "lastIndex x s")
    case None
    moreover have "x \<notin> set s" if "lastIndex x s = None" for s
      using that by (induction s) (auto split: option.splits if_splits)
    ultimately show ?thesis using Cons.prems by (auto split: if_splits)
  next
    case (Some j)
    with Cons show ?thesis by auto
  qed
qed simp

subsection \<open>Maps\<close>

lemma mapOf_Nil [simp]: "mapOf [] = Map.empty"
  by (simp add: mapOf_def)

lemma mapOf_snoc [simp]: "mapOf (kvs @ [(k, v)]) = (mapOf kvs)(k \<mapsto> v)"
  by (simp add: mapOf_def)

lemma mapOf_Cons_notin: "k \<notin> fst ` set kvs \<Longrightarrow> mapOf ((k, v) # kvs) = (mapOf kvs)(k \<mapsto> v)"
proof (induction kvs rule: rev_induct)
  case Nil
  show ?case by (simp add: mapOf_def)
next
  case (snoc x xs)
  obtain k' v' where x: "x = (k', v')" by (cases x)
  from snoc x have "mapOf ((k, v) # xs) = (mapOf xs)(k \<mapsto> v)" and "k \<noteq> k'" by auto
  then show ?case
    using mapOf_snoc [of "(k, v) # xs" k' v'] x by (auto simp: fun_eq_iff)
qed

lemma map_le_upd: "k \<notin> dom m \<or> m k = Some v \<Longrightarrow> m \<subseteq>\<^sub>m m(k \<mapsto> v)"
  by (auto simp: map_le_def)

subsection \<open>The contract of \<open>sort.Slice\<close>\<close>

text \<open>
  What the callers rely on: the result is a permutation, and no element is less than one before it.
  The comparison has to be a strict weak order, which the callers' comparisons are.
\<close>

locale slice_sorter =
  fixes lt :: "'a \<Rightarrow> 'a \<Rightarrow> bool"
    and srt :: "'a list \<Rightarrow> 'a list"
  assumes perm: "mset (srt xs) = mset xs"
    and ordered: "sorted_wrt (\<lambda>x y. \<not> lt y x) (srt xs)"
begin

lemma length_srt [simp]: "length (srt xs) = length xs"
  by (metis perm size_mset)

lemma set_srt [simp]: "set (srt xs) = set xs"
  by (metis perm set_mset_mset)

text \<open>What is kept is never after what is dropped, whatever the cut.\<close>

lemma take_before_drop:
  assumes "x \<in> set (take n (srt xs))" and "y \<in> set (drop n (srt xs))"
  shows "\<not> lt y x"
proof -
  have "sorted_wrt (\<lambda>x y. \<not> lt y x) (take n (srt xs) @ drop n (srt xs))"
    using ordered by simp
  with assms show ?thesis unfolding sorted_wrt_append by blast
qed

lemma mset_take_drop: "mset (take n (srt xs)) + mset (drop n (srt xs)) = mset xs"
  by (metis append_take_drop_id mset_append perm)

end

lemma mset_insertBy: "mset (insertBy lt x xs) = add_mset x (mset xs)"
  by (induction xs) auto

lemma mset_sortSlice: "mset (sortSlice lt xs) = mset xs"
  by (induction xs) (auto simp: mset_insertBy)

lemma set_insertBy: "set (insertBy lt x xs) = insert x (set xs)"
  by (metis mset_insertBy set_mset_add_mset_insert set_mset_mset)

lemma sorted_insertBy:
  assumes tr: "\<And>x y z. \<not> lt y x \<Longrightarrow> \<not> lt z y \<Longrightarrow> \<not> lt z x"
    and asym: "\<And>x y. lt x y \<Longrightarrow> \<not> lt y x"
    and "sorted_wrt (\<lambda>x y. \<not> lt y x) xs"
  shows "sorted_wrt (\<lambda>x y. \<not> lt y x) (insertBy lt x xs)"
  using assms(3)
proof (induction xs)
  case (Cons y ys)
  show ?case
  proof (cases "lt y x")
    case True
    with Cons asym show ?thesis by (auto simp: set_insertBy)
  next
    case False
    then have "\<not> lt z x" if "z \<in> set (y # ys)" for z
      using Cons.prems that tr by auto
    with False Cons.prems show ?thesis by auto
  qed
qed simp

lemma sorted_sortSlice:
  assumes "\<And>x y z. \<not> lt y x \<Longrightarrow> \<not> lt z y \<Longrightarrow> \<not> lt z x" and "\<And>x y. lt x y \<Longrightarrow> \<not> lt y x"
  shows "sorted_wrt (\<lambda>x y. \<not> lt y x) (sortSlice lt xs)"
proof (induction xs)
  case (Cons x xs)
  from sorted_insertBy [OF assms Cons.IH] show ?case by simp
qed simp

subsection \<open>\<open>sort.Strings\<close>\<close>

lemma strLess_irrefl [simp]: "\<not> strLess s s"
  by (induction s) auto

lemma strLess_asym: "strLess s t \<Longrightarrow> \<not> strLess t s"
  by (induction s t rule: strLess.induct) auto

lemma strLess_linear: "strLess s t \<or> s = t \<or> strLess t s"
proof (induction s t rule: strLess.induct)
  case (1 s)
  then show ?case by (cases s) auto
next
  case (3 c s d t)
  show ?case
  proof (cases "(of_char c :: nat) = of_char d")
    case True
    then have "c = d" by simp
    with 3 show ?thesis by auto
  next
    case False
    then consider "(of_char c :: nat) < of_char d" | "(of_char d :: nat) < of_char c" by linarith
    then show ?thesis by cases simp_all
  qed
qed auto

lemma strLess_trans: "strLess s t \<Longrightarrow> strLess t u \<Longrightarrow> strLess s u"
proof (induction s t arbitrary: u rule: strLess.induct)
  case (2 d t)
  then show ?case by (cases u) auto
next
  case (3 c s d t)
  then show ?case by (cases u) auto
qed auto

lemma strLess_neg_trans: "\<not> strLess y x \<Longrightarrow> \<not> strLess z y \<Longrightarrow> \<not> strLess z x"
  by (metis strLess_linear strLess_trans)

interpretation str_sort: slice_sorter strLess sortStrings
proof
  show "mset (sortStrings xs) = mset xs" for xs
    by (simp add: sortStrings_def mset_sortSlice)
  show "sorted_wrt (\<lambda>x y. \<not> strLess y x) (sortStrings xs)" for xs
    unfolding sortStrings_def
    by (rule sorted_sortSlice) (fact strLess_neg_trans strLess_asym)+
qed

text \<open>Sorting strings depends on the bag of strings only.\<close>

lemma sortStrings_mset_eq:
  assumes "mset xs = mset ys"
  shows "sortStrings xs = sortStrings ys"
proof -
  have uniq: "xs' = ys'"
    if "mset xs' = mset ys'" "sorted_wrt (\<lambda>x y. \<not> strLess y x) xs'"
      "sorted_wrt (\<lambda>x y. \<not> strLess y x) ys'" for xs' ys'
    using that
  proof (induction xs' arbitrary: ys')
    case (Cons x xs')
    then obtain y ys'' where ys': "ys' = y # ys''" by (cases ys') auto
    have "x \<in> set ys'" and "y \<in> set (x # xs')"
      using Cons.prems(1) ys' by (metis list.set_intros(1) set_mset_mset)+
    then have "x = y \<or> (\<not> strLess x y \<and> \<not> strLess y x)"
      using Cons.prems(2,3) ys' by auto
    then have "x = y" using strLess_linear by blast
    with Cons ys' show ?case by auto
  qed simp
  show ?thesis
    by (rule uniq) (simp_all add: str_sort.perm str_sort.ordered assms)
qed

end
