(* ===== verification/Effects.thy ===== *)
theory Effects
  imports GoPrelude "HOL-Library.State_Monad"
begin

text \<open>
  The operator talks to the outside (the Kubernetes API server, the game server's REST API, Steam,
  the clock) through calls whose replies it cannot choose. An operation of the source is an action in
  the state monad over a \<open>world\<close>: the outside as an arbitrary function \<open>srv\<close> from the calls and
  replies so far and the next call to its reply, and the history of calls with their replies. A
  theorem for every \<open>srv\<close> holds for every behaviour of the outside, other controllers
  included; whatever the operator did is in the history. \<open>val\<close>, \<open>fin\<close> and \<open>events\<close> are the value,
  the final world and the new part of the history of an action, with equations for each combinator.
\<close>

named_theorems op_simps \<open>value, final world and events of the combinators\<close>
named_theorems only_intros \<open>rules for which calls an action may make\<close>

section \<open>Worlds and actions\<close>

record ('c, 'r) world =
  srv :: "('c \<times> 'r) list \<Rightarrow> 'c \<Rightarrow> 'r"
  hist :: "('c \<times> 'r) list"

type_synonym ('c, 'r, 'a) op = "(('c, 'r) world, 'a) state"

abbreviation ret :: "'a \<Rightarrow> ('c, 'r, 'a) op" where
  "ret \<equiv> State_Monad.return"

definition call :: "'c \<Rightarrow> ('c, 'r, 'r) op" where
  "call c = State (\<lambda>w. let r = srv w (hist w) c in (r, w\<lparr>hist := hist w @ [(c, r)]\<rparr>))"

definition val :: "('c, 'r, 'a) op \<Rightarrow> ('c, 'r) world \<Rightarrow> 'a" where
  "val m w = fst (run_state m w)"

definition fin :: "('c, 'r, 'a) op \<Rightarrow> ('c, 'r) world \<Rightarrow> ('c, 'r) world" where
  "fin m w = snd (run_state m w)"

definition events :: "('c, 'r, 'a) op \<Rightarrow> ('c, 'r) world \<Rightarrow> ('c \<times> 'r) list" where
  "events m w = drop (length (hist w)) (hist (fin m w))"

definition calls :: "('c, 'r, 'a) op \<Rightarrow> ('c, 'r) world \<Rightarrow> 'c list" where
  "calls m w = map fst (events m w)"

text \<open>
  An action only extends the history, by calls with the replies the outside gave to them, and never
  changes the outside's behaviour. Every operation of the development has this property.
\<close>

definition answered :: "(('c \<times> 'r) list \<Rightarrow> 'c \<Rightarrow> 'r) \<Rightarrow> ('c \<times> 'r) list \<Rightarrow> bool" where
  "answered f es \<longleftrightarrow> list_all (\<lambda>(c, x). \<exists>h. x = f h c) es"

definition logs :: "('c, 'r, 'a) op \<Rightarrow> bool" where
  "logs m \<longleftrightarrow> (\<forall>w. srv (fin m w) = srv w \<and> (\<exists>xs. hist (fin m w) = hist w @ xs \<and> answered (srv w) xs))"

text \<open>Every call an action makes, from any world, satisfies a predicate.\<close>

definition only :: "('c \<Rightarrow> bool) \<Rightarrow> ('c, 'r, 'a) op \<Rightarrow> bool" where
  "only P m \<longleftrightarrow> logs m \<and> (\<forall>w. \<forall>c \<in> set (calls m w). P c)"

section \<open>Equations\<close>

lemma val_ret [simp, op_simps]: "val (ret a) w = a"
  by (simp add: val_def)

lemma fin_ret [simp, op_simps]: "fin (ret a) w = w"
  by (simp add: fin_def)

lemma events_ret [simp, op_simps]: "events (ret a) w = []"
  by (simp add: events_def)

lemma val_call [op_simps]: "val (call c) w = srv w (hist w) c"
  by (simp add: val_def call_def Let_def)

lemma fin_call [op_simps]: "fin (call c) w = w\<lparr>hist := hist w @ [(c, srv w (hist w) c)]\<rparr>"
  by (simp add: fin_def call_def Let_def)

lemma events_call [simp, op_simps]: "events (call c) w = [(c, srv w (hist w) c)]"
  by (simp add: events_def fin_call)

lemma val_bind [simp, op_simps]: "val (State_Monad.bind m f) w = val (f (val m w)) (fin m w)"
  by (simp add: val_def fin_def split: prod.split)

lemma fin_bind [simp, op_simps]: "fin (State_Monad.bind m f) w = fin (f (val m w)) (fin m w)"
  by (simp add: val_def fin_def split: prod.split)

lemma logs_srv [simp]: "logs m \<Longrightarrow> srv (fin m w) = srv w"
  by (simp add: logs_def)

lemma logs_hist: "logs m \<Longrightarrow> hist (fin m w) = hist w @ events m w"
  unfolding logs_def events_def by (metis append_eq_conv_conj)

lemma answered_simps [simp]:
  "answered f []" "answered f ((c, x) # es) \<longleftrightarrow> (\<exists>h. x = f h c) \<and> answered f es"
  "answered f (es @ es') \<longleftrightarrow> answered f es \<and> answered f es'"
  by (simp_all add: answered_def)

lemma logs_answered: "logs m \<Longrightarrow> answered (srv w) (events m w)"
  unfolding logs_def events_def by (metis append_eq_conv_conj)

lemma logs_ret [simp, intro]: "logs (ret a)"
  by (simp add: logs_def)

lemma logs_call [simp, intro]: "logs (call c)"
  unfolding logs_def by (auto simp: fin_call)

lemma logs_bind [simp, intro]:
  assumes "logs m" and "\<And>a. logs (f a)"
  shows "logs (State_Monad.bind m f)"
  unfolding logs_def
proof (intro allI conjI)
  fix w
  show "srv (fin (State_Monad.bind m f) w) = srv w"
    using assms by simp
  show "\<exists>xs. hist (fin (State_Monad.bind m f) w) = hist w @ xs \<and> answered (srv w) xs"
    using logs_hist [OF assms(1), of w] logs_hist [OF assms(2), of "val m w" "fin m w"]
      logs_answered [OF assms(1), of w] logs_answered [OF assms(2), of "fin m w" "val m w"] assms(1)
    by (intro exI [of _ "events m w @ events (f (val m w)) (fin m w)"]) simp
qed

lemma events_bind [simp, op_simps]:
  assumes "logs m" and "\<And>a. logs (f a)"
  shows "events (State_Monad.bind m f) w = events m w @ events (f (val m w)) (fin m w)"
proof -
  have "hist (fin (State_Monad.bind m f) w) =
      hist w @ events m w @ events (f (val m w)) (fin m w)"
    using logs_hist [OF assms(1), of w] logs_hist [OF assms(2), of "val m w" "fin m w"] by simp
  then show ?thesis unfolding events_def [of "State_Monad.bind m f"] by simp
qed

lemma calls_ret [simp]: "calls (ret a) w = []"
  by (simp add: calls_def)

lemma calls_call [simp]: "calls (call c) w = [c]"
  by (simp add: calls_def)

lemma calls_bind [simp]:
  assumes "logs m" and "\<And>a. logs (f a)"
  shows "calls (State_Monad.bind m f) w = calls m w @ calls (f (val m w)) (fin m w)"
  using assms by (simp add: calls_def)

section \<open>Which calls an action may make\<close>

lemma onlyD: "only P m \<Longrightarrow> c \<in> set (calls m w) \<Longrightarrow> P c"
  by (simp add: only_def)

lemma only_logs: "only P m \<Longrightarrow> logs m"
  by (simp add: only_def)

lemma only_mono: "only P m \<Longrightarrow> (\<And>c. P c \<Longrightarrow> Q c) \<Longrightarrow> only Q m"
  by (simp add: only_def)

lemma only_True: "logs m \<Longrightarrow> only (\<lambda>c. True) m"
  by (simp add: only_def)

lemma only_ret [only_intros]: "only P (ret a)"
  by (simp add: only_def)

lemma only_call [only_intros]: "P c \<Longrightarrow> only P (call c)"
  by (simp add: only_def)

lemma only_bind [only_intros]:
  "only P m \<Longrightarrow> (\<And>a. only P (f a)) \<Longrightarrow> only P (State_Monad.bind m f)"
  by (auto simp: only_def)

lemma only_if [only_intros]:
  "(b \<Longrightarrow> only P m) \<Longrightarrow> (\<not> b \<Longrightarrow> only P n) \<Longrightarrow> only P (if b then m else n)"
  by simp

lemma only_prod [only_intros]:
  "(\<And>a b. only P (f a b)) \<Longrightarrow> only P (case x of (a, b) \<Rightarrow> f a b)"
  by (cases x) simp

lemma only_option [only_intros]:
  "only P m \<Longrightarrow> (\<And>a. only P (f a)) \<Longrightarrow> only P (case x of None \<Rightarrow> m | Some a \<Rightarrow> f a)"
  by (cases x) simp_all

lemma only_sum [only_intros]:
  "(\<And>a. only P (f a)) \<Longrightarrow> (\<And>b. only P (g b)) \<Longrightarrow> only P (case x of Inl a \<Rightarrow> f a | Inr b \<Rightarrow> g b)"
  by (cases x) simp_all

lemma only_let [only_intros]: "only P (f a) \<Longrightarrow> only P (let x = a in f x)"
  by simp

section \<open>A program logic for values and events\<close>

text \<open>
  \<open>ensures Q m\<close>: from every world the action only extends the history, and its value and the events
  it adds satisfy \<open>Q\<close>. The rules below run an action symbolically: a call is answered by an
  arbitrary reply, a branch splits, an operation with a specification is replaced by it.
\<close>

definition ensures :: "('a \<Rightarrow> ('c \<times> 'r) list \<Rightarrow> bool) \<Rightarrow> ('c, 'r, 'a) op \<Rightarrow> bool" where
  "ensures Q m \<longleftrightarrow>
     (\<forall>w. srv (fin m w) = srv w
        \<and> (\<exists>es. hist (fin m w) = hist w @ es \<and> answered (srv w) es \<and> Q (val m w) es))"

named_theorems ensures_intros \<open>rules of the program logic\<close>

lemma ensuresD:
  assumes "ensures Q m" shows "Q (val m w) (events m w)"
proof -
  obtain es where "hist (fin m w) = hist w @ es" "Q (val m w) es"
    using assms unfolding ensures_def by blast
  then show ?thesis by (simp add: events_def)
qed

lemma ensures_logs: "ensures Q m \<Longrightarrow> logs m"
  unfolding ensures_def logs_def by blast

text \<open>Every reply in the events is one the outside gave to that call.\<close>

lemma ensures_answered: "ensures Q m \<Longrightarrow> (c, x) \<in> set (events m w) \<Longrightarrow> \<exists>h. x = srv w h c"
  using logs_answered [OF ensures_logs] by (fastforce simp: answered_def list_all_iff)

lemma ensures_mono: "ensures P m \<Longrightarrow> (\<And>a es. P a es \<Longrightarrow> Q a es) \<Longrightarrow> ensures Q m"
  unfolding ensures_def by blast

lemma ensures_conj: "ensures P m \<Longrightarrow> ensures Q m \<Longrightarrow> ensures (\<lambda>a es. P a es \<and> Q a es) m"
  unfolding ensures_def by (metis same_append_eq)

lemma only_ensures:
  assumes "ensures (\<lambda>a es. \<forall>e \<in> set es. P (fst e)) m" shows "only P m"
  using ensures_logs [OF assms] ensuresD [OF assms] by (fastforce simp: only_def calls_def)

lemma ensures_only:
  assumes "only P m" shows "ensures (\<lambda>a es. \<forall>e \<in> set es. P (fst e)) m"
  unfolding ensures_def
proof
  fix w
  have "\<forall>e \<in> set (events m w). P (fst e)"
    using assms by (auto simp: only_def calls_def)
  with logs_hist [OF only_logs [OF assms], of w] logs_srv [OF only_logs [OF assms], of w]
    logs_answered [OF only_logs [OF assms], of w]
  show "srv (fin m w) = srv w \<and>
      (\<exists>es. hist (fin m w) = hist w @ es \<and> answered (srv w) es \<and> (\<forall>e \<in> set es. P (fst e)))" by blast
qed

lemma ensures_any: "logs m \<Longrightarrow> (\<And>a es. Q a es) \<Longrightarrow> ensures Q m"
  by (rule ensures_mono [OF ensures_only [OF only_True]])

lemma ensures_ret [ensures_intros]: "Q a [] \<Longrightarrow> ensures Q (ret a)"
  by (simp add: ensures_def)

lemma ensures_call [ensures_intros]: "(\<And>r. Q r [(c, r)]) \<Longrightarrow> ensures Q (call c)"
  unfolding ensures_def by (auto simp: fin_call val_call)

lemma ensures_bind:
  assumes "ensures P m" and "\<And>a es. P a es \<Longrightarrow> ensures (\<lambda>b es'. Q b (es @ es')) (f a)"
  shows "ensures Q (State_Monad.bind m f)"
  unfolding ensures_def
proof
  fix w
  obtain es where 1: "srv (fin m w) = srv w" "hist (fin m w) = hist w @ es" "P (val m w) es" "answered (srv w) es"
    using assms(1) unfolding ensures_def by blast
  obtain es' where 2: "srv (fin (f (val m w)) (fin m w)) = srv (fin m w)"
    "hist (fin (f (val m w)) (fin m w)) = hist (fin m w) @ es'" "answered (srv (fin m w)) es'"
    "Q (val (f (val m w)) (fin m w)) (es @ es')"
    using assms(2) [OF 1(3)] unfolding ensures_def by blast
  show "srv (fin (State_Monad.bind m f) w) = srv w \<and>
      (\<exists>es. hist (fin (State_Monad.bind m f) w) = hist w @ es \<and> answered (srv w) es
        \<and> Q (val (State_Monad.bind m f) w) es)"
    using 1 2 by auto
qed

lemma ensures_call_bind [ensures_intros]:
  "(\<And>r. ensures (\<lambda>b es. Q b ((c, r) # es)) (f r)) \<Longrightarrow> ensures Q (State_Monad.bind (call c) f)"
  by (rule ensures_bind [of "\<lambda>r es. es = [(c, r)]"]) (auto intro: ensures_call)

lemma bind_ret [simp]: "State_Monad.bind (ret a) f = f a"
  by simp

lemma bind_assoc [simp]:
  "State_Monad.bind (State_Monad.bind m f) g = State_Monad.bind m (\<lambda>x. State_Monad.bind (f x) g)"
  by simp

lemma bind_if [simp]:
  "State_Monad.bind (if b then m else n) f = (if b then State_Monad.bind m f else State_Monad.bind n f)"
  by simp

lemma bind_sum [simp]:
  "State_Monad.bind (case x of Inl a \<Rightarrow> m a | Inr b \<Rightarrow> n b) f =
     (case x of Inl a \<Rightarrow> State_Monad.bind (m a) f | Inr b \<Rightarrow> State_Monad.bind (n b) f)"
  by (cases x) simp_all

lemma bind_option [simp]:
  "State_Monad.bind (case x of None \<Rightarrow> m | Some b \<Rightarrow> n b) f =
     (case x of None \<Rightarrow> State_Monad.bind m f | Some b \<Rightarrow> State_Monad.bind (n b) f)"
  by (cases x) simp_all

lemma ensures_if [ensures_intros]:
  "(b \<Longrightarrow> ensures Q m) \<Longrightarrow> (\<not> b \<Longrightarrow> ensures Q n) \<Longrightarrow> ensures Q (if b then m else n)"
  by simp

lemma ensures_sum [ensures_intros]:
  "(\<And>a. x = Inl a \<Longrightarrow> ensures Q (f a)) \<Longrightarrow> (\<And>b. x = Inr b \<Longrightarrow> ensures Q (g b))
     \<Longrightarrow> ensures Q (case x of Inl a \<Rightarrow> f a | Inr b \<Rightarrow> g b)"
  by (cases x) simp_all

lemma ensures_option [ensures_intros]:
  "(x = None \<Longrightarrow> ensures Q m) \<Longrightarrow> (\<And>b. x = Some b \<Longrightarrow> ensures Q (g b))
     \<Longrightarrow> ensures Q (case x of None \<Rightarrow> m | Some b \<Rightarrow> g b)"
  by (cases x) simp_all

lemma ensures_prod [ensures_intros]:
  "(\<And>a b. x = (a, b) \<Longrightarrow> ensures Q (f a b)) \<Longrightarrow> ensures Q (case x of (a, b) \<Rightarrow> f a b)"
  by (cases x) simp

lemma ensures_let [ensures_intros]: "ensures Q (f a) \<Longrightarrow> ensures Q (let x = a in f x)"
  by simp

section \<open>Conditions that ignore some calls\<close>

text \<open>
  A condition on value and events that a quiet call in front never breaks. Its lemmas pass over quiet
  calls and over whole actions that only make quiet calls.
\<close>

locale quiet_frame =
  fixes quiet :: "'c \<Rightarrow> bool" and cond :: "'a \<Rightarrow> ('c \<times> 'r) list \<Rightarrow> bool"
  assumes frame: "quiet c \<Longrightarrow> cond v es \<Longrightarrow> cond v ((c, x) # es)"
begin

lemma frame_list: "list_all (\<lambda>e. quiet (fst e)) pre \<Longrightarrow> cond v es \<Longrightarrow> cond v (pre @ es)"
  by (induction pre) (auto intro: frame)

lemma call_bind:
  assumes "quiet c" and "\<And>x. ensures cond (f x)"
  shows "ensures cond (State_Monad.bind (call c) f)"
  by (rule ensures_call_bind, rule ensures_mono [OF assms(2)]) (rule frame [OF assms(1)])

lemma action_bind:
  assumes "ensures (\<lambda>a es. list_all (\<lambda>e. quiet (fst e)) es) m" and "\<And>a. ensures cond (f a)"
  shows "ensures cond (State_Monad.bind m f)"
  by (rule ensures_bind [OF assms(1)], rule ensures_mono [OF assms(2)]) (rule frame_list)

end

end
