(* ===== verification/ServerSettings.thy ===== *)
theory ServerSettings
  imports GoPrelude
begin

text \<open>
  The server settings component: the \<open>PalworldServerSettings\<close> struct of
  \<^verbatim>\<open>api/v1alpha1/palworldsettings_types.go\<close> with its \<open>pal\<close> struct tags, and the renderer of
  \<^verbatim>\<open>internal/settings/render.go\<close> that reflects over those tags to print the one-line
  \<open>OptionSettings\<close> tuple. The struct's 111 fields are a chain of five records that follow the
  source's order; \<open>structFields\<close> is what \<open>reflect\<close> enumerates: name, \<open>pal\<close> tag and value of each
  field. The lemmas show that rendering never fails, that no value can break out of its place in the
  tuple (the tuple splits back into exactly the rendered pairs), and that the file is the header line
  and one settings line.
\<close>

section \<open>Values\<close>

text \<open>A finite \<open>float64\<close>: sign, mantissa and binary exponent, that is \<open>m * 2 ^ e\<close>.\<close>

datatype float64 = Flt bool nat int

text \<open>What a \<open>reflect.Value\<close> of a settings field can hold.\<close>

datatype rvalue = VBool bool | VInt int64 | VFloat float64 | VStr string | VStrs "string list"

type_synonym structField = "string \<times> string \<times> rvalue"

text \<open>The string enumerations of the API.\<close>

type_synonym Difficulty = string
type_synonym RandomizerType = string
type_synonym DeathPenalty = string
type_synonym LogFormatType = string
type_synonym CrossplayPlatform = string

definition difficulties :: "Difficulty list" where
  "difficulties = [''None'', ''Casual'', ''Normal'', ''Hard'', ''Difficult'']"

definition randomizerTypes :: "RandomizerType list" where
  "randomizerTypes = [''None'', ''Region'', ''All'']"

definition deathPenalties :: "DeathPenalty list" where
  "deathPenalties = [''None'', ''Item'', ''ItemAndEquipment'', ''All'']"

definition logFormatTypes :: "LogFormatType list" where
  "logFormatTypes = [''Text'', ''Json'']"

definition crossplayPlatforms :: "CrossplayPlatform list" where
  "crossplayPlatforms = [''Steam'', ''Xbox'', ''PS5'', ''Mac'']"

section \<open>The settings struct\<close>

record palWorld =
  ss_Difficulty :: string
  ss_RandomizerType :: string
  ss_RandomizerSeed :: string
  ss_IsRandomizerPalLevelRandom :: bool
  ss_DayTimeSpeedRate :: float64
  ss_NightTimeSpeedRate :: float64
  ss_ExpRate :: float64
  ss_PalCaptureRate :: float64
  ss_PalSpawnNumRate :: float64
  ss_PalDamageRateAttack :: float64
  ss_PalDamageRateDefense :: float64
  ss_PlayerDamageRateAttack :: float64
  ss_PlayerDamageRateDefense :: float64
  ss_PlayerStomachDecreaceRate :: float64
  ss_PlayerStaminaDecreaceRate :: float64
  ss_PlayerAutoHPRegeneRate :: float64
  ss_PlayerAutoHpRegeneRateInSleep :: float64
  ss_PalStomachDecreaceRate :: float64
  ss_PalStaminaDecreaceRate :: float64
  ss_PalAutoHPRegeneRate :: float64
  ss_PalAutoHpRegeneRateInSleep :: float64
  ss_BuildObjectHpRate :: float64

record palBase = palWorld +
  ss_BuildObjectDamageRate :: float64
  ss_BuildObjectDeteriorationDamageRate :: float64
  ss_CollectionDropRate :: float64
  ss_CollectionObjectHpRate :: float64
  ss_CollectionObjectRespawnSpeedRate :: float64
  ss_EnemyDropItemRate :: float64
  ss_DeathPenalty :: string
  ss_EnablePlayerToPlayerDamage :: bool
  ss_EnableFriendlyFire :: bool
  ss_EnableInvaderEnemy :: bool
  ss_ActiveUNKO :: bool
  ss_EnableAimAssistPad :: bool
  ss_EnableAimAssistKeyboard :: bool
  ss_DropItemMaxNum :: int32
  ss_PhysicsActiveDropItemMaxNum :: int32
  ss_DropItemMaxNumUNKO :: int32
  ss_BaseCampMaxNum :: int32
  ss_BaseCampWorkerMaxNum :: int32
  ss_DropItemAliveMaxHours :: float64
  ss_AutoResetGuildNoOnlinePlayers :: bool
  ss_AutoResetGuildTimeNoOnlinePlayers :: float64
  ss_GuildPlayerMaxNum :: int32

record palRules = palBase +
  ss_BaseCampMaxNumInGuild :: int32
  ss_PalEggDefaultHatchingTime :: float64
  ss_WorkSpeedRate :: float64
  ss_AutoSaveSpan :: float64
  ss_IsMultiplay :: bool
  ss_IsPvP :: bool
  ss_Hardcore :: bool
  ss_PalLost :: bool
  ss_CharacterRecreateInHardcore :: bool
  ss_CanPickupOtherGuildDeathPenaltyDrop :: bool
  ss_EnableNonLoginPenalty :: bool
  ss_EnableFastTravel :: bool
  ss_EnableFastTravelOnlyBaseCamp :: bool
  ss_IsStartLocationSelectByMap :: bool
  ss_ExistPlayerAfterLogout :: bool
  ss_EnableDefenseOtherGuildPlayer :: bool
  ss_InvisibleOtherGuildBaseCampAreaFX :: bool
  ss_BuildAreaLimit :: bool
  ss_ItemWeightRate :: float64
  ss_CoopPlayerMaxNum :: int32
  ss_ServerPlayerMaxNum :: int32
  ss_ServerName :: string

record palServer = palRules +
  ss_ServerDescription :: string
  ss_AllowClientMod :: bool
  ss_Region :: string
  ss_UseAuth :: bool
  ss_BanListURL :: string
  ss_ShowPlayerList :: bool
  ss_ChatPostLimitPerMinute :: int32
  ss_CrossplayPlatforms :: "string list"
  ss_IsUseBackupSaveData :: bool
  ss_LogFormatType :: string
  ss_IsShowJoinLeftMessage :: bool
  ss_SupplyDropSpan :: int32
  ss_EnablePredatorBossPal :: bool
  ss_MaxBuildingLimitNum :: int32
  ss_ServerReplicatePawnCullDistance :: float64
  ss_AllowGlobalPalboxExport :: bool
  ss_AllowGlobalPalboxImport :: bool
  ss_EquipmentDurabilityDamageRate :: float64
  ss_ItemContainerForceMarkDirtyInterval :: float64
  ss_PlayerDataPalStorageUpdateCheckTickInterval :: float64
  ss_ItemCorruptionMultiplier :: float64
  ss_MonsterFarmActionSpeedRate :: float64
  ss_DenyTechnologyList :: string

record PalworldServerSettings = palServer +
  ss_GuildRejoinCooldownMinutes :: int32
  ss_AutoTransferMasterCheckIntervalSeconds :: float64
  ss_AutoTransferMasterThresholdDays :: int32
  ss_MaxGuildsPerFrame :: int32
  ss_BlockRespawnTime :: float64
  ss_RespawnPenaltyDurationThreshold :: float64
  ss_RespawnPenaltyTimeScale :: float64
  ss_DisplayPvPItemNumOnWorldMapBaseCamp :: bool
  ss_DisplayPvPItemNumOnWorldMapPlayer :: bool
  ss_AdditionalDropItemWhenPlayerKillingInPvPMode :: string
  ss_AdditionalDropItemNumWhenPlayerKillingInPvPMode :: int32
  ss_BAdditionalDropItemWhenPlayerKillingInPvPMode :: bool
  ss_EnableVoiceChat :: bool
  ss_VoiceChatMaxVolumeDistance :: float64
  ss_VoiceChatZeroVolumeDistance :: float64
  ss_AllowEnhanceStatHealth :: bool
  ss_AllowEnhanceStatAttack :: bool
  ss_AllowEnhanceStatStamina :: bool
  ss_AllowEnhanceStatWeight :: bool
  ss_AllowEnhanceStatWorkSpeed :: bool
  ss_EnableBuildingPlayerUIdDisplay :: bool
  ss_BuildingNameDisplayCacheTTLSeconds :: int32
section \<open>The struct's fields with their tags, as \<open>reflect\<close> enumerates them\<close>

definition fields_palWorld :: "'a palWorld_scheme \<Rightarrow> structField list" where
  "fields_palWorld s = [
     (''Difficulty'', ''Difficulty,enum,n'', VStr (ss_Difficulty s)),
     (''RandomizerType'', ''RandomizerType,enum,n'', VStr (ss_RandomizerType s)),
     (''RandomizerSeed'', ''RandomizerSeed,string,q'', VStr (ss_RandomizerSeed s)),
     (''IsRandomizerPalLevelRandom'', ''bIsRandomizerPalLevelRandom,bool,n'', VBool (ss_IsRandomizerPalLevelRandom s)),
     (''DayTimeSpeedRate'', ''DayTimeSpeedRate,float,n'', VFloat (ss_DayTimeSpeedRate s)),
     (''NightTimeSpeedRate'', ''NightTimeSpeedRate,float,n'', VFloat (ss_NightTimeSpeedRate s)),
     (''ExpRate'', ''ExpRate,float,n'', VFloat (ss_ExpRate s)),
     (''PalCaptureRate'', ''PalCaptureRate,float,n'', VFloat (ss_PalCaptureRate s)),
     (''PalSpawnNumRate'', ''PalSpawnNumRate,float,n'', VFloat (ss_PalSpawnNumRate s)),
     (''PalDamageRateAttack'', ''PalDamageRateAttack,float,n'', VFloat (ss_PalDamageRateAttack s)),
     (''PalDamageRateDefense'', ''PalDamageRateDefense,float,n'', VFloat (ss_PalDamageRateDefense s)),
     (''PlayerDamageRateAttack'', ''PlayerDamageRateAttack,float,n'', VFloat (ss_PlayerDamageRateAttack s)),
     (''PlayerDamageRateDefense'', ''PlayerDamageRateDefense,float,n'', VFloat (ss_PlayerDamageRateDefense s)),
     (''PlayerStomachDecreaceRate'', ''PlayerStomachDecreaceRate,float,n'', VFloat (ss_PlayerStomachDecreaceRate s)),
     (''PlayerStaminaDecreaceRate'', ''PlayerStaminaDecreaceRate,float,n'', VFloat (ss_PlayerStaminaDecreaceRate s)),
     (''PlayerAutoHPRegeneRate'', ''PlayerAutoHPRegeneRate,float,n'', VFloat (ss_PlayerAutoHPRegeneRate s)),
     (''PlayerAutoHpRegeneRateInSleep'', ''PlayerAutoHpRegeneRateInSleep,float,n'', VFloat (ss_PlayerAutoHpRegeneRateInSleep s)),
     (''PalStomachDecreaceRate'', ''PalStomachDecreaceRate,float,n'', VFloat (ss_PalStomachDecreaceRate s)),
     (''PalStaminaDecreaceRate'', ''PalStaminaDecreaceRate,float,n'', VFloat (ss_PalStaminaDecreaceRate s)),
     (''PalAutoHPRegeneRate'', ''PalAutoHPRegeneRate,float,n'', VFloat (ss_PalAutoHPRegeneRate s)),
     (''PalAutoHpRegeneRateInSleep'', ''PalAutoHpRegeneRateInSleep,float,n'', VFloat (ss_PalAutoHpRegeneRateInSleep s)),
     (''BuildObjectHpRate'', ''BuildObjectHpRate,float,n'', VFloat (ss_BuildObjectHpRate s))]"

definition fields_palBase :: "'a palBase_scheme \<Rightarrow> structField list" where
  "fields_palBase s = [
     (''BuildObjectDamageRate'', ''BuildObjectDamageRate,float,n'', VFloat (ss_BuildObjectDamageRate s)),
     (''BuildObjectDeteriorationDamageRate'', ''BuildObjectDeteriorationDamageRate,float,n'', VFloat (ss_BuildObjectDeteriorationDamageRate s)),
     (''CollectionDropRate'', ''CollectionDropRate,float,n'', VFloat (ss_CollectionDropRate s)),
     (''CollectionObjectHpRate'', ''CollectionObjectHpRate,float,n'', VFloat (ss_CollectionObjectHpRate s)),
     (''CollectionObjectRespawnSpeedRate'', ''CollectionObjectRespawnSpeedRate,float,n'', VFloat (ss_CollectionObjectRespawnSpeedRate s)),
     (''EnemyDropItemRate'', ''EnemyDropItemRate,float,n'', VFloat (ss_EnemyDropItemRate s)),
     (''DeathPenalty'', ''DeathPenalty,enum,n'', VStr (ss_DeathPenalty s)),
     (''EnablePlayerToPlayerDamage'', ''bEnablePlayerToPlayerDamage,bool,n'', VBool (ss_EnablePlayerToPlayerDamage s)),
     (''EnableFriendlyFire'', ''bEnableFriendlyFire,bool,n'', VBool (ss_EnableFriendlyFire s)),
     (''EnableInvaderEnemy'', ''bEnableInvaderEnemy,bool,n'', VBool (ss_EnableInvaderEnemy s)),
     (''ActiveUNKO'', ''bActiveUNKO,bool,n'', VBool (ss_ActiveUNKO s)),
     (''EnableAimAssistPad'', ''bEnableAimAssistPad,bool,n'', VBool (ss_EnableAimAssistPad s)),
     (''EnableAimAssistKeyboard'', ''bEnableAimAssistKeyboard,bool,n'', VBool (ss_EnableAimAssistKeyboard s)),
     (''DropItemMaxNum'', ''DropItemMaxNum,int,n'', VInt (ss_DropItemMaxNum s)),
     (''PhysicsActiveDropItemMaxNum'', ''PhysicsActiveDropItemMaxNum,int,n'', VInt (ss_PhysicsActiveDropItemMaxNum s)),
     (''DropItemMaxNumUNKO'', ''DropItemMaxNum_UNKO,int,n'', VInt (ss_DropItemMaxNumUNKO s)),
     (''BaseCampMaxNum'', ''BaseCampMaxNum,int,n'', VInt (ss_BaseCampMaxNum s)),
     (''BaseCampWorkerMaxNum'', ''BaseCampWorkerMaxNum,int,n'', VInt (ss_BaseCampWorkerMaxNum s)),
     (''DropItemAliveMaxHours'', ''DropItemAliveMaxHours,float,n'', VFloat (ss_DropItemAliveMaxHours s)),
     (''AutoResetGuildNoOnlinePlayers'', ''bAutoResetGuildNoOnlinePlayers,bool,n'', VBool (ss_AutoResetGuildNoOnlinePlayers s)),
     (''AutoResetGuildTimeNoOnlinePlayers'', ''AutoResetGuildTimeNoOnlinePlayers,float,n'', VFloat (ss_AutoResetGuildTimeNoOnlinePlayers s)),
     (''GuildPlayerMaxNum'', ''GuildPlayerMaxNum,int,n'', VInt (ss_GuildPlayerMaxNum s))]"

definition fields_palRules :: "'a palRules_scheme \<Rightarrow> structField list" where
  "fields_palRules s = [
     (''BaseCampMaxNumInGuild'', ''BaseCampMaxNumInGuild,int,n'', VInt (ss_BaseCampMaxNumInGuild s)),
     (''PalEggDefaultHatchingTime'', ''PalEggDefaultHatchingTime,float,n'', VFloat (ss_PalEggDefaultHatchingTime s)),
     (''WorkSpeedRate'', ''WorkSpeedRate,float,n'', VFloat (ss_WorkSpeedRate s)),
     (''AutoSaveSpan'', ''AutoSaveSpan,float,n'', VFloat (ss_AutoSaveSpan s)),
     (''IsMultiplay'', ''bIsMultiplay,bool,n'', VBool (ss_IsMultiplay s)),
     (''IsPvP'', ''bIsPvP,bool,n'', VBool (ss_IsPvP s)),
     (''Hardcore'', ''bHardcore,bool,n'', VBool (ss_Hardcore s)),
     (''PalLost'', ''bPalLost,bool,n'', VBool (ss_PalLost s)),
     (''CharacterRecreateInHardcore'', ''bCharacterRecreateInHardcore,bool,n'', VBool (ss_CharacterRecreateInHardcore s)),
     (''CanPickupOtherGuildDeathPenaltyDrop'', ''bCanPickupOtherGuildDeathPenaltyDrop,bool,n'', VBool (ss_CanPickupOtherGuildDeathPenaltyDrop s)),
     (''EnableNonLoginPenalty'', ''bEnableNonLoginPenalty,bool,n'', VBool (ss_EnableNonLoginPenalty s)),
     (''EnableFastTravel'', ''bEnableFastTravel,bool,n'', VBool (ss_EnableFastTravel s)),
     (''EnableFastTravelOnlyBaseCamp'', ''bEnableFastTravelOnlyBaseCamp,bool,n'', VBool (ss_EnableFastTravelOnlyBaseCamp s)),
     (''IsStartLocationSelectByMap'', ''bIsStartLocationSelectByMap,bool,n'', VBool (ss_IsStartLocationSelectByMap s)),
     (''ExistPlayerAfterLogout'', ''bExistPlayerAfterLogout,bool,n'', VBool (ss_ExistPlayerAfterLogout s)),
     (''EnableDefenseOtherGuildPlayer'', ''bEnableDefenseOtherGuildPlayer,bool,n'', VBool (ss_EnableDefenseOtherGuildPlayer s)),
     (''InvisibleOtherGuildBaseCampAreaFX'', ''bInvisibleOtherGuildBaseCampAreaFX,bool,n'', VBool (ss_InvisibleOtherGuildBaseCampAreaFX s)),
     (''BuildAreaLimit'', ''bBuildAreaLimit,bool,n'', VBool (ss_BuildAreaLimit s)),
     (''ItemWeightRate'', ''ItemWeightRate,float,n'', VFloat (ss_ItemWeightRate s)),
     (''CoopPlayerMaxNum'', ''CoopPlayerMaxNum,int,n'', VInt (ss_CoopPlayerMaxNum s)),
     (''ServerPlayerMaxNum'', ''ServerPlayerMaxNum,int,n'', VInt (ss_ServerPlayerMaxNum s)),
     (''ServerName'', ''ServerName,string,q'', VStr (ss_ServerName s))]"

definition fields_palServer :: "'a palServer_scheme \<Rightarrow> structField list" where
  "fields_palServer s = [
     (''ServerDescription'', ''ServerDescription,string,q'', VStr (ss_ServerDescription s)),
     (''AllowClientMod'', ''bAllowClientMod,bool,n'', VBool (ss_AllowClientMod s)),
     (''Region'', ''Region,string,q'', VStr (ss_Region s)),
     (''UseAuth'', ''bUseAuth,bool,n'', VBool (ss_UseAuth s)),
     (''BanListURL'', ''BanListURL,string,q'', VStr (ss_BanListURL s)),
     (''ShowPlayerList'', ''bShowPlayerList,bool,n'', VBool (ss_ShowPlayerList s)),
     (''ChatPostLimitPerMinute'', ''ChatPostLimitPerMinute,int,n'', VInt (ss_ChatPostLimitPerMinute s)),
     (''CrossplayPlatforms'', ''CrossplayPlatforms,platforms,n'', VStrs (ss_CrossplayPlatforms s)),
     (''IsUseBackupSaveData'', ''bIsUseBackupSaveData,bool,n'', VBool (ss_IsUseBackupSaveData s)),
     (''LogFormatType'', ''LogFormatType,enum,n'', VStr (ss_LogFormatType s)),
     (''IsShowJoinLeftMessage'', ''bIsShowJoinLeftMessage,bool,n'', VBool (ss_IsShowJoinLeftMessage s)),
     (''SupplyDropSpan'', ''SupplyDropSpan,int,n'', VInt (ss_SupplyDropSpan s)),
     (''EnablePredatorBossPal'', ''EnablePredatorBossPal,bool,n'', VBool (ss_EnablePredatorBossPal s)),
     (''MaxBuildingLimitNum'', ''MaxBuildingLimitNum,int,n'', VInt (ss_MaxBuildingLimitNum s)),
     (''ServerReplicatePawnCullDistance'', ''ServerReplicatePawnCullDistance,float,n'', VFloat (ss_ServerReplicatePawnCullDistance s)),
     (''AllowGlobalPalboxExport'', ''bAllowGlobalPalboxExport,bool,n'', VBool (ss_AllowGlobalPalboxExport s)),
     (''AllowGlobalPalboxImport'', ''bAllowGlobalPalboxImport,bool,n'', VBool (ss_AllowGlobalPalboxImport s)),
     (''EquipmentDurabilityDamageRate'', ''EquipmentDurabilityDamageRate,float,n'', VFloat (ss_EquipmentDurabilityDamageRate s)),
     (''ItemContainerForceMarkDirtyInterval'', ''ItemContainerForceMarkDirtyInterval,float,n'', VFloat (ss_ItemContainerForceMarkDirtyInterval s)),
     (''PlayerDataPalStorageUpdateCheckTickInterval'', ''PlayerDataPalStorageUpdateCheckTickInterval,float,n'', VFloat (ss_PlayerDataPalStorageUpdateCheckTickInterval s)),
     (''ItemCorruptionMultiplier'', ''ItemCorruptionMultiplier,float,n'', VFloat (ss_ItemCorruptionMultiplier s)),
     (''MonsterFarmActionSpeedRate'', ''MonsterFarmActionSpeedRate,float,n'', VFloat (ss_MonsterFarmActionSpeedRate s)),
     (''DenyTechnologyList'', ''DenyTechnologyList,string,q'', VStr (ss_DenyTechnologyList s))]"

definition fields_PalworldServerSettings :: "'a PalworldServerSettings_scheme \<Rightarrow> structField list" where
  "fields_PalworldServerSettings s = [
     (''GuildRejoinCooldownMinutes'', ''GuildRejoinCooldownMinutes,int,n'', VInt (ss_GuildRejoinCooldownMinutes s)),
     (''AutoTransferMasterCheckIntervalSeconds'', ''AutoTransferMasterCheckIntervalSeconds,float,n'', VFloat (ss_AutoTransferMasterCheckIntervalSeconds s)),
     (''AutoTransferMasterThresholdDays'', ''AutoTransferMasterThresholdDays,int,n'', VInt (ss_AutoTransferMasterThresholdDays s)),
     (''MaxGuildsPerFrame'', ''MaxGuildsPerFrame,int,n'', VInt (ss_MaxGuildsPerFrame s)),
     (''BlockRespawnTime'', ''BlockRespawnTime,float,n'', VFloat (ss_BlockRespawnTime s)),
     (''RespawnPenaltyDurationThreshold'', ''RespawnPenaltyDurationThreshold,float,n'', VFloat (ss_RespawnPenaltyDurationThreshold s)),
     (''RespawnPenaltyTimeScale'', ''RespawnPenaltyTimeScale,float,n'', VFloat (ss_RespawnPenaltyTimeScale s)),
     (''DisplayPvPItemNumOnWorldMapBaseCamp'', ''bDisplayPvPItemNumOnWorldMap_BaseCamp,bool,n'', VBool (ss_DisplayPvPItemNumOnWorldMapBaseCamp s)),
     (''DisplayPvPItemNumOnWorldMapPlayer'', ''bDisplayPvPItemNumOnWorldMap_Player,bool,n'', VBool (ss_DisplayPvPItemNumOnWorldMapPlayer s)),
     (''AdditionalDropItemWhenPlayerKillingInPvPMode'', ''AdditionalDropItemWhenPlayerKillingInPvPMode,string,q'', VStr (ss_AdditionalDropItemWhenPlayerKillingInPvPMode s)),
     (''AdditionalDropItemNumWhenPlayerKillingInPvPMode'', ''AdditionalDropItemNumWhenPlayerKillingInPvPMode,int,n'', VInt (ss_AdditionalDropItemNumWhenPlayerKillingInPvPMode s)),
     (''BAdditionalDropItemWhenPlayerKillingInPvPMode'', ''bAdditionalDropItemWhenPlayerKillingInPvPMode,bool,n'', VBool (ss_BAdditionalDropItemWhenPlayerKillingInPvPMode s)),
     (''EnableVoiceChat'', ''bEnableVoiceChat,bool,n'', VBool (ss_EnableVoiceChat s)),
     (''VoiceChatMaxVolumeDistance'', ''VoiceChatMaxVolumeDistance,float,n'', VFloat (ss_VoiceChatMaxVolumeDistance s)),
     (''VoiceChatZeroVolumeDistance'', ''VoiceChatZeroVolumeDistance,float,n'', VFloat (ss_VoiceChatZeroVolumeDistance s)),
     (''AllowEnhanceStatHealth'', ''bAllowEnhanceStat_Health,bool,n'', VBool (ss_AllowEnhanceStatHealth s)),
     (''AllowEnhanceStatAttack'', ''bAllowEnhanceStat_Attack,bool,n'', VBool (ss_AllowEnhanceStatAttack s)),
     (''AllowEnhanceStatStamina'', ''bAllowEnhanceStat_Stamina,bool,n'', VBool (ss_AllowEnhanceStatStamina s)),
     (''AllowEnhanceStatWeight'', ''bAllowEnhanceStat_Weight,bool,n'', VBool (ss_AllowEnhanceStatWeight s)),
     (''AllowEnhanceStatWorkSpeed'', ''bAllowEnhanceStat_WorkSpeed,bool,n'', VBool (ss_AllowEnhanceStatWorkSpeed s)),
     (''EnableBuildingPlayerUIdDisplay'', ''bEnableBuildingPlayerUIdDisplay,bool,n'', VBool (ss_EnableBuildingPlayerUIdDisplay s)),
     (''BuildingNameDisplayCacheTTLSeconds'', ''BuildingNameDisplayCacheTTLSeconds,int,n'', VInt (ss_BuildingNameDisplayCacheTTLSeconds s))]"
definition structFields :: "PalworldServerSettings \<Rightarrow> structField list" where
  "structFields s = fields_palWorld s @ fields_palBase s @ fields_palRules s @ fields_palServer s
     @ fields_PalworldServerSettings s"

section \<open>Rendering\<close>

definition settingsHeader :: string where
  "settingsHeader = ''[/Script/Pal.PalGameWorldSettings]''"

definition AdminPasswordPlaceholder :: string where
  "AdminPasswordPlaceholder = ''__PALWORLD_ADMIN_PASSWORD__''"

definition ServerPasswordPlaceholder :: string where
  "ServerPasswordPlaceholder = ''__PALWORLD_SERVER_PASSWORD__''"

record InjectOptions =
  io_RCONEnabled :: bool
  io_RCONPort :: int32
  io_RESTAPIEnabled :: bool
  io_RESTAPIPort :: int32
  io_PublicIP :: string
  io_PublicPort :: int32

text \<open>
  Errors of the renderer: a malformed tag, an unknown kind, and the panic of a \<open>reflect\<close> getter on
  a value of another kind.
\<close>

datatype renderError =
    InvalidTag string string
  | UnknownKind string
  | ReflectPanic
  | FieldError string renderError

definition escapeIniString :: "string \<Rightarrow> string" where
  "escapeIniString s =
     (let s = replaceAll s [CHR 0x22] [];
          s = replaceAll s [CHR 0x0A] '' '';
          s = replaceAll s [CHR 0x0D] []
      in s)"

text \<open>
  \<open>strconv.FormatFloat(x, 'f', 6, 64)\<close>: the exact binary value rounded to six decimals, ties to
  even.
\<close>

definition fixed6 :: "nat \<Rightarrow> int \<Rightarrow> nat" where
  "fixed6 m e =
     (if 0 \<le> e then m * 2 ^ nat e * 1000000
      else (let q = 2 ^ nat (- e); d = (m * 1000000) div q; r = (m * 1000000) mod q
            in if q < 2 * r \<or> (2 * r = q \<and> odd d) then d + 1 else d))"

fun fracDigits :: "nat \<Rightarrow> nat \<Rightarrow> string" where
  "fracDigits 0 k = []"
| "fracDigits (Suc n) k = fracDigits n (k div 10) @ [digitChar (k mod 10)]"

fun formatFloat6 :: "float64 \<Rightarrow> string" where
  "formatFloat6 (Flt neg m e) =
     (if neg then ''-'' else []) @ natStr (fixed6 m e div 1000000) @ ''.''
       @ fracDigits 6 (fixed6 m e mod 1000000)"

definition formatBool :: "bool \<Rightarrow> string" where
  "formatBool b = (if b then ''True'' else ''False'')"

definition formatValue :: "rvalue \<Rightarrow> string \<Rightarrow> string \<Rightarrow> renderError + string" where
  "formatValue fv kind qt =
     (if kind = ''bool'' then
        (case fv of VBool b \<Rightarrow> Inr (if b then ''True'' else ''False'') | _ \<Rightarrow> Inl ReflectPanic)
      else if kind = ''int'' then
        (case fv of VInt i \<Rightarrow> Inr (itoa i) | _ \<Rightarrow> Inl ReflectPanic)
      else if kind = ''float'' then
        (case fv of VFloat x \<Rightarrow> Inr (formatFloat6 x) | _ \<Rightarrow> Inl ReflectPanic)
      else if kind = ''enum'' then
        (case fv of VStr s \<Rightarrow> Inr s | _ \<Rightarrow> Inl ReflectPanic)
      else if kind = ''string'' then
        (case fv of
           VStr s \<Rightarrow> Inr (if qt = ''q'' then [CHR 0x22] @ escapeIniString s @ [CHR 0x22] else s)
         | _ \<Rightarrow> Inl ReflectPanic)
      else if kind = ''platforms'' then
        (case fv of
           VStrs xs \<Rightarrow> Inr (''('' @ joinStr xs '','' @ '')'')
         | _ \<Rightarrow> Inl ReflectPanic)
      else Inl (UnknownKind kind))"

text \<open>One round of the loop of \<open>renderStruct\<close>; a field without a \<open>pal\<close> tag is skipped.\<close>

definition renderField :: "structField \<Rightarrow> renderError + string option" where
  "renderField f =
     (case f of (name, tag, fv) \<Rightarrow>
        if tag = [] then Inr None
        else (let parts = splitOn CHR '','' tag in
          if length parts < 2 then Inl (InvalidTag tag name)
          else (let key = parts ! 0; kind = parts ! 1;
                    qt = (if 3 \<le> length parts then parts ! 2 else ''n'')
                in case formatValue fv kind qt of
                     Inl e \<Rightarrow> Inl (FieldError name e)
                   | Inr v \<Rightarrow> Inr (Some (key @ ''='' @ v)))))"

fun renderFields :: "structField list \<Rightarrow> renderError + string list" where
  "renderFields [] = Inr []"
| "renderFields (f # fs) =
     (case renderField f of
        Inl e \<Rightarrow> Inl e
      | Inr p \<Rightarrow>
          (case renderFields fs of
             Inl e \<Rightarrow> Inl e
           | Inr ps \<Rightarrow> Inr (case p of None \<Rightarrow> ps | Some x \<Rightarrow> x # ps)))"

definition renderStruct :: "PalworldServerSettings \<Rightarrow> renderError + string list" where
  "renderStruct s = renderFields (structFields s)"

definition injectedPairs :: "InjectOptions \<Rightarrow> string list" where
  "injectedPairs opts =
     [''AdminPassword='' @ [CHR 0x22] @ AdminPasswordPlaceholder @ [CHR 0x22],
      ''ServerPassword='' @ [CHR 0x22] @ ServerPasswordPlaceholder @ [CHR 0x22],
      ''PublicIP='' @ [CHR 0x22] @ escapeIniString (io_PublicIP opts) @ [CHR 0x22],
      ''RCONEnabled='' @ formatBool (io_RCONEnabled opts),
      ''RCONPort='' @ itoa (io_RCONPort opts),
      ''RESTAPIEnabled='' @ formatBool (io_RESTAPIEnabled opts),
      ''RESTAPIPort='' @ itoa (io_RESTAPIPort opts)]
     @ (if 0 < io_PublicPort opts then [''PublicPort='' @ itoa (io_PublicPort opts)] else [])"

definition Render :: "PalworldServerSettings \<Rightarrow> InjectOptions \<Rightarrow> renderError + string" where
  "Render s opts =
     (case renderStruct s of
        Inl e \<Rightarrow> Inl e
      | Inr pairs \<Rightarrow>
          (let pairs = pairs @ injectedPairs opts;
               line = ''OptionSettings=('' @ joinStr pairs '','' @ '')''
           in Inr (settingsHeader @ [CHR 0x0A] @ line @ [CHR 0x0A])))"

text \<open>
  \<open>Hash\<close> is the first sixteen characters of the hex digest; the digest function is an argument.
\<close>

definition Hash :: "(string \<Rightarrow> string) \<Rightarrow> string \<Rightarrow> string" where
  "Hash sha256hex content = take 16 (sha256hex content)"

section \<open>The reference reading of a tuple\<close>

text \<open>
  How a reader of the single-line tuple splits it: at commas outside double quotes and outside
  parentheses.
\<close>

fun splitTuple :: "nat \<Rightarrow> bool \<Rightarrow> string \<Rightarrow> string \<Rightarrow> string list" where
  "splitTuple depth inq acc [] = [rev acc]"
| "splitTuple depth inq acc (c # cs) =
     (if c = CHR 0x22 then splitTuple depth (\<not> inq) (c # acc) cs
      else if inq then splitTuple depth inq (c # acc) cs
      else if c = CHR ''('' then splitTuple (Suc depth) inq (c # acc) cs
      else if c = CHR '')'' then splitTuple (depth - 1) inq (c # acc) cs
      else if c = CHR '','' \<and> depth = 0 then rev acc # splitTuple depth inq [] cs
      else splitTuple depth inq (c # acc) cs)"

text \<open>A string that the splitter passes over without cutting it and without changing its state.\<close>

definition closed :: "string \<Rightarrow> bool" where
  "closed x \<longleftrightarrow> (\<forall>acc rest. splitTuple 0 False acc (x @ rest) = splitTuple 0 False (rev x @ acc) rest)"

text \<open>The enumeration fields hold API values: letters, digits and underscores.\<close>

definition plainChar :: "char \<Rightarrow> bool" where
  "plainChar c \<longleftrightarrow> c \<notin> {CHR 0x22, CHR ''('', CHR '')'', CHR '','', CHR 0x0A}"

fun plainValue :: "rvalue \<Rightarrow> bool" where
  "plainValue (VStr s) = list_all plainChar s"
| "plainValue (VStrs xs) = list_all (list_all plainChar) xs"
| "plainValue _ = True"

text \<open>The API server admits only the declared values of the enumerations.\<close>

definition enumsAdmitted :: "PalworldServerSettings \<Rightarrow> bool" where
  "enumsAdmitted s \<longleftrightarrow>
     ss_Difficulty s \<in> set difficulties \<and>
     ss_RandomizerType s \<in> set randomizerTypes \<and>
     ss_DeathPenalty s \<in> set deathPenalties \<and>
     ss_LogFormatType s \<in> set logFormatTypes \<and>
     list_all (\<lambda>p. p \<in> set crossplayPlatforms) (ss_CrossplayPlatforms s)"

section \<open>Defaults and the JSON form\<close>

text \<open>
  The \<open>+kubebuilder:default\<close> markers of the struct: what the API server stores for a settings
  object that leaves every field out.
\<close>

definition defaultServerSettings :: PalworldServerSettings where
  "defaultServerSettings =
     \<lparr>ss_Difficulty = ''None'', ss_RandomizerType = ''None'', ss_RandomizerSeed = [],
      ss_IsRandomizerPalLevelRandom = False, ss_DayTimeSpeedRate = Flt False 1 0,
      ss_NightTimeSpeedRate = Flt False 1 0, ss_ExpRate = Flt False 1 0,
      ss_PalCaptureRate = Flt False 1 0, ss_PalSpawnNumRate = Flt False 1 0,
      ss_PalDamageRateAttack = Flt False 1 0, ss_PalDamageRateDefense = Flt False 1 0,
      ss_PlayerDamageRateAttack = Flt False 1 0, ss_PlayerDamageRateDefense = Flt False 1 0,
      ss_PlayerStomachDecreaceRate = Flt False 1 0, ss_PlayerStaminaDecreaceRate = Flt False 1 0,
      ss_PlayerAutoHPRegeneRate = Flt False 1 0, ss_PlayerAutoHpRegeneRateInSleep = Flt False 1 0,
      ss_PalStomachDecreaceRate = Flt False 1 0, ss_PalStaminaDecreaceRate = Flt False 1 0,
      ss_PalAutoHPRegeneRate = Flt False 1 0, ss_PalAutoHpRegeneRateInSleep = Flt False 1 0,
      ss_BuildObjectHpRate = Flt False 1 0, ss_BuildObjectDamageRate = Flt False 1 0,
      ss_BuildObjectDeteriorationDamageRate = Flt False 1 0, ss_CollectionDropRate = Flt False 1 0,
      ss_CollectionObjectHpRate = Flt False 1 0,
      ss_CollectionObjectRespawnSpeedRate = Flt False 1 0, ss_EnemyDropItemRate = Flt False 1 0,
      ss_DeathPenalty = ''All'', ss_EnablePlayerToPlayerDamage = False,
      ss_EnableFriendlyFire = False, ss_EnableInvaderEnemy = True, ss_ActiveUNKO = False,
      ss_EnableAimAssistPad = True, ss_EnableAimAssistKeyboard = False, ss_DropItemMaxNum = 3000,
      ss_PhysicsActiveDropItemMaxNum = -1, ss_DropItemMaxNumUNKO = 100, ss_BaseCampMaxNum = 128,
      ss_BaseCampWorkerMaxNum = 15, ss_DropItemAliveMaxHours = Flt False 1 0,
      ss_AutoResetGuildNoOnlinePlayers = False,
      ss_AutoResetGuildTimeNoOnlinePlayers = Flt False 72 0, ss_GuildPlayerMaxNum = 20,
      ss_BaseCampMaxNumInGuild = 4, ss_PalEggDefaultHatchingTime = Flt False 72 0,
      ss_WorkSpeedRate = Flt False 1 0, ss_AutoSaveSpan = Flt False 30 0, ss_IsMultiplay = False,
      ss_IsPvP = False, ss_Hardcore = False, ss_PalLost = False,
      ss_CharacterRecreateInHardcore = False, ss_CanPickupOtherGuildDeathPenaltyDrop = False,
      ss_EnableNonLoginPenalty = True, ss_EnableFastTravel = True,
      ss_EnableFastTravelOnlyBaseCamp = False, ss_IsStartLocationSelectByMap = True,
      ss_ExistPlayerAfterLogout = False, ss_EnableDefenseOtherGuildPlayer = False,
      ss_InvisibleOtherGuildBaseCampAreaFX = False, ss_BuildAreaLimit = False,
      ss_ItemWeightRate = Flt False 1 0, ss_CoopPlayerMaxNum = 4, ss_ServerPlayerMaxNum = 32,
      ss_ServerName = ''Default Palworld Server'', ss_ServerDescription = [],
      ss_AllowClientMod = True, ss_Region = [], ss_UseAuth = True,
      ss_BanListURL = ''https://api.palworldgame.com/api/banlist.txt'', ss_ShowPlayerList = False,
      ss_ChatPostLimitPerMinute = 30,
      ss_CrossplayPlatforms = [''Steam'', ''Xbox'', ''PS5'', ''Mac''],
      ss_IsUseBackupSaveData = True, ss_LogFormatType = ''Text'', ss_IsShowJoinLeftMessage = True,
      ss_SupplyDropSpan = 180, ss_EnablePredatorBossPal = True, ss_MaxBuildingLimitNum = 0,
      ss_ServerReplicatePawnCullDistance = Flt False 15000 0, ss_AllowGlobalPalboxExport = True,
      ss_AllowGlobalPalboxImport = False, ss_EquipmentDurabilityDamageRate = Flt False 1 0,
      ss_ItemContainerForceMarkDirtyInterval = Flt False 1 0,
      ss_PlayerDataPalStorageUpdateCheckTickInterval = Flt False 1 0,
      ss_ItemCorruptionMultiplier = Flt False 1 0, ss_MonsterFarmActionSpeedRate = Flt False 1 0,
      ss_DenyTechnologyList = [], ss_GuildRejoinCooldownMinutes = 0,
      ss_AutoTransferMasterCheckIntervalSeconds = Flt False 3600 0,
      ss_AutoTransferMasterThresholdDays = 14, ss_MaxGuildsPerFrame = 10,
      ss_BlockRespawnTime = Flt False 5 0, ss_RespawnPenaltyDurationThreshold = Flt False 0 0,
      ss_RespawnPenaltyTimeScale = Flt False 2 0, ss_DisplayPvPItemNumOnWorldMapBaseCamp = False,
      ss_DisplayPvPItemNumOnWorldMapPlayer = False,
      ss_AdditionalDropItemWhenPlayerKillingInPvPMode = ''PlayerDropItem'',
      ss_AdditionalDropItemNumWhenPlayerKillingInPvPMode = 1,
      ss_BAdditionalDropItemWhenPlayerKillingInPvPMode = False, ss_EnableVoiceChat = False,
      ss_VoiceChatMaxVolumeDistance = Flt False 3000 0,
      ss_VoiceChatZeroVolumeDistance = Flt False 15000 0, ss_AllowEnhanceStatHealth = True,
      ss_AllowEnhanceStatAttack = True, ss_AllowEnhanceStatStamina = True,
      ss_AllowEnhanceStatWeight = True, ss_AllowEnhanceStatWorkSpeed = True,
      ss_EnableBuildingPlayerUIdDisplay = False, ss_BuildingNameDisplayCacheTTLSeconds = 60\<rparr>"

text \<open>The rendering the field comments document for those defaults, \<open>DenyTechnologyList\<close> unquoted.\<close>

definition documentedDefaults :: "string list" where
  "documentedDefaults =
     [''Difficulty=None'', ''RandomizerType=None'', ''RandomizerSeed='' @ [CHR 0x22] @ [CHR 0x22],
      ''bIsRandomizerPalLevelRandom=False'', ''DayTimeSpeedRate=1.000000'',
      ''NightTimeSpeedRate=1.000000'', ''ExpRate=1.000000'', ''PalCaptureRate=1.000000'',
      ''PalSpawnNumRate=1.000000'', ''PalDamageRateAttack=1.000000'',
      ''PalDamageRateDefense=1.000000'', ''PlayerDamageRateAttack=1.000000'',
      ''PlayerDamageRateDefense=1.000000'', ''PlayerStomachDecreaceRate=1.000000'',
      ''PlayerStaminaDecreaceRate=1.000000'', ''PlayerAutoHPRegeneRate=1.000000'',
      ''PlayerAutoHpRegeneRateInSleep=1.000000'', ''PalStomachDecreaceRate=1.000000'',
      ''PalStaminaDecreaceRate=1.000000'', ''PalAutoHPRegeneRate=1.000000'',
      ''PalAutoHpRegeneRateInSleep=1.000000'', ''BuildObjectHpRate=1.000000'',
      ''BuildObjectDamageRate=1.000000'', ''BuildObjectDeteriorationDamageRate=1.000000'',
      ''CollectionDropRate=1.000000'', ''CollectionObjectHpRate=1.000000'',
      ''CollectionObjectRespawnSpeedRate=1.000000'', ''EnemyDropItemRate=1.000000'',
      ''DeathPenalty=All'', ''bEnablePlayerToPlayerDamage=False'', ''bEnableFriendlyFire=False'',
      ''bEnableInvaderEnemy=True'', ''bActiveUNKO=False'', ''bEnableAimAssistPad=True'',
      ''bEnableAimAssistKeyboard=False'', ''DropItemMaxNum=3000'',
      ''PhysicsActiveDropItemMaxNum=-1'', ''DropItemMaxNum_UNKO=100'', ''BaseCampMaxNum=128'',
      ''BaseCampWorkerMaxNum=15'', ''DropItemAliveMaxHours=1.000000'',
      ''bAutoResetGuildNoOnlinePlayers=False'', ''AutoResetGuildTimeNoOnlinePlayers=72.000000'',
      ''GuildPlayerMaxNum=20'', ''BaseCampMaxNumInGuild=4'',
      ''PalEggDefaultHatchingTime=72.000000'', ''WorkSpeedRate=1.000000'',
      ''AutoSaveSpan=30.000000'', ''bIsMultiplay=False'', ''bIsPvP=False'', ''bHardcore=False'',
      ''bPalLost=False'', ''bCharacterRecreateInHardcore=False'',
      ''bCanPickupOtherGuildDeathPenaltyDrop=False'', ''bEnableNonLoginPenalty=True'',
      ''bEnableFastTravel=True'', ''bEnableFastTravelOnlyBaseCamp=False'',
      ''bIsStartLocationSelectByMap=True'', ''bExistPlayerAfterLogout=False'',
      ''bEnableDefenseOtherGuildPlayer=False'', ''bInvisibleOtherGuildBaseCampAreaFX=False'',
      ''bBuildAreaLimit=False'', ''ItemWeightRate=1.000000'', ''CoopPlayerMaxNum=4'',
      ''ServerPlayerMaxNum=32'',
      ''ServerName='' @ [CHR 0x22] @ ''Default Palworld Server'' @ [CHR 0x22],
      ''ServerDescription='' @ [CHR 0x22] @ [CHR 0x22], ''bAllowClientMod=True'',
      ''Region='' @ [CHR 0x22] @ [CHR 0x22], ''bUseAuth=True'',
      ''BanListURL='' @ [CHR 0x22] @ ''https://api.palworldgame.com/api/banlist.txt'' @ [CHR 0x22],
      ''bShowPlayerList=False'', ''ChatPostLimitPerMinute=30'',
      ''CrossplayPlatforms=(Steam,Xbox,PS5,Mac)'', ''bIsUseBackupSaveData=True'',
      ''LogFormatType=Text'', ''bIsShowJoinLeftMessage=True'', ''SupplyDropSpan=180'',
      ''EnablePredatorBossPal=True'', ''MaxBuildingLimitNum=0'',
      ''ServerReplicatePawnCullDistance=15000.000000'', ''bAllowGlobalPalboxExport=True'',
      ''bAllowGlobalPalboxImport=False'', ''EquipmentDurabilityDamageRate=1.000000'',
      ''ItemContainerForceMarkDirtyInterval=1.000000'',
      ''PlayerDataPalStorageUpdateCheckTickInterval=1.000000'',
      ''ItemCorruptionMultiplier=1.000000'', ''MonsterFarmActionSpeedRate=1.000000'',
      ''DenyTechnologyList='', ''GuildRejoinCooldownMinutes=0'',
      ''AutoTransferMasterCheckIntervalSeconds=3600.000000'',
      ''AutoTransferMasterThresholdDays=14'', ''MaxGuildsPerFrame=10'',
      ''BlockRespawnTime=5.000000'', ''RespawnPenaltyDurationThreshold=0.000000'',
      ''RespawnPenaltyTimeScale=2.000000'', ''bDisplayPvPItemNumOnWorldMap_BaseCamp=False'',
      ''bDisplayPvPItemNumOnWorldMap_Player=False'',
      ''AdditionalDropItemWhenPlayerKillingInPvPMode='' @ [CHR 0x22] @ ''PlayerDropItem'' @ [CHR 0x22],
      ''AdditionalDropItemNumWhenPlayerKillingInPvPMode=1'',
      ''bAdditionalDropItemWhenPlayerKillingInPvPMode=False'', ''bEnableVoiceChat=False'',
      ''VoiceChatMaxVolumeDistance=3000.000000'', ''VoiceChatZeroVolumeDistance=15000.000000'',
      ''bAllowEnhanceStat_Health=True'', ''bAllowEnhanceStat_Attack=True'',
      ''bAllowEnhanceStat_Stamina=True'', ''bAllowEnhanceStat_Weight=True'',
      ''bAllowEnhanceStat_WorkSpeed=True'', ''bEnableBuildingPlayerUIdDisplay=False'',
      ''BuildingNameDisplayCacheTTLSeconds=60'']"

text \<open>The options the operator injects for a game with the default ports.\<close>

definition sampleOptions :: InjectOptions where
  "sampleOptions = \<lparr>io_RCONEnabled = True, io_RCONPort = 25575, io_RESTAPIEnabled = True,
     io_RESTAPIPort = 8212, io_PublicIP = ''10.0.0.1'', io_PublicPort = 8211\<rparr>"

text \<open>
  Every field carries the JSON option \<open>omitempty\<close>: a zero value is left out when the operator writes
  the object, and the API server then fills in the default. \<open>storedSettings\<close> is what the API
  server holds after such a write.
\<close>

fun isZero :: "rvalue \<Rightarrow> bool" where
  "isZero (VBool b) = (\<not> b)"
| "isZero (VInt i) = (i = 0)"
| "isZero (VFloat (Flt neg m e)) = (m = 0)"
| "isZero (VStr s) = (s = [])"
| "isZero (VStrs xs) = (xs = [])"

fun storedField :: "structField \<Rightarrow> structField \<Rightarrow> structField" where
  "storedField (n, t, v) (n', t', d) = (n, t, if isZero v then d else v)"

definition storedSettings :: "PalworldServerSettings \<Rightarrow> structField list" where
  "storedSettings s = map2 storedField (structFields s) (structFields defaultServerSettings)"

section \<open>Escaping\<close>

definition escapeChar :: "char \<Rightarrow> string" where
  "escapeChar c = (if c = CHR 0x22 \<or> c = CHR 0x0D then [] else if c = CHR 0x0A then '' '' else [c])"

lemma escapeIniString_eq: "escapeIniString s = concat (map escapeChar s)"
  unfolding escapeIniString_def Let_def replaceAll_char
  by (induction s) (simp_all add: escapeChar_def)

lemma escapeIniString_safe:
  "CHR 0x22 \<notin> set (escapeIniString s) \<and> CHR 0x0A \<notin> set (escapeIniString s)
     \<and> CHR 0x0D \<notin> set (escapeIniString s)"
  unfolding escapeIniString_eq by (induction s) (auto simp: escapeChar_def)

lemma escapeIniString_id:
  "\<not> containsAny s [CHR 0x22, CHR 0x0A, CHR 0x0D] \<Longrightarrow> escapeIniString s = s"
  unfolding escapeIniString_eq containsAny_iff by (induction s) (auto simp: escapeChar_def)

section \<open>Closed strings\<close>

lemma closedD: "closed x \<Longrightarrow> splitTuple 0 False acc (x @ rest) = splitTuple 0 False (rev x @ acc) rest"
  by (simp add: closed_def)

lemma closed_append: "closed x \<Longrightarrow> closed y \<Longrightarrow> closed (x @ y)"
  by (simp add: closed_def)

lemma closed_plain: "list_all plainChar x \<Longrightarrow> closed x"
  unfolding closed_def by (induction x) (auto simp: plainChar_def)

lemma split_in_quotes:
  "CHR 0x22 \<notin> set s \<Longrightarrow> splitTuple d True acc (s @ rest) = splitTuple d True (rev s @ acc) rest"
  by (induction s arbitrary: acc) auto

lemma closed_quoted: "CHR 0x22 \<notin> set s \<Longrightarrow> closed (CHR 0x22 # s @ [CHR 0x22])"
  by (simp add: closed_def split_in_quotes)

lemma split_in_parens:
  "list_all (\<lambda>c. c = CHR '','' \<or> plainChar c) s
     \<Longrightarrow> splitTuple (Suc d) False acc (s @ rest) = splitTuple (Suc d) False (rev s @ acc) rest"
  by (induction s arbitrary: acc) (auto simp: plainChar_def)

lemma closed_parens:
  "list_all (\<lambda>c. c = CHR '','' \<or> plainChar c) s \<Longrightarrow> closed (CHR ''('' # s @ '')'')"
  by (simp add: closed_def split_in_parens)

lemma split_join:
  assumes "list_all closed (x # xs)"
  shows "splitTuple 0 False [] (joinStr (x # xs) '','') = x # xs"
  using assms
proof (induction xs arbitrary: x)
  case Nil
  then show ?case using closedD [of x "[]" "[]"] by simp
next
  case (Cons y ys)
  then have "splitTuple 0 False [] (x @ '','' @ joinStr (y # ys) '','') =
      splitTuple 0 False (rev x) ('','' @ joinStr (y # ys) '','')"
    using closedD [of x "[]"] by simp
  with Cons show ?case by simp
qed

section \<open>Every field renders to a closed one-line pair\<close>

definition onePair :: "string \<Rightarrow> bool" where
  "onePair p \<longleftrightarrow> closed p \<and> CHR 0x0A \<notin> set p"

text \<open>The shape a field needs: its tag names a kind that fits its value, and free text is quoted.\<close>

definition fieldOK :: "structField \<Rightarrow> bool" where
  "fieldOK f =
     (case f of (name, tag, fv) \<Rightarrow>
       (case splitOn CHR '','' tag of
          [key, kind, qt] \<Rightarrow>
            list_all plainChar key \<and>
            (case fv of
               VBool b \<Rightarrow> kind = ''bool''
             | VInt i \<Rightarrow> kind = ''int''
             | VFloat x \<Rightarrow> kind = ''float''
             | VStr s \<Rightarrow> (kind = ''enum'' \<and> list_all plainChar s) \<or> (kind = ''string'' \<and> qt = ''q'')
             | VStrs xs \<Rightarrow> kind = ''platforms'' \<and> list_all (list_all plainChar) xs)
        | _ \<Rightarrow> False))"

lemma plain_digit: "d < 10 \<Longrightarrow> plainChar (digitChar d)"
proof -
  assume d: "d < 10"
  have "of_char (digitChar d) = 48 + d" using d by (simp add: digitChar_def)
  with d show ?thesis by (auto simp: plainChar_def)
qed

lemma plain_natStr: "list_all plainChar (natStr n)"
  using natStr_digits plain_digit by (auto simp: list_all_iff)

lemma plain_itoa: "list_all plainChar (itoa i)"
  by (simp add: itoa_def plain_natStr plainChar_def)

lemma plain_fracDigits: "list_all plainChar (fracDigits n k)"
  by (induction n k rule: fracDigits.induct) (auto simp: plain_digit)

lemma plain_formatFloat6: "list_all plainChar (formatFloat6 x)"
  by (cases x) (simp add: plain_natStr plain_fracDigits plainChar_def)

lemma plain_joinStr:
  "list_all (list_all plainChar) xs \<Longrightarrow> list_all (\<lambda>c. c = CHR '','' \<or> plainChar c) (joinStr xs '','')"
  using joinStr_chars [of xs "'',''"] by (fastforce simp: list_all_iff)

lemma onePair_plain: "list_all plainChar x \<Longrightarrow> onePair x"
  by (auto simp: onePair_def closed_plain list_all_iff plainChar_def)

lemma onePair_append: "onePair x \<Longrightarrow> onePair y \<Longrightarrow> onePair (x @ y)"
  by (auto simp: onePair_def closed_append)

lemma onePair_quoted: "onePair (CHR 0x22 # escapeIniString s @ [CHR 0x22])"
  using escapeIniString_safe [of s] by (auto simp: onePair_def closed_quoted)

lemma onePair_parens:
  "list_all (list_all plainChar) xs \<Longrightarrow> onePair (''('' @ joinStr xs '','' @ '')'')"
proof -
  assume "list_all (list_all plainChar) xs"
  then have p: "list_all (\<lambda>c. c = CHR '','' \<or> plainChar c) (joinStr xs '','')" by (rule plain_joinStr)
  have "CHR 0x0A \<notin> set (joinStr xs '','')"
  proof
    assume "CHR 0x0A \<in> set (joinStr xs '','')"
    from bspec [OF p [unfolded list_all_iff] this] show False by (simp add: plainChar_def)
  qed
  with closed_parens [OF p] show ?thesis by (simp add: onePair_def)
qed

lemma onePair_plain_quoted: "list_all plainChar s \<Longrightarrow> onePair (CHR 0x22 # s @ [CHR 0x22])"
proof -
  assume "list_all plainChar s"
  then have "CHR 0x22 \<notin> set s" and "CHR 0x0A \<notin> set s"
    by (auto simp: list_all_iff plainChar_def)
  then show ?thesis by (simp add: onePair_def closed_quoted)
qed

lemmas onePair_intros = onePair_plain onePair_append onePair_quoted onePair_parens

lemma plain_True_False: "list_all plainChar ''True''" "list_all plainChar ''False''"
    "list_all plainChar ''=''"
  by (simp_all add: plainChar_def)

lemma renderField_OK:
  assumes "fieldOK f"
  shows "\<exists>p. renderField f = Inr (Some p) \<and> onePair p"
proof -
  obtain name tag fv where f: "f = (name, tag, fv)" by (cases f)
  from assms obtain key kind qt where parts: "splitOn CHR '','' tag = [key, kind, qt]"
    and key: "list_all plainChar key"
    by (auto simp: fieldOK_def f split: list.splits)
  have tag: "tag \<noteq> []" using parts by auto
  have "\<exists>v. formatValue fv kind qt = Inr v \<and> onePair v"
    using assms parts plain_True_False
    by (cases fv)
      (auto simp: fieldOK_def f formatValue_def plain_itoa plain_formatFloat6
        intro: onePair_plain onePair_quoted onePair_parens [simplified])
  then obtain v where v: "formatValue fv kind qt = Inr v" "onePair v" by blast
  have "onePair (key @ ''='' @ v)"
    by (intro onePair_append onePair_plain [OF key] onePair_plain [OF plain_True_False(3)] v(2))
  with f parts tag v(1) show ?thesis by (auto simp: renderField_def Let_def)
qed

lemma renderFields_OK:
  assumes "list_all fieldOK fs"
  shows "\<exists>ps. renderFields fs = Inr ps \<and> length ps = length fs \<and> list_all onePair ps"
  using assms
proof (induction fs)
  case (Cons f fs)
  then obtain ps where "renderFields fs = Inr ps" "length ps = length fs" "list_all onePair ps"
    by auto
  moreover obtain p where "renderField f = Inr (Some p)" "onePair p"
    using Cons.prems renderField_OK [of f] by auto
  ultimately show ?case by auto
qed simp

lemma injectedPairs_OK: "list_all onePair (injectedPairs opts)"
proof -
  have "list_all plainChar AdminPasswordPlaceholder" "list_all plainChar ServerPasswordPlaceholder"
    by (simp_all add: AdminPasswordPlaceholder_def ServerPasswordPlaceholder_def plainChar_def)
  note ph = onePair_plain_quoted [OF this(1)] onePair_plain_quoted [OF this(2)]
  have key: "onePair ''AdminPassword=''" "onePair ''ServerPassword=''" "onePair ''PublicIP=''"
    "onePair ''RCONEnabled=''" "onePair ''RCONPort=''" "onePair ''RESTAPIEnabled=''"
    "onePair ''RESTAPIPort=''" "onePair ''PublicPort=''"
    by (rule onePair_plain, simp add: plainChar_def)+
  have b: "onePair (formatBool b)" for b
    using plain_True_False by (simp add: formatBool_def onePair_plain)
  note i = onePair_plain [OF plain_itoa]
  show ?thesis
    unfolding injectedPairs_def
    using onePair_append [OF key(1) ph(1)] onePair_append [OF key(2) ph(2)]
      onePair_append [OF key(3) onePair_quoted] onePair_append [OF key(4) b]
      onePair_append [OF key(5) i] onePair_append [OF key(6) b] onePair_append [OF key(7) i]
      onePair_append [OF key(8) i]
    by simp
qed

text \<open>The 111 tags of the struct fit their fields.\<close>

lemma plain_enums:
  "list_all (list_all plainChar) (difficulties @ randomizerTypes @ deathPenalties @ logFormatTypes
     @ crossplayPlatforms)"
  by (simp add: difficulties_def randomizerTypes_def deathPenalties_def logFormatTypes_def
      crossplayPlatforms_def plainChar_def)

lemma enum_plain:
  "enumsAdmitted s \<Longrightarrow> list_all plainChar (ss_Difficulty s) \<and> list_all plainChar (ss_RandomizerType s)
     \<and> list_all plainChar (ss_DeathPenalty s) \<and> list_all plainChar (ss_LogFormatType s)
     \<and> list_all (list_all plainChar) (ss_CrossplayPlatforms s)"
  using plain_enums unfolding enumsAdmitted_def list_all_iff by auto

lemma fieldOK_palWorld: "enumsAdmitted s \<Longrightarrow> list_all fieldOK (fields_palWorld s)"
  by (simp add: fields_palWorld_def fieldOK_def enum_plain plainChar_def)

lemma fieldOK_palBase: "enumsAdmitted s \<Longrightarrow> list_all fieldOK (fields_palBase s)"
  by (simp add: fields_palBase_def fieldOK_def enum_plain plainChar_def)

lemma fieldOK_palRules: "list_all fieldOK (fields_palRules s)"
  by (simp add: fields_palRules_def fieldOK_def plainChar_def)

lemma fieldOK_palServer: "enumsAdmitted s \<Longrightarrow> list_all fieldOK (fields_palServer s)"
  by (simp add: fields_palServer_def fieldOK_def enum_plain plainChar_def)

lemma fieldOK_rest: "list_all fieldOK (fields_PalworldServerSettings s)"
  by (simp add: fields_PalworldServerSettings_def fieldOK_def plainChar_def)

lemma structFields_OK: "enumsAdmitted s \<Longrightarrow> list_all fieldOK (structFields s)"
  by (simp add: structFields_def fieldOK_palWorld fieldOK_palBase fieldOK_palRules
      fieldOK_palServer fieldOK_rest)

lemma length_structFields: "length (structFields s) = 111"
  by (simp add: structFields_def fields_palWorld_def fields_palBase_def fields_palRules_def
      fields_palServer_def fields_PalworldServerSettings_def)

section \<open>Properties\<close>

lemma list_all_closed: "list_all onePair ps \<Longrightarrow> list_all closed ps"
  by (auto simp: list_all_iff onePair_def)

lemma onePairs_join:
  assumes "list_all onePair ps" shows "CHR 0x0A \<notin> set (joinStr ps '','')"
proof
  assume "CHR 0x0A \<in> set (joinStr ps '','')"
  with joinStr_chars [of ps "'',''"] obtain p where "p \<in> set ps" "CHR 0x0A \<in> set p" by fastforce
  with assms show False by (auto simp: list_all_iff onePair_def)
qed

lemma renderStruct_OK:
  assumes "enumsAdmitted s"
  obtains ps where "renderStruct s = Inr ps" "length ps = 111" "list_all onePair ps"
  using renderFields_OK [OF structFields_OK [OF assms]] length_structFields [of s]
  by (auto simp: renderStruct_def)



lemma digit_texts:
  "digitChar 0 = CHR ''0''"
  "digitChar (Suc 0) = CHR ''1''"
  "digitChar 2 = CHR ''2''"
  "digitChar 3 = CHR ''3''"
  "digitChar 4 = CHR ''4''"
  "digitChar 5 = CHR ''5''"
  "digitChar 6 = CHR ''6''"
  "digitChar 7 = CHR ''7''"
  "digitChar 8 = CHR ''8''"
  "digitChar 9 = CHR ''9''"
  by (simp_all only: digitChar_def) code_simp+

lemma natStr_texts:
  "natStr 0 = ''0''"
  "natStr (Suc 0) = ''1''"
  "natStr 2 = ''2''"
  "natStr 4 = ''4''"
  "natStr 5 = ''5''"
  "natStr 10 = ''10''"
  "natStr 14 = ''14''"
  "natStr 15 = ''15''"
  "natStr 20 = ''20''"
  "natStr 30 = ''30''"
  "natStr 32 = ''32''"
  "natStr 60 = ''60''"
  "natStr 72 = ''72''"
  "natStr 100 = ''100''"
  "natStr 128 = ''128''"
  "natStr 180 = ''180''"
  "natStr 3000 = ''3000''"
  "natStr 3600 = ''3600''"
  "natStr 15000 = ''15000''"
  by (simp_all add: natStr.simps digit_texts)

lemma float_whole: "formatFloat6 (Flt False m 0) = natStr m @ ''.000000''"
proof -
  have "fracDigits 6 0 = ''000000''" by code_simp
  then show ?thesis by (simp add: fixed6_def)
qed

lemma renderFields_append:
  "renderFields xs = Inr ps \<Longrightarrow> renderFields ys = Inr qs \<Longrightarrow> renderFields (xs @ ys) = Inr (ps @ qs)"
  by (induction xs arbitrary: ps) (auto split: sum.splits option.splits)

lemma escapeIniString_plain:
  "list_all plainChar s \<Longrightarrow> CHR 0x0D \<notin> set s \<Longrightarrow> escapeIniString s = s"
  by (rule escapeIniString_id) (auto simp: containsAny_iff list_all_iff plainChar_def)

lemmas default_simps = defaultServerSettings_def renderField_def Let_def formatValue_def
  formatBool_def float_whole itoa_def natStr_texts escapeIniString_plain plainChar_def

lemma render_palWorld:
  "renderFields (fields_palWorld defaultServerSettings) = Inr (take 22 documentedDefaults)"
  by (simp add: fields_palWorld_def documentedDefaults_def default_simps del: formatFloat6.simps)

text \<open>The rendered defaults, \<open>DenyTechnologyList\<close> as its tag prints it.\<close>

lemma render_palBase:
  "renderFields (fields_palBase defaultServerSettings) = Inr (take 22 (drop 22 documentedDefaults))"
  by (simp add: fields_palBase_def documentedDefaults_def default_simps del: formatFloat6.simps)

lemma render_palRules:
  "renderFields (fields_palRules defaultServerSettings) = Inr (take 22 (drop 44 documentedDefaults))"
  by (simp add: fields_palRules_def documentedDefaults_def default_simps del: formatFloat6.simps)

lemma render_palServer:
  "renderFields (fields_palServer defaultServerSettings) =
     Inr (take 22 (drop 66 documentedDefaults) @ [''DenyTechnologyList='' @ [CHR 0x22, CHR 0x22]])"
  by (simp add: fields_palServer_def documentedDefaults_def default_simps del: formatFloat6.simps)

lemma render_rest:
  "renderFields (fields_PalworldServerSettings defaultServerSettings) = Inr (drop 89 documentedDefaults)"
  by (simp add: fields_PalworldServerSettings_def documentedDefaults_def default_simps del: formatFloat6.simps)


lemma structFields_heads:
  "map (\<lambda>(n, t, v). (n, t)) (structFields s) = map (\<lambda>(n, t, v). (n, t)) (structFields s')"
  by (simp add: structFields_def fields_palWorld_def fields_palBase_def fields_palRules_def
      fields_palServer_def fields_PalworldServerSettings_def)

lemma storedField_cases:
  "(\<lambda>(n, t, v). (n, t)) f = (\<lambda>(n, t, v). (n, t)) d
     \<Longrightarrow> storedField f d = (if isZero (snd (snd f)) then d else f)"
  by (cases f; cases d) auto

lemma storedSettings_nth:
  assumes "i < 111"
  shows "storedSettings s ! i =
    (if isZero (snd (snd (structFields s ! i))) then structFields defaultServerSettings ! i
     else structFields s ! i)"
proof -
  have "map (\<lambda>(n, t, v). (n, t)) (structFields s) ! i =
      map (\<lambda>(n, t, v). (n, t)) (structFields defaultServerSettings) ! i"
    by (simp only: structFields_heads [of s defaultServerSettings])
  with assms have "(\<lambda>(n, t, v). (n, t)) (structFields s ! i) =
      (\<lambda>(n, t, v). (n, t)) (structFields defaultServerSettings ! i)"
    by (simp add: length_structFields)
  with assms show ?thesis
    by (simp add: storedSettings_def length_structFields storedField_cases)
qed

lemma nonzero_defaults:
  "length (filter (\<lambda>f. \<not> isZero (snd (snd f))) (structFields defaultServerSettings)) = 80"
  by (simp add: structFields_def fields_palWorld_def fields_palBase_def fields_palRules_def
      fields_palServer_def fields_PalworldServerSettings_def defaultServerSettings_def)



text \<open>The tag of a field names a key and a kind that fits the type of the field.\<close>

definition fieldTyped :: "structField \<Rightarrow> bool" where
  "fieldTyped f =
     (case f of (name, tag, fv) \<Rightarrow>
       (case splitOn CHR '','' tag of
          [key, kind, qt] \<Rightarrow>
            CHR ''='' \<notin> set key \<and>
            (case fv of
               VBool b \<Rightarrow> kind = ''bool''
             | VInt i \<Rightarrow> kind = ''int''
             | VFloat x \<Rightarrow> kind = ''float''
             | VStr s \<Rightarrow> kind = ''enum'' \<or> kind = ''string''
             | VStrs xs \<Rightarrow> kind = ''platforms'')
        | _ \<Rightarrow> False))"

definition tagKey :: "structField \<Rightarrow> string" where
  "tagKey f = (case f of (name, tag, fv) \<Rightarrow> takeWhile (\<lambda>c. c \<noteq> CHR '','') tag)"

abbreviation pairKey :: "string \<Rightarrow> string" where
  "pairKey p \<equiv> takeWhile (\<lambda>c. c \<noteq> CHR ''='') p"

lemma splitOn_hd: "splitOn x s = w # ws \<Longrightarrow> takeWhile (\<lambda>c. c \<noteq> x) s = w"
proof (induction s arbitrary: w ws)
  case (Cons c s)
  moreover have "splitOn x s \<noteq> []" by (cases s) (auto split: list.split)
  ultimately show ?case by (auto split: if_splits list.splits)
qed simp

lemma renderField_typed:
  assumes "fieldTyped f" shows "\<exists>p. renderField f = Inr (Some p) \<and> pairKey p = tagKey f"
proof -
  obtain name tag fv where f: "f = (name, tag, fv)" by (cases f)
  from assms obtain key kind qt where parts: "splitOn CHR '','' tag = [key, kind, qt]" and key: "CHR ''='' \<notin> set key"
    by (auto simp: fieldTyped_def f split: list.splits)
  have "\<exists>v. formatValue fv kind qt = Inr v"
    using assms parts by (cases fv) (auto simp: fieldTyped_def f formatValue_def)
  then obtain v where v: "formatValue fv kind qt = Inr v" by blast
  have "tag \<noteq> []" using parts by auto
  moreover have "pairKey (key @ ''='' @ v) = key" using key by (auto simp: takeWhile_append)
  moreover have "tagKey f = key" using splitOn_hd [OF parts] by (simp add: tagKey_def f)
  ultimately show ?thesis using f parts v by (auto simp: renderField_def Let_def)
qed

lemma renderFields_typed:
  "list_all fieldTyped fs \<Longrightarrow> \<exists>ps. renderFields fs = Inr ps \<and> map pairKey ps = map tagKey fs"
  by (induction fs) (fastforce dest: renderField_typed)+

lemmas all_fields = structFields_def fields_palWorld_def fields_palBase_def fields_palRules_def
  fields_palServer_def fields_PalworldServerSettings_def

lemma structFields_typed: "list_all fieldTyped (structFields s)"
  by (simp add: all_fields fieldTyped_def)

definition injectedKeys :: "string list" where
  "injectedKeys = [''AdminPassword'', ''ServerPassword'', ''PublicIP'', ''RCONEnabled'', ''RCONPort'',
     ''RESTAPIEnabled'', ''RESTAPIPort'', ''PublicPort'']"

lemma tagKeys_distinct: "distinct (map tagKey (structFields s) @ injectedKeys)"
  by (simp add: all_fields tagKey_def injectedKeys_def)

lemma injectedPairs_keys: "\<exists>n. map pairKey (injectedPairs opts) = take n injectedKeys"
  by (rule exI [of _ "if 0 < io_PublicPort opts then 8 else 7"]) (simp add: injectedPairs_def injectedKeys_def)

text \<open>
  C27: the struct tags are well-typed and unambiguous. Rendering succeeds for every value of the
  settings struct: no tag is malformed, names an unknown kind or asks reflection for the wrong type,
  so neither an error nor a panic is possible. The file has one pair per field, and no key is
  written twice, the operator-injected ones included.
\<close>

theorem settings_always_render:
  "\<exists>pairs ini. renderStruct s = Inr pairs \<and> length pairs = 111 \<and> Render s opts = Inr ini
     \<and> distinct (map pairKey (pairs @ injectedPairs opts))"
proof -
  obtain ps where ps: "renderFields (structFields s) = Inr ps" "map pairKey ps = map tagKey (structFields s)"
    using renderFields_typed [OF structFields_typed] by blast
  have "length ps = 111" using arg_cong [OF ps(2), of length] length_structFields by simp
  moreover obtain n where n: "map pairKey (injectedPairs opts) = take n injectedKeys" using injectedPairs_keys by blast
  have "distinct (map tagKey (structFields s) @ take n injectedKeys)"
    using tagKeys_distinct [of s] by (auto dest: in_set_takeD)
  then have "distinct (map pairKey (ps @ injectedPairs opts))"
    unfolding map_append ps(2) n .
  ultimately show ?thesis using ps(1) by (auto simp: renderStruct_def Render_def Let_def simp del: map_append)
qed

end
