(* ===== verification/ApiTypes.thy ===== *)
theory ApiTypes
  imports ServerSettings
begin

text \<open>
  The custom resources of \<^verbatim>\<open>api/v1alpha1\<close>: the structs of \<open>common_types.go\<close>,
  \<open>palworldgame_types.go\<close>, \<open>palworldbackup_types.go\<close> and \<open>palworldrestore_types.go\<close> as
  records (a nil pointer is \<open>None\<close>), their string enumerations as datatypes with the unset value as
  a constructor, and the shutdown defaults with the methods that apply them. Values of Kubernetes
  types that the operator only passes through are \<open>json\<close>. A \<open>resource.Quantity\<close> is a number of
  nano-units.
\<close>

section \<open>Values of Kubernetes types\<close>

datatype json = JNull | JBool bool | JNum int | JFrac float64 | JStr string | JArr "json list" | JObj "(string \<times> json) list"

type_synonym quantity = int

definition milli :: "int \<Rightarrow> quantity" where
  "milli n = n * 10 ^ 6"

definition whole :: "int \<Rightarrow> quantity" where
  "whole n = n * 10 ^ 9"

definition Mi :: "int \<Rightarrow> quantity" where
  "Mi n = n * 2 ^ 20 * 10 ^ 9"

definition Gi :: "int \<Rightarrow> quantity" where
  "Gi n = n * 2 ^ 30 * 10 ^ 9"

lemmas quantity_defs = milli_def whole_def Mi_def Gi_def

record ResourceRequirements =
  rr_Requests :: "string \<rightharpoonup> quantity"
  rr_Limits :: "string \<rightharpoonup> quantity"

record SecretKeySelector =
  sks_Name :: string
  sks_Key :: string
  sks_Optional :: "bool option"

record EnvVar =
  env_Name :: string
  env_Value :: string
  env_ValueFrom :: "SecretKeySelector option"

datatype Protocol = TCP | UDP

record ContainerPort =
  cp_Name :: string
  cp_ContainerPort :: int32
  cp_Protocol :: Protocol

record VolumeMount =
  vm_Name :: string
  vm_MountPath :: string
  vm_ReadOnly :: bool

datatype ProbeHandler = ExecProbe "string list" | HTTPGetProbe string int32

record Probe =
  pb_Handler :: ProbeHandler
  pb_PeriodSeconds :: int32
  pb_TimeoutSeconds :: int32
  pb_FailureThreshold :: int32

record SecurityContext =
  sc_AllowPrivilegeEscalation :: "bool option"
  sc_RunAsNonRoot :: "bool option"
  sc_ReadOnlyRootFilesystem :: "bool option"
  sc_CapabilitiesDrop :: "string list"

record Container =
  ct_Name :: string
  ct_Image :: string
  ct_ImagePullPolicy :: string
  ct_Command :: "string list"
  ct_Args :: "string list"
  ct_Env :: "EnvVar list"
  ct_Ports :: "ContainerPort list"
  ct_VolumeMounts :: "VolumeMount list"
  ct_Resources :: ResourceRequirements
  ct_SecurityContext :: "SecurityContext option"
  ct_StartupProbe :: "Probe option"
  ct_LivenessProbe :: "Probe option"
  ct_ReadinessProbe :: "Probe option"
  ct_PreStop :: "string list"

record PodSecurityContext =
  psc_RunAsNonRoot :: "bool option"
  psc_SeccompProfile :: "string option"
  psc_FSGroupChangePolicy :: "string option"
  psc_RunAsUser :: "int64 option"
  psc_RunAsGroup :: "int64 option"
  psc_FSGroup :: "int64 option"

section \<open>\<open>common_types.go\<close>\<close>

definition ConditionReady :: string where "ConditionReady = ''Ready''"
definition ConditionProgressing :: string where "ConditionProgressing = ''Progressing''"
definition ConditionDegraded :: string where "ConditionDegraded = ''Degraded''"
definition ConditionBackupReady :: string where "ConditionBackupReady = ''BackupReady''"
definition ConditionUpdateAvailable :: string where "ConditionUpdateAvailable = ''UpdateAvailable''"

lemmas condition_type_defs = ConditionReady_def ConditionProgressing_def ConditionDegraded_def
  ConditionBackupReady_def ConditionUpdateAvailable_def

record ImageSpec =
  img_Server :: string
  img_PullPolicy :: string
  img_PullSecrets :: "string list"

record StorageSpec =
  st_Size :: quantity
  st_StorageClassName :: "string option"
  st_AccessModes :: "string list"
  st_Retain :: bool
  st_VolumeSnapshotClassName :: "string option"

datatype ServiceType = ServiceTypeUnset | ServiceTypeClusterIP | ServiceTypeNodePort | ServiceTypeLoadBalancer

record RESTAPIExposure =
  rx_Route :: bool
  rx_Host :: string
  rx_TLS :: string

record NetworkingSpec =
  nw_GamePort :: int32
  nw_QueryPort :: int32
  nw_ServiceType :: ServiceType
  nw_LoadBalancerIP :: string
  nw_LoadBalancerClass :: "string option"
  nw_NodePort :: int32
  nw_ServiceAnnotations :: labels
  nw_PublicIP :: string
  nw_PublicPort :: int32
  nw_RESTAPI :: RESTAPIExposure

record SchedulingSpec =
  sch_NodeSelector :: labels
  sch_Affinity :: json
  sch_Tolerations :: "json list"
  sch_TopologySpreadConstraints :: "json list"
  sch_PriorityClassName :: string

record CredentialsSpec =
  cr_SecretName :: string
  cr_AdminPasswordKey :: string
  cr_ServerPasswordKey :: string

datatype BackupDestinationType =
    BackupDestinationUnset
  | BackupDestinationVolumeSnapshot
  | BackupDestinationS3
  | BackupDestinationPVC
  | BackupDestinationOther string

fun destTypeString :: "BackupDestinationType \<Rightarrow> string" where
  "destTypeString BackupDestinationUnset = []"
| "destTypeString BackupDestinationVolumeSnapshot = ''VolumeSnapshot''"
| "destTypeString BackupDestinationS3 = ''S3''"
| "destTypeString BackupDestinationPVC = ''PVC''"
| "destTypeString (BackupDestinationOther s) = s"

record S3Destination =
  s3_Bucket :: string
  s3_Prefix :: string
  s3_Endpoint :: string
  s3_Region :: string
  s3_CredentialsSecret :: string
  s3_AccessKeyIDKey :: string
  s3_SecretAccessKeyKey :: string
  s3_InsecureTLS :: bool

record BackupDestination =
  bd_Type :: BackupDestinationType
  bd_S3 :: "S3Destination option"
  bd_PVCName :: string
  bd_PVCPath :: string

record BackupPolicy =
  bp_Enabled :: bool
  bp_Schedule :: string
  bp_Destination :: BackupDestination
  bp_Retention :: int32
  bp_Suspend :: bool
  bp_OnDelete :: bool

datatype UpdateStrategyType = UpdateUnset | UpdateManual | UpdateAutomatic | UpdateScheduled

record UpdatePolicy =
  up_Strategy :: UpdateStrategyType
  up_Schedule :: string
  up_DrainTimeoutSeconds :: int32
  up_WarnMessage :: string
  up_WarnIntervalSeconds :: int32
  up_BackupBeforeUpdate :: bool
  up_PollIntervalMinutes :: int32

record MonitoringSpec =
  mon_ServiceMonitor :: bool
  mon_MetricsExporter :: bool
  mon_ExporterResources :: "ResourceRequirements option"

record NodeDrainPolicy =
  nd_Disabled :: bool
  nd_GracePeriodSeconds :: int32
  nd_WarnMessage :: string

record ShutdownPolicy =
  sd_WarnSeconds :: int32
  sd_WarnIntervalSeconds :: int32
  sd_WarnMessage :: string

record PodDisruptionSpec =
  pd_Enabled :: bool
  pd_MinAvailable :: "int32 option"

datatype PhaseType =
    PhaseUnset
  | PhasePending
  | PhaseInstalling
  | PhaseRunning
  | PhaseUpdating
  | PhaseBackingUp
  | PhaseRestoring
  | PhaseStopped
  | PhaseDegraded
  | PhaseTerminating

section \<open>Object metadata and conditions\<close>

record OwnerReference =
  or_Kind :: string
  or_Name :: string
  or_Controller :: bool

record ObjectMeta =
  m_Name :: string
  m_Namespace :: string
  m_Labels :: labels
  m_Annotations :: labels
  m_OwnerReferences :: "OwnerReference list"
  m_Finalizers :: "string list"
  m_Generation :: int64
  m_ResourceVersion :: string
  m_CreationTimestamp :: "time option"
  m_DeletionTimestamp :: "time option"

definition newMeta :: "string \<Rightarrow> string \<Rightarrow> labels \<Rightarrow> ObjectMeta" where
  "newMeta name ns lbls =
     \<lparr>m_Name = name, m_Namespace = ns, m_Labels = lbls, m_Annotations = Map.empty,
      m_OwnerReferences = [], m_Finalizers = [], m_Generation = 0, m_ResourceVersion = [],
      m_CreationTimestamp = None, m_DeletionTimestamp = None\<rparr>"

datatype ConditionStatus = ConditionTrue | ConditionFalse | ConditionUnknown

record Condition =
  cd_Type :: string
  cd_Status :: ConditionStatus
  cd_Reason :: string
  cd_Message :: string
  cd_ObservedGeneration :: int64

section \<open>\<open>palworldgame_types.go\<close>\<close>

definition GameFinalizer :: string where
  "GameFinalizer = ''palworld.twodcube.io/finalizer''"

definition DefaultShutdownWarnSeconds :: int32 where
  "DefaultShutdownWarnSeconds = 300"

definition DefaultShutdownWarnIntervalSeconds :: int32 where
  "DefaultShutdownWarnIntervalSeconds = 60"

definition DefaultShutdownWarnMessage :: string where
  "DefaultShutdownWarnMessage = ''Server is shutting down for maintenance in %s''"

definition ShutdownGraceHeadroomSeconds :: int64 where
  "ShutdownGraceHeadroomSeconds = 300"

definition DefaultUpdateWarnIntervalSeconds :: int32 where
  "DefaultUpdateWarnIntervalSeconds = 60"

definition ShutdownReserveSeconds :: int64 where
  "ShutdownReserveSeconds = 30"

lemmas shutdown_const_defs = DefaultShutdownWarnSeconds_def DefaultShutdownWarnIntervalSeconds_def
  DefaultShutdownWarnMessage_def ShutdownGraceHeadroomSeconds_def
  DefaultUpdateWarnIntervalSeconds_def ShutdownReserveSeconds_def

record PalworldGameSpec =
  gs_Version :: string
  gs_Replicas :: "int32 option"
  gs_Image :: ImageSpec
  gs_ServerSettings :: PalworldServerSettings
  gs_EngineSettings :: "(string \<times> string) list"
  gs_Credentials :: CredentialsSpec
  gs_Storage :: StorageSpec
  gs_Networking :: NetworkingSpec
  gs_Resources :: ResourceRequirements
  gs_Scheduling :: SchedulingSpec
  gs_Backup :: "BackupPolicy option"
  gs_Update :: "UpdatePolicy option"
  gs_PodDisruptionBudget :: "PodDisruptionSpec option"
  gs_NodeDrain :: "NodeDrainPolicy option"
  gs_Shutdown :: "ShutdownPolicy option"
  gs_Monitoring :: MonitoringSpec
  gs_ServiceAccountName :: string
  gs_TerminationGracePeriodSeconds :: "int64 option"
  gs_PodAnnotations :: labels
  gs_PodLabels :: labels
  gs_ExtraEnv :: "EnvVar list"
  gs_Sidecars :: "Container list"
  gs_PodSecurityContext :: "PodSecurityContext option"

record PalworldGameStatus =
  gt_Phase :: PhaseType
  gt_ObservedGeneration :: int64
  gt_Conditions :: "Condition list"
  gt_CurrentVersion :: string
  gt_ServerVersion :: string
  gt_AvailableVersion :: string
  gt_Replicas :: int32
  gt_Selector :: string
  gt_PlayersOnline :: int32
  gt_MaxPlayers :: int32
  gt_ServerName :: string
  gt_GameEndpoint :: string
  gt_RESTEndpoint :: string
  gt_RouteURL :: string
  gt_PersistentVolumeClaim :: string
  gt_CurrentNode :: string
  gt_CredentialsSecret :: string
  gt_LastBackupTime :: "time option"
  gt_LastBackupName :: string
  gt_NextScheduledBackup :: "time option"
  gt_LastUpdateTime :: "time option"
  gt_NextScheduledUpdateCheck :: "time option"
  gt_UpdateDrainStartTime :: "time option"
  gt_UpdateDrainLastWarnTime :: "time option"

record PalworldGame =
  g_Meta :: ObjectMeta
  g_Spec :: PalworldGameSpec
  g_Status :: PalworldGameStatus

abbreviation g_Name :: "PalworldGame \<Rightarrow> string" where
  "g_Name g \<equiv> m_Name (g_Meta g)"

abbreviation g_Namespace :: "PalworldGame \<Rightarrow> string" where
  "g_Namespace g \<equiv> m_Namespace (g_Meta g)"

text \<open>\<open>game.Status.X = v\<close>: the model's spelling of an assignment to a status field.\<close>

abbreviation updStatus :: "(PalworldGameStatus \<Rightarrow> PalworldGameStatus) \<Rightarrow> PalworldGame \<Rightarrow> PalworldGame" where
  "updStatus f g \<equiv> g\<lparr>g_Status := f (g_Status g)\<rparr>"

definition ShutdownWarnSeconds :: "PalworldGame \<Rightarrow> int32" where
  "ShutdownWarnSeconds g =
     (case gs_Shutdown (g_Spec g) of
        None \<Rightarrow> DefaultShutdownWarnSeconds
      | Some p \<Rightarrow> if sd_WarnSeconds p < 0 then 0 else sd_WarnSeconds p)"

definition ShutdownWarnIntervalSeconds :: "PalworldGame \<Rightarrow> int32" where
  "ShutdownWarnIntervalSeconds g =
     (case gs_Shutdown (g_Spec g) of
        None \<Rightarrow> DefaultShutdownWarnIntervalSeconds
      | Some p \<Rightarrow> if sd_WarnIntervalSeconds p < 1 then DefaultShutdownWarnIntervalSeconds
                  else sd_WarnIntervalSeconds p)"

definition ShutdownWarnMessage :: "PalworldGame \<Rightarrow> string" where
  "ShutdownWarnMessage g =
     (case gs_Shutdown (g_Spec g) of
        None \<Rightarrow> DefaultShutdownWarnMessage
      | Some p \<Rightarrow> if sd_WarnMessage p = [] then DefaultShutdownWarnMessage else sd_WarnMessage p)"

definition EffectiveTerminationGracePeriodSeconds :: "PalworldGame \<Rightarrow> int64" where
  "EffectiveTerminationGracePeriodSeconds g =
     (case gs_TerminationGracePeriodSeconds (g_Spec g) of
        Some s \<Rightarrow> s
      | None \<Rightarrow> wrap64 (ShutdownWarnSeconds g + ShutdownGraceHeadroomSeconds))"

section \<open>\<open>palworldbackup_types.go\<close>\<close>

datatype BackupPhase =
    BackupPhaseUnset
  | BackupPhasePending
  | BackupPhaseSaving
  | BackupPhaseSnapshotting
  | BackupPhaseUploading
  | BackupPhaseCompleted
  | BackupPhaseFailed

record PalworldBackupSpec =
  bs_GameRef :: string
  bs_Destination :: BackupDestination
  bs_FlushSave :: bool
  bs_TTLSecondsAfterFinished :: "int32 option"
  bs_Retain :: bool

record PalworldBackupStatus =
  bt_Phase :: BackupPhase
  bt_Message :: string
  bt_StartTime :: "time option"
  bt_CompletionTime :: "time option"
  bt_VolumeSnapshotName :: string
  bt_Location :: string
  bt_SizeBytes :: int64
  bt_ServerVersion :: string
  bt_JobName :: string
  bt_Conditions :: "Condition list"

record PalworldBackup =
  b_Meta :: ObjectMeta
  b_Spec :: PalworldBackupSpec
  b_Status :: PalworldBackupStatus

abbreviation b_Name :: "PalworldBackup \<Rightarrow> string" where
  "b_Name b \<equiv> m_Name (b_Meta b)"

abbreviation b_Namespace :: "PalworldBackup \<Rightarrow> string" where
  "b_Namespace b \<equiv> m_Namespace (b_Meta b)"

abbreviation updBackup :: "(PalworldBackupStatus \<Rightarrow> PalworldBackupStatus) \<Rightarrow> PalworldBackup \<Rightarrow> PalworldBackup" where
  "updBackup f b \<equiv> b\<lparr>b_Status := f (b_Status b)\<rparr>"

text \<open>The zero value of the status, which a backup has when it is created.\<close>

definition newBackupStatus :: PalworldBackupStatus where
  "newBackupStatus =
     \<lparr>bt_Phase = BackupPhaseUnset, bt_Message = [], bt_StartTime = None, bt_CompletionTime = None,
      bt_VolumeSnapshotName = [], bt_Location = [], bt_SizeBytes = 0, bt_ServerVersion = [],
      bt_JobName = [], bt_Conditions = []\<rparr>"

section \<open>\<open>palworldrestore_types.go\<close>\<close>

datatype RestorePhase =
    RestorePhaseUnset
  | RestorePhasePending
  | RestorePhaseStopping
  | RestorePhaseRestoring
  | RestorePhaseStarting
  | RestorePhaseCompleted
  | RestorePhaseFailed

record PalworldRestoreSpec =
  rs_GameRef :: string
  rs_BackupRef :: string
  rs_Source :: "BackupDestination option"
  rs_Force :: bool

record PalworldRestoreStatus =
  rt_Phase :: RestorePhase
  rt_Message :: string
  rt_StartTime :: "time option"
  rt_CompletionTime :: "time option"
  rt_JobName :: string
  rt_OriginalReplicas :: "int32 option"
  rt_Conditions :: "Condition list"

record PalworldRestore =
  r_Meta :: ObjectMeta
  r_Spec :: PalworldRestoreSpec
  r_Status :: PalworldRestoreStatus

abbreviation r_Name :: "PalworldRestore \<Rightarrow> string" where
  "r_Name r \<equiv> m_Name (r_Meta r)"

abbreviation r_Namespace :: "PalworldRestore \<Rightarrow> string" where
  "r_Namespace r \<equiv> m_Namespace (r_Meta r)"

abbreviation updRestore :: "(PalworldRestoreStatus \<Rightarrow> PalworldRestoreStatus) \<Rightarrow> PalworldRestore \<Rightarrow> PalworldRestore" where
  "updRestore f r \<equiv> r\<lparr>r_Status := f (r_Status r)\<rparr>"

section \<open>Shutdown budget\<close>

lemma ShutdownWarnInterval_pos: "1 \<le> ShutdownWarnIntervalSeconds g"
  by (simp add: ShutdownWarnIntervalSeconds_def shutdown_const_defs split: option.splits)

lemma ShutdownWarnSeconds_range:
  assumes "\<And>p. gs_Shutdown (g_Spec g) = Some p \<Longrightarrow> in_int32 (sd_WarnSeconds p)"
  shows "0 \<le> ShutdownWarnSeconds g \<and> in_int32 (ShutdownWarnSeconds g)"
  using assms
  by (auto simp: ShutdownWarnSeconds_def shutdown_const_defs in_int32_def split: option.splits)

end
