(* ===== verification/KubeObjects.thy ===== *)
theory KubeObjects
  imports ApiTypes
begin

text \<open>
  The Kubernetes objects the operator reads and writes, restricted to the fields its source
  mentions. They are data of packages outside the repository. Unstructured objects (VolumeSnapshot,
  Route, ServiceMonitor) keep their \<open>spec\<close> and \<open>status\<close> as \<open>json\<close>, whose objects list their keys in
  ascending order, so that equality of values is equality of maps.
\<close>

record ServiceAccount =
  sa_Meta :: ObjectMeta

record ConfigMap =
  cm_Meta :: ObjectMeta
  cm_Data :: labels

record Secret =
  sec_Meta :: ObjectMeta
  sec_Type :: string
  sec_Data :: labels
  sec_StringData :: labels

record ServicePort =
  sp_Name :: string
  sp_Port :: int32
  sp_TargetPort :: string
  sp_Protocol :: Protocol
  sp_NodePort :: int32

record LoadBalancerIngress =
  ing_IP :: string
  ing_Hostname :: string

text \<open>\<open>svc_Rest\<close> stands for the fields of the spec the operator never mentions.\<close>

record ServiceSpec =
  ssp_Type :: string
  ssp_ClusterIP :: string
  ssp_ClusterIPs :: "string list"
  ssp_Selector :: labels
  ssp_Ports :: "ServicePort list"
  ssp_PublishNotReadyAddresses :: bool
  ssp_ExternalTrafficPolicy :: string
  ssp_LoadBalancerIP :: string
  ssp_LoadBalancerClass :: "string option"
  ssp_Rest :: json

record Service =
  svc_Meta :: ObjectMeta
  svc_Spec :: ServiceSpec
  svc_Ingress :: "LoadBalancerIngress list"

record PodDisruptionBudget =
  pdb_Meta :: ObjectMeta
  pdb_MinAvailable :: "int32 option"
  pdb_Selector :: labels

text \<open>A label selector with \<open>matchLabels\<close> only; the empty one selects everything.\<close>

record NetworkPolicyPeer =
  peer_PodSelector :: "labels option"
  peer_NamespaceSelector :: "labels option"

record NetworkPolicyPort =
  npp_Protocol :: Protocol
  npp_Port :: int32

record NetworkPolicyIngressRule =
  rule_From :: "NetworkPolicyPeer list"
  rule_Ports :: "NetworkPolicyPort list"

record NetworkPolicy =
  np_Meta :: ObjectMeta
  np_PodSelector :: labels
  np_PolicyTypes :: "string list"
  np_Ingress :: "NetworkPolicyIngressRule list"

record TypedLocalObjectReference =
  ds_APIGroup :: string
  ds_Kind :: string
  ds_Name :: string

record PersistentVolumeClaim =
  pvc_Meta :: ObjectMeta
  pvc_AccessModes :: "string list"
  pvc_Storage :: quantity
  pvc_StorageClassName :: "string option"
  pvc_DataSource :: "TypedLocalObjectReference option"

datatype VolumeSource = ConfigMapVolume string | PVCVolume string

record Volume =
  vol_Name :: string
  vol_Source :: VolumeSource

record PodSpec =
  ps_ServiceAccountName :: string
  ps_TerminationGracePeriodSeconds :: "int64 option"
  ps_SecurityContext :: "PodSecurityContext option"
  ps_ImagePullSecrets :: "string list"
  ps_NodeSelector :: labels
  ps_Affinity :: json
  ps_Tolerations :: "json list"
  ps_TopologySpreadConstraints :: "json list"
  ps_PriorityClassName :: string
  ps_RestartPolicy :: string
  ps_Containers :: "Container list"
  ps_Volumes :: "Volume list"

record PodTemplate =
  pt_Labels :: labels
  pt_Annotations :: labels
  pt_Spec :: PodSpec

record StatefulSetSpec =
  stp_ServiceName :: string
  stp_Replicas :: "int32 option"
  stp_PodManagementPolicy :: string
  stp_UpdateStrategy :: string
  stp_Selector :: labels
  stp_Template :: PodTemplate
  stp_VolumeClaimTemplates :: "PersistentVolumeClaim list"
  stp_MinReadySeconds :: int32

record StatefulSet =
  sts_Meta :: ObjectMeta
  sts_Spec :: StatefulSetSpec
  sts_StatusReplicas :: int32
  sts_StatusReadyReplicas :: int32

record JobCondition =
  jc_Type :: string
  jc_Status :: ConditionStatus

record Job =
  job_Meta :: ObjectMeta
  job_BackoffLimit :: "int32 option"
  job_TTLSecondsAfterFinished :: "int32 option"
  job_ActiveDeadlineSeconds :: "int64 option"
  job_Template :: PodTemplate
  job_Succeeded :: int32
  job_Conditions :: "JobCondition list"

record Pod =
  pod_Meta :: ObjectMeta
  pod_NodeName :: string
  pod_Phase :: string

record Node =
  node_Meta :: ObjectMeta
  node_Unschedulable :: bool

record GroupVersionKind =
  gvk_Group :: string
  gvk_Version :: string
  gvk_Kind :: string

record Unstructured =
  un_GVK :: GroupVersionKind
  un_Meta :: ObjectMeta
  un_Spec :: json
  un_Status :: json

text \<open>\<open>unstructured.NestedString\<close> and its kin on one level: the value under a key of an object.\<close>

fun jfield :: "json \<Rightarrow> string \<Rightarrow> json option" where
  "jfield (JObj kvs) k = map_of kvs k"
| "jfield _ k = None"

fun jstring :: "json option \<Rightarrow> string option" where
  "jstring (Some (JStr s)) = Some s"
| "jstring _ = None"

fun jbool :: "json option \<Rightarrow> bool option" where
  "jbool (Some (JBool b)) = Some b"
| "jbool _ = None"

fun jarr :: "json option \<Rightarrow> json list option" where
  "jarr (Some (JArr xs)) = Some xs"
| "jarr _ = None"

text \<open>A zero-valued pod specification, for the struct literals that leave fields out.\<close>

definition newPodSpec :: PodSpec where
  "newPodSpec =
     \<lparr>ps_ServiceAccountName = [], ps_TerminationGracePeriodSeconds = None,
      ps_SecurityContext = None, ps_ImagePullSecrets = [], ps_NodeSelector = Map.empty,
      ps_Affinity = JNull, ps_Tolerations = [], ps_TopologySpreadConstraints = [],
      ps_PriorityClassName = [], ps_RestartPolicy = [], ps_Containers = [], ps_Volumes = []\<rparr>"

definition newResources :: ResourceRequirements where
  "newResources = \<lparr>rr_Requests = Map.empty, rr_Limits = Map.empty\<rparr>"

definition newContainer :: Container where
  "newContainer =
     \<lparr>ct_Name = [], ct_Image = [], ct_ImagePullPolicy = [], ct_Command = [], ct_Args = [], ct_Env = [],
      ct_Ports = [], ct_VolumeMounts = [], ct_Resources = newResources, ct_SecurityContext = None,
      ct_StartupProbe = None, ct_LivenessProbe = None, ct_ReadinessProbe = None, ct_PreStop = []\<rparr>"

definition newServiceSpec :: ServiceSpec where
  "newServiceSpec =
     \<lparr>ssp_Type = [], ssp_ClusterIP = [], ssp_ClusterIPs = [], ssp_Selector = Map.empty, ssp_Ports = [],
      ssp_PublishNotReadyAddresses = False, ssp_ExternalTrafficPolicy = [], ssp_LoadBalancerIP = [],
      ssp_LoadBalancerClass = None, ssp_Rest = JNull\<rparr>"

definition envVar :: "string \<Rightarrow> string \<Rightarrow> EnvVar" where
  "envVar n v = \<lparr>env_Name = n, env_Value = v, env_ValueFrom = None\<rparr>"

end
