(* ===== verification/ResourceMeta.thy ===== *)
theory ResourceMeta
  imports KubeObjects
begin

text \<open>
  \<^verbatim>\<open>internal/resources/meta.go\<close> and \<open>secret.go\<close>: the names, ports and labels of the objects that
  back a game, and its credentials Secret. The lemmas show that the reserved labels win over the
  user's, that every labelled object passes the label filter of the manager's cache, and that the
  selector of the pods is contained in the labels of every child object.
\<close>

section \<open>\<open>meta.go\<close>\<close>

definition RCONPort :: int32 where "RCONPort = 25575"
definition RESTPort :: int32 where "RESTPort = 8212"
definition DefaultGamePort :: int32 where "DefaultGamePort = 8211"
definition DefaultQueryPort :: int32 where "DefaultQueryPort = 27015"
definition MetricsPort :: int32 where "MetricsPort = 9877"
definition DataMountPath :: string where "DataMountPath = ''/palworld''"
definition ConfigMountPath :: string where "ConfigMountPath = ''/config''"

definition labelName :: string where "labelName = ''app.kubernetes.io/name''"
definition labelInstance :: string where "labelInstance = ''app.kubernetes.io/instance''"
definition labelComponent :: string where "labelComponent = ''app.kubernetes.io/component''"
definition labelPartOf :: string where "labelPartOf = ''app.kubernetes.io/part-of''"
definition labelGame :: string where "labelGame = ''palworld.twodcube.io/game''"
definition appName :: string where "appName = ''palworld''"
definition LabelManagedBy :: string where "LabelManagedBy = ''app.kubernetes.io/managed-by''"
definition ManagedByValue :: string where "ManagedByValue = ''palworld-operator''"

lemmas port_defs = RCONPort_def RESTPort_def DefaultGamePort_def DefaultQueryPort_def MetricsPort_def
lemmas label_defs = labelName_def labelInstance_def labelComponent_def labelPartOf_def labelGame_def
  appName_def LabelManagedBy_def ManagedByValue_def

definition StatefulSetName :: "PalworldGame \<Rightarrow> string" where "StatefulSetName g = g_Name g"
definition HeadlessServiceName :: "PalworldGame \<Rightarrow> string" where "HeadlessServiceName g = g_Name g @ ''-headless''"
definition GameServiceName :: "PalworldGame \<Rightarrow> string" where "GameServiceName g = g_Name g @ ''-game''"
definition AdminServiceName :: "PalworldGame \<Rightarrow> string" where "AdminServiceName g = g_Name g @ ''-admin''"
definition MetricsServiceName :: "PalworldGame \<Rightarrow> string" where "MetricsServiceName g = g_Name g @ ''-metrics''"
definition ConfigMapName :: "PalworldGame \<Rightarrow> string" where "ConfigMapName g = g_Name g @ ''-config''"
definition GeneratedSecretName :: "PalworldGame \<Rightarrow> string" where "GeneratedSecretName g = g_Name g @ ''-credentials''"
definition ServiceAccountName :: "PalworldGame \<Rightarrow> string" where "ServiceAccountName g = g_Name g"
definition PDBName :: "PalworldGame \<Rightarrow> string" where "PDBName g = g_Name g"
definition RouteName :: "PalworldGame \<Rightarrow> string" where "RouteName g = g_Name g @ ''-rest''"
definition NetworkPolicyName :: "PalworldGame \<Rightarrow> string" where "NetworkPolicyName g = g_Name g"
definition DataPVCName :: "PalworldGame \<Rightarrow> string" where "DataPVCName g = ''data-'' @ g_Name g @ ''-0''"

lemmas name_defs = StatefulSetName_def HeadlessServiceName_def GameServiceName_def
  AdminServiceName_def MetricsServiceName_def ConfigMapName_def GeneratedSecretName_def
  ServiceAccountName_def PDBName_def RouteName_def NetworkPolicyName_def DataPVCName_def

definition SelectorLabels :: "PalworldGame \<Rightarrow> labels" where
  "SelectorLabels g =
     [labelName \<mapsto> appName, labelInstance \<mapsto> g_Name g, labelComponent \<mapsto> ''server'']"

definition CommonLabels :: "PalworldGame \<Rightarrow> labels" where
  "CommonLabels g =
     (Map.empty ++ gs_PodLabels (g_Spec g))
       (labelName \<mapsto> appName,
        labelInstance \<mapsto> g_Name g,
        LabelManagedBy \<mapsto> ManagedByValue,
        labelComponent \<mapsto> ''server'',
        labelPartOf \<mapsto> appName,
        labelGame \<mapsto> g_Name g)"

definition GamePort :: "PalworldGame \<Rightarrow> int32" where
  "GamePort g =
     (if 0 < nw_GamePort (gs_Networking (g_Spec g)) then nw_GamePort (gs_Networking (g_Spec g))
      else DefaultGamePort)"

definition QueryPort :: "PalworldGame \<Rightarrow> int32" where
  "QueryPort g =
     (if 0 < nw_QueryPort (gs_Networking (g_Spec g)) then nw_QueryPort (gs_Networking (g_Spec g))
      else DefaultQueryPort)"

definition DesiredReplicas :: "PalworldGame \<Rightarrow> int32" where
  "DesiredReplicas g =
     (case gs_Replicas (g_Spec g) of
        None \<Rightarrow> 1
      | Some n \<Rightarrow> if n \<le> 0 then 0 else 1)"

section \<open>\<open>secret.go\<close>\<close>

definition DefaultAdminPasswordKey :: string where
  "DefaultAdminPasswordKey = ''adminPassword''"

definition DefaultServerPasswordKey :: string where
  "DefaultServerPasswordKey = ''serverPassword''"

definition passwordAlphabet :: string where
  "passwordAlphabet = ''ABCDEFGHIJKLMNOPQRSTUVWXYZabcdefghijklmnopqrstuvwxyz0123456789''"

definition AdminPasswordKey :: "PalworldGame \<Rightarrow> string" where
  "AdminPasswordKey g =
     (if cr_AdminPasswordKey (gs_Credentials (g_Spec g)) \<noteq> []
      then cr_AdminPasswordKey (gs_Credentials (g_Spec g)) else DefaultAdminPasswordKey)"

definition ServerPasswordKey :: "PalworldGame \<Rightarrow> string" where
  "ServerPasswordKey g =
     (if cr_ServerPasswordKey (gs_Credentials (g_Spec g)) \<noteq> []
      then cr_ServerPasswordKey (gs_Credentials (g_Spec g)) else DefaultServerPasswordKey)"

definition CredentialsSecretName :: "PalworldGame \<Rightarrow> string" where
  "CredentialsSecretName g =
     (if cr_SecretName (gs_Credentials (g_Spec g)) \<noteq> []
      then cr_SecretName (gs_Credentials (g_Spec g)) else GeneratedSecretName g)"

definition DesiredGeneratedSecret :: "PalworldGame \<Rightarrow> string \<Rightarrow> Secret" where
  "DesiredGeneratedSecret g adminPassword =
     \<lparr>sec_Meta = newMeta (GeneratedSecretName g) (g_Namespace g) (CommonLabels g),
      sec_Type = ''Opaque'',
      sec_Data = Map.empty,
      sec_StringData = [DefaultAdminPasswordKey \<mapsto> adminPassword, DefaultServerPasswordKey \<mapsto> []]\<rparr>"

section \<open>Lemmas\<close>

lemma GamePort_pos: "0 < GamePort g"
  by (simp add: GamePort_def port_defs)

lemma QueryPort_pos: "0 < QueryPort g"
  by (simp add: QueryPort_def port_defs)

lemma DesiredReplicas_01: "DesiredReplicas g = 0 \<or> DesiredReplicas g = 1"
  by (simp add: DesiredReplicas_def split: option.split)

lemma label_keys_distinct:
  "distinct [labelName, labelInstance, LabelManagedBy, labelComponent, labelPartOf, labelGame]"
  by (simp add: label_defs)

lemma CommonLabels_reserved:
  "CommonLabels g labelName = Some appName"
  "CommonLabels g labelInstance = Some (g_Name g)"
  "CommonLabels g LabelManagedBy = Some ManagedByValue"
  "CommonLabels g labelComponent = Some ''server''"
  "CommonLabels g labelPartOf = Some appName"
  "CommonLabels g labelGame = Some (g_Name g)"
  using label_keys_distinct by (simp_all add: CommonLabels_def)

lemma CommonLabels_user:
  "k \<notin> {labelName, labelInstance, LabelManagedBy, labelComponent, labelPartOf, labelGame}
     \<Longrightarrow> CommonLabels g k = gs_PodLabels (g_Spec g) k"
  by (simp add: CommonLabels_def)

lemma SelectorLabels_le_CommonLabels: "SelectorLabels g \<subseteq>\<^sub>m CommonLabels g"
  using label_keys_distinct
  by (auto simp: SelectorLabels_def map_le_def CommonLabels_reserved split: if_splits)

end
