(* ===== verification/ConfigResources.thy ===== *)
theory ConfigResources
  imports ResourceMeta
begin

text \<open>
  \<^verbatim>\<open>internal/resources/configmap.go\<close>: the rendered configuration of a game. Go's maps have no
  iteration order, so \<open>engineSettings\<close> is a list of entries with distinct keys in the order the
  runtime happens to choose; \<open>renderEngineINI\<close> is shown not to depend on that order.
\<close>

definition RenderSettings :: "PalworldGame \<Rightarrow> renderError + string" where
  "RenderSettings g =
     (let s = gs_ServerSettings (g_Spec g);
          opts = \<lparr>io_RCONEnabled = True, io_RCONPort = RCONPort, io_RESTAPIEnabled = True,
                  io_RESTAPIPort = RESTPort, io_PublicIP = nw_PublicIP (gs_Networking (g_Spec g)),
                  io_PublicPort = nw_PublicPort (gs_Networking (g_Spec g))\<rparr>;
          opts = (if io_PublicPort opts = 0 then opts\<lparr>io_PublicPort := GamePort g\<rparr> else opts)
      in Render s opts)"

text \<open>Section and line of one entry: the key is what follows the last slash.\<close>

definition engineEntry :: "string \<times> string \<Rightarrow> string \<times> string" where
  "engineEntry e =
     (case e of (k, v) \<Rightarrow>
        (case lastIndex (CHR ''/'') k of
           Some idx \<Rightarrow>
             if 0 < idx then (take idx k, drop (idx + 1) k @ ''='' @ v)
             else (''/Script/Engine.Engine'', k @ ''='' @ v)
         | None \<Rightarrow> (''/Script/Engine.Engine'', k @ ''='' @ v)))"

text \<open>The loop that fills \<open>sections\<close>: each section's lines in iteration order.\<close>

definition addLine :: "(string \<rightharpoonup> string list) \<Rightarrow> string \<times> string \<Rightarrow> (string \<rightharpoonup> string list)" where
  "addLine sections e =
     (case engineEntry e of (sec, l) \<Rightarrow>
        sections(sec \<mapsto> (case sections sec of None \<Rightarrow> [] | Some ls \<Rightarrow> ls) @ [l]))"

definition engineSections :: "(string \<times> string) list \<Rightarrow> (string \<rightharpoonup> string list)" where
  "engineSections engine = foldl addLine Map.empty engine"

text \<open>The keys of \<open>sections\<close>, in the order their section was first met.\<close>

definition sectionNames :: "(string \<times> string) list \<Rightarrow> string list" where
  "sectionNames engine = remdups (map (\<lambda>e. fst (engineEntry e)) engine)"

definition writeSection :: "string \<Rightarrow> string list \<Rightarrow> string" where
  "writeSection s lines =
     ''['' @ s @ '']'' @ [CHR 0x0A] @ concat (map (\<lambda>l. l @ [CHR 0x0A]) (sortStrings lines)) @ [CHR 0x0A]"

definition renderEngineINI :: "(string \<times> string) list \<Rightarrow> string" where
  "renderEngineINI engine =
     (if engine = [] then []
      else (let sections = engineSections engine; secNames = sortStrings (sectionNames engine)
            in concat (map (\<lambda>s. writeSection s (case sections s of None \<Rightarrow> [] | Some ls \<Rightarrow> ls)) secNames)))"

definition DesiredConfigMap :: "PalworldGame \<Rightarrow> renderError + ConfigMap" where
  "DesiredConfigMap g =
     (case RenderSettings g of
        Inl e \<Rightarrow> Inl e
      | Inr ini \<Rightarrow>
          (let data = [''PalWorldSettings.ini'' \<mapsto> ini];
               engine = renderEngineINI (gs_EngineSettings (g_Spec g));
               data = (if engine \<noteq> [] then data(''Engine.ini'' \<mapsto> engine) else data)
           in Inr \<lparr>cm_Meta = newMeta (ConfigMapName g) (g_Namespace g) (CommonLabels g),
                   cm_Data = data\<rparr>))"

definition SettingsHash :: "(string \<Rightarrow> string) \<Rightarrow> PalworldGame \<Rightarrow> renderError + string" where
  "SettingsHash sha256hex g =
     (case RenderSettings g of
        Inl e \<Rightarrow> Inl e
      | Inr ini \<Rightarrow>
          (let engine = renderEngineINI (gs_EngineSettings (g_Spec g))
           in Inr (Hash sha256hex (ini @ [CHR 0x00] @ engine))))"

section \<open>The order of the entries does not matter\<close>

lemma engineSections_eq:
  "engineSections engine s =
     (let ls = map (snd \<circ> engineEntry) (filter (\<lambda>e. fst (engineEntry e) = s) engine)
      in if ls = [] then None else Some ls)"
proof (induction engine rule: rev_induct)
  case Nil
  show ?case by (simp add: engineSections_def)
next
  case (snoc e engine)
  obtain sec l where e: "engineEntry e = (sec, l)" by (cases "engineEntry e")
  have "engineSections (engine @ [e]) =
      (engineSections engine)(sec \<mapsto> (case engineSections engine sec of None \<Rightarrow> [] | Some ls \<Rightarrow> ls) @ [l])"
    by (simp add: engineSections_def addLine_def e)
  with snoc e show ?case by (auto simp: Let_def split: option.splits if_splits)
qed

lemma sectionNames_mset:
  assumes "mset xs = mset ys"
  shows "mset (sectionNames xs) = mset (sectionNames ys)"
proof -
  have "set (sectionNames xs) = set (sectionNames ys)"
    using mset_eq_setD [OF assms] by (simp add: sectionNames_def)
  with set_eq_iff_mset_eq_distinct [of "sectionNames xs" "sectionNames ys"]
  show ?thesis by (simp add: sectionNames_def)
qed

lemma engineSections_sorted:
  assumes "mset xs = mset ys"
  shows "map_option sortStrings (engineSections xs s) = map_option sortStrings (engineSections ys s)"
proof -
  let ?ls = "\<lambda>zs. map (snd \<circ> engineEntry) (filter (\<lambda>e. fst (engineEntry e) = s) zs)"
  have m: "mset (?ls xs) = mset (?ls ys)"
    by (simp add: assms)
  then have "sortStrings (?ls xs) = sortStrings (?ls ys)" by (rule sortStrings_mset_eq)
  moreover have "?ls xs = [] \<longleftrightarrow> ?ls ys = []"
    using m by (metis mset_zero_iff)
  ultimately show ?thesis by (simp add: engineSections_eq Let_def)
qed

lemma writeSection_sorted:
  "writeSection s (case m of None \<Rightarrow> [] | Some ls \<Rightarrow> ls) =
     ''['' @ s @ '']'' @ [CHR 0x0A]
       @ concat (map (\<lambda>l. l @ [CHR 0x0A])
           (case map_option sortStrings m of None \<Rightarrow> [] | Some ls \<Rightarrow> ls)) @ [CHR 0x0A]"
  by (cases m) (simp_all add: writeSection_def sortStrings_def)

lemma renderEngineINI_perm:
  assumes "mset xs = mset ys"
  shows "renderEngineINI xs = renderEngineINI ys"
proof -
  have "sortStrings (sectionNames xs) = sortStrings (sectionNames ys)"
    by (rule sortStrings_mset_eq) (rule sectionNames_mset [OF assms])
  moreover have "xs = [] \<longleftrightarrow> ys = []" using assms by auto
  ultimately show ?thesis
    unfolding renderEngineINI_def Let_def writeSection_sorted
    by (simp add: engineSections_sorted [OF assms])
qed

end
