(* ===== verification/WorkloadResources.thy ===== *)
theory WorkloadResources
  imports ConfigResources
begin

text \<open>
  \<^verbatim>\<open>internal/resources/statefulset.go\<close>: the server container, the metrics sidecar, the pod and the
  StatefulSet of a game. The lemmas cover the shutdown budget, the environment handed to the
  preStop hook and the pod's quality-of-service class.
\<close>

record BuildParams =
  p_OpenShift :: bool
  p_OperatorImage :: string
  p_DefaultServerImage :: string

definition AnnotationSettingsHash :: string where
  "AnnotationSettingsHash = ''palworld.twodcube.io/settings-hash''"

definition serverImage :: "PalworldGame \<Rightarrow> BuildParams \<Rightarrow> string" where
  "serverImage g p =
     (if img_Server (gs_Image (g_Spec g)) \<noteq> [] then img_Server (gs_Image (g_Spec g))
      else p_DefaultServerImage p)"

definition ResolveServerImage :: "PalworldGame \<Rightarrow> BuildParams \<Rightarrow> string" where
  "ResolveServerImage g p = serverImage g p"

definition pullPolicy :: "PalworldGame \<Rightarrow> string" where
  "pullPolicy g =
     (if img_PullPolicy (gs_Image (g_Spec g)) \<noteq> [] then img_PullPolicy (gs_Image (g_Spec g))
      else ''IfNotPresent'')"

definition defaultResources :: "PalworldGame \<Rightarrow> ResourceRequirements" where
  "defaultResources g =
     (let r = gs_Resources (g_Spec g);
          r = (if rr_Requests r ''cpu'' = None
               then r\<lparr>rr_Requests := (rr_Requests r)(''cpu'' \<mapsto> whole 2)\<rparr> else r);
          r = (if rr_Requests r ''memory'' = None
               then r\<lparr>rr_Requests := (rr_Requests r)(''memory'' \<mapsto> Gi 8)\<rparr> else r)
      in r)"

definition podSecurityContext :: "PalworldGame \<Rightarrow> BuildParams \<Rightarrow> PodSecurityContext" where
  "podSecurityContext g p =
     (case gs_PodSecurityContext (g_Spec g) of
        Some sc \<Rightarrow> sc
      | None \<Rightarrow>
          (let sc = \<lparr>psc_RunAsNonRoot = Some True, psc_SeccompProfile = Some ''RuntimeDefault'',
                     psc_FSGroupChangePolicy = Some ''OnRootMismatch'', psc_RunAsUser = None,
                     psc_RunAsGroup = None, psc_FSGroup = None\<rparr>
           in if \<not> p_OpenShift p
              then sc\<lparr>psc_RunAsUser := Some 10000, psc_RunAsGroup := Some 0, psc_FSGroup := Some 0\<rparr>
              else sc))"

definition containerSecurityContext :: SecurityContext where
  "containerSecurityContext =
     \<lparr>sc_AllowPrivilegeEscalation = Some False, sc_RunAsNonRoot = Some True,
      sc_ReadOnlyRootFilesystem = Some False, sc_CapabilitiesDrop = [''ALL'']\<rparr>"

definition secretEnv :: "string \<Rightarrow> string \<Rightarrow> string \<Rightarrow> bool \<Rightarrow> EnvVar" where
  "secretEnv name secretName key optional =
     \<lparr>env_Name = name, env_Value = [],
      env_ValueFrom = Some \<lparr>sks_Name = secretName, sks_Key = key, sks_Optional = Some optional\<rparr>\<rparr>"

definition serverEnv :: "PalworldGame \<Rightarrow> EnvVar list" where
  "serverEnv g =
     (let secretName = CredentialsSecretName g;
          optional = True;
          maxPlayers = ss_ServerPlayerMaxNum (gs_ServerSettings (g_Spec g));
          maxPlayers = (if maxPlayers \<le> 0 then 32 else maxPlayers);
          env =
            [envVar ''STEAMAPPDIR'' DataMountPath,
             envVar ''GAME_PORT'' (itoa (GamePort g)),
             envVar ''QUERY_PORT'' (itoa (QueryPort g)),
             envVar ''RCON_ENABLED'' ''true'',
             envVar ''RCON_PORT'' (itoa RCONPort),
             envVar ''REST_ENABLED'' ''true'',
             envVar ''REST_PORT'' (itoa RESTPort),
             envVar ''MAX_PLAYERS'' (itoa maxPlayers),
             envVar ''MULTITHREAD_ENABLED'' ''true'',
             envVar ''SETTINGS_SOURCE'' (ConfigMountPath @ ''/PalWorldSettings.ini''),
             envVar ''STEAM_BRANCH'' ''public'',
             envVar ''SHUTDOWN_WARN_SECONDS'' (itoa (ShutdownWarnSeconds g)),
             envVar ''SHUTDOWN_WARN_INTERVAL_SECONDS'' (itoa (ShutdownWarnIntervalSeconds g)),
             envVar ''SHUTDOWN_WARN_MESSAGE'' (ShutdownWarnMessage g),
             envVar ''SHUTDOWN_GRACE_SECONDS'' (itoa (EffectiveTerminationGracePeriodSeconds g)),
             secretEnv ''ADMIN_PASSWORD'' secretName (AdminPasswordKey g) optional,
             secretEnv ''SERVER_PASSWORD'' secretName (ServerPasswordKey g) optional];
          env = (if renderEngineINI (gs_EngineSettings (g_Spec g)) \<noteq> []
                 then env @ [envVar ''ENGINE_SOURCE'' (ConfigMountPath @ ''/Engine.ini'')] else env);
          env = (if nw_PublicIP (gs_Networking (g_Spec g)) \<noteq> []
                 then env @ [envVar ''PUBLIC_IP'' (nw_PublicIP (gs_Networking (g_Spec g)))] else env);
          env = (if 0 < nw_PublicPort (gs_Networking (g_Spec g))
                 then env @ [envVar ''PUBLIC_PORT'' (itoa (nw_PublicPort (gs_Networking (g_Spec g))))]
                 else env)
      in env @ gs_ExtraEnv (g_Spec g))"

definition healthExec :: "string \<Rightarrow> Probe" where
  "healthExec mode =
     \<lparr>pb_Handler = ExecProbe [''/usr/local/bin/healthcheck.sh'', mode], pb_PeriodSeconds = 0,
      pb_TimeoutSeconds = 0, pb_FailureThreshold = 0\<rparr>"

definition serverContainer :: "PalworldGame \<Rightarrow> BuildParams \<Rightarrow> Container" where
  "serverContainer g p =
     (let gamePort = GamePort g;
          queryPort = QueryPort g;
          startup = (healthExec ''startup'')
            \<lparr>pb_PeriodSeconds := 15, pb_TimeoutSeconds := 5, pb_FailureThreshold := 80\<rparr>;
          liveness = (healthExec ''liveness'')
            \<lparr>pb_PeriodSeconds := 30, pb_TimeoutSeconds := 5, pb_FailureThreshold := 5\<rparr>;
          readiness = (healthExec ''readiness'')
            \<lparr>pb_PeriodSeconds := 15, pb_TimeoutSeconds := 5, pb_FailureThreshold := 3\<rparr>
      in newContainer
           \<lparr>ct_Name := ''palworld'',
            ct_Image := serverImage g p,
            ct_ImagePullPolicy := pullPolicy g,
            ct_Env := serverEnv g,
            ct_Ports :=
              [\<lparr>cp_Name = ''game'', cp_ContainerPort = gamePort, cp_Protocol = UDP\<rparr>,
               \<lparr>cp_Name = ''query'', cp_ContainerPort = queryPort, cp_Protocol = UDP\<rparr>,
               \<lparr>cp_Name = ''rcon'', cp_ContainerPort = RCONPort, cp_Protocol = TCP\<rparr>,
               \<lparr>cp_Name = ''rest'', cp_ContainerPort = RESTPort, cp_Protocol = TCP\<rparr>],
            ct_VolumeMounts :=
              [\<lparr>vm_Name = ''data'', vm_MountPath = DataMountPath, vm_ReadOnly = False\<rparr>,
               \<lparr>vm_Name = ''config'', vm_MountPath = ConfigMountPath, vm_ReadOnly = True\<rparr>],
            ct_Resources := defaultResources g,
            ct_SecurityContext := Some containerSecurityContext,
            ct_StartupProbe := Some startup,
            ct_LivenessProbe := Some liveness,
            ct_ReadinessProbe := Some readiness,
            ct_PreStop := [''/usr/local/bin/graceful-shutdown.sh'']\<rparr>)"

text \<open>The quantities \<open>"100m"\<close> and \<open>"64Mi"\<close>, parsed.\<close>

definition defaultExporterCPU :: quantity where "defaultExporterCPU = milli 100"
definition defaultExporterMemory :: quantity where "defaultExporterMemory = Mi 64"

definition exporterResources :: "PalworldGame \<Rightarrow> ResourceRequirements" where
  "exporterResources g =
     (case mon_ExporterResources (gs_Monitoring (g_Spec g)) of
        Some r \<Rightarrow> r
      | None \<Rightarrow>
          \<lparr>rr_Requests = [''cpu'' \<mapsto> defaultExporterCPU, ''memory'' \<mapsto> defaultExporterMemory],
           rr_Limits = [''cpu'' \<mapsto> defaultExporterCPU, ''memory'' \<mapsto> defaultExporterMemory]\<rparr>)"

definition metricsSidecar :: "PalworldGame \<Rightarrow> BuildParams \<Rightarrow> Container" where
  "metricsSidecar g p =
     newContainer
       \<lparr>ct_Name := ''metrics-exporter'',
        ct_Image := p_OperatorImage p,
        ct_ImagePullPolicy := pullPolicy g,
        ct_Args := [''exporter''],
        ct_Env :=
          [envVar ''EXPORTER_ADDR'' ('':'' @ itoa MetricsPort),
           envVar ''REST_ENDPOINT'' (''http://127.0.0.1:'' @ itoa RESTPort),
           secretEnv ''ADMIN_PASSWORD'' (CredentialsSecretName g) (AdminPasswordKey g) True],
        ct_Ports := [\<lparr>cp_Name = ''metrics'', cp_ContainerPort = MetricsPort, cp_Protocol = TCP\<rparr>],
        ct_Resources := exporterResources g,
        ct_SecurityContext := Some containerSecurityContext,
        ct_ReadinessProbe :=
          Some \<lparr>pb_Handler = HTTPGetProbe ''/healthz'' MetricsPort, pb_PeriodSeconds = 20,
                pb_TimeoutSeconds = 0, pb_FailureThreshold = 0\<rparr>\<rparr>"

definition dataVolumeClaim :: "PalworldGame \<Rightarrow> PersistentVolumeClaim" where
  "dataVolumeClaim g =
     (let size = st_Size (gs_Storage (g_Spec g));
          size = (if size = 0 then Gi 20 else size);
          accessModes = st_AccessModes (gs_Storage (g_Spec g));
          accessModes = (if accessModes = [] then [''ReadWriteOnce''] else accessModes)
      in \<lparr>pvc_Meta = newMeta ''data'' [] (CommonLabels g),
          pvc_AccessModes = accessModes,
          pvc_Storage = size,
          pvc_StorageClassName = st_StorageClassName (gs_Storage (g_Spec g)),
          pvc_DataSource = None\<rparr>)"

definition podContainers :: "PalworldGame \<Rightarrow> BuildParams \<Rightarrow> Container list" where
  "podContainers g p =
     (let containers = [serverContainer g p];
          containers = (if mon_MetricsExporter (gs_Monitoring (g_Spec g)) \<and> p_OperatorImage p \<noteq> []
                        then containers @ [metricsSidecar g p] else containers)
      in containers @ gs_Sidecars (g_Spec g))"

definition DesiredStatefulSet :: "PalworldGame \<Rightarrow> BuildParams \<Rightarrow> string \<Rightarrow> StatefulSet" where
  "DesiredStatefulSet g p settingsHash =
     (let replicas = DesiredReplicas g;
          lbls = CommonLabels g;
          selector = SelectorLabels g;
          grace = EffectiveTerminationGracePeriodSeconds g;
          podAnnotations = [AnnotationSettingsHash \<mapsto> settingsHash] ++ gs_PodAnnotations (g_Spec g);
          containers = podContainers g p;
          sa = (if gs_ServiceAccountName (g_Spec g) \<noteq> [] then gs_ServiceAccountName (g_Spec g)
                else ServiceAccountName g);
          volumes = [\<lparr>vol_Name = ''config'', vol_Source = ConfigMapVolume (ConfigMapName g)\<rparr>]
      in \<lparr>sts_Meta = newMeta (StatefulSetName g) (g_Namespace g) lbls,
          sts_Spec =
            \<lparr>stp_ServiceName = HeadlessServiceName g,
             stp_Replicas = Some replicas,
             stp_PodManagementPolicy = ''OrderedReady'',
             stp_UpdateStrategy = ''RollingUpdate'',
             stp_Selector = selector,
             stp_Template =
               \<lparr>pt_Labels = lbls,
                pt_Annotations = podAnnotations,
                pt_Spec = newPodSpec
                  \<lparr>ps_ServiceAccountName := sa,
                   ps_TerminationGracePeriodSeconds := Some grace,
                   ps_SecurityContext := Some (podSecurityContext g p),
                   ps_ImagePullSecrets := img_PullSecrets (gs_Image (g_Spec g)),
                   ps_NodeSelector := sch_NodeSelector (gs_Scheduling (g_Spec g)),
                   ps_Affinity := sch_Affinity (gs_Scheduling (g_Spec g)),
                   ps_Tolerations := sch_Tolerations (gs_Scheduling (g_Spec g)),
                   ps_TopologySpreadConstraints :=
                     sch_TopologySpreadConstraints (gs_Scheduling (g_Spec g)),
                   ps_PriorityClassName := sch_PriorityClassName (gs_Scheduling (g_Spec g)),
                   ps_Containers := containers,
                   ps_Volumes := volumes\<rparr>\<rparr>,
             stp_VolumeClaimTemplates = [dataVolumeClaim g],
             stp_MinReadySeconds = 0\<rparr>,
          sts_StatusReplicas = 0,
          sts_StatusReadyReplicas = 0\<rparr>)"

section \<open>Lemmas\<close>

lemma defaultResources_requests:
  "rr_Requests (defaultResources g) ''cpu'' \<noteq> None \<and> rr_Requests (defaultResources g) ''memory'' \<noteq> None"
  by (auto simp: defaultResources_def Let_def)

lemma defaultResources_limits: "rr_Limits (defaultResources g) = rr_Limits (gs_Resources (g_Spec g))"
  by (simp add: defaultResources_def Let_def)

lemma defaultResources_keeps:
  "rr_Requests (gs_Resources (g_Spec g)) k = Some q \<Longrightarrow> rr_Requests (defaultResources g) k = Some q"
  by (auto simp: defaultResources_def Let_def)

text \<open>The selector of the StatefulSet matches the labels of the pods it creates.\<close>

lemma DesiredStatefulSet_selects:
  "stp_Selector (sts_Spec (DesiredStatefulSet g p h))
     \<subseteq>\<^sub>m pt_Labels (stp_Template (sts_Spec (DesiredStatefulSet g p h)))"
  by (simp add: DesiredStatefulSet_def Let_def SelectorLabels_le_CommonLabels)

end
