(* ===== verification/BackupResources.thy ===== *)
theory BackupResources
  imports WorkloadResources
begin

text \<open>
  \<^verbatim>\<open>internal/resources/backup.go\<close>: the VolumeSnapshot of a backup, the volume cloned from it, and
  the worker Jobs that export or restore an archive. \<open>archiveOf\<close> reads off a Job's command and
  environment which archive it touches, so that the key a backup writes can be compared with the
  key a restore reads.
\<close>

definition VolumeSnapshotGVK :: GroupVersionKind where
  "VolumeSnapshotGVK =
     \<lparr>gvk_Group = ''snapshot.storage.k8s.io'', gvk_Version = ''v1'', gvk_Kind = ''VolumeSnapshot''\<rparr>"

definition SnapshotName :: "PalworldBackup \<Rightarrow> string" where
  "SnapshotName b = b_Name b"

definition RestorePVCName :: "string \<Rightarrow> string" where
  "RestorePVCName name = name @ ''-src''"

definition BackupJobName :: "string \<Rightarrow> string" where
  "BackupJobName name = name @ ''-upload''"

definition RestoreJobName :: "string \<Rightarrow> string" where
  "RestoreJobName name = name @ ''-restore''"

definition DesiredVolumeSnapshot :: "PalworldGame \<Rightarrow> PalworldBackup \<Rightarrow> Unstructured" where
  "DesiredVolumeSnapshot g b =
     (let spec = [(''source'', JObj [(''persistentVolumeClaimName'', JStr (DataPVCName g))])];
          spec = (case st_VolumeSnapshotClassName (gs_Storage (g_Spec g)) of
                    None \<Rightarrow> spec
                  | Some c \<Rightarrow> if c \<noteq> [] then spec @ [(''volumeSnapshotClassName'', JStr c)] else spec)
      in \<lparr>un_GVK = VolumeSnapshotGVK,
          un_Meta = newMeta (SnapshotName b) (b_Namespace b) (CommonLabels g),
          un_Spec = JObj spec, un_Status = JNull\<rparr>)"

text \<open>
  \<open>resource.ParseQuantity\<close> followed by \<open>Value\<close> (bytes, rounded up) is an argument; \<open>None\<close> is a
  parse error.
\<close>

definition SnapshotReady :: "(string \<Rightarrow> int64 option) \<Rightarrow> Unstructured \<Rightarrow> bool \<times> int64" where
  "SnapshotReady parseQuantity u =
     (let ready = (case jbool (jfield (un_Status u) ''readyToUse'') of None \<Rightarrow> False | Some b \<Rightarrow> b);
          size = (case jstring (jfield (un_Status u) ''restoreSize'') of
                    None \<Rightarrow> 0
                  | Some s \<Rightarrow> (case parseQuantity s of None \<Rightarrow> 0 | Some v \<Rightarrow> v))
      in (ready, size))"

definition DesiredRestorePVCFromSnapshot :: "PalworldGame \<Rightarrow> string \<Rightarrow> string \<Rightarrow> PersistentVolumeClaim" where
  "DesiredRestorePVCFromSnapshot g name snapshotName =
     (let size = st_Size (gs_Storage (g_Spec g));
          size = (if size = 0 then Gi 20 else size)
      in \<lparr>pvc_Meta = newMeta name (g_Namespace g) (CommonLabels g),
          pvc_AccessModes = [''ReadWriteOnce''],
          pvc_Storage = size,
          pvc_StorageClassName = st_StorageClassName (gs_Storage (g_Spec g)),
          pvc_DataSource = Some \<lparr>ds_APIGroup = ''snapshot.storage.k8s.io'', ds_Kind = ''VolumeSnapshot'',
                                 ds_Name = snapshotName\<rparr>\<rparr>)"

definition s3Env :: "S3Destination option \<Rightarrow> string \<Rightarrow> EnvVar list" where
  "s3Env dest key =
     (case dest of
        None \<Rightarrow> []
      | Some d \<Rightarrow>
          (let accessKeyID = (if s3_AccessKeyIDKey d = [] then ''AWS_ACCESS_KEY_ID'' else s3_AccessKeyIDKey d);
               secretKey = (if s3_SecretAccessKeyKey d = [] then ''AWS_SECRET_ACCESS_KEY''
                            else s3_SecretAccessKeyKey d);
               env = [envVar ''S3_BUCKET'' (s3_Bucket d),
                      envVar ''S3_PREFIX'' (s3_Prefix d),
                      envVar ''S3_ENDPOINT'' (s3_Endpoint d),
                      envVar ''S3_REGION'' (s3_Region d),
                      envVar ''S3_KEY'' key];
               env = (if s3_InsecureTLS d then env @ [envVar ''S3_INSECURE_TLS'' ''true''] else env)
           in env @
              [\<lparr>env_Name = ''AWS_ACCESS_KEY_ID'', env_Value = [],
                env_ValueFrom = Some \<lparr>sks_Name = s3_CredentialsSecret d, sks_Key = accessKeyID,
                                      sks_Optional = None\<rparr>\<rparr>,
               \<lparr>env_Name = ''AWS_SECRET_ACCESS_KEY'', env_Value = [],
                env_ValueFrom = Some \<lparr>sks_Name = s3_CredentialsSecret d, sks_Key = secretKey,
                                      sks_Optional = None\<rparr>\<rparr>]))"

record JobSpec =
  js_Name :: string
  js_Image :: string
  js_Command :: "string list"
  js_Env :: "EnvVar list"
  js_SourcePVC :: string
  js_BackupPVC :: string
  js_OpenShift :: bool
  js_ServiceName :: string

definition opsPodSecurityContext :: "bool \<Rightarrow> PodSecurityContext" where
  "opsPodSecurityContext openShift =
     (let sc = \<lparr>psc_RunAsNonRoot = Some True, psc_SeccompProfile = Some ''RuntimeDefault'',
                psc_FSGroupChangePolicy = None, psc_RunAsUser = None, psc_RunAsGroup = None,
                psc_FSGroup = None\<rparr>
      in if \<not> openShift
         then sc\<lparr>psc_RunAsUser := Some 10000, psc_RunAsGroup := Some 0, psc_FSGroup := Some 0\<rparr>
         else sc)"

definition buildWorkerJob :: "PalworldGame \<Rightarrow> JobSpec \<Rightarrow> Job" where
  "buildWorkerJob g js =
     (let mounts = [\<lparr>vm_Name = ''data'', vm_MountPath = DataMountPath, vm_ReadOnly = False\<rparr>];
          volumes = [\<lparr>vol_Name = ''data'', vol_Source = PVCVolume (js_SourcePVC js)\<rparr>];
          mounts = (if js_BackupPVC js \<noteq> []
                    then mounts @ [\<lparr>vm_Name = ''backup'', vm_MountPath = ''/backup'', vm_ReadOnly = False\<rparr>]
                    else mounts);
          volumes = (if js_BackupPVC js \<noteq> []
                     then volumes @ [\<lparr>vol_Name = ''backup'', vol_Source = PVCVolume (js_BackupPVC js)\<rparr>]
                     else volumes);
          sa = (if gs_ServiceAccountName (g_Spec g) \<noteq> [] then gs_ServiceAccountName (g_Spec g)
                else ServiceAccountName g)
      in \<lparr>job_Meta = newMeta (js_Name js) (g_Namespace g) (CommonLabels g),
          job_BackoffLimit = Some 3,
          job_TTLSecondsAfterFinished = Some 3600,
          job_ActiveDeadlineSeconds = Some (3 * 60 * 60),
          job_Template =
            \<lparr>pt_Labels = CommonLabels g,
             pt_Annotations = Map.empty,
             pt_Spec = newPodSpec
               \<lparr>ps_RestartPolicy := ''Never'',
                ps_ServiceAccountName := sa,
                ps_SecurityContext := Some (opsPodSecurityContext (js_OpenShift js)),
                ps_ImagePullSecrets := img_PullSecrets (gs_Image (g_Spec g)),
                ps_Containers :=
                  [newContainer
                     \<lparr>ct_Name := ''worker'',
                      ct_Image := js_Image js,
                      ct_ImagePullPolicy := pullPolicy g,
                      ct_Command := js_Command js,
                      ct_Env := envVar ''STEAMAPPDIR'' DataMountPath # js_Env js,
                      ct_VolumeMounts := mounts,
                      ct_SecurityContext := Some containerSecurityContext,
                      ct_Resources := newResources
                        \<lparr>rr_Requests := [''cpu'' \<mapsto> milli 100, ''memory'' \<mapsto> Mi 128]\<rparr>\<rparr>],
                ps_Volumes := volumes\<rparr>\<rparr>,
          job_Succeeded = 0,
          job_Conditions = []\<rparr>)"

definition newJobSpec :: "string \<Rightarrow> string \<Rightarrow> string \<Rightarrow> bool \<Rightarrow> JobSpec" where
  "newJobSpec name img srcPVC openShift =
     \<lparr>js_Name = name, js_Image = img, js_Command = [], js_Env = [], js_SourcePVC = srcPVC,
      js_BackupPVC = [], js_OpenShift = openShift, js_ServiceName = []\<rparr>"

definition DesiredBackupJob :: "PalworldGame \<Rightarrow> PalworldBackup \<Rightarrow> string \<Rightarrow> string \<Rightarrow> bool \<Rightarrow> Job" where
  "DesiredBackupJob g b img srcPVC openShift =
     (let js = newJobSpec (BackupJobName (b_Name b)) img srcPVC openShift;
          dest = bs_Destination (b_Spec b);
          js = (case bd_Type dest of
                  BackupDestinationS3 \<Rightarrow>
                    (let key = b_Name b @ ''.tar.gz'' in
                     if bd_S3 dest \<noteq> None
                     then js\<lparr>js_Command := [''/usr/local/bin/backup.sh'', ''s3''],
                             js_Env := s3Env (bd_S3 dest) (g_Name g @ ''/'' @ key)\<rparr>
                     else js)
                | BackupDestinationPVC \<Rightarrow>
                    js\<lparr>js_BackupPVC := bd_PVCName dest,
                       js_Command := [''/usr/local/bin/backup.sh'', ''pvc'',
                                      ''/backup/'' @ g_Name g @ ''/'' @ b_Name b @ ''.tar.gz'']\<rparr>
                | _ \<Rightarrow> js)
      in buildWorkerJob g js)"

definition DesiredRestoreJob ::
    "PalworldGame \<Rightarrow> string \<Rightarrow> string \<Rightarrow> string \<Rightarrow> BackupDestination \<Rightarrow> bool \<Rightarrow> Job" where
  "DesiredRestoreJob g name img key dest openShift =
     (let js = newJobSpec (RestoreJobName name) img (DataPVCName g) openShift;
          js = (case bd_Type dest of
                  BackupDestinationS3 \<Rightarrow>
                    js\<lparr>js_Command := [''/usr/local/bin/restore.sh'', ''s3''], js_Env := s3Env (bd_S3 dest) key\<rparr>
                | BackupDestinationPVC \<Rightarrow>
                    js\<lparr>js_BackupPVC := bd_PVCName dest,
                       js_Command := [''/usr/local/bin/restore.sh'', ''pvc'', ''/backup/'' @ key]\<rparr>
                | _ \<Rightarrow> js)
      in buildWorkerJob g js)"

section \<open>The archive a worker Job touches\<close>

text \<open>
  Where the worker script reads or writes: for \<open>s3\<close> the bucket, prefix and key of the environment;
  for \<open>pvc\<close> the claim mounted at \<open>/backup\<close> and the path given on the command line.
\<close>

datatype archive = S3Archive string string string | PVCArchive string string | NoArchive

definition envLookup :: "EnvVar list \<Rightarrow> string \<Rightarrow> string" where
  "envLookup env k = (case find (\<lambda>e. env_Name e = k) env of None \<Rightarrow> [] | Some e \<Rightarrow> env_Value e)"

fun claimOf :: "Volume list \<Rightarrow> string \<Rightarrow> string" where
  "claimOf [] n = []"
| "claimOf (v # vs) n =
     (case vol_Source v of
        PVCVolume c \<Rightarrow> if vol_Name v = n then c else claimOf vs n
      | ConfigMapVolume c \<Rightarrow> claimOf vs n)"

definition archiveOf :: "Job \<Rightarrow> archive" where
  "archiveOf j =
     (let spec = pt_Spec (job_Template j) in
      case ps_Containers spec of
        [] \<Rightarrow> NoArchive
      | c # _ \<Rightarrow>
          (case ct_Command c of
             [_, mode] \<Rightarrow>
               if mode = ''s3''
               then S3Archive (envLookup (ct_Env c) ''S3_BUCKET'') (envLookup (ct_Env c) ''S3_PREFIX'')
                      (envLookup (ct_Env c) ''S3_KEY'')
               else NoArchive
           | [_, mode, path] \<Rightarrow>
               if mode = ''pvc'' then PVCArchive (claimOf (ps_Volumes spec) ''backup'') path else NoArchive
           | _ \<Rightarrow> NoArchive))"

lemma envLookup_s3Env:
  "envLookup (envVar ''STEAMAPPDIR'' DataMountPath # s3Env (Some d) key) ''S3_BUCKET'' = s3_Bucket d"
  "envLookup (envVar ''STEAMAPPDIR'' DataMountPath # s3Env (Some d) key) ''S3_PREFIX'' = s3_Prefix d"
  "envLookup (envVar ''STEAMAPPDIR'' DataMountPath # s3Env (Some d) key) ''S3_KEY'' = key"
  by (simp_all add: envLookup_def s3Env_def Let_def envVar_def)

lemma archiveOf_worker_s3:
  "js_Command js = [sh, ''s3''] \<Longrightarrow> js_Env js = s3Env (Some d) key
     \<Longrightarrow> archiveOf (buildWorkerJob g js) = S3Archive (s3_Bucket d) (s3_Prefix d) key"
  by (simp add: archiveOf_def buildWorkerJob_def Let_def newContainer_def newPodSpec_def envLookup_s3Env)

lemma archiveOf_worker_pvc:
  "js_Command js = [sh, ''pvc'', path] \<Longrightarrow> js_BackupPVC js \<noteq> []
     \<Longrightarrow> archiveOf (buildWorkerJob g js) = PVCArchive (js_BackupPVC js) path"
  by (simp add: archiveOf_def buildWorkerJob_def Let_def newContainer_def newPodSpec_def)

lemmas archive_simps = archiveOf_worker_s3 archiveOf_worker_pvc

lemma archiveOf_backup_s3:
  assumes "bd_Type (bs_Destination (b_Spec b)) = BackupDestinationS3"
    and "bd_S3 (bs_Destination (b_Spec b)) = Some d"
  shows "archiveOf (DesiredBackupJob g b img src os) =
    S3Archive (s3_Bucket d) (s3_Prefix d) (g_Name g @ ''/'' @ b_Name b @ ''.tar.gz'')"
  using assms by (simp add: DesiredBackupJob_def Let_def archiveOf_worker_s3)

lemma archiveOf_backup_pvc:
  assumes "bd_Type (bs_Destination (b_Spec b)) = BackupDestinationPVC"
    and "bd_PVCName (bs_Destination (b_Spec b)) \<noteq> []"
  shows "archiveOf (DesiredBackupJob g b img src os) =
    PVCArchive (bd_PVCName (bs_Destination (b_Spec b)))
      (''/backup/'' @ g_Name g @ ''/'' @ b_Name b @ ''.tar.gz'')"
  using assms by (simp add: DesiredBackupJob_def Let_def archiveOf_worker_pvc)

lemma archiveOf_restore_s3:
  assumes "bd_Type dest = BackupDestinationS3" and "bd_S3 dest = Some d"
  shows "archiveOf (DesiredRestoreJob g name img key dest os) = S3Archive (s3_Bucket d) (s3_Prefix d) key"
  using assms by (simp add: DesiredRestoreJob_def Let_def archiveOf_worker_s3)

lemma archiveOf_restore_pvc:
  assumes "bd_Type dest = BackupDestinationPVC" and "bd_PVCName dest \<noteq> []"
  shows "archiveOf (DesiredRestoreJob g name img key dest os) =
    PVCArchive (bd_PVCName dest) (''/backup/'' @ key)"
  using assms by (simp add: DesiredRestoreJob_def Let_def archiveOf_worker_pvc)

end
