(* ===== verification/NetworkResources.thy ===== *)
theory NetworkResources
  imports ResourceMeta
begin

text \<open>
  \<^verbatim>\<open>internal/resources/service.go\<close>, \<open>misc.go\<close>, \<open>route.go\<close> and \<open>servicemonitor.go\<close>: the objects that
  expose and guard the server. \<open>allowsIngress\<close> gives a NetworkPolicy its documented meaning, and the
  lemmas say who can reach the admin ports.
\<close>

section \<open>\<open>service.go\<close>\<close>

definition svcPort :: "string \<Rightarrow> int32 \<Rightarrow> Protocol \<Rightarrow> ServicePort" where
  "svcPort n port proto =
     \<lparr>sp_Name = n, sp_Port = port, sp_TargetPort = n, sp_Protocol = proto, sp_NodePort = 0\<rparr>"

definition newService :: "ObjectMeta \<Rightarrow> ServiceSpec \<Rightarrow> Service" where
  "newService m s = \<lparr>svc_Meta = m, svc_Spec = s, svc_Ingress = []\<rparr>"

definition gamePorts :: "PalworldGame \<Rightarrow> ServicePort list" where
  "gamePorts g = [svcPort ''game'' (GamePort g) UDP, svcPort ''query'' (QueryPort g) UDP]"

definition DesiredHeadlessService :: "PalworldGame \<Rightarrow> Service" where
  "DesiredHeadlessService g =
     newService (newMeta (HeadlessServiceName g) (g_Namespace g) (CommonLabels g))
       (newServiceSpec
          \<lparr>ssp_ClusterIP := ''None'',
           ssp_Selector := SelectorLabels g,
           ssp_PublishNotReadyAddresses := True,
           ssp_Ports := [svcPort ''game'' (GamePort g) UDP, svcPort ''query'' (QueryPort g) UDP,
                         svcPort ''rcon'' RCONPort TCP, svcPort ''rest'' RESTPort TCP]\<rparr>)"

definition externalTrafficPolicy :: "string \<Rightarrow> string" where
  "externalTrafficPolicy t = (if t = ''LoadBalancer'' \<or> t = ''NodePort'' then ''Local'' else [])"

definition DesiredGameService :: "PalworldGame \<Rightarrow> Service" where
  "DesiredGameService g =
     (let nw = gs_Networking (g_Spec g);
          svcType = (case nw_ServiceType nw of
                       ServiceTypeNodePort \<Rightarrow> ''NodePort''
                     | ServiceTypeLoadBalancer \<Rightarrow> ''LoadBalancer''
                     | _ \<Rightarrow> ''ClusterIP'');
          ports = gamePorts g;
          ports = (if svcType = ''NodePort'' \<and> 0 < nw_NodePort nw
                   then ports[0 := (ports ! 0)\<lparr>sp_NodePort := nw_NodePort nw\<rparr>] else ports);
          svc = newService
            ((newMeta (GameServiceName g) (g_Namespace g) (CommonLabels g))
               \<lparr>m_Annotations := nw_ServiceAnnotations nw\<rparr>)
            (newServiceSpec
               \<lparr>ssp_Type := svcType,
                ssp_Selector := SelectorLabels g,
                ssp_Ports := ports,
                ssp_ExternalTrafficPolicy := externalTrafficPolicy svcType,
                ssp_PublishNotReadyAddresses := True\<rparr>)
      in if svcType = ''LoadBalancer''
         then (let spec = svc_Spec svc;
                   spec = (if nw_LoadBalancerIP nw \<noteq> []
                           then spec\<lparr>ssp_LoadBalancerIP := nw_LoadBalancerIP nw\<rparr> else spec)
               in svc\<lparr>svc_Spec := spec\<lparr>ssp_LoadBalancerClass := nw_LoadBalancerClass nw\<rparr>\<rparr>)
         else svc)"

definition DesiredAdminService :: "PalworldGame \<Rightarrow> Service" where
  "DesiredAdminService g =
     newService (newMeta (AdminServiceName g) (g_Namespace g) (CommonLabels g))
       (newServiceSpec
          \<lparr>ssp_Type := ''ClusterIP'',
           ssp_Selector := SelectorLabels g,
           ssp_PublishNotReadyAddresses := True,
           ssp_Ports := [svcPort ''rcon'' RCONPort TCP, svcPort ''rest'' RESTPort TCP]\<rparr>)"

definition DesiredMetricsService :: "PalworldGame \<Rightarrow> Service" where
  "DesiredMetricsService g =
     (let lbls = (CommonLabels g)(labelComponent \<mapsto> ''metrics'')
      in newService (newMeta (MetricsServiceName g) (g_Namespace g) lbls)
           (newServiceSpec
              \<lparr>ssp_Type := ''ClusterIP'',
               ssp_Selector := SelectorLabels g,
               ssp_Ports := [svcPort ''metrics'' MetricsPort TCP]\<rparr>))"

section \<open>\<open>misc.go\<close>\<close>

definition DesiredServiceAccount :: "PalworldGame \<Rightarrow> ServiceAccount" where
  "DesiredServiceAccount g =
     \<lparr>sa_Meta = newMeta (ServiceAccountName g) (g_Namespace g) (CommonLabels g)\<rparr>"

definition DesiredPodDisruptionBudget :: "PalworldGame \<Rightarrow> PodDisruptionBudget" where
  "DesiredPodDisruptionBudget g =
     (let minAvailable =
            (case gs_PodDisruptionBudget (g_Spec g) of
               None \<Rightarrow> 1
             | Some pd \<Rightarrow> (case pd_MinAvailable pd of None \<Rightarrow> 1 | Some n \<Rightarrow> n))
      in \<lparr>pdb_Meta = newMeta (PDBName g) (g_Namespace g) (CommonLabels g),
          pdb_MinAvailable = Some minAvailable,
          pdb_Selector = SelectorLabels g\<rparr>)"

definition IngressRouterNamespaceLabel :: string where
  "IngressRouterNamespaceLabel = ''policy-group.network.openshift.io/ingress''"

definition DesiredNetworkPolicy :: "PalworldGame \<Rightarrow> string \<Rightarrow> NetworkPolicy" where
  "DesiredNetworkPolicy g operatorNamespace =
     (let adminFrom =
            [\<lparr>peer_PodSelector = Some Map.empty, peer_NamespaceSelector = None\<rparr>,
             \<lparr>peer_PodSelector = None,
              peer_NamespaceSelector = Some [''kubernetes.io/metadata.name'' \<mapsto> operatorNamespace]\<rparr>];
          restFrom =
            (if rx_Route (nw_RESTAPI (gs_Networking (g_Spec g)))
             then adminFrom @
               [\<lparr>peer_PodSelector = None,
                 peer_NamespaceSelector = Some [IngressRouterNamespaceLabel \<mapsto> []]\<rparr>]
             else adminFrom)
      in \<lparr>np_Meta = newMeta (NetworkPolicyName g) (g_Namespace g) (CommonLabels g),
          np_PodSelector = SelectorLabels g,
          np_PolicyTypes = [''Ingress''],
          np_Ingress =
            [\<lparr>rule_From = [],
              rule_Ports = [\<lparr>npp_Protocol = UDP, npp_Port = GamePort g\<rparr>,
                            \<lparr>npp_Protocol = UDP, npp_Port = QueryPort g\<rparr>]\<rparr>,
             \<lparr>rule_From = adminFrom,
              rule_Ports = [\<lparr>npp_Protocol = TCP, npp_Port = RCONPort\<rparr>]\<rparr>,
             \<lparr>rule_From = restFrom,
              rule_Ports = [\<lparr>npp_Protocol = TCP, npp_Port = RESTPort\<rparr>]\<rparr>,
             \<lparr>rule_From = [],
              rule_Ports = [\<lparr>npp_Protocol = TCP, npp_Port = MetricsPort\<rparr>]\<rparr>]\<rparr>)"

section \<open>\<open>route.go\<close> and \<open>servicemonitor.go\<close>\<close>

definition RouteGVK :: GroupVersionKind where
  "RouteGVK = \<lparr>gvk_Group = ''route.openshift.io'', gvk_Version = ''v1'', gvk_Kind = ''Route''\<rparr>"

definition ServiceMonitorGVK :: GroupVersionKind where
  "ServiceMonitorGVK =
     \<lparr>gvk_Group = ''monitoring.coreos.com'', gvk_Version = ''v1'', gvk_Kind = ''ServiceMonitor''\<rparr>"

definition DesiredRoute :: "PalworldGame \<Rightarrow> Unstructured" where
  "DesiredRoute g =
     (let tls = JObj [(''insecureEdgeTerminationPolicy'', JStr ''Redirect''),
                      (''termination'', JStr ''edge'')];
          host = rx_Host (nw_RESTAPI (gs_Networking (g_Spec g)));
          spec = JObj ((if host \<noteq> [] then [(''host'', JStr host)] else [])
                   @ [(''port'', JObj [(''targetPort'', JStr ''rest'')]),
                      (''tls'', tls),
                      (''to'', JObj [(''kind'', JStr ''Service''),
                                     (''name'', JStr (AdminServiceName g)),
                                     (''weight'', JNum 100)])])
      in \<lparr>un_GVK = RouteGVK,
          un_Meta = newMeta (RouteName g) (g_Namespace g) (CommonLabels g),
          un_Spec = spec, un_Status = JNull\<rparr>)"

definition DesiredServiceMonitor :: "PalworldGame \<Rightarrow> Unstructured" where
  "DesiredServiceMonitor g =
     (let selector = JObj [(labelComponent, JStr ''metrics''), (labelInstance, JStr (g_Name g))]
      in \<lparr>un_GVK = ServiceMonitorGVK,
          un_Meta = newMeta (g_Name g) (g_Namespace g) (CommonLabels g),
          un_Spec =
            JObj [(''endpoints'', JArr [JObj [(''interval'', JStr ''30s''),
                                             (''path'', JStr ''/metrics''),
                                             (''port'', JStr ''metrics'')]]),
                  (''selector'', JObj [(''matchLabels'', selector)])],
          un_Status = JNull\<rparr>)"

section \<open>What a NetworkPolicy admits\<close>

text \<open>
  A source of traffic: the namespace it is in, that namespace's labels and the pod's labels. The
  documented meaning of an ingress rule: no \<open>from\<close> admits every source; a peer with only a pod
  selector is limited to the policy's own namespace; a namespace selector picks the namespaces.
\<close>

record source =
  src_Namespace :: string
  src_NamespaceLabels :: labels
  src_PodLabels :: labels

definition peerMatches :: "string \<Rightarrow> NetworkPolicyPeer \<Rightarrow> source \<Rightarrow> bool" where
  "peerMatches ns peer s \<longleftrightarrow>
     (case peer_NamespaceSelector peer of
        None \<Rightarrow> src_Namespace s = ns
      | Some sel \<Rightarrow> sel \<subseteq>\<^sub>m src_NamespaceLabels s) \<and>
     (case peer_PodSelector peer of None \<Rightarrow> True | Some sel \<Rightarrow> sel \<subseteq>\<^sub>m src_PodLabels s)"

definition allowsIngress :: "NetworkPolicy \<Rightarrow> source \<Rightarrow> Protocol \<Rightarrow> int32 \<Rightarrow> bool" where
  "allowsIngress np s proto port \<longleftrightarrow>
     (\<exists>rule \<in> set (np_Ingress np).
        \<lparr>npp_Protocol = proto, npp_Port = port\<rparr> \<in> set (rule_Ports rule) \<and>
        (rule_From rule = [] \<or> (\<exists>peer \<in> set (rule_From rule). peerMatches (m_Namespace (np_Meta np)) peer s)))"

lemma map_le_single: "[k \<mapsto> v] \<subseteq>\<^sub>m m \<longleftrightarrow> m k = Some v"
  by (auto simp: map_le_def split: if_splits)

lemma peerMatches_pod:
  "peerMatches ns \<lparr>peer_PodSelector = Some Map.empty, peer_NamespaceSelector = None\<rparr> s
     \<longleftrightarrow> src_Namespace s = ns"
  by (simp add: peerMatches_def)

lemma peerMatches_namespace:
  "peerMatches ns \<lparr>peer_PodSelector = None, peer_NamespaceSelector = Some [k \<mapsto> v]\<rparr> s
     \<longleftrightarrow> src_NamespaceLabels s k = Some v"
  by (simp add: peerMatches_def map_le_single)

lemmas peer_simps = peerMatches_pod peerMatches_namespace

lemma allowsIngress_RCON:
  "allowsIngress (DesiredNetworkPolicy g opns) s TCP RCONPort \<longleftrightarrow>
     src_Namespace s = g_Namespace g \<or>
     src_NamespaceLabels s ''kubernetes.io/metadata.name'' = Some opns"
  by (simp add: allowsIngress_def DesiredNetworkPolicy_def Let_def peer_simps newMeta_def port_defs)

lemma allowsIngress_REST:
  "allowsIngress (DesiredNetworkPolicy g opns) s TCP RESTPort \<longleftrightarrow>
     src_Namespace s = g_Namespace g \<or>
     src_NamespaceLabels s ''kubernetes.io/metadata.name'' = Some opns \<or>
     (rx_Route (nw_RESTAPI (gs_Networking (g_Spec g))) \<and>
      src_NamespaceLabels s IngressRouterNamespaceLabel = Some [])"
  by (auto simp: allowsIngress_def DesiredNetworkPolicy_def Let_def peer_simps newMeta_def port_defs)

lemma allowsIngress_game:
  "allowsIngress (DesiredNetworkPolicy g opns) s UDP (GamePort g)"
  "allowsIngress (DesiredNetworkPolicy g opns) s UDP (QueryPort g)"
  by (simp_all add: allowsIngress_def DesiredNetworkPolicy_def Let_def)

lemma allowsIngress_other:
  assumes "allowsIngress (DesiredNetworkPolicy g opns) s proto port"
  shows "(proto = UDP \<and> port \<in> {GamePort g, QueryPort g}) \<or>
    (proto = TCP \<and> port \<in> {RCONPort, RESTPort, MetricsPort})"
  using assms by (auto simp: allowsIngress_def DesiredNetworkPolicy_def Let_def)

section \<open>Properties\<close>

text \<open>
  C34: the NetworkPolicy of a game admits exactly: the game and query ports over UDP from anywhere,
  the metrics port over TCP from anywhere, RCON only from the game's own namespace and the operator's,
  and REST from these two and, if the route is enabled, from the namespaces of the ingress router.
  Nothing else reaches the pods.
\<close>

theorem network_policy_admits:
  "allowsIngress (DesiredNetworkPolicy g operatorNamespace) s proto port \<longleftrightarrow>
     proto = UDP \<and> (port = GamePort g \<or> port = QueryPort g)
     \<or> proto = TCP \<and> port = RCONPort \<and>
         (src_Namespace s = g_Namespace g \<or> src_NamespaceLabels s ''kubernetes.io/metadata.name'' = Some operatorNamespace)
     \<or> proto = TCP \<and> port = RESTPort \<and>
         (src_Namespace s = g_Namespace g \<or> src_NamespaceLabels s ''kubernetes.io/metadata.name'' = Some operatorNamespace
          \<or> rx_Route (nw_RESTAPI (gs_Networking (g_Spec g))) \<and> src_NamespaceLabels s IngressRouterNamespaceLabel = Some [])
     \<or> proto = TCP \<and> port = MetricsPort"
  by (cases proto) (auto simp: allowsIngress_def DesiredNetworkPolicy_def Let_def peer_simps newMeta_def)

end
