(* ===== verification/Cluster.thy ===== *)
theory Cluster
  imports Effects BackupResources NetworkResources WorkloadResources ConfigResources
begin

text \<open>
  The outside of the controllers and \<^verbatim>\<open>internal/controller/helpers.go\<close>, \<open>conditions.go\<close>: the
  calls a reconciler makes (Kubernetes API, clock, random numbers, HTTP, RCON, event recorder) and
  their replies, the functions of third-party packages as fields of a record \<open>Lib\<close> that every
  operation using them takes as an argument, and the shared helpers. A call is what the operator
  sends; the reply is arbitrary, and a reply of the wrong shape is a decoding error.
\<close>

section \<open>Errors, objects and calls\<close>

text \<open>
  An error value: the API reason that \<open>apierrors.IsNotFound\<close> and its kin look for, and the message.
  \<open>OtherReason\<close> also covers errors made by \<open>fmt.Errorf\<close>.
\<close>

datatype kreason = NotFound | AlreadyExists | Conflict | Invalid | OtherReason

datatype kerr = KErr (reasonOf: kreason) (messageOf: string)

definition IsNotFound :: "kerr \<Rightarrow> bool" where "IsNotFound e \<longleftrightarrow> reasonOf e = NotFound"
definition IsAlreadyExists :: "kerr \<Rightarrow> bool" where "IsAlreadyExists e \<longleftrightarrow> reasonOf e = AlreadyExists"
definition IsConflict :: "kerr \<Rightarrow> bool" where "IsConflict e \<longleftrightarrow> reasonOf e = Conflict"
definition IsInvalid :: "kerr \<Rightarrow> bool" where "IsInvalid e \<longleftrightarrow> reasonOf e = Invalid"

lemmas reason_defs = IsNotFound_def IsAlreadyExists_def IsConflict_def IsInvalid_def

definition errorf :: "string \<Rightarrow> kerr" where
  "errorf m = KErr OtherReason m"

text \<open>\<open>fmt.Errorf("...: %w", err)\<close> keeps the wrapped reason visible.\<close>

definition wrapErr :: "string \<Rightarrow> kerr \<Rightarrow> kerr" where
  "wrapErr p e = KErr (reasonOf e) (p @ messageOf e)"

definition IgnoreNotFound :: "kerr option \<Rightarrow> kerr option" where
  "IgnoreNotFound e = (case e of None \<Rightarrow> None | Some x \<Rightarrow> if IsNotFound x then None else Some x)"

datatype kobj =
    OGame PalworldGame
  | OBackup PalworldBackup
  | ORestore PalworldRestore
  | OSts StatefulSet
  | OPod Pod
  | ONode Node
  | OSecret Secret
  | OService Service
  | OPVC PersistentVolumeClaim
  | OJob Job
  | OUn Unstructured
  | OServiceAccount ServiceAccount
  | OConfigMap ConfigMap
  | OPDB PodDisruptionBudget
  | ONetworkPolicy NetworkPolicy

datatype kkind =
    GameKind | BackupKind | RestoreKind | StsKind | PodKind | NodeKind | SecretKind | ServiceKind
  | PVCKind | JobKind | UnKind GroupVersionKind | ServiceAccountKind | ConfigMapKind | PDBKind
  | NetworkPolicyKind

text \<open>A namespaced name: namespace first.\<close>

type_synonym objKey = "string \<times> string"

datatype httpMethod = HttpGet | HttpPost

record httpRequest =
  rq_Method :: httpMethod
  rq_URL :: string
  rq_BasicAuth :: "(string \<times> string) option"
  rq_Body :: "json option"
  rq_Timeout :: duration

text \<open>
  A response: status, the first 1 MiB of the body, and what \<open>encoding/json\<close>'s scanner makes of it.
\<close>

record httpResponse =
  rp_Status :: int
  rp_Data :: string
  rp_Json :: "json option"

datatype eventType = EventNormal | EventWarning

datatype call =
    Get kkind objKey
  | GetUncached kkind objKey
  | Create kobj
  | Update kobj
  | StatusUpdate kobj
  | Delete kkind objKey
  | PatchPod Pod Pod
  | CreateOrUpdate kkind objKey "kobj option \<Rightarrow> kerr + kobj"
  | ListBackups string labels
  | ListGames
  | RESTMapping GroupVersionKind
  | Now
  | Sleep duration
  | RandInt nat
  | Http httpRequest
  | Rcon string string string duration
  | Event kobj eventType string string

datatype reply =
    RObj kobj
  | RErr kerr
  | ROk
  | RBackups "PalworldBackup list"
  | RGames "PalworldGame list"
  | RTime time
  | RInt int
  | RResponse httpResponse
  | RText string

type_synonym 'a k = "(call, reply, 'a) op"
type_synonym 'a res = "kerr + 'a"

section \<open>Third-party functions\<close>

text \<open>
  \<open>controllerutil.SetControllerReference\<close> (owner's kind and metadata, object's metadata),
  \<open>meta.SetStatusCondition\<close>, \<open>cron.ParseStandard\<close> with the \<open>Next\<close> of the parsed schedule,
  \<open>labels.SelectorFromSet(..).String\<close>, \<open>equality.Semantic.DeepEqual\<close>, \<open>resource.ParseQuantity\<close> with
  \<open>Value\<close>, and the SHA-256 hex digest.
\<close>

datatype anyValue = AObj kobj | ALabels labels | AOwners "OwnerReference list" | ASpec json

record Lib =
  x_SetControllerReference :: "string \<Rightarrow> ObjectMeta \<Rightarrow> ObjectMeta \<Rightarrow> kerr + ObjectMeta"
  x_SetStatusCondition :: "Condition list \<Rightarrow> Condition \<Rightarrow> Condition list"
  x_ParseStandard :: "string \<Rightarrow> string + (time \<Rightarrow> time)"
  x_SelectorString :: "labels \<Rightarrow> string"
  x_DeepEqual :: "anyValue \<Rightarrow> anyValue \<Rightarrow> bool"
  x_ParseQuantity :: "string \<Rightarrow> int64 option"
  x_sha256hex :: "string \<Rightarrow> string"

section \<open>Typed calls\<close>

definition badReply :: kerr where
  "badReply = errorf ''decode''"

fun asGame :: "reply \<Rightarrow> PalworldGame res" where
  "asGame (RObj (OGame x)) = Inr x" | "asGame (RErr e) = Inl e" | "asGame _ = Inl badReply"
fun asBackup :: "reply \<Rightarrow> PalworldBackup res" where
  "asBackup (RObj (OBackup x)) = Inr x" | "asBackup (RErr e) = Inl e" | "asBackup _ = Inl badReply"
fun asRestore :: "reply \<Rightarrow> PalworldRestore res" where
  "asRestore (RObj (ORestore x)) = Inr x" | "asRestore (RErr e) = Inl e" | "asRestore _ = Inl badReply"
fun asSts :: "reply \<Rightarrow> StatefulSet res" where
  "asSts (RObj (OSts x)) = Inr x" | "asSts (RErr e) = Inl e" | "asSts _ = Inl badReply"
fun asPod :: "reply \<Rightarrow> Pod res" where
  "asPod (RObj (OPod x)) = Inr x" | "asPod (RErr e) = Inl e" | "asPod _ = Inl badReply"
fun asNode :: "reply \<Rightarrow> Node res" where
  "asNode (RObj (ONode x)) = Inr x" | "asNode (RErr e) = Inl e" | "asNode _ = Inl badReply"
fun asSecret :: "reply \<Rightarrow> Secret res" where
  "asSecret (RObj (OSecret x)) = Inr x" | "asSecret (RErr e) = Inl e" | "asSecret _ = Inl badReply"
fun asService :: "reply \<Rightarrow> Service res" where
  "asService (RObj (OService x)) = Inr x" | "asService (RErr e) = Inl e" | "asService _ = Inl badReply"
fun asPVC :: "reply \<Rightarrow> PersistentVolumeClaim res" where
  "asPVC (RObj (OPVC x)) = Inr x" | "asPVC (RErr e) = Inl e" | "asPVC _ = Inl badReply"
fun asJob :: "reply \<Rightarrow> Job res" where
  "asJob (RObj (OJob x)) = Inr x" | "asJob (RErr e) = Inl e" | "asJob _ = Inl badReply"
fun asUn :: "reply \<Rightarrow> Unstructured res" where
  "asUn (RObj (OUn x)) = Inr x" | "asUn (RErr e) = Inl e" | "asUn _ = Inl badReply"
fun asBackups :: "reply \<Rightarrow> PalworldBackup list res" where
  "asBackups (RBackups x) = Inr x" | "asBackups (RErr e) = Inl e" | "asBackups _ = Inl badReply"
fun asGames :: "reply \<Rightarrow> PalworldGame list res" where
  "asGames (RGames x) = Inr x" | "asGames (RErr e) = Inl e" | "asGames _ = Inl badReply"
fun asInt :: "reply \<Rightarrow> int res" where
  "asInt (RInt x) = Inr x" | "asInt (RErr e) = Inl e" | "asInt _ = Inl badReply"
fun asResponse :: "reply \<Rightarrow> httpResponse res" where
  "asResponse (RResponse x) = Inr x" | "asResponse (RErr e) = Inl e" | "asResponse _ = Inl badReply"
fun asText :: "reply \<Rightarrow> string res" where
  "asText (RText x) = Inr x" | "asText (RErr e) = Inl e" | "asText _ = Inl badReply"

text \<open>The error of a call whose result is only an error.\<close>

fun asErr :: "reply \<Rightarrow> kerr option" where
  "asErr (RErr e) = Some e" | "asErr _ = None"

text \<open>The clock never fails.\<close>

fun asTime :: "reply \<Rightarrow> time" where
  "asTime (RTime t) = t" | "asTime _ = 0"

definition now :: "time k" where
  "now = do { r \<leftarrow> call Now; ret (asTime r) }"

definition event :: "kobj \<Rightarrow> eventType \<Rightarrow> string \<Rightarrow> string \<Rightarrow> unit k" where
  "event obj typ reason msg = do { r \<leftarrow> call (Event obj typ reason msg); ret () }"

end
