(* ===== verification/Samples.thy ===== *)
theory Samples
  imports Cluster
begin

text \<open>
  Concrete instances: a game, a backup and a restore with typical values, and implementations of the
  third-party functions that do what their documentation says, for instances of the properties.
\<close>

definition sampleImage :: ImageSpec where
  "sampleImage = \<lparr>img_Server = [], img_PullPolicy = ''IfNotPresent'', img_PullSecrets = []\<rparr>"

definition sampleStorage :: StorageSpec where
  "sampleStorage = \<lparr>st_Size = Gi 30, st_StorageClassName = None, st_AccessModes = [''ReadWriteOnce''],
     st_Retain = True, st_VolumeSnapshotClassName = None\<rparr>"

definition sampleNetworking :: NetworkingSpec where
  "sampleNetworking = \<lparr>nw_GamePort = 8211, nw_QueryPort = 27015, nw_ServiceType = ServiceTypeClusterIP,
     nw_LoadBalancerIP = [], nw_LoadBalancerClass = None, nw_NodePort = 0,
     nw_ServiceAnnotations = Map.empty, nw_PublicIP = [], nw_PublicPort = 0,
     nw_RESTAPI = \<lparr>rx_Route = False, rx_Host = [], rx_TLS = ''edge''\<rparr>\<rparr>"

definition sampleDestination :: BackupDestination where
  "sampleDestination = \<lparr>bd_Type = BackupDestinationVolumeSnapshot, bd_S3 = None, bd_PVCName = [], bd_PVCPath = []\<rparr>"

definition sampleBackupPolicy :: BackupPolicy where
  "sampleBackupPolicy = \<lparr>bp_Enabled = True, bp_Schedule = ''0 * * * *'', bp_Destination = sampleDestination,
     bp_Retention = 2, bp_Suspend = False, bp_OnDelete = True\<rparr>"

definition sampleUpdatePolicy :: UpdatePolicy where
  "sampleUpdatePolicy = \<lparr>up_Strategy = UpdateAutomatic, up_Schedule = [], up_DrainTimeoutSeconds = 300,
     up_WarnMessage = ''Restart in %d s'', up_WarnIntervalSeconds = 60, up_BackupBeforeUpdate = True,
     up_PollIntervalMinutes = 30\<rparr>"

definition sampleSpec :: PalworldGameSpec where
  "sampleSpec = \<lparr>gs_Version = [], gs_Replicas = Some 1, gs_Image = sampleImage,
     gs_ServerSettings = defaultServerSettings, gs_EngineSettings = [],
     gs_Credentials = \<lparr>cr_SecretName = [], cr_AdminPasswordKey = [], cr_ServerPasswordKey = []\<rparr>,
     gs_Storage = sampleStorage, gs_Networking = sampleNetworking, gs_Resources = newResources,
     gs_Scheduling = \<lparr>sch_NodeSelector = Map.empty, sch_Affinity = JNull, sch_Tolerations = [],
        sch_TopologySpreadConstraints = [], sch_PriorityClassName = []\<rparr>,
     gs_Backup = Some sampleBackupPolicy, gs_Update = Some sampleUpdatePolicy,
     gs_PodDisruptionBudget = None, gs_NodeDrain = None, gs_Shutdown = None,
     gs_Monitoring = \<lparr>mon_ServiceMonitor = False, mon_MetricsExporter = True, mon_ExporterResources = None\<rparr>,
     gs_ServiceAccountName = [], gs_TerminationGracePeriodSeconds = None,
     gs_PodAnnotations = Map.empty, gs_PodLabels = Map.empty, gs_ExtraEnv = [], gs_Sidecars = [],
     gs_PodSecurityContext = None\<rparr>"

definition sampleStatus :: PalworldGameStatus where
  "sampleStatus = \<lparr>gt_Phase = PhaseRunning, gt_ObservedGeneration = 1, gt_Conditions = [],
     gt_CurrentVersion = ''100'', gt_ServerVersion = [], gt_AvailableVersion = ''100'', gt_Replicas = 1,
     gt_Selector = [], gt_PlayersOnline = 3, gt_MaxPlayers = 32, gt_ServerName = [],
     gt_GameEndpoint = [], gt_RESTEndpoint = [], gt_RouteURL = [], gt_PersistentVolumeClaim = [],
     gt_CurrentNode = ''node-a'', gt_CredentialsSecret = [], gt_LastBackupTime = None,
     gt_LastBackupName = [], gt_NextScheduledBackup = None, gt_LastUpdateTime = None,
     gt_NextScheduledUpdateCheck = None, gt_UpdateDrainStartTime = None,
     gt_UpdateDrainLastWarnTime = None\<rparr>"

definition sampleGame :: PalworldGame where
  "sampleGame = \<lparr>g_Meta = (newMeta ''pal'' ''games'' Map.empty)\<lparr>m_Finalizers := [GameFinalizer], m_Generation := 1\<rparr>,
     g_Spec = sampleSpec, g_Status = sampleStatus\<rparr>"

definition sampleBackup :: PalworldBackup where
  "sampleBackup = \<lparr>b_Meta = newMeta ''bk'' ''games'' Map.empty,
     b_Spec = \<lparr>bs_GameRef = ''pal'', bs_Destination = sampleDestination, bs_FlushSave = True,
       bs_TTLSecondsAfterFinished = None, bs_Retain = False\<rparr>,
     b_Status = newBackupStatus\<rparr>"

definition sampleRestore :: PalworldRestore where
  "sampleRestore = \<lparr>r_Meta = newMeta ''rs'' ''games'' Map.empty,
     r_Spec = \<lparr>rs_GameRef = ''pal'', rs_BackupRef = ''bk'', rs_Source = None, rs_Force = True\<rparr>,
     r_Status = \<lparr>rt_Phase = RestorePhaseUnset, rt_Message = [], rt_StartTime = None,
       rt_CompletionTime = None, rt_JobName = [], rt_OriginalReplicas = None, rt_Conditions = []\<rparr>\<rparr>"

lemmas sample_defs = sampleGame_def sampleSpec_def sampleStatus_def sampleImage_def sampleStorage_def
  sampleNetworking_def sampleDestination_def sampleBackupPolicy_def sampleUpdatePolicy_def
  sampleBackup_def sampleRestore_def newMeta_def newBackupStatus_def

lemma sampleGame_simps [simp]:
  "m_Name (g_Meta sampleGame) = ''pal''" "m_Namespace (g_Meta sampleGame) = ''games''"
  "m_Finalizers (g_Meta sampleGame) = [GameFinalizer]" "m_DeletionTimestamp (g_Meta sampleGame) = None"
  "m_CreationTimestamp (g_Meta sampleGame) = None" "m_Generation (g_Meta sampleGame) = 1"
  "g_Spec sampleGame = sampleSpec" "g_Status sampleGame = sampleStatus"
  by (simp_all add: sampleGame_def newMeta_def)

lemma sampleSpec_simps [simp]:
  "gs_Replicas sampleSpec = Some 1" "gs_ServerSettings sampleSpec = defaultServerSettings"
  "cr_SecretName (gs_Credentials sampleSpec) = []" "cr_AdminPasswordKey (gs_Credentials sampleSpec) = []"
  "gs_Storage sampleSpec = sampleStorage" "gs_Networking sampleSpec = sampleNetworking"
  "gs_Backup sampleSpec = Some sampleBackupPolicy" "gs_Update sampleSpec = Some sampleUpdatePolicy"
  "gs_NodeDrain sampleSpec = None" "gs_Shutdown sampleSpec = None"
  "gs_TerminationGracePeriodSeconds sampleSpec = None" "gs_PodLabels sampleSpec = Map.empty"
  by (simp_all add: sampleSpec_def)

section \<open>The third-party functions\<close>

text \<open>
  \<open>SetControllerReference\<close>: an object controlled by another owner is refused, otherwise the owner is
  added once. \<open>SetStatusCondition\<close>: the condition of a type is replaced or appended.
\<close>

definition refOwner :: "string \<Rightarrow> ObjectMeta \<Rightarrow> ObjectMeta \<Rightarrow> kerr + ObjectMeta" where
  "refOwner kd owner m =
     (let ref = \<lparr>or_Kind = kd, or_Name = m_Name owner, or_Controller = True\<rparr> in
      if list_ex (\<lambda>o'. or_Controller o' \<and> o' \<noteq> ref) (m_OwnerReferences m)
      then Inl (errorf ''already owned'')
      else if ref \<in> set (m_OwnerReferences m) then Inr m
      else Inr (m\<lparr>m_OwnerReferences := m_OwnerReferences m @ [ref]\<rparr>))"

fun refCondition :: "Condition list \<Rightarrow> Condition \<Rightarrow> Condition list" where
  "refCondition [] c = [c]"
| "refCondition (x # xs) c = (if cd_Type x = cd_Type c then c # xs else x # refCondition xs c)"

definition refLib :: Lib where
  "refLib = \<lparr>x_SetControllerReference = refOwner, x_SetStatusCondition = refCondition,
     x_ParseStandard = (\<lambda>s. if s = [] then Inl ''empty spec string''
                            else Inr (\<lambda>t. (t div (3600 * Second) + 1) * (3600 * Second))),
     x_SelectorString = (\<lambda>l. []), x_DeepEqual = (\<lambda>a b. a = b), x_ParseQuantity = (\<lambda>s. None),
     x_sha256hex = (\<lambda>s. replicate 64 CHR ''0'')\<rparr>"

end
