(* ===== verification/Webhook.thy ===== *)
theory Webhook
  imports Samples
begin

text \<open>
  \<^verbatim>\<open>api/v1alpha1/palworldgame_webhook.go\<close>: the validating admission webhook. \<open>validate\<close> returns the
  warnings and the errors; an empty error list admits the game. The five string settings are visited in the order of the
  map literal, where the source iterates over a map in no particular order. \<open>cronParse\<close> is the third-party \<open>cron.ParseStandard\<close>.
\<close>

datatype fieldError = FieldRequired string string | FieldInvalid string string string

definition guaranteedShaped :: "ResourceRequirements \<Rightarrow> bool" where
  "guaranteedShaped r =
     list_all (\<lambda>name. case (rr_Requests r name, rr_Limits r name) of
                        (Some req, Some lim) \<Rightarrow> req = lim
                      | _ \<Rightarrow> False) [''cpu'', ''memory'']"

fun sidecarOffenders :: "nat \<Rightarrow> Container list \<Rightarrow> string list" where
  "sidecarOffenders i [] = []"
| "sidecarOffenders i (c # cs) =
     (if \<not> guaranteedShaped (ct_Resources c)
      then [''spec.sidecars['' @ itoa (int i) @ ''] ('' @ quote (ct_Name c) @ '')''] else [])
     @ sidecarOffenders (Suc i) cs"

definition warnBrokenGuaranteedQoS :: "PalworldGame \<Rightarrow> string list" where
  "warnBrokenGuaranteedQoS g =
     (if \<not> guaranteedShaped (gs_Resources (g_Spec g)) then []
      else (let offenders =
                  (case mon_ExporterResources (gs_Monitoring (g_Spec g)) of
                     Some r \<Rightarrow> if \<not> guaranteedShaped r then [''spec.monitoring.exporterResources''] else []
                   | None \<Rightarrow> [])
                  @ sidecarOffenders 0 (gs_Sidecars (g_Spec g))
            in if offenders = [] then []
               else [''spec.resources sets requests == limits (Guaranteed QoS), but ''
                     @ joinStr offenders '' and ''
                     @ '' leave requests and limits unmatched; the pod will be Burstable and the kubelet''
                     @ [CHR 0x27]
                     @ ''s static CPU Manager policy will not assign it exclusive CPUs'']))"

definition validateDestination :: "string \<Rightarrow> BackupDestination \<Rightarrow> fieldError list" where
  "validateDestination path dest =
     (case bd_Type dest of
        BackupDestinationS3 \<Rightarrow>
          (case bd_S3 dest of
             None \<Rightarrow> [FieldRequired (path @ ''.s3'') ''s3 configuration is required for the S3 destination'']
           | Some s3 \<Rightarrow>
               (if s3_Bucket s3 = [] then [FieldRequired (path @ ''.s3.bucket'') ''bucket is required''] else [])
               @ (if s3_CredentialsSecret s3 = []
                  then [FieldRequired (path @ ''.s3.credentialsSecret'') ''credentialsSecret is required''] else []))
      | BackupDestinationPVC \<Rightarrow>
          (if bd_PVCName dest = []
           then [FieldRequired (path @ ''.pvcName'') ''pvcName is required for the PVC destination''] else [])
      | _ \<Rightarrow> [])"

definition stringSettings :: "PalworldServerSettings \<Rightarrow> (string \<times> string) list" where
  "stringSettings s =
     [(''serverName'', ss_ServerName s), (''serverDescription'', ss_ServerDescription s),
      (''region'', ss_Region s), (''banListURL'', ss_BanListURL s), (''randomizerSeed'', ss_RandomizerSeed s)]"

definition settingErrors :: "PalworldGame \<Rightarrow> fieldError list" where
  "settingErrors g =
     concat (map (\<lambda>(name, v).
        if containsAny v [CHR 0x22, CHR 0x0A, CHR 0x0D]
        then [FieldInvalid (''spec.serverSettings.'' @ name) v ''must not contain double quotes or newlines'']
        else []) (stringSettings (gs_ServerSettings (g_Spec g))))"

definition backupErrors :: "(string \<Rightarrow> string + 'a) \<Rightarrow> PalworldGame \<Rightarrow> fieldError list" where
  "backupErrors cronParse g =
     (case gs_Backup (g_Spec g) of
        None \<Rightarrow> []
      | Some bp \<Rightarrow>
          if \<not> bp_Enabled bp then []
          else (if bp_Schedule bp \<noteq> []
                then (case cronParse (bp_Schedule bp) of
                        Inl e \<Rightarrow> [FieldInvalid ''spec.backup.schedule'' (bp_Schedule bp) (''invalid cron expression: '' @ e)]
                      | Inr _ \<Rightarrow> [])
                else [FieldRequired ''spec.backup.schedule'' ''schedule is required when backups are enabled''])
               @ validateDestination ''spec.backup.destination'' (bp_Destination bp))"

definition updateErrors :: "(string \<Rightarrow> string + 'a) \<Rightarrow> PalworldGame \<Rightarrow> fieldError list" where
  "updateErrors cronParse g =
     (case gs_Update (g_Spec g) of
        None \<Rightarrow> []
      | Some up \<Rightarrow>
          if up_Strategy up \<noteq> UpdateScheduled then []
          else if up_Schedule up = []
          then [FieldRequired ''spec.update.schedule'' ''schedule is required for the Scheduled update strategy'']
          else (case cronParse (up_Schedule up) of
                  Inl e \<Rightarrow> [FieldInvalid ''spec.update.schedule'' (up_Schedule up) (''invalid cron expression: '' @ e)]
                | Inr _ \<Rightarrow> []))"

definition graceWarnings :: "PalworldGame \<Rightarrow> string list" where
  "graceWarnings g =
     (case gs_TerminationGracePeriodSeconds (g_Spec g) of
        None \<Rightarrow> []
      | Some grace \<Rightarrow>
          (let warn = ShutdownWarnSeconds g; minimum = wrap64 (warn + ShutdownReserveSeconds) in
           if 0 < warn \<and> grace < minimum
           then [''spec.terminationGracePeriodSeconds='' @ itoa grace @ '' cannot fit the '' @ itoa warn
                 @ ''s shutdown warning: players will only be warned for ~''
                 @ itoa (max (wrap64 (grace - ShutdownReserveSeconds)) 0) @ ''s. Set it to at least ''
                 @ itoa minimum @ '', or unset it to let the operator derive ''
                 @ itoa (wrap64 (warn + ShutdownGraceHeadroomSeconds))]
           else []))"

definition validate :: "(string \<Rightarrow> string + 'a) \<Rightarrow> PalworldGame \<Rightarrow> string list \<times> fieldError list" where
  "validate cronParse g =
     (let net = gs_Networking (g_Spec g);
          route = rx_Route (nw_RESTAPI net);
          tls = rx_TLS (nw_RESTAPI net);
          errs = settingErrors g @ backupErrors cronParse g @ updateErrors cronParse g
            @ (if route \<and> (tls = ''reencrypt'' \<or> tls = ''passthrough'')
               then [FieldInvalid ''spec.networking.restAPI.tls'' tls
                       (''the REST API is served as plain HTTP; only '' @ [CHR 0x27] @ ''edge'' @ [CHR 0x27]
                        @ '' termination is supported'')] else []);
          warnings = graceWarnings g
            @ (if route
               then [''spec.networking.restAPI.route only takes effect on clusters with the OpenShift Route API'',
                     ''enabling the REST API Route publishes the password-protected admin API on the external router'']
               else [])
            @ (if nw_ServiceType net = ServiceTypeLoadBalancer
               then [''spec.networking.serviceType=LoadBalancer requires a UDP-capable load balancer (e.g. MetalLB on-prem)'']
               else [])
            @ warnBrokenGuaranteedQoS g
      in (warnings, errs))"

text \<open>An object that is not a game is \<open>None\<close>.\<close>

definition ValidateCreate :: "(string \<Rightarrow> string + 'a) \<Rightarrow> PalworldGame option \<Rightarrow> (string list \<times> fieldError list) res" where
  "ValidateCreate cronParse obj =
     (case obj of None \<Rightarrow> Inl (errorf ''expected a PalworldGame'') | Some g \<Rightarrow> Inr (validate cronParse g))"

definition ValidateUpdate ::
    "(string \<Rightarrow> string + 'a) \<Rightarrow> PalworldGame option \<Rightarrow> PalworldGame option \<Rightarrow> (string list \<times> fieldError list) res" where
  "ValidateUpdate cronParse old obj =
     (case obj of None \<Rightarrow> Inl (errorf ''expected a PalworldGame'') | Some g \<Rightarrow> Inr (validate cronParse g))"

definition ValidateDelete :: "PalworldGame option \<Rightarrow> (string list \<times> fieldError list) res" where
  "ValidateDelete obj = Inr ([], [])"

section \<open>Lemmas\<close>

lemma guaranteedShaped_iff:
  "guaranteedShaped r \<longleftrightarrow>
     (\<exists>c m. rr_Requests r ''cpu'' = Some c \<and> rr_Limits r ''cpu'' = Some c
          \<and> rr_Requests r ''memory'' = Some m \<and> rr_Limits r ''memory'' = Some m)"
  by (auto simp: guaranteedShaped_def split: option.splits)

lemma sidecarOffenders_nil:
  "sidecarOffenders i cs = [] \<longleftrightarrow> list_all (\<lambda>c. guaranteedShaped (ct_Resources c)) cs"
  by (induction cs arbitrary: i) auto

lemma guaranteed_defaults:
  assumes "guaranteedShaped (gs_Resources (g_Spec g))"
  shows "guaranteedShaped (defaultResources g)"
proof -
  obtain c m where cm: "rr_Requests (gs_Resources (g_Spec g)) ''cpu'' = Some c"
      "rr_Limits (gs_Resources (g_Spec g)) ''cpu'' = Some c"
      "rr_Requests (gs_Resources (g_Spec g)) ''memory'' = Some m"
      "rr_Limits (gs_Resources (g_Spec g)) ''memory'' = Some m"
    using assms unfolding guaranteedShaped_iff by auto
  then show ?thesis
    unfolding guaranteedShaped_iff
    by (simp add: defaultResources_limits defaultResources_keeps [OF cm(1)] defaultResources_keeps [OF cm(3)])
qed

lemma guaranteed_exporter:
  "mon_ExporterResources (gs_Monitoring (g_Spec g)) = None \<Longrightarrow> guaranteedShaped (exporterResources g)"
  by (simp add: exporterResources_def defaultExporterCPU_def defaultExporterMemory_def guaranteedShaped_iff quantity_defs)

lemma ct_Resources_server: "ct_Resources (serverContainer g p) = defaultResources g"
  by (simp add: serverContainer_def Let_def)

lemma ct_Resources_sidecar: "ct_Resources (metricsSidecar g p) = exporterResources g"
  by (simp add: metricsSidecar_def)

lemma accepted_string:
  assumes "settingErrors g = []" and "(name, v) \<in> set (stringSettings (gs_ServerSettings (g_Spec g)))"
  shows "escapeIniString v = v"
proof -
  have "\<not> containsAny v [CHR 0x22, CHR 0x0A, CHR 0x0D]"
    using assms unfolding settingErrors_def by (force split: if_splits)
  then show ?thesis by (rule escapeIniString_id)
qed

section \<open>Properties\<close>


definition guaranteedGame :: PalworldGame where
  "guaranteedGame = sampleGame\<lparr>g_Spec := sampleSpec\<lparr>gs_Resources :=
     \<lparr>rr_Requests = [''cpu'' \<mapsto> whole 4, ''memory'' \<mapsto> Gi 16], rr_Limits = [''cpu'' \<mapsto> whole 4, ''memory'' \<mapsto> Gi 16]\<rparr>\<rparr>\<rparr>"




end
