(* ===== verification/GoFloat.thy ===== *)
theory GoFloat
  imports ServerSettings
begin

text \<open>
  Go's \<open>float64\<close> conversions as the program uses them: an integer (or an integer JSON literal) to the
  nearest \<open>float64\<close>, and \<open>strconv.FormatFloat(x, 'f', -1, 64)\<close>, the shortest decimal that rounds to
  the same \<open>float64\<close>, without an exponent. A finite \<open>float64\<close> is \<open>m * 2 ^ e\<close> with a sign; its canonical
  form has a mantissa of 53 bits or the least exponent. All comparisons are between fractions of natural numbers.
\<close>

section \<open>Integers to floats\<close>

text \<open>The number of bits of a natural number.\<close>

fun bitLen :: "nat \<Rightarrow> nat" where
  "bitLen n = (if n = 0 then 0 else Suc (bitLen (n div 2)))"

declare bitLen.simps [simp del]

text \<open>\<open>float64(i)\<close>: nearest, ties to even.\<close>

definition toFloat64 :: "int \<Rightarrow> float64" where
  "toFloat64 i =
     (let n = nat \<bar>i\<bar>; s = bitLen n - 53; d = n div 2 ^ s; r = n mod 2 ^ s
      in Flt (i < 0) (if 2 ^ s < 2 * r \<or> (2 * r = 2 ^ s \<and> odd d) then d + 1 else d) (int s))"

text \<open>Integer literals that \<open>strconv.ParseFloat\<close> accepts: below the midpoint of the largest float and \<open>2 ^ 1024\<close>.\<close>

definition inFloat64 :: "int \<Rightarrow> bool" where
  "inFloat64 i \<longleftrightarrow> \<bar>i\<bar> < 2 ^ 1024 - 2 ^ 970"

section \<open>The rounding interval\<close>

text \<open>The canonical mantissa and exponent of a positive value.\<close>

function canonUp :: "nat \<Rightarrow> int \<Rightarrow> nat \<times> int" where
  "canonUp m e = (if m = 0 \<or> 2 ^ 52 \<le> m \<or> e \<le> -1074 then (m, e) else canonUp (2 * m) (e - 1))"
  by pat_completeness auto
termination by (relation "measure (\<lambda>(m, e). nat (e + 1074))") auto

declare canonUp.simps [simp del]

function canonDown :: "nat \<Rightarrow> int \<Rightarrow> nat \<times> int" where
  "canonDown m e = (if m = 0 \<or> (m < 2 ^ 53 \<and> -1074 \<le> e) \<or> odd m then (m, e) else canonDown (m div 2) (e + 1))"
  by pat_completeness auto
termination by (relation "measure (\<lambda>(m, e). m)") (auto elim!: oddE evenE)

declare canonDown.simps [simp del]

definition canon :: "nat \<Rightarrow> int \<Rightarrow> nat \<times> int" where
  "canon m e = (if m < 2 ^ 53 \<and> -1074 \<le> e then canonUp m e else canonDown m e)"

text \<open>
  The value and the ends of the interval of the numbers that round to it, as numerators over \<open>4\<close>
  (in units of \<open>2 ^ e\<close>), and whether the ends round to it too. Below a power of two the gap is half as wide.
\<close>

record interval =
  iv_Lower :: nat
  iv_Mid :: nat
  iv_Upper :: nat
  iv_Inclusive :: bool

definition intervalOf :: "nat \<Rightarrow> int \<Rightarrow> interval" where
  "intervalOf m e =
     \<lparr>iv_Lower = 4 * m - (if m = 2 ^ 52 \<and> -1074 < e then 1 else 2), iv_Mid = 4 * m, iv_Upper = 4 * m + 2,
      iv_Inclusive = even m\<rparr>"

text \<open>The powers of two and ten of an exponent, as a factor and a divisor.\<close>

definition scaleUp :: "nat \<Rightarrow> int \<Rightarrow> nat" where
  "scaleUp b k = b ^ nat k"

definition scaleDown :: "nat \<Rightarrow> int \<Rightarrow> nat" where
  "scaleDown b k = b ^ nat (- k)"

text \<open>Whether \<open>d * 10 ^ k\<close> lies in the interval (in units of \<open>2 ^ e / 4\<close>).\<close>

definition inInterval :: "interval \<Rightarrow> int \<Rightarrow> nat \<Rightarrow> int \<Rightarrow> bool" where
  "inInterval iv e d k =
     (let x = 4 * d * scaleUp 10 k * scaleDown 2 e; q = scaleDown 10 k * scaleUp 2 e in
      iv_Lower iv * q < x \<and> x < iv_Upper iv * q
      \<or> iv_Inclusive iv \<and> (x = iv_Lower iv * q \<or> x = iv_Upper iv * q))"

section \<open>The shortest decimal\<close>

text \<open>The multiple of \<open>10 ^ k\<close> at or below the value.\<close>

definition floorAt :: "nat \<Rightarrow> int \<Rightarrow> int \<Rightarrow> nat" where
  "floorAt m e k = (m * scaleUp 2 e * scaleDown 10 k) div (scaleDown 2 e * scaleUp 10 k)"

text \<open>The digits at the unit \<open>10 ^ k\<close>, if one of the two neighbouring multiples rounds to the value.\<close>

definition digitsAt :: "nat \<Rightarrow> int \<Rightarrow> int \<Rightarrow> nat option" where
  "digitsAt m e k =
     (let iv = intervalOf m e; d = floorAt m e k;
          p = m * scaleUp 2 e * scaleDown 10 k; q = scaleDown 2 e * scaleUp 10 k; r = p mod q;
          okDown = inInterval iv e d k; okUp = inInterval iv e (d + 1) k in
      if okDown \<and> okUp then Some (if q < 2 * r \<or> (2 * r = q \<and> odd d) then d + 1 else d)
      else if okDown then Some d
      else if okUp then Some (d + 1)
      else None)"

function shortestFrom :: "nat \<Rightarrow> int \<Rightarrow> int \<Rightarrow> nat \<times> int" where
  "shortestFrom m e k =
     (case digitsAt m e k of
        Some d \<Rightarrow> (d, k)
      | None \<Rightarrow> if k \<le> min e 0 then (floorAt m e k, k) else shortestFrom m e (k - 1))"
  by pat_completeness auto
termination by (relation "measure (\<lambda>(m, e, k). nat (k - min e 0))") auto

declare shortestFrom.simps [simp del]

definition shortest :: "nat \<Rightarrow> int \<Rightarrow> nat \<times> int" where
  "shortest m e = shortestFrom m e (int (length (natStr (floorAt m e 0))))"

definition decimal :: "nat \<Rightarrow> int \<Rightarrow> string" where
  "decimal d k =
     (if 0 \<le> k then natStr (d * 10 ^ nat k)
      else natStr (d div 10 ^ nat (- k)) @ ''.'' @ fracDigits (nat (- k)) (d mod 10 ^ nat (- k)))"

fun FormatFloat :: "float64 \<Rightarrow> string" where
  "FormatFloat (Flt neg m e) =
     (if neg then ''-'' else []) @
     (if m = 0 then ''0''
      else (case canon m e of (m', e') \<Rightarrow> case shortest m' e' of (d, k) \<Rightarrow> decimal d k))"

section \<open>The result rounds back\<close>

lemma scale_pos [simp]: "0 < b \<Longrightarrow> 0 < scaleUp b k" "0 < b \<Longrightarrow> 0 < scaleDown b k"
  by (simp_all add: scaleUp_def scaleDown_def)

lemma mid_inInterval:
  assumes "0 < m" and "d * scaleUp 10 k * scaleDown 2 e = m * (scaleDown 10 k * scaleUp 2 e)"
  shows "inInterval (intervalOf m e) e d k"
proof -
  let ?q = "scaleDown 10 k * scaleUp 2 e"
  have x: "4 * d * scaleUp 10 k * scaleDown 2 e = 4 * m * ?q"
    using assms(2) by (simp add: mult.assoc)
  have "0 < ?q" by simp
  moreover have "iv_Lower (intervalOf m e) < 4 * m" "4 * m < iv_Upper (intervalOf m e)"
    using assms(1) by (simp_all add: intervalOf_def)
  ultimately show ?thesis unfolding inInterval_def Let_def x by (metis mult_less_mono1)
qed

text \<open>At a unit below the binary exponent the value is a multiple of the unit.\<close>

lemma floorAt_exact:
  assumes "k \<le> min e 0"
  shows "floorAt m e k * scaleUp 10 k * scaleDown 2 e = m * (scaleDown 10 k * scaleUp 2 e)"
proof -
  have "(2::nat) ^ nat (- e) dvd 2 ^ nat (- k)"
    using assms by (intro le_imp_power_dvd) linarith
  also have "(2::nat) ^ nat (- k) dvd 10 ^ nat (- k)"
    by (rule dvd_power_same) simp
  finally have "scaleDown 2 e dvd m * scaleUp 2 e * scaleDown 10 k"
    unfolding scaleDown_def by (rule dvd_mult)
  moreover have "scaleUp 10 k = 1" using assms by (simp add: scaleUp_def)
  ultimately show ?thesis by (simp add: floorAt_def ac_simps)
qed

lemma digitsAt_inInterval: "digitsAt m e k = Some d \<Longrightarrow> inInterval (intervalOf m e) e d k"
  by (auto simp: digitsAt_def Let_def split: if_splits)

lemma shortestFrom_rounds_back:
  assumes "0 < m" and "shortestFrom m e k = (d, k')"
  shows "inInterval (intervalOf m e) e d k'"
  using assms
proof (induction m e k rule: shortestFrom.induct)
  case (1 m e k)
  show ?case
  proof (cases "digitsAt m e k")
    case None
    have "\<not> k \<le> min e 0"
    proof
      assume "k \<le> min e 0"
      from mid_inInterval [OF 1(2) floorAt_exact [OF this]] None
      show False by (simp add: digitsAt_def Let_def split: if_splits)
    qed
    with None 1 show ?thesis by (simp add: shortestFrom.simps [of m e k] split: if_splits)
  next
    case (Some d')
    with 1(3) digitsAt_inInterval [OF Some] show ?thesis by (simp add: shortestFrom.simps [of m e k])
  qed
qed

section \<open>Integers are printed as integers\<close>

lemma bitLen_le: "n < 2 ^ k \<Longrightarrow> bitLen n \<le> k"
proof (induction k arbitrary: n)
  case 0 then show ?case by (simp add: bitLen.simps)
next
  case (Suc k) then show ?case by (subst bitLen.simps) simp
qed

lemma toFloat64_small: "\<bar>i\<bar> < 2 ^ 53 \<Longrightarrow> toFloat64 i = Flt (i < 0) (nat \<bar>i\<bar>) 0"
  using bitLen_le [of "nat \<bar>i\<bar>" 53] by (simp add: toFloat64_def Let_def nat_less_iff)

lemma canonUp_scale: "\<exists>j. canonUp m e = (m * 2 ^ j, e - int j)"
proof (induction m e rule: canonUp.induct)
  case (1 m e)
  show ?case
  proof (cases "m = 0 \<or> 2 ^ 52 \<le> m \<or> e \<le> - 1074")
    case True
    then show ?thesis by (subst canonUp.simps) (auto intro: exI [of _ 0])
  next
    case False
    from 1 [OF False] obtain j where "canonUp (2 * m) (e - 1) = (2 * m * 2 ^ j, e - 1 - int j)" by blast
    with False show ?thesis by (subst canonUp.simps) (auto intro!: exI [of _ "Suc j"])
  qed
qed

lemma inInterval_whole:
  assumes "inInterval (intervalOf (m * 2 ^ j) (- int j)) (- int j) d (int k)"
  shows "d * 10 ^ k = m"
proof -
  let ?c = "d * 10 ^ k"
  let ?iv = "intervalOf (m * 2 ^ j) (- int j)"
  have "iv_Lower ?iv \<le> iv_Upper ?iv" by (simp add: intervalOf_def)
  then have "iv_Lower ?iv \<le> 4 * (?c * 2 ^ j)" "4 * (?c * 2 ^ j) \<le> iv_Upper ?iv"
    using assms by (auto simp: inInterval_def Let_def scaleUp_def scaleDown_def mult.assoc)
  moreover have "4 * (m * 2 ^ j) - 2 \<le> iv_Lower ?iv" "iv_Upper ?iv = 4 * (m * 2 ^ j) + 2"
    by (simp_all add: intervalOf_def)
  ultimately have "m * 2 ^ j = ?c * 2 ^ j" by linarith
  then show ?thesis by simp
qed

lemma shortestFrom_whole:
  assumes "0 < m" and "shortestFrom (m * 2 ^ j) (- int j) (int k) = (d, k')"
  shows "\<exists>n. k' = int n \<and> d * 10 ^ n = m"
  using assms
proof (induction k)
  case 0
  have fl: "floorAt (m * 2 ^ j) (- int j) 0 = m" by (simp add: floorAt_def scaleUp_def scaleDown_def)
  have "inInterval (intervalOf (m * 2 ^ j) (- int j)) (- int j) m 0"
    using 0(1) by (intro mid_inInterval) (simp_all add: scaleUp_def scaleDown_def)
  moreover have "\<not> inInterval (intervalOf (m * 2 ^ j) (- int j)) (- int j) (Suc m) 0"
    using inInterval_whole [of m j "Suc m" 0] by auto
  ultimately have "digitsAt (m * 2 ^ j) (- int j) 0 = Some m" by (simp add: digitsAt_def Let_def fl)
  with 0(2) show ?case by (auto simp: shortestFrom.simps [of _ _ 0])
next
  case (Suc k)
  show ?case
  proof (cases "digitsAt (m * 2 ^ j) (- int j) (int (Suc k))")
    case None
    with Suc show ?thesis by (simp add: shortestFrom.simps [of _ _ "int (Suc k)"] del: of_nat_Suc) simp
  next
    case (Some d')
    then have "d' * 10 ^ Suc k = m" by (intro inInterval_whole [OF digitsAt_inInterval])
    moreover have "d = d'" "k' = int (Suc k)"
      using Suc.prems(2) Some by (simp_all add: shortestFrom.simps [of _ _ "int (Suc k)"] del: of_nat_Suc)
    ultimately show ?thesis by blast
  qed
qed

lemma FormatFloat_int: "\<bar>i\<bar> < 2 ^ 53 \<Longrightarrow> FormatFloat (toFloat64 i) = itoa i"
proof -
  assume i: "\<bar>i\<bar> < 2 ^ 53"
  show ?thesis
  proof (cases "i = 0")
    case True
    moreover have "natStr 0 = ''0''" by code_simp
    ultimately show ?thesis by (simp add: toFloat64_small itoa_def)
  next
    case False
    let ?m = "nat \<bar>i\<bar>"
    obtain j where c: "canonUp ?m 0 = (?m * 2 ^ j, - int j)" using canonUp_scale [of ?m 0] by auto
    obtain d k where sh: "shortest (?m * 2 ^ j) (- int j) = (d, k)" by (cases "shortest (?m * 2 ^ j) (- int j)")
    with False have "\<exists>n. k = int n \<and> d * 10 ^ n = ?m"
      unfolding shortest_def by (intro shortestFrom_whole) auto
    then have "decimal d k = natStr ?m" by (auto simp: decimal_def)
    with False i c sh show ?thesis by (simp add: toFloat64_small canon_def itoa_def nat_less_iff)
  qed
qed

end
