(* ===== verification/PalworldClients.thy ===== *)
theory PalworldClients
  imports Cluster GoFloat
begin

text \<open>
  \<^verbatim>\<open>internal/palworld\<close>: the REST client of the game server (\<open>restapi.go\<close>), the Steam build poller
  (\<open>steam.go\<close>) and the RCON client (\<open>rcon.go\<close>). A request is one \<open>Http\<close> call with its URL, basic
  authentication and JSON body; \<open>encoding/json\<close>'s decoding into a struct is written out: keys match
  case-insensitively, the last match wins, \<open>null\<close> leaves the zero value, and a value of the wrong
  type is an error. The RCON library is the call \<open>Rcon\<close>.
\<close>

section \<open>Decoding a struct\<close>

text \<open>The values of the keys of an object that select a field, in order.\<close>

definition fieldValues :: "(string \<times> json) list \<Rightarrow> string \<Rightarrow> json list" where
  "fieldValues kvs name =
     filter (\<lambda>v. v \<noteq> JNull) (map snd (filter (\<lambda>kv. toLower (fst kv) = toLower name) kvs))"

fun decodeStrings :: "string \<Rightarrow> json list \<Rightarrow> string res" where
  "decodeStrings z [] = Inr z"
| "decodeStrings z (JStr s # vs) = decodeStrings s vs"
| "decodeStrings z (v # vs) = Inl (errorf ''cannot unmarshal into Go value of type string'')"

fun decodeInts :: "(int \<Rightarrow> bool) \<Rightarrow> int \<Rightarrow> json list \<Rightarrow> int res" where
  "decodeInts fits z [] = Inr z"
| "decodeInts fits z (JNum i # vs) =
     (if fits i then decodeInts fits i vs else Inl (errorf ''cannot unmarshal number''))"
| "decodeInts fits z (v # vs) = Inl (errorf ''cannot unmarshal into Go value of integer type'')"

fun decodeFloats :: "float64 \<Rightarrow> json list \<Rightarrow> float64 res" where
  "decodeFloats z [] = Inr z"
| "decodeFloats z (JNum i # vs) =
     (if inFloat64 i then decodeFloats (toFloat64 i) vs else Inl (errorf ''cannot unmarshal number''))"
| "decodeFloats z (JFrac x # vs) = decodeFloats x vs"
| "decodeFloats z (v # vs) = Inl (errorf ''cannot unmarshal into Go value of type float64'')"

definition stringField :: "(string \<times> json) list \<Rightarrow> string \<Rightarrow> string res" where
  "stringField kvs name = decodeStrings [] (fieldValues kvs name)"

definition int32Field :: "(string \<times> json) list \<Rightarrow> string \<Rightarrow> int32 res" where
  "int32Field kvs name = decodeInts in_int32 0 (fieldValues kvs name)"

definition int64Field :: "(string \<times> json) list \<Rightarrow> string \<Rightarrow> int64 res" where
  "int64Field kvs name = decodeInts in_int64 0 (fieldValues kvs name)"

definition floatField :: "(string \<times> json) list \<Rightarrow> string \<Rightarrow> float64 res" where
  "floatField kvs name = decodeFloats (Flt False 0 0) (fieldValues kvs name)"

abbreviation andThen :: "'a res \<Rightarrow> ('a \<Rightarrow> 'b res) \<Rightarrow> 'b res" where
  "andThen x f \<equiv> (case x of Inl e \<Rightarrow> Inl e | Inr a \<Rightarrow> f a)"

section \<open>\<open>restapi.go\<close>\<close>

record RESTClient =
  rc_baseURL :: string
  rc_password :: string
  rc_timeout :: duration

definition NewRESTClient :: "string \<Rightarrow> int32 \<Rightarrow> string \<Rightarrow> RESTClient" where
  "NewRESTClient host port adminPassword =
     \<lparr>rc_baseURL = ''http://'' @ host @ '':'' @ itoa port, rc_password = adminPassword,
      rc_timeout = 10 * Second\<rparr>"

definition NewRESTClientURL :: "string \<Rightarrow> string \<Rightarrow> RESTClient" where
  "NewRESTClientURL baseURL adminPassword =
     \<lparr>rc_baseURL = trimRightSlash baseURL, rc_password = adminPassword, rc_timeout = 10 * Second\<rparr>"

definition WithTimeout :: "RESTClient \<Rightarrow> duration \<Rightarrow> RESTClient" where
  "WithTimeout c d = c\<lparr>rc_timeout := d\<rparr>"

record ServerInfo =
  inf_Version :: string
  inf_ServerName :: string
  inf_Description :: string
  inf_WorldGUID :: string

record ServerMetrics =
  mt_ServerFPS :: int32
  mt_CurrentPlayerNum :: int32
  mt_ServerFrameTime :: float64
  mt_MaxPlayerNum :: int32
  mt_Uptime :: int64
  mt_Days :: int32

record Player =
  pl_Name :: string
  pl_PlayerID :: string
  pl_UserID :: string
  pl_IP :: string
  pl_Ping :: float64
  pl_Level :: int32
  pl_LocationX :: float64
  pl_LocationY :: float64

text \<open>The zero structs, which an empty response body leaves in place.\<close>

definition zeroInfo :: ServerInfo where
  "zeroInfo = \<lparr>inf_Version = [], inf_ServerName = [], inf_Description = [], inf_WorldGUID = []\<rparr>"

definition zeroMetrics :: ServerMetrics where
  "zeroMetrics = \<lparr>mt_ServerFPS = 0, mt_CurrentPlayerNum = 0, mt_ServerFrameTime = Flt False 0 0,
     mt_MaxPlayerNum = 0, mt_Uptime = 0, mt_Days = 0\<rparr>"

fun decodeInfo :: "json \<Rightarrow> ServerInfo res" where
  "decodeInfo (JObj kvs) =
     andThen (stringField kvs ''version'') (\<lambda>v.
     andThen (stringField kvs ''servername'') (\<lambda>n.
     andThen (stringField kvs ''description'') (\<lambda>d.
     andThen (stringField kvs ''worldguid'') (\<lambda>g.
       Inr \<lparr>inf_Version = v, inf_ServerName = n, inf_Description = d, inf_WorldGUID = g\<rparr>))))"
| "decodeInfo JNull = Inr zeroInfo"
| "decodeInfo _ = Inl (errorf ''cannot unmarshal into Go value of type palworld.ServerInfo'')"

fun decodeMetrics :: "json \<Rightarrow> ServerMetrics res" where
  "decodeMetrics (JObj kvs) =
     andThen (int32Field kvs ''serverfps'') (\<lambda>f.
     andThen (int32Field kvs ''currentplayernum'') (\<lambda>c.
     andThen (floatField kvs ''serverframetime'') (\<lambda>t.
     andThen (int32Field kvs ''maxplayernum'') (\<lambda>m.
     andThen (int64Field kvs ''uptime'') (\<lambda>u.
     andThen (int32Field kvs ''days'') (\<lambda>d.
       Inr \<lparr>mt_ServerFPS = f, mt_CurrentPlayerNum = c, mt_ServerFrameTime = t, mt_MaxPlayerNum = m,
            mt_Uptime = u, mt_Days = d\<rparr>))))))"
| "decodeMetrics JNull = Inr zeroMetrics"
| "decodeMetrics _ = Inl (errorf ''cannot unmarshal into Go value of type palworld.ServerMetrics'')"

fun decodePlayer :: "json \<Rightarrow> Player res" where
  "decodePlayer (JObj kvs) =
     andThen (stringField kvs ''name'') (\<lambda>n.
     andThen (stringField kvs ''playerId'') (\<lambda>p.
     andThen (stringField kvs ''userId'') (\<lambda>u.
     andThen (stringField kvs ''ip'') (\<lambda>i.
     andThen (floatField kvs ''ping'') (\<lambda>g.
     andThen (int32Field kvs ''level'') (\<lambda>l.
     andThen (floatField kvs ''location_x'') (\<lambda>x.
     andThen (floatField kvs ''location_y'') (\<lambda>y.
       Inr \<lparr>pl_Name = n, pl_PlayerID = p, pl_UserID = u, pl_IP = i, pl_Ping = g, pl_Level = l,
            pl_LocationX = x, pl_LocationY = y\<rparr>))))))))"
| "decodePlayer JNull = Inr \<lparr>pl_Name = [], pl_PlayerID = [], pl_UserID = [], pl_IP = [],
     pl_Ping = Flt False 0 0, pl_Level = 0, pl_LocationX = Flt False 0 0, pl_LocationY = Flt False 0 0\<rparr>"
| "decodePlayer _ = Inl (errorf ''cannot unmarshal into Go value of type palworld.Player'')"

fun decodePlayerList :: "json list \<Rightarrow> Player list res" where
  "decodePlayerList [] = Inr []"
| "decodePlayerList (v # vs) = andThen (decodePlayer v) (\<lambda>p. andThen (decodePlayerList vs) (\<lambda>ps. Inr (p # ps)))"

text \<open>Each match of \<open>players\<close> decodes over the slice; the last one stays.\<close>

fun decodePlayerArrays :: "Player list \<Rightarrow> json list \<Rightarrow> Player list res" where
  "decodePlayerArrays z [] = Inr z"
| "decodePlayerArrays z (JArr xs # vs) = andThen (decodePlayerList xs) (\<lambda>ps. decodePlayerArrays ps vs)"
| "decodePlayerArrays z (v # vs) = Inl (errorf ''cannot unmarshal into Go value of type []palworld.Player'')"

fun decodePlayers :: "json \<Rightarrow> Player list res" where
  "decodePlayers (JObj kvs) = decodePlayerArrays [] (fieldValues kvs ''players'')"
| "decodePlayers JNull = Inr []"
| "decodePlayers _ = Inl (errorf ''cannot unmarshal into Go value of type palworld.playersResponse'')"

fun methodString :: "httpMethod \<Rightarrow> string" where
  "methodString HttpGet = ''GET''"
| "methodString HttpPost = ''POST''"

text \<open>
  \<open>do\<close>: the request, the status check and the decoding into the out parameter, whose initial value
  is \<open>zero\<close>. Marshalling the bodies used here cannot fail. The decoder is \<open>None\<close> where \<open>out\<close> is nil.
\<close>

definition do_request :: "RESTClient \<Rightarrow> httpMethod \<Rightarrow> string \<Rightarrow> json option \<Rightarrow> 'a \<Rightarrow> (json \<Rightarrow> 'a res) option \<Rightarrow> 'a res k" where
  "do_request c method path body zero out = do {
     r \<leftarrow> call (Http \<lparr>rq_Method = method, rq_URL = rc_baseURL c @ path,
                     rq_BasicAuth = Some (''admin'', rc_password c), rq_Body = body,
                     rq_Timeout = rc_timeout c\<rparr>);
     ret (case asResponse r of
            Inl e \<Rightarrow> Inl e
          | Inr resp \<Rightarrow>
              if rp_Status resp < 200 \<or> 300 \<le> rp_Status resp
              then Inl (errorf (''palworld REST '' @ methodString method @ '' '' @ path @ '': status ''
                     @ itoa (rp_Status resp) @ '': '' @ rp_Data resp))
              else (case out of
                      None \<Rightarrow> Inr zero
                    | Some decode \<Rightarrow>
                        if rp_Data resp = [] then Inr zero
                        else (case rp_Json resp of
                                None \<Rightarrow> Inl (errorf ''decode response: invalid JSON'')
                              | Some j \<Rightarrow>
                                  (case decode j of
                                     Inl e \<Rightarrow> Inl (wrapErr ''decode response: '' e)
                                   | Inr x \<Rightarrow> Inr x))))
   }"

definition Info :: "RESTClient \<Rightarrow> ServerInfo res k" where
  "Info c = do_request c HttpGet ''/v1/api/info'' None zeroInfo (Some decodeInfo)"

definition Metrics :: "RESTClient \<Rightarrow> ServerMetrics res k" where
  "Metrics c = do_request c HttpGet ''/v1/api/metrics'' None zeroMetrics (Some decodeMetrics)"

definition Players :: "RESTClient \<Rightarrow> Player list res k" where
  "Players c = do_request c HttpGet ''/v1/api/players'' None [] (Some decodePlayers)"

definition Announce :: "RESTClient \<Rightarrow> string \<Rightarrow> unit res k" where
  "Announce c message =
     do_request c HttpPost ''/v1/api/announce'' (Some (JObj [(''message'', JStr message)])) () None"

definition Save :: "RESTClient \<Rightarrow> unit res k" where
  "Save c = do_request c HttpPost ''/v1/api/save'' (Some (JObj [])) () None"

definition Shutdown :: "RESTClient \<Rightarrow> int32 \<Rightarrow> string \<Rightarrow> unit res k" where
  "Shutdown c waitSeconds message =
     do_request c HttpPost ''/v1/api/shutdown''
       (Some (JObj [(''message'', JStr message), (''waittime'', JNum waitSeconds)])) () None"

definition Stop :: "RESTClient \<Rightarrow> unit res k" where
  "Stop c = do_request c HttpPost ''/v1/api/stop'' (Some (JObj [])) () None"

definition Kick :: "RESTClient \<Rightarrow> string \<Rightarrow> string \<Rightarrow> unit res k" where
  "Kick c userID message =
     do_request c HttpPost ''/v1/api/kick''
       (Some (JObj [(''message'', JStr message), (''userid'', JStr userID)])) () None"

section \<open>\<open>steam.go\<close>\<close>

definition PalworldSteamAppID :: string where "PalworldSteamAppID = ''2394010''"

definition DefaultSteamInfoEndpoint :: string where
  "DefaultSteamInfoEndpoint = ''https://api.steamcmd.net/v1/info''"

record SteamPoller =
  poller_endpoint :: string
  poller_timeout :: duration

definition NewSteamPoller :: "string \<Rightarrow> SteamPoller" where
  "NewSteamPoller endpoint =
     \<lparr>poller_endpoint = (if endpoint = [] then DefaultSteamInfoEndpoint else endpoint),
      poller_timeout = 20 * Second\<rparr>"

text \<open>
  \<open>steamCmdInfoResponse\<close>: maps keep the last value of a key, and repeated struct keys decode into the
  same map, so a map is the list of its assignments in order.
\<close>

fun decodeAll :: "(json \<Rightarrow> 'a res) \<Rightarrow> (string \<times> json) list \<Rightarrow> (string \<times> 'a) list res" where
  "decodeAll f [] = Inr []"
| "decodeAll f ((key, v) # kvs) = andThen (f v) (\<lambda>x. andThen (decodeAll f kvs) (\<lambda>xs. Inr ((key, x) # xs)))"

fun decodeMaps :: "(json \<Rightarrow> 'a res) \<Rightarrow> json list \<Rightarrow> (string \<times> 'a) list res" where
  "decodeMaps f [] = Inr []"
| "decodeMaps f (JObj kvs # vs) = andThen (decodeAll f kvs) (\<lambda>xs. andThen (decodeMaps f vs) (\<lambda>ys. Inr (xs @ ys)))"
| "decodeMaps f (v # vs) = Inl (errorf ''cannot unmarshal into Go value of map type'')"

text \<open>A branch is its build id; \<open>timeupdated\<close> must also be a string.\<close>

fun decodeBranch :: "json \<Rightarrow> string res" where
  "decodeBranch (JObj kvs) =
     andThen (stringField kvs ''buildid'') (\<lambda>b. andThen (stringField kvs ''timeupdated'') (\<lambda>t. Inr b))"
| "decodeBranch JNull = Inr []"
| "decodeBranch _ = Inl (errorf ''cannot unmarshal into Go value of struct type'')"

fun decodeDepots :: "json list \<Rightarrow> (string \<times> string) list res" where
  "decodeDepots [] = Inr []"
| "decodeDepots (JObj kvs # vs) =
     andThen (decodeMaps decodeBranch (fieldValues kvs ''branches'')) (\<lambda>xs.
     andThen (decodeDepots vs) (\<lambda>ys. Inr (xs @ ys)))"
| "decodeDepots (v # vs) = Inl (errorf ''cannot unmarshal into Go value of struct type'')"

fun decodeApp :: "json \<Rightarrow> (string \<times> string) list res" where
  "decodeApp (JObj kvs) = decodeDepots (fieldValues kvs ''depots'')"
| "decodeApp JNull = Inr []"
| "decodeApp _ = Inl (errorf ''cannot unmarshal into Go value of struct type'')"

fun decodeSteamInfo :: "json \<Rightarrow> (string \<times> (string \<times> string) list) list res" where
  "decodeSteamInfo (JObj kvs) =
     andThen (stringField kvs ''status'') (\<lambda>st. decodeMaps decodeApp (fieldValues kvs ''data''))"
| "decodeSteamInfo JNull = Inr []"
| "decodeSteamInfo _ = Inl (errorf ''cannot unmarshal into Go value of struct type'')"

definition lookupLast :: "(string \<times> 'a) list \<Rightarrow> string \<Rightarrow> 'a option" where
  "lookupLast kvs key = map_of (rev kvs) key"

definition buildOf :: "string \<Rightarrow> (string \<times> (string \<times> string) list) list \<Rightarrow> string res" where
  "buildOf branch parsed =
     (case lookupLast parsed PalworldSteamAppID of
        None \<Rightarrow> Inl (errorf (''steam info: app '' @ PalworldSteamAppID @ '' not present in response''))
      | Some app \<Rightarrow>
          (case lookupLast app branch of
             None \<Rightarrow> Inl (errorf (''steam info: branch '' @ quote branch @ '' not found''))
           | Some b \<Rightarrow>
               if b = [] then Inl (errorf (''steam info: empty build id for branch '' @ quote branch))
               else Inr b))"

definition LatestBuildID :: "SteamPoller \<Rightarrow> string \<Rightarrow> string res k" where
  "LatestBuildID p branch =
     (let branch = (if branch = [] then ''public'' else branch);
          url = poller_endpoint p @ ''/'' @ PalworldSteamAppID
      in do {
        r \<leftarrow> call (Http \<lparr>rq_Method = HttpGet, rq_URL = url, rq_BasicAuth = None, rq_Body = None,
                        rq_Timeout = poller_timeout p\<rparr>);
        ret (case asResponse r of
               Inl e \<Rightarrow> Inl (wrapErr ''steam info request: '' e)
             | Inr resp \<Rightarrow>
                 if rp_Status resp \<noteq> 200
                 then Inl (errorf (''steam info: status '' @ itoa (rp_Status resp)))
                 else (case rp_Json resp of
                         None \<Rightarrow> Inl (errorf ''decode steam info: invalid JSON'')
                       | Some j \<Rightarrow>
                           (case decodeSteamInfo j of
                              Inl e \<Rightarrow> Inl (wrapErr ''decode steam info: '' e)
                            | Inr parsed \<Rightarrow> buildOf branch parsed)))
      })"

section \<open>\<open>rcon.go\<close>\<close>

record RCONClient =
  rcon_address :: string
  rcon_password :: string
  rcon_timeout :: duration

definition NewRCONClient :: "string \<Rightarrow> int32 \<Rightarrow> string \<Rightarrow> RCONClient" where
  "NewRCONClient host port password =
     \<lparr>rcon_address = host @ '':'' @ itoa port, rcon_password = password, rcon_timeout = 10 * Second\<rparr>"

text \<open>Dialling and executing are one call of the library: the error says which of them failed.\<close>

definition rconExec :: "RCONClient \<Rightarrow> string \<Rightarrow> string res k" where
  "rconExec c command = do {
     r \<leftarrow> call (Rcon (rcon_address c) (rcon_password c) command (rcon_timeout c));
     ret (asText r)
   }"

definition rconInfo :: "RCONClient \<Rightarrow> string res k" where
  "rconInfo c = rconExec c ''Info''"

definition dropResult :: "'a res \<Rightarrow> unit res" where
  "dropResult x = (case x of Inl e \<Rightarrow> Inl e | Inr _ \<Rightarrow> Inr ())"

definition Broadcast :: "RCONClient \<Rightarrow> string \<Rightarrow> unit res k" where
  "Broadcast c message = do {
     x \<leftarrow> rconExec c (''Broadcast '' @ replaceAll message '' '' ''_'');
     ret (dropResult x)
   }"

definition rconSave :: "RCONClient \<Rightarrow> unit res k" where
  "rconSave c = do { x \<leftarrow> rconExec c ''Save''; ret (dropResult x) }"

definition rconShutdown :: "RCONClient \<Rightarrow> int32 \<Rightarrow> string \<Rightarrow> unit res k" where
  "rconShutdown c seconds message = do {
     x \<leftarrow> rconExec c (''Shutdown '' @ itoa seconds @ '' '' @ replaceAll message '' '' ''_'');
     ret (dropResult x)
   }"

definition DoExit :: "RCONClient \<Rightarrow> unit res k" where
  "DoExit c = do { x \<leftarrow> rconExec c ''DoExit''; ret (dropResult x) }"

definition ShowPlayers :: "RCONClient \<Rightarrow> string res k" where
  "ShowPlayers c = rconExec c ''ShowPlayers''"

text \<open>The loop of \<open>CountPlayers\<close> over the lines; the flag says whether the line is the first.\<close>

fun countLines :: "bool \<Rightarrow> string list \<Rightarrow> nat" where
  "countLines first [] = 0"
| "countLines first (l # ls) =
     (let line = trimSpace l in
      if line = [] then countLines False ls
      else if first \<and> hasPrefix (toLower line) ''name'' then countLines False ls
      else Suc (countLines False ls))"

definition CountPlayers :: "RCONClient \<Rightarrow> nat res k" where
  "CountPlayers c = do {
     x \<leftarrow> ShowPlayers c;
     ret (case x of
            Inl e \<Rightarrow> Inl e
          | Inr out \<Rightarrow> Inr (countLines True (splitOn CHR 0x0A (trimSpace out))))
   }"

section \<open>Lemmas\<close>

text \<open>A request is one HTTP call with the operator's credentials, whatever comes back.\<close>

lemma do_request_ensures:
  "ensures (\<lambda>v es. \<exists>r. es = [(Http \<lparr>rq_Method = method, rq_URL = rc_baseURL c @ path,
       rq_BasicAuth = Some (''admin'', rc_password c), rq_Body = body, rq_Timeout = rc_timeout c\<rparr>, r)])
     (do_request c method path body zero out)"
  unfolding do_request_def by (intro ensures_intros) simp

text \<open>
  Interface: a JSON scalar decoder. Decoding the one value an encoder writes gives the value back,
  and an absent or null key gives the zero value.
\<close>

locale scalar_codec =
  fixes enc :: "'a \<Rightarrow> json" and dec :: "(string \<times> json) list \<Rightarrow> string \<Rightarrow> 'a res"
    and fits :: "'a \<Rightarrow> bool" and zero :: 'a
  assumes dec_one: "fits x \<Longrightarrow> dec ((name, enc x) # []) name = Inr x"
    and dec_absent: "dec [] name = Inr zero"
    and dec_skip: "toLower n \<noteq> toLower name \<Longrightarrow> dec ((n, v) # kvs) name = dec kvs name"
begin

lemma dec_only:
  assumes "fits x"
    and "\<And>n v. (n, v) \<in> set kvs \<Longrightarrow> toLower n \<noteq> toLower name"
  shows "dec (kvs @ [(name, enc x)]) name = Inr x"
  using assms(2)
proof (induction kvs)
  case Nil
  show ?case using dec_one [OF assms(1)] by simp
next
  case (Cons kv kvs)
  obtain n v where kv: "kv = (n, v)" by (cases kv)
  have "toLower n \<noteq> toLower name" using Cons.prems kv by auto
  moreover have "dec (kvs @ [(name, enc x)]) name = Inr x" using Cons by auto
  ultimately show ?case by (simp add: kv dec_skip)
qed

lemma dec_missing:
  assumes "\<And>n v. (n, v) \<in> set kvs \<Longrightarrow> toLower n \<noteq> toLower name"
  shows "dec kvs name = Inr zero"
  using assms
proof (induction kvs)
  case Nil
  show ?case by (rule dec_absent)
next
  case (Cons kv kvs)
  obtain n v where kv: "kv = (n, v)" by (cases kv)
  have "toLower n \<noteq> toLower name" using Cons.prems kv by auto
  moreover have "dec kvs name = Inr zero" using Cons by auto
  ultimately show ?case by (simp add: kv dec_skip)
qed

end

interpretation str_codec: scalar_codec JStr stringField "\<lambda>s. True" "[]"
  by unfold_locales (simp_all add: stringField_def fieldValues_def)

interpretation i32_codec: scalar_codec JNum int32Field in_int32 0
  by unfold_locales (simp_all add: int32Field_def fieldValues_def)

interpretation i64_codec: scalar_codec JNum int64Field in_int64 0
  by unfold_locales (simp_all add: int64Field_def fieldValues_def)

lemma splitOn_nosep: "x \<notin> set s \<Longrightarrow> splitOn x s = [s]"
  by (induction s) auto

lemma splitOn_app: "x \<notin> set s \<Longrightarrow> splitOn x (s @ x # t) = s # splitOn x t"
  by (induction s) auto

lemma splitOn_joinStr:
  "ls \<noteq> [] \<Longrightarrow> (\<And>l. l \<in> set ls \<Longrightarrow> x \<notin> set l) \<Longrightarrow> splitOn x (joinStr ls [x]) = ls"
proof (induction ls "[x]" rule: joinStr.induct)
  case (3 l l' ls)
  then show ?case by (simp add: splitOn_app)
qed (simp_all add: splitOn_nosep)

text \<open>A line as the server prints it: not empty, no surrounding white space, no line break.\<close>

definition goodLine :: "string \<Rightarrow> bool" where
  "goodLine l \<longleftrightarrow> l \<noteq> [] \<and> \<not> isSpace (hd l) \<and> \<not> isSpace (last l) \<and> CHR 0x0A \<notin> set l"

lemma trimSpace_id: "s \<noteq> [] \<Longrightarrow> \<not> isSpace (hd s) \<Longrightarrow> \<not> isSpace (last s) \<Longrightarrow> trimSpace s = s"
proof -
  assume s: "s \<noteq> []" "\<not> isSpace (hd s)" "\<not> isSpace (last s)"
  then have "dropWhile isSpace s = s" "dropWhile isSpace (rev s) = rev s"
    by (simp_all add: dropWhile_eq_self_iff hd_rev)
  then show ?thesis by (simp add: trimSpace_def)
qed

lemma goodLine_trim: "goodLine l \<Longrightarrow> trimSpace l = l"
  by (simp add: goodLine_def trimSpace_id)

lemma joinStr_hd_last:
  "ls \<noteq> [] \<Longrightarrow> list_all goodLine ls
     \<Longrightarrow> joinStr ls sep \<noteq> [] \<and> hd (joinStr ls sep) = hd (hd ls) \<and> last (joinStr ls sep) = last (last ls)"
  by (induction ls sep rule: joinStr.induct) (auto simp: goodLine_def)

lemma countLines_rest: "list_all goodLine ls \<Longrightarrow> countLines False ls = length ls"
  by (induction ls) (simp_all add: goodLine_trim Let_def, simp add: goodLine_def)

lemma lines_of_output:
  assumes "list_all goodLine (l # ls)"
  shows "splitOn CHR 0x0A (trimSpace (joinStr (l # ls) [CHR 0x0A])) = l # ls"
proof -
  let ?s = "joinStr (l # ls) [CHR 0x0A]"
  have "?s \<noteq> []" "hd ?s = hd l" "last ?s = last (last (l # ls))"
    using joinStr_hd_last [of "l # ls" "[CHR 0x0A]"] assms by auto
  moreover have "goodLine l" "goodLine (last (l # ls))" using assms by (auto simp: list_all_iff)
  ultimately have "trimSpace ?s = ?s" by (intro trimSpace_id) (auto simp: goodLine_def)
  moreover have "splitOn CHR 0x0A ?s = l # ls"
    by (rule splitOn_joinStr) (use assms in \<open>auto simp: list_all_iff goodLine_def\<close>)
  ultimately show ?thesis by simp
qed

section \<open>Properties\<close>

text \<open>
  A build id reported by the Steam poller is never empty and is the one the response publishes
  for the branch: every other response, status or transport failure is an error.
\<close>

theorem LatestBuildID_published:
  "ensures (\<lambda>v es. \<exists>r. map snd es = [r] \<and>
      (\<forall>b. v = Inr b \<longrightarrow> b \<noteq> [] \<and>
        (\<exists>resp j parsed app. r = RResponse resp \<and> rp_Status resp = 200 \<and> rp_Json resp = Some j
           \<and> decodeSteamInfo j = Inr parsed \<and> lookupLast parsed PalworldSteamAppID = Some app
           \<and> lookupLast app (if branch = [] then ''public'' else branch) = Some b)))
     (LatestBuildID p branch)"
proof -
  have resp: "asResponse r = Inr x \<Longrightarrow> r = RResponse x" for r x
    by (cases r rule: asResponse.cases) auto
  show ?thesis
    unfolding LatestBuildID_def Let_def
    by (intro ensures_intros) (auto simp: buildOf_def split: sum.splits if_splits option.splits dest: resp)
qed

theorem LatestBuildID_published_witness:
  "\<exists>app. lookupLast [(PalworldSteamAppID, [(''public'', ''18512345'')])] PalworldSteamAppID = Some app
     \<and> lookupLast app ''public'' = Some ''18512345''"
proof -
  let ?j = "JObj [(''status'', JStr ''success''), (''data'', JObj [(''2394010'',
      JObj [(''depots'', JObj [(''branches'', JObj [(''public'',
        JObj [(''buildid'', JStr ''18512345'')])])])])])]"
  let ?w = "\<lparr>srv = \<lambda>h c. RResponse \<lparr>rp_Status = 200, rp_Data = ''{}'', rp_Json = Some ?j\<rparr>, hist = []\<rparr>"
  have dec: "decodeSteamInfo ?j = Inr [(PalworldSteamAppID, [(''public'', ''18512345'')])]"
    by (simp add: fieldValues_def stringField_def PalworldSteamAppID_def toLower_def lowerChar_def Let_def)
  then have v: "val (LatestBuildID (NewSteamPoller []) []) ?w = Inr ''18512345''"
    by (simp add: LatestBuildID_def Let_def val_call buildOf_def lookupLast_def)
  have e: "map snd (events (LatestBuildID (NewSteamPoller []) []) ?w) =
      [RResponse \<lparr>rp_Status = 200, rp_Data = ''{}'', rp_Json = Some ?j\<rparr>]"
    by (simp add: LatestBuildID_def Let_def)
  from ensuresD [OF LatestBuildID_published [of "[]" "NewSteamPoller []"], of ?w]
  show ?thesis unfolding v e using dec by auto
qed

text \<open>
  Counting the players of a \<open>ShowPlayers\<close> listing that has the CSV header and one line per
  player gives the number of players.
\<close>

theorem CountPlayers_listing:
  assumes "list_all goodLine (header # players)" and "hasPrefix (toLower header) ''name''"
    and "srv w (hist w) (Rcon (rcon_address c) (rcon_password c) ''ShowPlayers'' (rcon_timeout c)) =
      RText (joinStr (header # players) [CHR 0x0A])"
  shows "val (CountPlayers c) w = Inr (length players)"
proof -
  have "list_all goodLine players" "goodLine header" using assms(1) by simp_all
  then have "countLines True (header # players) = length players"
    using assms(2) by (simp add: Let_def goodLine_trim countLines_rest)
  with lines_of_output [OF assms(1)] assms(3) show ?thesis
    by (simp add: CountPlayers_def ShowPlayers_def rconExec_def val_call)
qed

theorem CountPlayers_listing_witness:
  "val (CountPlayers (NewRCONClient ''h'' 25575 ''pw''))
     \<lparr>srv = \<lambda>h c. RText (joinStr [''name,playeruid,steamid'', ''Ann,1,2'', ''Bob,3,4''] [CHR 0x0A]),
      hist = []\<rparr> = Inr 2"
  using CountPlayers_listing [of "''name,playeruid,steamid''" "[''Ann,1,2'', ''Bob,3,4'']"
      "\<lparr>srv = \<lambda>h c. RText (joinStr [''name,playeruid,steamid'', ''Ann,1,2'', ''Bob,3,4''] [CHR 0x0A]),
        hist = []\<rparr>" "NewRCONClient ''h'' 25575 ''pw''"]
  by (simp add: goodLine_def isSpace_def toLower_def lowerChar_def Let_def)

end
