(* ===== verification/ControllerHelpers.thy ===== *)
theory ControllerHelpers
  imports PalworldClients
begin

text \<open>
  \<^verbatim>\<open>internal/controller/helpers.go\<close> and \<open>conditions.go\<close>: capability probing, the credentials and
  REST client of a game, the get-then-create-or-update of Services and unstructured objects, the
  condition setters, and the result type shared by the three controllers.
\<close>

section \<open>Results\<close>

record Result =
  res_Requeue :: bool
  res_RequeueAfter :: duration

definition noResult :: Result where
  "noResult = \<lparr>res_Requeue = False, res_RequeueAfter = 0\<rparr>"

definition requeueNow :: Result where
  "requeueNow = \<lparr>res_Requeue = True, res_RequeueAfter = 0\<rparr>"

definition requeueAfter :: "duration \<Rightarrow> Result" where
  "requeueAfter d = \<lparr>res_Requeue = False, res_RequeueAfter = d\<rparr>"

lemmas result_defs = noResult_def requeueNow_def requeueAfter_def

section \<open>\<open>helpers.go\<close>\<close>

definition hasAPI :: "GroupVersionKind \<Rightarrow> bool k" where
  "hasAPI gvk = do { r \<leftarrow> call (RESTMapping gvk); ret (asErr r = None) }"

text \<open>The reader is the call that reads: cached or straight from the API server.\<close>

definition credentialsReader :: "bool \<Rightarrow> PalworldGame \<Rightarrow> kkind \<Rightarrow> objKey \<Rightarrow> call" where
  "credentialsReader uncached g =
     (if cr_SecretName (gs_Credentials (g_Spec g)) \<noteq> [] \<and> uncached then GetUncached else Get)"

definition adminPassword :: "bool \<Rightarrow> PalworldGame \<Rightarrow> string res k" where
  "adminPassword uncached g =
     (let secretName = CredentialsSecretName g in do {
        r \<leftarrow> call (credentialsReader uncached g SecretKind (g_Namespace g, secretName));
        ret (case asSecret r of
               Inl e \<Rightarrow> Inl e
             | Inr secret \<Rightarrow>
                 (let key = AdminPasswordKey g in
                  case sec_Data secret key of
                    None \<Rightarrow> Inl (errorf (''secret '' @ secretName @ '' missing key '' @ key))
                  | Some v \<Rightarrow> Inr v))
      })"

definition adminHost :: "PalworldGame \<Rightarrow> string" where
  "adminHost g = AdminServiceName g @ ''.'' @ g_Namespace g @ ''.svc''"

definition restClientFor :: "bool \<Rightarrow> PalworldGame \<Rightarrow> RESTClient res k" where
  "restClientFor uncached g = do {
     pw \<leftarrow> adminPassword uncached g;
     ret (case pw of Inl e \<Rightarrow> Inl e | Inr p \<Rightarrow> Inr (NewRESTClient (adminHost g) RESTPort p))
   }"

text \<open>
  \<open>reconcileService\<close>: the preserved node ports (the inner loop assigns every match, so the last one
  stays), the fields copied onto the live Service, and the write that is skipped when nothing changed.
\<close>

definition preservedNodePort :: "ServicePort list \<Rightarrow> ServicePort \<Rightarrow> ServicePort" where
  "preservedNodePort existing p =
     (if sp_NodePort p \<noteq> 0 then p
      else foldl (\<lambda>p ep. if sp_Name ep = sp_Name p then p\<lparr>sp_NodePort := sp_NodePort ep\<rparr> else p) p existing)"

definition mergeService :: "Service \<Rightarrow> Service \<Rightarrow> Service" where
  "mergeService existing desired =
     existing\<lparr>
       svc_Meta := (svc_Meta existing)\<lparr>m_Labels := m_Labels (svc_Meta desired),
                                       m_Annotations := m_Annotations (svc_Meta desired)\<rparr>,
       svc_Spec := (svc_Spec existing)\<lparr>
         ssp_Type := ssp_Type (svc_Spec desired),
         ssp_Selector := ssp_Selector (svc_Spec desired),
         ssp_Ports := map (preservedNodePort (ssp_Ports (svc_Spec existing))) (ssp_Ports (svc_Spec desired)),
         ssp_PublishNotReadyAddresses := ssp_PublishNotReadyAddresses (svc_Spec desired),
         ssp_ExternalTrafficPolicy := ssp_ExternalTrafficPolicy (svc_Spec desired),
         ssp_LoadBalancerIP := ssp_LoadBalancerIP (svc_Spec desired),
         ssp_LoadBalancerClass := ssp_LoadBalancerClass (svc_Spec desired)\<rparr>\<rparr>"

definition reconcileService :: "Lib \<Rightarrow> PalworldGame \<Rightarrow> Service \<Rightarrow> kerr option k" where
  "reconcileService L owner desired = do {
     r \<leftarrow> call (Get ServiceKind (m_Namespace (svc_Meta desired), m_Name (svc_Meta desired)));
     case asService r of
       Inl e \<Rightarrow>
         if IsNotFound e
         then (case x_SetControllerReference L ''PalworldGame'' (g_Meta owner) (svc_Meta desired) of
                 Inl e' \<Rightarrow> ret (Some e')
               | Inr m \<Rightarrow> do { c \<leftarrow> call (Create (OService (desired\<lparr>svc_Meta := m\<rparr>))); ret (asErr c) })
         else ret (Some e)
     | Inr existing \<Rightarrow>
         (let before = existing; merged = mergeService existing desired in
          case x_SetControllerReference L ''PalworldGame'' (g_Meta owner) (svc_Meta merged) of
            Inl e' \<Rightarrow> ret (Some e')
          | Inr m \<Rightarrow>
              (let merged = merged\<lparr>svc_Meta := m\<rparr> in
               if x_DeepEqual L (AObj (OService before)) (AObj (OService merged)) then ret None
               else do { c \<leftarrow> call (Update (OService merged)); ret (asErr c) }))
   }"

definition unstructuredManagedEqual :: "Lib \<Rightarrow> Unstructured \<Rightarrow> Unstructured \<Rightarrow> bool" where
  "unstructuredManagedEqual L existing desired =
     (if \<not> x_DeepEqual L (ALabels (m_Labels (un_Meta existing))) (ALabels (m_Labels (un_Meta desired)))
        \<or> \<not> x_DeepEqual L (ALabels (m_Annotations (un_Meta existing))) (ALabels (m_Annotations (un_Meta desired)))
        \<or> \<not> x_DeepEqual L (AOwners (m_OwnerReferences (un_Meta existing))) (AOwners (m_OwnerReferences (un_Meta desired)))
      then False
      else x_DeepEqual L (ASpec (un_Spec existing)) (ASpec (un_Spec desired)))"

definition reconcileUnstructured :: "Lib \<Rightarrow> PalworldGame \<Rightarrow> Unstructured \<Rightarrow> kerr option k" where
  "reconcileUnstructured L owner desired = do {
     r \<leftarrow> call (Get (UnKind (un_GVK desired)) (m_Namespace (un_Meta desired), m_Name (un_Meta desired)));
     case asUn r of
       Inl e \<Rightarrow>
         if IsNotFound e
         then (case x_SetControllerReference L ''PalworldGame'' (g_Meta owner) (un_Meta desired) of
                 Inl e' \<Rightarrow> ret (Some e')
               | Inr m \<Rightarrow> do { c \<leftarrow> call (Create (OUn (desired\<lparr>un_Meta := m\<rparr>))); ret (asErr c) })
         else ret (Some e)
     | Inr existing \<Rightarrow>
         (let desired = desired\<lparr>un_Meta := (un_Meta desired)\<lparr>m_ResourceVersion := m_ResourceVersion (un_Meta existing)\<rparr>\<rparr> in
          case x_SetControllerReference L ''PalworldGame'' (g_Meta owner) (un_Meta desired) of
            Inl e' \<Rightarrow> ret (Some e')
          | Inr m \<Rightarrow>
              (let desired = desired\<lparr>un_Meta := m\<rparr> in
               if unstructuredManagedEqual L existing desired then ret None
               else do { c \<leftarrow> call (Update (OUn desired)); ret (asErr c) }))
   }"

fun containsString :: "string list \<Rightarrow> string \<Rightarrow> bool" where
  "containsString [] v = False"
| "containsString (x # xs) v = (if x = v then True else containsString xs v)"

fun removeString :: "string list \<Rightarrow> string \<Rightarrow> string list" where
  "removeString [] v = []"
| "removeString (x # xs) v = (if x \<noteq> v then x # removeString xs v else removeString xs v)"

section \<open>\<open>conditions.go\<close>\<close>

definition setStatusCondition ::
    "Lib \<Rightarrow> Condition list \<Rightarrow> string \<Rightarrow> ConditionStatus \<Rightarrow> string \<Rightarrow> string \<Rightarrow> int64 \<Rightarrow> Condition list" where
  "setStatusCondition L conditions condType status reason message generation =
     x_SetStatusCondition L conditions
       \<lparr>cd_Type = condType, cd_Status = status, cd_Reason = reason, cd_Message = message,
        cd_ObservedGeneration = generation\<rparr>"

definition setCondition ::
    "Lib \<Rightarrow> string \<Rightarrow> ConditionStatus \<Rightarrow> string \<Rightarrow> string \<Rightarrow> PalworldGame \<Rightarrow> PalworldGame" where
  "setCondition L condType status reason message g =
     updStatus (gt_Conditions_update (\<lambda>cs. x_SetStatusCondition L cs
       \<lparr>cd_Type = condType, cd_Status = status, cd_Reason = reason, cd_Message = message,
        cd_ObservedGeneration = m_Generation (g_Meta g)\<rparr>)) g"

definition setReady :: "Lib \<Rightarrow> bool \<Rightarrow> string \<Rightarrow> string \<Rightarrow> PalworldGame \<Rightarrow> PalworldGame" where
  "setReady L ready reason message g =
     setCondition L ConditionReady (if ready then ConditionTrue else ConditionFalse) reason message g"

definition setProgressing :: "Lib \<Rightarrow> string \<Rightarrow> string \<Rightarrow> PalworldGame \<Rightarrow> PalworldGame" where
  "setProgressing L reason message g = setCondition L ConditionProgressing ConditionTrue reason message g"

definition clearProgressing :: "Lib \<Rightarrow> string \<Rightarrow> string \<Rightarrow> PalworldGame \<Rightarrow> PalworldGame" where
  "clearProgressing L reason message g = setCondition L ConditionProgressing ConditionFalse reason message g"

definition setDegraded :: "Lib \<Rightarrow> bool \<Rightarrow> string \<Rightarrow> string \<Rightarrow> PalworldGame \<Rightarrow> PalworldGame" where
  "setDegraded L degraded reason message g =
     setCondition L ConditionDegraded (if degraded then ConditionTrue else ConditionFalse) reason message g"

lemmas condition_defs = setCondition_def setReady_def setProgressing_def clearProgressing_def
  setDegraded_def

section \<open>Lemmas\<close>

lemma containsString_iff [simp]: "containsString xs v \<longleftrightarrow> v \<in> set xs"
  by (induction xs) auto

lemma removeString_filter: "removeString xs v = filter (\<lambda>x. x \<noteq> v) xs"
  by (induction xs) auto

text \<open>A condition setter touches the condition list of the status and nothing else.\<close>

lemma setCondition_frame [simp]:
  "g_Meta (setCondition L t st rs m g) = g_Meta g"
  "g_Spec (setCondition L t st rs m g) = g_Spec g"
  "(g_Status (setCondition L t st rs m g))\<lparr>gt_Conditions := c\<rparr> = (g_Status g)\<lparr>gt_Conditions := c\<rparr>"
  "gt_Phase (g_Status (setCondition L t st rs m g)) = gt_Phase (g_Status g)"
  "gt_CurrentVersion (g_Status (setCondition L t st rs m g)) = gt_CurrentVersion (g_Status g)"
  "gt_AvailableVersion (g_Status (setCondition L t st rs m g)) = gt_AvailableVersion (g_Status g)"
  "gt_PlayersOnline (g_Status (setCondition L t st rs m g)) = gt_PlayersOnline (g_Status g)"
  "gt_LastUpdateTime (g_Status (setCondition L t st rs m g)) = gt_LastUpdateTime (g_Status g)"
  "gt_UpdateDrainStartTime (g_Status (setCondition L t st rs m g)) = gt_UpdateDrainStartTime (g_Status g)"
  "gt_UpdateDrainLastWarnTime (g_Status (setCondition L t st rs m g)) = gt_UpdateDrainLastWarnTime (g_Status g)"
  "gt_NextScheduledUpdateCheck (g_Status (setCondition L t st rs m g)) = gt_NextScheduledUpdateCheck (g_Status g)"
  by (simp_all add: setCondition_def)

lemma setProgressing_frame [simp]:
  "g_Meta (setProgressing L rs m g) = g_Meta g"
  "g_Spec (setProgressing L rs m g) = g_Spec g"
  "gt_PlayersOnline (g_Status (setProgressing L rs m g)) = gt_PlayersOnline (g_Status g)"
  "gt_UpdateDrainStartTime (g_Status (setProgressing L rs m g)) = gt_UpdateDrainStartTime (g_Status g)"
  "gt_UpdateDrainLastWarnTime (g_Status (setProgressing L rs m g)) = gt_UpdateDrainLastWarnTime (g_Status g)"
  "gt_CurrentVersion (g_Status (setProgressing L rs m g)) = gt_CurrentVersion (g_Status g)"
  by (simp_all add: setProgressing_def)

text \<open>Reading the credentials and building a REST client only reads the Secret.\<close>

definition readsSecret :: "PalworldGame \<Rightarrow> call \<Rightarrow> bool" where
  "readsSecret g c \<longleftrightarrow>
     c = Get SecretKind (g_Namespace g, CredentialsSecretName g)
     \<or> c = GetUncached SecretKind (g_Namespace g, CredentialsSecretName g)"

lemma adminPassword_ensures:
  "ensures (\<lambda>v es. \<exists>c r. es = [(c, r)] \<and> readsSecret g c) (adminPassword unc g)"
  unfolding adminPassword_def Let_def
  by (intro ensures_intros) (simp add: readsSecret_def credentialsReader_def)

lemma restClientFor_ensures:
  "ensures (\<lambda>v es. \<exists>c r. es = [(c, r)] \<and> readsSecret g c) (restClientFor unc g)"
  unfolding restClientFor_def
  by (rule ensures_bind [OF adminPassword_ensures]) (auto intro: ensures_ret)

section \<open>Which calls an exchange with the server makes\<close>

fun isDelete :: "call \<Rightarrow> bool" where
  "isDelete (Delete kd key) = True"
| "isDelete _ = False"

abbreviation deletes :: "(call \<times> reply) list \<Rightarrow> (call \<times> reply) list" where
  "deletes es \<equiv> filter (\<lambda>e. isDelete (fst e)) es"

text \<open>The calls of the REST exchanges: they read a Secret and send HTTP requests.\<close>

fun restCall :: "call \<Rightarrow> bool" where
  "restCall (Get kd key) = (kd = SecretKind)"
| "restCall (GetUncached kd key) = (kd = SecretKind)"
| "restCall (Http rq) = True"
| "restCall _ = False"

abbreviation restOnly :: "(call \<times> reply) list \<Rightarrow> bool" where
  "restOnly es \<equiv> list_all (\<lambda>e. restCall (fst e)) es"

lemma restOnly_deletes: "restOnly es \<Longrightarrow> deletes es = []"
  by (auto simp: filter_empty_conv list_all_iff elim!: isDelete.elims)

lemma restOnly_notin:
  "restOnly es \<Longrightarrow> (Now, x) \<notin> set es"
  "restOnly es \<Longrightarrow> (Get PodKind key, x) \<notin> set es"
  "restOnly es \<Longrightarrow> (Get NodeKind key, x) \<notin> set es"
  "restOnly es \<Longrightarrow> (Get StsKind key, x) \<notin> set es"
  "restOnly es \<Longrightarrow> (Get BackupKind key, x) \<notin> set es"
  by (fastforce simp: list_all_iff)+

lemma restClientFor_restOnly: "ensures (\<lambda>v es. restOnly es) (restClientFor unc g)"
  by (rule ensures_mono [OF restClientFor_ensures]) (auto simp: readsSecret_def)

lemma do_request_restOnly: "ensures (\<lambda>v es. restOnly es) (do_request c m p b z out)"
  by (rule ensures_mono [OF do_request_ensures]) auto

lemma Announce_restOnly: "ensures (\<lambda>v es. restOnly es) (Announce c msg)"
  unfolding Announce_def by (rule do_request_restOnly)

lemma Save_restOnly: "ensures (\<lambda>v es. restOnly es) (Save c)"
  unfolding Save_def by (rule do_request_restOnly)

lemma Info_restOnly: "ensures (\<lambda>v es. restOnly es) (Info c)"
  unfolding Info_def by (rule do_request_restOnly)

lemma Metrics_restOnly: "ensures (\<lambda>v es. restOnly es) (Metrics c)"
  unfolding Metrics_def by (rule do_request_restOnly)

lemma LatestBuildID_restOnly: "ensures (\<lambda>v es. restOnly es) (LatestBuildID p branch)"
  unfolding LatestBuildID_def Let_def by (intro ensures_intros) simp_all

section \<open>Convergence\<close>

text \<open>
  What \<open>SetControllerReference\<close> promises: it only changes the owner references, and applied to its own
  result it changes nothing.
\<close>

definition ownerLaw :: "Lib \<Rightarrow> bool" where
  "ownerLaw L \<longleftrightarrow>
     (\<forall>kd own m m'. x_SetControllerReference L kd own m = Inr m' \<longrightarrow>
        (\<exists>os. m' = m\<lparr>m_OwnerReferences := os\<rparr>) \<and> x_SetControllerReference L kd own m' = Inr m')"

lemma ownerLawD:
  assumes "ownerLaw L" and "x_SetControllerReference L kd own m = Inr m'"
  shows "x_SetControllerReference L kd own m' = Inr m'" "m_Labels m' = m_Labels m" "m_Annotations m' = m_Annotations m"
    "m_CreationTimestamp m' = m_CreationTimestamp m" "m'\<lparr>m_Labels := m_Labels m\<rparr> = m'"
    "m'\<lparr>m_Labels := m_Labels m, m_Annotations := m_Annotations m\<rparr> = m'"
  using assms unfolding ownerLaw_def by fastforce+

lemma meta_relabel: "m_Labels m = l \<Longrightarrow> (m :: ObjectMeta)\<lparr>m_Labels := l\<rparr> = m"
  by auto

lemma preservedNodePort_fold:
  "foldl (\<lambda>p ep. if sp_Name ep = sp_Name p then p\<lparr>sp_NodePort := sp_NodePort ep\<rparr> else p) q eps =
     (case filter (\<lambda>ep. sp_Name ep = sp_Name q) eps of [] \<Rightarrow> q | es \<Rightarrow> q\<lparr>sp_NodePort := sp_NodePort (last es)\<rparr>)"
  by (induction eps arbitrary: q) (auto split: list.splits)

lemma preservedNodePort_fields: "\<exists>n. preservedNodePort eps p = p\<lparr>sp_NodePort := n\<rparr>"
  by (auto simp: preservedNodePort_def preservedNodePort_fold split: list.splits intro: exI [of _ "sp_NodePort p"])

lemma preservedNodePort_name [simp]: "sp_Name (preservedNodePort eps p) = sp_Name p"
  using preservedNodePort_fields [of eps p] by auto

lemma preservedNodePort_again:
  assumes "distinct (map sp_Name ps)" and "p \<in> set ps"
  shows "preservedNodePort (map (preservedNodePort eps) ps) p = preservedNodePort eps p"
proof -
  have "filter (\<lambda>ep. sp_Name ep = sp_Name p) (map (preservedNodePort eps) ps) =
      map (preservedNodePort eps) (filter (\<lambda>q. sp_Name q = sp_Name p) ps)"
    by (simp add: filter_map comp_def)
  also have "filter (\<lambda>q. sp_Name q = sp_Name p) ps = [p]"
    using assms by (induction ps) (auto simp: filter_empty_conv image_iff)
  finally have f: "filter (\<lambda>ep. sp_Name ep = sp_Name p) (map (preservedNodePort eps) ps) = [preservedNodePort eps p]"
    by simp
  obtain n where "preservedNodePort eps p = p\<lparr>sp_NodePort := n\<rparr>" using preservedNodePort_fields by blast
  with f show ?thesis
    by (simp add: preservedNodePort_def [of "map (preservedNodePort eps) ps" p] preservedNodePort_fold)
       (auto simp: preservedNodePort_def split: if_splits)
qed

lemma mergeService_converges:
  assumes "distinct (map sp_Name (ssp_Ports (svc_Spec d)))" and "m_Labels m = m_Labels (svc_Meta d)"
    and "m_Annotations m = m_Annotations (svc_Meta d)"
  shows "mergeService ((mergeService e d)\<lparr>svc_Meta := m\<rparr>) d = (mergeService e d)\<lparr>svc_Meta := m\<rparr>"
proof -
  have "map (preservedNodePort (map (preservedNodePort eps) (ssp_Ports (svc_Spec d)))) (ssp_Ports (svc_Spec d)) =
      map (preservedNodePort eps) (ssp_Ports (svc_Spec d))" for eps
    using preservedNodePort_again [OF assms(1)] by simp
  moreover have "m\<lparr>m_Labels := m_Labels (svc_Meta d), m_Annotations := m_Annotations (svc_Meta d)\<rparr> = m"
    using assms by auto
  ultimately show ?thesis by (simp add: mergeService_def)
qed

lemma reconcileService_quiet:
  assumes law: "ownerLaw L" and eq: "\<And>x. x_DeepEqual L (AObj x) (AObj x)"
    and d: "distinct (map sp_Name (ssp_Ports (svc_Spec d)))"
    and m: "x_SetControllerReference L ''PalworldGame'' (g_Meta g) (svc_Meta (mergeService e d)) = Inr m"
    and live: "\<And>h. srv w h (Get ServiceKind (m_Namespace (svc_Meta d), m_Name (svc_Meta d)))
        = RObj (OService ((mergeService e d)\<lparr>svc_Meta := m\<rparr>))"
  shows "calls (reconcileService L g d) w = [Get ServiceKind (m_Namespace (svc_Meta d), m_Name (svc_Meta d))]
     \<and> val (reconcileService L g d) w = None"
proof -
  let ?s = "(mergeService e d)\<lparr>svc_Meta := m\<rparr>"
  have "m_Labels m = m_Labels (svc_Meta d)" "m_Annotations m = m_Annotations (svc_Meta d)"
    using ownerLawD [OF law m] by (simp_all add: mergeService_def)
  then have same: "mergeService ?s d = ?s" by (rule mergeService_converges [OF d])
  have "x_SetControllerReference L ''PalworldGame'' (g_Meta g) (svc_Meta ?s) = Inr m"
    using ownerLawD(1) [OF law m] by simp
  moreover have "?s\<lparr>svc_Meta := m\<rparr> = ?s" by simp
  ultimately show ?thesis
    using same eq by (simp add: reconcileService_def calls_def events_def val_call fin_call live Let_def)
qed

end
