(* ===== verification/GameResources.thy ===== *)
theory GameResources
  imports ControllerHelpers Samples
begin

text \<open>
  The game reconciler's state and its child objects: \<open>PalworldGameReconciler\<close>, \<open>probeCapabilities\<close>,
  \<open>reconcileResources\<close> and the \<open>ensure\<close> operations of \<^verbatim>\<open>internal/controller/palworldgame_controller.go\<close>
  and \<open>palworldgame_statefulset.go\<close>, with \<open>GeneratePassword\<close> of \<open>secret.go\<close>.
  \<open>controllerutil.CreateOrUpdate\<close> is a call that carries the mutate function: \<open>None\<close> stands for the
  object being absent, \<open>Some\<close> for the live object it is applied to.
\<close>

section \<open>The reconciler\<close>

definition defaultServerImageFallback :: string where
  "defaultServerImageFallback = ''quay.io/twodcube/palworld-server:latest''"

definition defaultOperatorNamespace :: string where
  "defaultOperatorNamespace = ''palworld-operator-system''"

definition requeueInterval :: duration where
  "requeueInterval = 60 * Second"

text \<open>\<open>gr_capDone\<close> is the state of the \<open>sync.Once\<close>; \<open>gr_APIReader\<close> says whether the reader is set.\<close>

record PalworldGameReconciler =
  gr_Lib :: Lib
  gr_APIReader :: bool
  gr_OperatorNamespace :: string
  gr_OperatorImage :: string
  gr_DefaultServerImage :: string
  gr_SteamInfoEndpoint :: string
  gr_capDone :: bool
  gr_hasRoute :: bool
  gr_hasServiceMonitor :: bool

definition probeCapabilities :: "PalworldGameReconciler \<Rightarrow> PalworldGameReconciler k" where
  "probeCapabilities r =
     (if gr_capDone r then ret r
      else do {
        route \<leftarrow> hasAPI RouteGVK;
        mon \<leftarrow> hasAPI ServiceMonitorGVK;
        ret (r\<lparr>gr_capDone := True, gr_hasRoute := route, gr_hasServiceMonitor := mon\<rparr>)
      })"

definition buildParams :: "PalworldGameReconciler \<Rightarrow> BuildParams" where
  "buildParams r =
     \<lparr>p_OpenShift = gr_hasRoute r,
      p_OperatorImage = gr_OperatorImage r,
      p_DefaultServerImage =
        (if gr_DefaultServerImage r = [] then defaultServerImageFallback else gr_DefaultServerImage r)\<rparr>"

definition envOr :: "(string \<Rightarrow> string) \<Rightarrow> string \<Rightarrow> string \<Rightarrow> string" where
  "envOr getenv key def = (if getenv key \<noteq> [] then getenv key else def)"

text \<open>The configuration part of \<open>SetupWithManager\<close>; registering the watches is the manager's.\<close>

definition SetupWithManager :: "(string \<Rightarrow> string) \<Rightarrow> PalworldGameReconciler \<Rightarrow> PalworldGameReconciler" where
  "SetupWithManager getenv r =
     r\<lparr>gr_OperatorNamespace :=
          (if gr_OperatorNamespace r = [] then envOr getenv ''OPERATOR_NAMESPACE'' defaultOperatorNamespace
           else gr_OperatorNamespace r),
       gr_OperatorImage :=
          (if gr_OperatorImage r = [] then getenv ''OPERATOR_IMAGE'' else gr_OperatorImage r),
       gr_DefaultServerImage :=
          (if gr_DefaultServerImage r = [] then envOr getenv ''DEFAULT_SERVER_IMAGE'' defaultServerImageFallback
           else gr_DefaultServerImage r),
       gr_SteamInfoEndpoint :=
          (if gr_SteamInfoEndpoint r = [] then getenv ''STEAM_INFO_ENDPOINT'' else gr_SteamInfoEndpoint r),
       gr_APIReader := True\<rparr>"

section \<open>Credentials\<close>

text \<open>\<open>rand.Int\<close> returns an index below its bound; any other reply is not one of its results.\<close>

fun GeneratePassword :: "nat \<Rightarrow> string res k" where
  "GeneratePassword 0 = ret (Inr [])"
| "GeneratePassword (Suc n) = do {
     r \<leftarrow> call (RandInt (length passwordAlphabet));
     case asInt r of
       Inl e \<Rightarrow> ret (Inl e)
     | Inr idx \<Rightarrow>
         if 0 \<le> idx \<and> nat idx < length passwordAlphabet
         then do {
           rest \<leftarrow> GeneratePassword n;
           ret (case rest of Inl e \<Rightarrow> Inl e | Inr cs \<Rightarrow> Inr (passwordAlphabet ! nat idx # cs))
         }
         else ret (Inl badReply)
   }"

abbreviation setRef :: "PalworldGameReconciler \<Rightarrow> PalworldGame \<Rightarrow> ObjectMeta \<Rightarrow> kerr + ObjectMeta" where
  "setRef r g m \<equiv> x_SetControllerReference (gr_Lib r) ''PalworldGame'' (g_Meta g) m"

text \<open>Operations that assign to the game return it beside the error.\<close>

definition ensureCredentials :: "PalworldGameReconciler \<Rightarrow> PalworldGame \<Rightarrow> (PalworldGame \<times> kerr option) k" where
  "ensureCredentials r g =
     (if cr_SecretName (gs_Credentials (g_Spec g)) \<noteq> []
      then ret (updStatus (gt_CredentialsSecret_update (\<lambda>_. cr_SecretName (gs_Credentials (g_Spec g)))) g, None)
      else (let name = GeneratedSecretName g in do {
        s \<leftarrow> call (Get SecretKind (g_Namespace g, name));
        case asSecret s of
          Inr secret \<Rightarrow> ret (updStatus (gt_CredentialsSecret_update (\<lambda>_. name)) g, None)
        | Inl e \<Rightarrow>
            if \<not> IsNotFound e then ret (g, Some e)
            else do {
              pw \<leftarrow> GeneratePassword 24;
              case pw of
                Inl e \<Rightarrow> ret (g, Some e)
              | Inr p \<Rightarrow>
                  (let desired = DesiredGeneratedSecret g p in
                   case setRef r g (sec_Meta desired) of
                     Inl e \<Rightarrow> ret (g, Some e)
                   | Inr m \<Rightarrow> do {
                       c \<leftarrow> call (Create (OSecret (desired\<lparr>sec_Meta := m\<rparr>)));
                       case asErr c of
                         Some e \<Rightarrow>
                           if IsAlreadyExists e then do {
                             event (OGame (updStatus (gt_CredentialsSecret_update (\<lambda>_. name)) g)) EventNormal
                               ''CredentialsGenerated'' (''Generated admin credentials secret '' @ name);
                             ret (updStatus (gt_CredentialsSecret_update (\<lambda>_. name)) g, None)
                           } else ret (g, Some e)
                       | None \<Rightarrow> do {
                           event (OGame (updStatus (gt_CredentialsSecret_update (\<lambda>_. name)) g)) EventNormal
                             ''CredentialsGenerated'' (''Generated admin credentials secret '' @ name);
                           ret (updStatus (gt_CredentialsSecret_update (\<lambda>_. name)) g, None)
                         }
                     })
            }
      }))"

section \<open>Mutate functions\<close>

definition metaKey :: "ObjectMeta \<Rightarrow> objKey" where
  "metaKey m = (m_Namespace m, m_Name m)"

text \<open>The metadata of a new object before it is mutated: name and namespace only.\<close>

definition blankMeta :: "ObjectMeta \<Rightarrow> ObjectMeta" where
  "blankMeta d = newMeta (m_Name d) (m_Namespace d) Map.empty"

definition mutateServiceAccount ::
    "PalworldGameReconciler \<Rightarrow> PalworldGame \<Rightarrow> ServiceAccount \<Rightarrow> kobj option \<Rightarrow> kerr + kobj" where
  "mutateServiceAccount r g desired live =
     (let m = (case live of Some (OServiceAccount sa) \<Rightarrow> sa_Meta sa | _ \<Rightarrow> blankMeta (sa_Meta desired));
          m = m\<lparr>m_Labels := m_Labels (sa_Meta desired)\<rparr>
      in case setRef r g m of Inl e \<Rightarrow> Inl e | Inr m' \<Rightarrow> Inr (OServiceAccount \<lparr>sa_Meta = m'\<rparr>))"

definition mutateConfigMap ::
    "PalworldGameReconciler \<Rightarrow> PalworldGame \<Rightarrow> ConfigMap \<Rightarrow> kobj option \<Rightarrow> kerr + kobj" where
  "mutateConfigMap r g desired live =
     (let m = (case live of Some (OConfigMap cm) \<Rightarrow> cm_Meta cm | _ \<Rightarrow> blankMeta (cm_Meta desired));
          m = m\<lparr>m_Labels := m_Labels (cm_Meta desired)\<rparr>
      in case setRef r g m of
           Inl e \<Rightarrow> Inl e
         | Inr m' \<Rightarrow> Inr (OConfigMap \<lparr>cm_Meta = m', cm_Data = cm_Data desired\<rparr>))"

definition mutatePDB ::
    "PalworldGameReconciler \<Rightarrow> PalworldGame \<Rightarrow> PodDisruptionBudget \<Rightarrow> kobj option \<Rightarrow> kerr + kobj" where
  "mutatePDB r g desired live =
     (let m = (case live of Some (OPDB p) \<Rightarrow> pdb_Meta p | _ \<Rightarrow> blankMeta (pdb_Meta desired));
          m = m\<lparr>m_Labels := m_Labels (pdb_Meta desired)\<rparr>
      in case setRef r g m of
           Inl e \<Rightarrow> Inl e
         | Inr m' \<Rightarrow> Inr (OPDB \<lparr>pdb_Meta = m', pdb_MinAvailable = pdb_MinAvailable desired,
                                pdb_Selector = pdb_Selector desired\<rparr>))"

definition mutateNetworkPolicy ::
    "PalworldGameReconciler \<Rightarrow> PalworldGame \<Rightarrow> NetworkPolicy \<Rightarrow> kobj option \<Rightarrow> kerr + kobj" where
  "mutateNetworkPolicy r g desired live =
     (let m = (case live of Some (ONetworkPolicy np) \<Rightarrow> np_Meta np | _ \<Rightarrow> blankMeta (np_Meta desired));
          m = m\<lparr>m_Labels := m_Labels (np_Meta desired)\<rparr>
      in case setRef r g m of
           Inl e \<Rightarrow> Inl e
         | Inr m' \<Rightarrow> Inr (ONetworkPolicy (desired\<lparr>np_Meta := m'\<rparr>)))"

text \<open>
  The StatefulSet: the whole spec where the creation timestamp is zero, else only the fields the API
  server lets change.
\<close>

definition mutateStatefulSet ::
    "PalworldGameReconciler \<Rightarrow> PalworldGame \<Rightarrow> StatefulSet \<Rightarrow> kobj option \<Rightarrow> kerr + kobj" where
  "mutateStatefulSet r g desired live =
     (let sts = (case live of
                   Some (OSts s) \<Rightarrow> s
                 | _ \<Rightarrow> desired\<lparr>sts_Meta := blankMeta (sts_Meta desired), sts_StatusReplicas := 0,
                                sts_StatusReadyReplicas := 0\<rparr>);
          sts = sts\<lparr>sts_Meta := (sts_Meta sts)\<lparr>m_Labels := m_Labels (sts_Meta desired)\<rparr>\<rparr>;
          sts = (if m_CreationTimestamp (sts_Meta sts) = None
                 then sts\<lparr>sts_Spec := sts_Spec desired\<rparr>
                 else sts\<lparr>sts_Spec := (sts_Spec sts)\<lparr>
                        stp_Replicas := stp_Replicas (sts_Spec desired),
                        stp_Template := stp_Template (sts_Spec desired),
                        stp_UpdateStrategy := stp_UpdateStrategy (sts_Spec desired),
                        stp_MinReadySeconds := stp_MinReadySeconds (sts_Spec desired)\<rparr>\<rparr>)
      in case setRef r g (sts_Meta sts) of
           Inl e \<Rightarrow> Inl e
         | Inr m' \<Rightarrow> Inr (OSts (sts\<lparr>sts_Meta := m'\<rparr>)))"

section \<open>The ensure operations\<close>

definition createOrUpdate :: "kkind \<Rightarrow> objKey \<Rightarrow> (kobj option \<Rightarrow> kerr + kobj) \<Rightarrow> kerr option k" where
  "createOrUpdate kd key f = do { c \<leftarrow> call (CreateOrUpdate kd key f); ret (asErr c) }"

definition deleteIfExists :: "kkind \<Rightarrow> objKey \<Rightarrow> kerr option k" where
  "deleteIfExists kd key = do { c \<leftarrow> call (Delete kd key); ret (IgnoreNotFound (asErr c)) }"

definition ensureServiceAccount :: "PalworldGameReconciler \<Rightarrow> PalworldGame \<Rightarrow> kerr option k" where
  "ensureServiceAccount r g =
     (if gs_ServiceAccountName (g_Spec g) \<noteq> [] then ret None
      else (let desired = DesiredServiceAccount g in
            createOrUpdate ServiceAccountKind (metaKey (sa_Meta desired)) (mutateServiceAccount r g desired)))"

text \<open>The texts of the render errors.\<close>

fun renderErrText :: "renderError \<Rightarrow> string" where
  "renderErrText (InvalidTag tag field) = ''invalid pal tag '' @ quote tag @ '' on field '' @ field"
| "renderErrText (UnknownKind kd) = ''unknown pal kind '' @ quote kd"
| "renderErrText ReflectPanic = ''reflect: call on wrong kind''"
| "renderErrText (FieldError field e) = ''field '' @ field @ '': '' @ renderErrText e"

definition ensureConfigMap :: "PalworldGameReconciler \<Rightarrow> PalworldGame \<Rightarrow> kerr option k" where
  "ensureConfigMap r g =
     (case DesiredConfigMap g of
        Inl e \<Rightarrow> ret (Some (errorf (renderErrText e)))
      | Inr desired \<Rightarrow>
          createOrUpdate ConfigMapKind (metaKey (cm_Meta desired)) (mutateConfigMap r g desired))"

definition desiredServices :: "PalworldGameReconciler \<Rightarrow> PalworldGame \<Rightarrow> Service list" where
  "desiredServices r g =
     [DesiredHeadlessService g, DesiredGameService g, DesiredAdminService g]
     @ (if mon_MetricsExporter (gs_Monitoring (g_Spec g)) \<and> gr_OperatorImage r \<noteq> []
        then [DesiredMetricsService g] else [])"

fun reconcileServices :: "Lib \<Rightarrow> PalworldGame \<Rightarrow> Service list \<Rightarrow> kerr option k" where
  "reconcileServices L g [] = ret None"
| "reconcileServices L g (s # ss) = do {
     e \<leftarrow> reconcileService L g s;
     case e of Some x \<Rightarrow> ret (Some x) | None \<Rightarrow> reconcileServices L g ss
   }"

definition ensureServices :: "PalworldGameReconciler \<Rightarrow> PalworldGame \<Rightarrow> kerr option k" where
  "ensureServices r g = reconcileServices (gr_Lib r) g (desiredServices r g)"

definition ensurePodDisruptionBudget :: "PalworldGameReconciler \<Rightarrow> PalworldGame \<Rightarrow> kerr option k" where
  "ensurePodDisruptionBudget r g =
     (let enabled = (case gs_PodDisruptionBudget (g_Spec g) of None \<Rightarrow> True | Some p \<Rightarrow> pd_Enabled p);
          name = PDBName g
      in if \<not> enabled then deleteIfExists PDBKind (g_Namespace g, name)
         else (let desired = DesiredPodDisruptionBudget g in do {
           e \<leftarrow> createOrUpdate PDBKind (metaKey (pdb_Meta desired)) (mutatePDB r g desired);
           case e of
             None \<Rightarrow> ret None
           | Some x \<Rightarrow>
               if IsInvalid x then do {
                 d \<leftarrow> call (Delete PDBKind (metaKey (pdb_Meta desired)));
                 ret (case asErr d of Some delErr \<Rightarrow> Some delErr | None \<Rightarrow> Some x)
               } else ret (Some x)
         }))"

definition ensureNetworkPolicy :: "PalworldGameReconciler \<Rightarrow> PalworldGame \<Rightarrow> kerr option k" where
  "ensureNetworkPolicy r g =
     (let desired = DesiredNetworkPolicy g (gr_OperatorNamespace r) in
      createOrUpdate NetworkPolicyKind (metaKey (np_Meta desired)) (mutateNetworkPolicy r g desired))"

definition ensureMonitoring :: "PalworldGameReconciler \<Rightarrow> PalworldGame \<Rightarrow> kerr option k" where
  "ensureMonitoring r g =
     (if \<not> mon_ServiceMonitor (gs_Monitoring (g_Spec g)) \<or> \<not> gr_hasServiceMonitor r then ret None
      else reconcileUnstructured (gr_Lib r) g (DesiredServiceMonitor g))"

definition ensureRoute :: "PalworldGameReconciler \<Rightarrow> PalworldGame \<Rightarrow> kerr option k" where
  "ensureRoute r g =
     (if \<not> rx_Route (nw_RESTAPI (gs_Networking (g_Spec g))) \<or> \<not> gr_hasRoute r then ret None
      else reconcileUnstructured (gr_Lib r) g (DesiredRoute g))"

definition ensureStatefulSet :: "PalworldGameReconciler \<Rightarrow> PalworldGame \<Rightarrow> kerr option k" where
  "ensureStatefulSet r g =
     (case SettingsHash (x_sha256hex (gr_Lib r)) g of
        Inl e \<Rightarrow> ret (Some (errorf (renderErrText e)))
      | Inr settingsHash \<Rightarrow>
          (let desired = DesiredStatefulSet g (buildParams r) settingsHash in
           createOrUpdate StsKind (metaKey (sts_Meta desired)) (mutateStatefulSet r g desired)))"

text \<open>The chain of \<open>if err := ...; err != nil { return err }\<close>.\<close>

fun firstError :: "kerr option k list \<Rightarrow> kerr option k" where
  "firstError [] = ret None"
| "firstError (m # ms) = do { e \<leftarrow> m; case e of Some x \<Rightarrow> ret (Some x) | None \<Rightarrow> firstError ms }"

definition reconcileResources :: "PalworldGameReconciler \<Rightarrow> PalworldGame \<Rightarrow> (PalworldGame \<times> kerr option) k" where
  "reconcileResources r g = do {
     (g, e) \<leftarrow> ensureCredentials r g;
     case e of
       Some x \<Rightarrow> ret (g, Some x)
     | None \<Rightarrow> do {
         e \<leftarrow> firstError
           [ensureServiceAccount r g, ensureConfigMap r g, ensureServices r g,
            ensurePodDisruptionBudget r g, ensureNetworkPolicy r g, ensureMonitoring r g,
            ensureRoute r g, ensureStatefulSet r g];
         ret (g, e)
       }
   }"

definition sampleReconciler :: PalworldGameReconciler where
  "sampleReconciler = \<lparr>gr_Lib = refLib, gr_APIReader = True, gr_OperatorNamespace = defaultOperatorNamespace,
     gr_OperatorImage = ''op:1'', gr_DefaultServerImage = [], gr_SteamInfoEndpoint = [],
     gr_capDone = True, gr_hasRoute = False, gr_hasServiceMonitor = False\<rparr>"

section \<open>Lemmas\<close>

lemma GeneratePassword_spec:
  "ensures (\<lambda>v es. list_all (\<lambda>e. \<exists>n. fst e = RandInt n) es
      \<and> (\<forall>p. v = Inr p \<longrightarrow> length p = n \<and> set p \<subseteq> set passwordAlphabet)) (GeneratePassword n)"
proof (induction n)
  case 0 show ?case by (auto intro!: ensures_intros)
next
  case (Suc n)
  show ?case
    unfolding GeneratePassword.simps
    apply (intro ensures_intros)
    apply simp_all
    apply (rule ensures_bind [OF Suc], rule ensures_ret)
    apply (auto split: sum.splits)
    done
qed

text \<open>Calls that change the cluster.\<close>

fun isWrite :: "call \<Rightarrow> bool" where
  "isWrite (Create ob) = True" | "isWrite (Update ob) = True" | "isWrite (StatusUpdate ob) = True"
| "isWrite (Delete kd key) = True" | "isWrite (PatchPod a b) = True" | "isWrite (CreateOrUpdate kd key f) = True"
| "isWrite _ = False"

abbreviation writes :: "(call \<times> reply) list \<Rightarrow> (call \<times> reply) list" where
  "writes es \<equiv> filter (\<lambda>e. isWrite (fst e)) es"

lemma randoms_writes: "list_all (\<lambda>e. \<exists>n. fst e = RandInt n) es \<Longrightarrow> writes es = []"
  by (auto simp: filter_empty_conv list_all_iff)

text \<open>The creation of a Secret with a fresh password, after its absence was read.\<close>

definition freshSecret :: "PalworldGame \<Rightarrow> (call \<times> reply) list \<Rightarrow> call \<Rightarrow> bool" where
  "freshSecret g es c \<longleftrightarrow>
     (\<exists>p m e. c = Create (OSecret ((DesiredGeneratedSecret g p)\<lparr>sec_Meta := m\<rparr>))
        \<and> length p = 24 \<and> set p \<subseteq> set passwordAlphabet
        \<and> (Get SecretKind (g_Namespace g, GeneratedSecretName g), RErr e) \<in> set es \<and> IsNotFound e)"

lemma asSecret_NotFound: "asSecret x = Inl e \<Longrightarrow> IsNotFound e \<Longrightarrow> x = RErr e"
  by (cases x rule: asSecret.cases) (auto simp: badReply_def errorf_def IsNotFound_def)

lemma mutators_converge:
  assumes "ownerLaw (gr_Lib r)"
  shows "mutateServiceAccount r g sa live = Inr ob \<Longrightarrow> mutateServiceAccount r g sa (Some ob) = Inr ob"
    and "mutateConfigMap r g cm live = Inr ob \<Longrightarrow> mutateConfigMap r g cm (Some ob) = Inr ob"
    and "mutatePDB r g pdb live = Inr ob \<Longrightarrow> mutatePDB r g pdb (Some ob) = Inr ob"
    and "mutateNetworkPolicy r g np live = Inr ob \<Longrightarrow> mutateNetworkPolicy r g np (Some ob) = Inr ob"
    and "mutateStatefulSet r g sts live = Inr ob \<Longrightarrow> mutateStatefulSet r g sts (Some ob) = Inr ob"
  by (auto simp: mutateServiceAccount_def mutateConfigMap_def mutatePDB_def mutateNetworkPolicy_def mutateStatefulSet_def
      Let_def meta_relabel ownerLawD [OF assms] split: sum.splits if_splits)

lemma desiredServices_ports: "d \<in> set (desiredServices r g) \<Longrightarrow> distinct (map sp_Name (ssp_Ports (svc_Spec d)))"
  by (auto simp: desiredServices_def DesiredHeadlessService_def DesiredGameService_def DesiredAdminService_def
      DesiredMetricsService_def newService_def Let_def svcPort_def gamePorts_def split: if_splits)

lemma refLib_owner: "x_SetControllerReference refLib = refOwner"
  by (simp add: refLib_def)

lemma refOwner_law:
  "refOwner kd own m = Inr m' \<Longrightarrow> (\<exists>os. m' = m\<lparr>m_OwnerReferences := os\<rparr>) \<and> refOwner kd own m' = Inr m'"
  by (auto simp: refOwner_def Let_def intro: exI [of _ "m_OwnerReferences m"] split: if_splits)

section \<open>Properties\<close>

text \<open>
  C31: generated credentials are strong and never replaced. With a user-supplied Secret no call is made.
  Otherwise a reconcile writes at most once: it creates the generated Secret, only after reading that
  it does not exist, with a fresh admin password of 24 characters of the alphabet; an existing Secret is
  never updated or deleted.
\<close>

theorem credentials_generated_once:
  "ensures (\<lambda>(g', err) es.
      if cr_SecretName (gs_Credentials (g_Spec g)) \<noteq> [] then es = [] \<and> err = None
      else writes es = [] \<or> (\<exists>c x. writes es = [(c, x)] \<and> freshSecret g es c))
     (ensureCredentials r g)"
  unfolding ensureCredentials_def Let_def event_def bind_assoc bind_ret
  apply (rule ensures_if)
  subgoal by (rule ensures_ret) simp
  apply (rule ensures_call_bind, rule ensures_sum, rule ensures_if)
  subgoal by (rule ensures_ret) simp
  subgoal for x e
  proof (rule ensures_bind [OF GeneratePassword_spec], goal_cases)
    case (1 pw es)
    note quiet = randoms_writes [OF conjunct1 [OF 1(4)]]
    have x: "x = RErr e" using 1 by (auto dest: asSecret_NotFound)
    have fresh: "freshSecret g ((Get SecretKind (g_Namespace g, GeneratedSecretName g), x) # rest)
        (Create (OSecret ((DesiredGeneratedSecret g p)\<lparr>sec_Meta := m\<rparr>)))" if "pw = Inr p" for p m rest
      using 1 that unfolding freshSecret_def x by auto
    show ?case
      using 1(1) quiet fresh by (intro ensures_intros) (auto simp: freshSecret_def)
  qed
  subgoal by (rule ensures_ret) simp
  done

text \<open>
  The order in which a Go map is iterated never shows. Two games whose engine settings are the same
  entries in different orders have the same ConfigMap and the same settings hash, so the order
  cannot cause a restart of the server.
\<close>

theorem config_order_independent:
  assumes "mset (gs_EngineSettings (g_Spec g)) = mset es"
  shows "let g' = g\<lparr>g_Spec := (g_Spec g)\<lparr>gs_EngineSettings := es\<rparr>\<rparr> in
     DesiredConfigMap g' = DesiredConfigMap g \<and> SettingsHash sha g' = SettingsHash sha g"
proof -
  let ?g = "g\<lparr>g_Spec := (g_Spec g)\<lparr>gs_EngineSettings := es\<rparr>\<rparr>"
  have "renderEngineINI es = renderEngineINI (gs_EngineSettings (g_Spec g))"
    by (rule renderEngineINI_perm) (simp add: assms)
  moreover have "RenderSettings ?g = RenderSettings g"
    by (simp add: RenderSettings_def GamePort_def Let_def)
  moreover have "CommonLabels ?g = CommonLabels g" "ConfigMapName ?g = ConfigMapName g" "g_Namespace ?g = g_Namespace g"
    by (simp_all add: CommonLabels_def ConfigMapName_def)
  ultimately show ?thesis by (simp add: DesiredConfigMap_def SettingsHash_def Let_def split: sum.split)
qed

theorem config_order_independent_witness:
  "let g = sampleGame\<lparr>g_Spec := sampleSpec\<lparr>gs_EngineSettings := [(''a/x'', ''1''), (''a/y'', ''2'')]\<rparr>\<rparr>;
       g' = sampleGame\<lparr>g_Spec := sampleSpec\<lparr>gs_EngineSettings := [(''a/y'', ''2''), (''a/x'', ''1'')]\<rparr>\<rparr> in
   SettingsHash (x_sha256hex refLib) g' = SettingsHash (x_sha256hex refLib) g"
  using config_order_independent [of "sampleGame\<lparr>g_Spec := sampleSpec\<lparr>gs_EngineSettings := [(''a/x'', ''1''), (''a/y'', ''2'')]\<rparr>\<rparr>"
      "[(''a/y'', ''2''), (''a/x'', ''1'')]" "x_sha256hex refLib"]
  by (simp add: Let_def)



text \<open>
  A Service that is as the operator wants it is only read. If the live Service is what an earlier
  reconcile wrote, that is the merge of the desired Service into whatever was there, with the owner
  set, then reconciling any of the game's Services makes one read and no write: node ports, the cluster
  IP and other fields the API server filled in are kept and do not cause updates.
\<close>

theorem service_reconcile_quiet:
  assumes "\<And>kd own m m'. x_SetControllerReference (gr_Lib r) kd own m = Inr m'
      \<Longrightarrow> (\<exists>os. m' = m\<lparr>m_OwnerReferences := os\<rparr>) \<and> x_SetControllerReference (gr_Lib r) kd own m' = Inr m'"
    and "\<And>x. x_DeepEqual (gr_Lib r) (AObj x) (AObj x)"
    and "d \<in> set (desiredServices r g)"
    and "setRef r g (svc_Meta (mergeService e d)) = Inr m"
    and "\<And>h. srv w h (Get ServiceKind (metaKey (svc_Meta d))) = RObj (OService ((mergeService e d)\<lparr>svc_Meta := m\<rparr>))"
  shows "calls (reconcileService (gr_Lib r) g d) w = [Get ServiceKind (metaKey (svc_Meta d))]
     \<and> val (reconcileService (gr_Lib r) g d) w = None"
proof -
  have "ownerLaw (gr_Lib r)" unfolding ownerLaw_def using assms(1) by blast
  from reconcileService_quiet [OF this assms(2) desiredServices_ports [OF assms(3)] assms(4)] assms(5)
  show ?thesis by (simp add: metaKey_def)
qed

definition serviceWorld :: "(call, reply) world" where
  "serviceWorld = \<lparr>srv = \<lambda>h c. RObj (OService ((DesiredAdminService sampleGame)
     \<lparr>svc_Meta := (svc_Meta (DesiredAdminService sampleGame))
        \<lparr>m_OwnerReferences := [\<lparr>or_Kind = ''PalworldGame'', or_Name = ''pal'', or_Controller = True\<rparr>]\<rparr>\<rparr>)), hist = []\<rparr>"

theorem service_reconcile_quiet_witness:
  "val (reconcileService refLib sampleGame (DesiredAdminService sampleGame)) serviceWorld = None"
proof -
  let ?d = "DesiredAdminService sampleGame"
  let ?m = "(svc_Meta ?d)\<lparr>m_OwnerReferences := [\<lparr>or_Kind = ''PalworldGame'', or_Name = ''pal'', or_Controller = True\<rparr>]\<rparr>"
  have lib: "gr_Lib sampleReconciler = refLib" by (simp add: sampleReconciler_def)
  have merge: "mergeService ?d ?d = ?d"
    by (simp add: mergeService_def preservedNodePort_def DesiredAdminService_def newService_def svcPort_def)
  have ref: "setRef sampleReconciler sampleGame (svc_Meta (mergeService ?d ?d)) = Inr ?m"
    unfolding lib merge refLib_owner by (simp add: refOwner_def Let_def DesiredAdminService_def newService_def newMeta_def)
  have live: "srv serviceWorld h c = RObj (OService ((mergeService ?d ?d)\<lparr>svc_Meta := ?m\<rparr>))" for h c
    unfolding merge by (simp add: serviceWorld_def)
  have law: "(\<exists>os. m' = m\<lparr>m_OwnerReferences := os\<rparr>) \<and> x_SetControllerReference (gr_Lib sampleReconciler) kd own m' = Inr m'"
    if "x_SetControllerReference (gr_Lib sampleReconciler) kd own m = Inr m'" for kd own m m'
    using refOwner_law that unfolding lib refLib_owner .
  have "?d \<in> set (desiredServices sampleReconciler sampleGame)" by (simp add: desiredServices_def)
  from service_reconcile_quiet [OF law _ this ref live] show ?thesis
    unfolding lib by (simp add: refLib_def)
qed

end
