(* ===== verification/GameStatus.thy ===== *)
theory GameStatus
  imports GameResources
begin

text \<open>
  \<^verbatim>\<open>internal/controller/palworldgame_status.go\<close>: the observed status of a game. Every operation that
  assigns to \<open>game.Status\<close> takes the game and returns it updated; reads are best-effort, as in the source.
\<close>

definition updateStatus :: "PalworldGame \<Rightarrow> (PalworldGame \<times> kerr option) k" where
  "updateStatus g =
     (let g = updStatus (gt_ObservedGeneration_update (\<lambda>_. m_Generation (g_Meta g))) g in do {
        s \<leftarrow> call (StatusUpdate (OGame g));
        ret (case asGame s of Inl e \<Rightarrow> (g, Some e) | Inr g' \<Rightarrow> (g', None))
      })"

definition maxPlayers :: "PalworldGame \<Rightarrow> int32" where
  "maxPlayers g =
     (if 0 < ss_ServerPlayerMaxNum (gs_ServerSettings (g_Spec g))
      then ss_ServerPlayerMaxNum (gs_ServerSettings (g_Spec g)) else 32)"

fun firstIngress :: "int32 \<Rightarrow> LoadBalancerIngress list \<Rightarrow> string option" where
  "firstIngress port [] = None"
| "firstIngress port (ing # ings) =
     (if ing_IP ing \<noteq> [] then Some (ing_IP ing @ '':'' @ itoa port)
      else if ing_Hostname ing \<noteq> [] then Some (ing_Hostname ing @ '':'' @ itoa port)
      else firstIngress port ings)"

fun firstNodePort :: "ServicePort list \<Rightarrow> string option" where
  "firstNodePort [] = None"
| "firstNodePort (p # ps) =
     (if sp_Name p = ''game'' \<and> sp_NodePort p \<noteq> 0 then Some (''<node-ip>:'' @ itoa (sp_NodePort p))
      else firstNodePort ps)"

definition endpointOf :: "Service \<Rightarrow> int32 \<Rightarrow> string" where
  "endpointOf svc port =
     (let typ = ssp_Type (svc_Spec svc) in
      if typ = ''LoadBalancer'' then
        (case firstIngress port (svc_Ingress svc) of Some s \<Rightarrow> s | None \<Rightarrow> ''<pending-loadbalancer>'')
      else if typ = ''NodePort'' then
        (case firstNodePort (ssp_Ports (svc_Spec svc)) of Some s \<Rightarrow> s | None \<Rightarrow> [])
      else if ssp_ClusterIP (svc_Spec svc) \<noteq> [] \<and> ssp_ClusterIP (svc_Spec svc) \<noteq> ''None''
        then ssp_ClusterIP (svc_Spec svc) @ '':'' @ itoa port
      else [])"

definition gameEndpoint :: "PalworldGame \<Rightarrow> string k" where
  "gameEndpoint g = do {
     s \<leftarrow> call (Get ServiceKind (g_Namespace g, GameServiceName g));
     ret (case asService s of Inl e \<Rightarrow> [] | Inr svc \<Rightarrow> endpointOf svc (GamePort g))
   }"

fun ingressHost :: "json list \<Rightarrow> string" where
  "ingressHost [] = []"
| "ingressHost (ing # ings) =
     (case jstring (jfield ing ''host'') of
        Some host \<Rightarrow> if host \<noteq> [] then ''https://'' @ host else ingressHost ings
      | None \<Rightarrow> ingressHost ings)"

definition urlOf :: "Unstructured \<Rightarrow> string" where
  "urlOf route =
     (case jstring (jfield (un_Spec route) ''host'') of
        Some host \<Rightarrow>
          if host \<noteq> [] then ''https://'' @ host
          else (case jarr (jfield (un_Status route) ''ingress'') of Some ings \<Rightarrow> ingressHost ings | None \<Rightarrow> [])
      | None \<Rightarrow>
          (case jarr (jfield (un_Status route) ''ingress'') of Some ings \<Rightarrow> ingressHost ings | None \<Rightarrow> []))"

definition routeURL :: "PalworldGameReconciler \<Rightarrow> PalworldGame \<Rightarrow> string k" where
  "routeURL r g =
     (if \<not> rx_Route (nw_RESTAPI (gs_Networking (g_Spec g))) \<or> \<not> gr_hasRoute r then ret []
      else do {
        s \<leftarrow> call (Get (UnKind RouteGVK) (g_Namespace g, RouteName g));
        ret (case asUn s of Inl e \<Rightarrow> [] | Inr route \<Rightarrow> urlOf route)
      })"

text \<open>One round of the loop of \<open>observeBackups\<close>.\<close>

definition observeBackup :: "PalworldGame \<Rightarrow> PalworldBackup \<Rightarrow> PalworldGame" where
  "observeBackup g b =
     (if bs_GameRef (b_Spec b) \<noteq> g_Name g then g
      else (case bt_CompletionTime (b_Status b) of
              None \<Rightarrow> g
            | Some ct \<Rightarrow>
                if bt_Phase (b_Status b) \<noteq> BackupPhaseCompleted then g
                else if (case gt_LastBackupTime (g_Status g) of None \<Rightarrow> True | Some prev \<Rightarrow> prev < ct)
                then updStatus (\<lambda>st. st\<lparr>gt_LastBackupTime := Some ct, gt_LastBackupName := b_Name b\<rparr>) g
                else g))"

definition observeBackups :: "PalworldGame \<Rightarrow> PalworldGame k" where
  "observeBackups g = do {
     l \<leftarrow> call (ListBackups (g_Namespace g) Map.empty);
     ret (case asBackups l of Inl e \<Rightarrow> g | Inr items \<Rightarrow> foldl observeBackup g items)
   }"

definition observeLive :: "PalworldGameReconciler \<Rightarrow> PalworldGame \<Rightarrow> PalworldGame k" where
  "observeLive r g = do {
     rc \<leftarrow> restClientFor (gr_APIReader r) g;
     case rc of
       Inl e \<Rightarrow>
         ret (setReady (gr_Lib r) True ''Running'' ''Server pod is ready''
                (updStatus (gt_Phase_update (\<lambda>_. PhaseRunning)) g))
     | Inr c \<Rightarrow> do {
         info \<leftarrow> Info c;
         g \<leftarrow> ret (case info of
                  Inl e \<Rightarrow> g
                | Inr i \<Rightarrow> updStatus (\<lambda>st. st\<lparr>gt_ServerName := inf_ServerName i, gt_ServerVersion := inf_Version i\<rparr>) g);
         metrics \<leftarrow> Metrics c;
         g \<leftarrow> ret (case metrics of
                  Inl e \<Rightarrow> g
                | Inr m \<Rightarrow> updStatus (\<lambda>st. st\<lparr>gt_PlayersOnline := mt_CurrentPlayerNum m,
                                 gt_MaxPlayers := (if 0 < mt_MaxPlayerNum m then mt_MaxPlayerNum m
                                                   else gt_MaxPlayers st)\<rparr>) g);
         ret (setDegraded (gr_Lib r) False ''Running'' ''Server healthy''
               (clearProgressing (gr_Lib r) ''Running'' ''Reconcile complete''
                 (setReady (gr_Lib r) True ''Running'' ''Server is running and reachable''
                   (updStatus (gt_Phase_update (\<lambda>_. PhaseRunning)) g))))
       }
   }"

text \<open>The part of \<open>reconcileObservedStatus\<close> after the StatefulSet was read.\<close>

definition observeSts :: "PalworldGameReconciler \<Rightarrow> PalworldGame \<Rightarrow> StatefulSet \<Rightarrow> PalworldGame k" where
  "observeSts r g sts =
     (let L = gr_Lib r;
          desired = DesiredReplicas g;
          g = updStatus (gt_Replicas_update (\<lambda>_. sts_StatusReadyReplicas sts)) g
      in if desired = 0 then
           ret (clearProgressing L ''Stopped'' ''Server is stopped''
                 (setReady L False ''Stopped'' ''Server is stopped (replicas=0)''
                   (updStatus (\<lambda>st. st\<lparr>gt_Phase := PhaseStopped, gt_PlayersOnline := 0\<rparr>) g)))
         else if sts_StatusReadyReplicas sts < 1 then
           (let (phase, msg) =
                  (if gt_CurrentVersion (g_Status g) \<noteq> []
                   then (PhaseUpdating, ''Server pod is restarting'')
                   else (PhaseInstalling, ''Server pod is installing/starting''))
            in ret (setProgressing L ''Starting'' msg
                     (setReady L False ''Starting'' msg (updStatus (gt_Phase_update (\<lambda>_. phase)) g))))
         else observeLive r g)"

text \<open>\<open>gameSelector\<close> of \<^verbatim>\<open>palworldgame_controller.go\<close>: the set a selector is built from.\<close>

definition gameSelector :: "PalworldGame \<Rightarrow> labels" where
  "gameSelector g = SelectorLabels g"

definition reconcileObservedStatus :: "PalworldGameReconciler \<Rightarrow> PalworldGame \<Rightarrow> PalworldGame k" where
  "reconcileObservedStatus r g = do {
     g \<leftarrow> ret (updStatus (\<lambda>st. st\<lparr>
             gt_Selector := x_SelectorString (gr_Lib r) (gameSelector g),
             gt_PersistentVolumeClaim := DataPVCName g,
             gt_RESTEndpoint := adminHost g @ '':'' @ itoa RESTPort,
             gt_MaxPlayers := maxPlayers g\<rparr>) g);
     ep \<leftarrow> gameEndpoint g;
     g \<leftarrow> ret (updStatus (gt_GameEndpoint_update (\<lambda>_. ep)) g);
     url \<leftarrow> routeURL r g;
     g \<leftarrow> ret (if url \<noteq> [] then updStatus (gt_RouteURL_update (\<lambda>_. url)) g else g);
     g \<leftarrow> observeBackups g;
     s \<leftarrow> call (Get StsKind (g_Namespace g, StatefulSetName g));
     case asSts s of
       Inl e \<Rightarrow>
         if IsNotFound e
         then ret (setReady (gr_Lib r) False ''Pending'' ''StatefulSet not yet created''
                    (updStatus (\<lambda>st. st\<lparr>gt_Replicas := 0, gt_Phase := PhasePending\<rparr>) g))
         else ret g
     | Inr sts \<Rightarrow> observeSts r g sts
   }"

section \<open>The newest backup\<close>

text \<open>The completed backups of a game, with their completion times, and the latest time of a list and a previous value.\<close>

definition completions :: "PalworldGame \<Rightarrow> PalworldBackup list \<Rightarrow> (time \<times> string) list" where
  "completions g bs = concat (map (\<lambda>b.
     case bt_CompletionTime (b_Status b) of
       Some ct \<Rightarrow> if bs_GameRef (b_Spec b) = g_Name g \<and> bt_Phase (b_Status b) = BackupPhaseCompleted
                  then [(ct, b_Name b)] else []
     | None \<Rightarrow> []) bs)"

definition newest :: "time option \<Rightarrow> time list \<Rightarrow> time option" where
  "newest prev ts = (let S = set_option prev \<union> set ts in if S = {} then None else Some (Max S))"

lemma observeBackup_name: "g_Name (observeBackup g b) = g_Name g"
  by (simp add: observeBackup_def split: option.split)

lemma completions_name: "g_Name g' = g_Name g \<Longrightarrow> completions g' bs = completions g bs"
  unfolding completions_def by presburger

lemma newest_step:
  "newest prev (t # ts) = newest (if (case prev of None \<Rightarrow> True | Some p \<Rightarrow> p < t) then Some t else prev) ts"
proof (cases "ts = []")
  case False
  then have "Max (insert a (insert b (set ts))) = max a (max b (Max (set ts)))"
    "Max (insert a (set ts)) = max a (Max (set ts))" for a b by simp_all
  then show ?thesis by (cases prev) (auto simp: newest_def Let_def max_def simp del: Max_insert)
qed (auto simp: newest_def Let_def max_def split: option.splits)

lemma observe_newest:
  "gt_LastBackupTime (g_Status (foldl observeBackup g bs)) =
     newest (gt_LastBackupTime (g_Status g)) (map fst (completions g bs))"
proof (induction bs arbitrary: g)
  case Nil
  show ?case by (cases "gt_LastBackupTime (g_Status g)") (simp_all add: newest_def completions_def)
next
  case (Cons b bs)
  have "completions (observeBackup g b) bs = completions g bs" by (rule completions_name) (rule observeBackup_name)
  with Cons show ?case
    by (auto simp: completions_def [of g "b # bs"] completions_def [of g bs, symmetric] observeBackup_def newest_step split: option.splits)
qed


lemma observe_name:
  "gt_LastBackupTime (g_Status (foldl observeBackup g bs)) = gt_LastBackupTime (g_Status g)
     \<and> gt_LastBackupName (g_Status (foldl observeBackup g bs)) = gt_LastBackupName (g_Status g)
   \<or> (\<exists>t. gt_LastBackupTime (g_Status (foldl observeBackup g bs)) = Some t
        \<and> (t, gt_LastBackupName (g_Status (foldl observeBackup g bs))) \<in> set (completions g bs))"
proof (induction bs arbitrary: g)
  case (Cons b bs)
  have c: "completions (observeBackup g b) bs = completions g bs" by (rule completions_name) (rule observeBackup_name)
  have "set (completions g bs) \<subseteq> set (completions g (b # bs))" by (auto simp: completions_def)
  moreover have "(gt_LastBackupTime (g_Status (observeBackup g b)) = gt_LastBackupTime (g_Status g)
     \<and> gt_LastBackupName (g_Status (observeBackup g b)) = gt_LastBackupName (g_Status g))
     \<or> (\<exists>t. gt_LastBackupTime (g_Status (observeBackup g b)) = Some t
        \<and> (t, gt_LastBackupName (g_Status (observeBackup g b))) \<in> set (completions g (b # bs)))"
    by (auto simp: observeBackup_def completions_def split: option.splits)
  ultimately show ?case using Cons [of "observeBackup g b"] unfolding c by auto
qed simp

section \<open>Properties\<close>

text \<open>
  The recorded last backup is the newest. After a successful listing the last backup time is the
  latest of the previously recorded time and the completion times of the game's completed backups,
  whatever order they are listed in, and the recorded name is that of a backup completed at that
  time or unchanged together with the time. A failed listing changes nothing.
\<close>

theorem last_backup_is_newest:
  "ensures (\<lambda>g' es. \<exists>x. es = [(ListBackups (g_Namespace g) Map.empty, x)] \<and>
      (case asBackups x of
         Inl e \<Rightarrow> g' = g
       | Inr items \<Rightarrow>
           gt_LastBackupTime (g_Status g') = newest (gt_LastBackupTime (g_Status g)) (map fst (completions g items))
           \<and> (gt_LastBackupTime (g_Status g') = gt_LastBackupTime (g_Status g)
                \<and> gt_LastBackupName (g_Status g') = gt_LastBackupName (g_Status g)
              \<or> (\<exists>t. gt_LastBackupTime (g_Status g') = Some t \<and> (t, gt_LastBackupName (g_Status g')) \<in> set (completions g items)))))
     (observeBackups g)"
  unfolding observeBackups_def
  by (intro ensures_intros) (simp add: observe_newest [symmetric] observe_name split: sum.split)

end
