(* ===== verification/GoTime.thy ===== *)
theory GoTime
  imports GoPrelude "HOL-Library.Monad_Syntax"
begin

text \<open>
  The part of Go's \<open>time\<close> package behind the drain annotation: formatting an instant in UTC with the
  layout \<open>time.RFC3339\<close> and parsing such a text. Times are nanoseconds since the Unix epoch; the
  calendar is the proleptic Gregorian one. The main lemma is that parsing what was formatted gives
  the instant back, cut to whole seconds.
\<close>

section \<open>Calendar\<close>

definition leapYear :: "nat \<Rightarrow> bool" where
  "leapYear y \<longleftrightarrow> y mod 4 = 0 \<and> (y mod 100 \<noteq> 0 \<or> y mod 400 = 0)"

definition daysInYear :: "nat \<Rightarrow> nat" where
  "daysInYear y = (if leapYear y then 366 else 365)"

text \<open>Days from the start of year 0 to the start of a year.\<close>

definition daysBeforeYear :: "nat \<Rightarrow> nat" where
  "daysBeforeYear y = 365 * y + (y + 3) div 4 + (y + 399) div 400 - (y + 99) div 100"

definition monthLengths :: "nat \<Rightarrow> nat list" where
  "monthLengths y = [31, if leapYear y then 29 else 28, 31, 30, 31, 30, 31, 31, 30, 31, 30, 31]"

function yearFrom :: "nat \<Rightarrow> nat \<Rightarrow> nat \<times> nat" where
  "yearFrom y n = (if n < daysInYear y then (y, n) else yearFrom (Suc y) (n - daysInYear y))"
  by pat_completeness auto
termination
  by (relation "measure (\<lambda>(y, n). n)") (auto simp: daysInYear_def)

declare yearFrom.simps [simp del]

fun monthFrom :: "nat list \<Rightarrow> nat \<Rightarrow> nat \<times> nat" where
  "monthFrom [] n = (0, n)"
| "monthFrom (k # ks) n =
     (if n < k then (0, n) else (case monthFrom ks (n - k) of (m, d) \<Rightarrow> (Suc m, d)))"

text \<open>The Unix epoch as a day number counted from the start of year 0; four centuries.\<close>

definition epochDay :: int where "epochDay = 719528"
definition cycleDays :: nat where "cycleDays = 146097"

section \<open>Formatting\<close>

definition pad2 :: "nat \<Rightarrow> string" where
  "pad2 n = [digitChar (n div 10), digitChar (n mod 10)]"

text \<open>Four digits, more for a year past 9999, and a sign for a negative one.\<close>

definition padYear :: "int \<Rightarrow> string" where
  "padYear y =
     (let n = nat \<bar>y\<bar>;
          ds = (if n < 10000 then [digitChar (n div 1000), digitChar (n div 100 mod 10),
                                   digitChar (n div 10 mod 10), digitChar (n mod 10)]
                else natStr n)
      in if y < 0 then CHR ''-'' # ds else ds)"

definition formatRFC3339 :: "time \<Rightarrow> string" where
  "formatRFC3339 t =
     (let s = timeUnix t + epochDay * 86400;
          day = s div 86400;
          sod = nat (s mod 86400);
          c = day div int cycleDays;
          n = nat (day mod int cycleDays);
          (y, doy) = yearFrom 0 n;
          (m, d) = monthFrom (monthLengths y) doy
      in padYear (int y + 400 * c) @ ''-'' @ pad2 (Suc m) @ ''-'' @ pad2 (Suc d) @ ''T''
           @ pad2 (sod div 3600) @ '':'' @ pad2 (sod div 60 mod 60) @ '':'' @ pad2 (sod mod 60) @ ''Z'')"

section \<open>Parsing\<close>

definition isDigit :: "char \<Rightarrow> bool" where
  "isDigit c \<longleftrightarrow> 48 \<le> (of_char c :: nat) \<and> (of_char c :: nat) \<le> 57"

definition digitVal :: "char \<Rightarrow> nat" where
  "digitVal c = of_char c - 48"

fun digits :: "nat \<Rightarrow> nat \<Rightarrow> string \<Rightarrow> (nat \<times> string) option" where
  "digits 0 acc s = Some (acc, s)"
| "digits (Suc k) acc [] = None"
| "digits (Suc k) acc (c # s) = (if isDigit c then digits k (10 * acc + digitVal c) s else None)"

fun lit :: "char \<Rightarrow> string \<Rightarrow> string option" where
  "lit x [] = None"
| "lit x (c # s) = (if c = x then Some s else None)"

text \<open>The hour may have one digit.\<close>

fun hourDigits :: "string \<Rightarrow> (nat \<times> string) option" where
  "hourDigits (a # b # s) =
     (if isDigit a then if isDigit b then Some (10 * digitVal a + digitVal b, s) else Some (digitVal a, b # s)
      else None)"
| "hourDigits [a] = (if isDigit a then Some (digitVal a, []) else None)"
| "hourDigits [] = None"

text \<open>An optional fraction of a second, kept to nanoseconds.\<close>

fun fractionDigits :: "nat \<Rightarrow> nat \<Rightarrow> string \<Rightarrow> nat \<times> string" where
  "fractionDigits w acc [] = (acc, [])"
| "fractionDigits w acc (c # s) =
     (if isDigit c then fractionDigits (w div 10) (acc + digitVal c * w) s else (acc, c # s))"

definition fraction :: "string \<Rightarrow> nat \<times> string" where
  "fraction s =
     (case s of
        c # d # s' \<Rightarrow> if (c = CHR ''.'' \<or> c = CHR '','') \<and> isDigit d then fractionDigits 100000000 0 (d # s')
                      else (0, s)
      | _ \<Rightarrow> (0, s))"

text \<open>The zone: \<open>Z\<close> or a signed offset in hours and minutes, in seconds; nothing may follow.\<close>

definition zone :: "string \<Rightarrow> int option" where
  "zone s =
     (case s of
        [] \<Rightarrow> None
      | c # s' \<Rightarrow>
          if c = CHR ''Z'' then (if s' = [] then Some 0 else None)
          else if c = CHR ''+'' \<or> c = CHR ''-'' then
            Option.bind (digits 2 0 s') (\<lambda>(h, s1).
            Option.bind (lit CHR '':'' s1) (\<lambda>s2.
            Option.bind (digits 2 0 s2) (\<lambda>(m, s3).
              if s3 = [] \<and> h \<le> 24 \<and> m < 60
              then Some ((if c = CHR ''-'' then - 1 else 1) * (int h * 3600 + int m * 60)) else None)))
          else None)"

definition dayNumber :: "nat \<Rightarrow> nat \<Rightarrow> nat \<Rightarrow> int" where
  "dayNumber y mo d =
     int (cycleDays * (y div 400) + daysBeforeYear (y mod 400)
          + sum_list (take (mo - 1) (monthLengths (y mod 400))) + (d - 1))"

definition parseRFC3339 :: "string \<Rightarrow> time option" where
  "parseRFC3339 s =
     Option.bind (digits 4 0 s) (\<lambda>(y, s).
     Option.bind (lit CHR ''-'' s) (\<lambda>s.
     Option.bind (digits 2 0 s) (\<lambda>(mo, s).
     Option.bind (lit CHR ''-'' s) (\<lambda>s.
     Option.bind (digits 2 0 s) (\<lambda>(d, s).
     Option.bind (lit CHR ''T'' s) (\<lambda>s.
     Option.bind (hourDigits s) (\<lambda>(h, s).
     Option.bind (lit CHR '':'' s) (\<lambda>s.
     Option.bind (digits 2 0 s) (\<lambda>(mi, s).
     Option.bind (lit CHR '':'' s) (\<lambda>s.
     Option.bind (digits 2 0 s) (\<lambda>(se, s).
       case fraction s of (ns, s) \<Rightarrow>
     Option.bind (zone s) (\<lambda>off.
       if 1 \<le> mo \<and> mo \<le> 12 \<and> 1 \<le> d \<and> d \<le> monthLengths (y mod 400) ! (mo - 1)
          \<and> h < 24 \<and> mi < 60 \<and> se < 60
       then Some (((dayNumber y mo d - epochDay) * 86400 + int (h * 3600 + mi * 60 + se) - off) * Second
                  + int ns)
       else None))))))))))))"

section \<open>Lemmas\<close>

lemma daysBeforeYear_0 [simp]: "daysBeforeYear 0 = 0"
  by (simp add: daysBeforeYear_def)

lemma daysBeforeYear_Suc: "daysBeforeYear (Suc y) = daysBeforeYear y + daysInYear y"
proof -
  have step: "(Suc y + k) div Suc k = (y + k) div Suc k + (if y mod Suc k = 0 then 1 else 0)" for k
    using div_Suc [of "y + k" "Suc k"] mod_add_self2 [of y "Suc k"] by simp
  have 1: "(Suc y + 3) div 4 = (y + 3) div 4 + (if y mod 4 = 0 then 1 else 0)"
    using step [of 3] by simp
  have 2: "(Suc y + 99) div 100 = (y + 99) div 100 + (if y mod 100 = 0 then 1 else 0)"
    using step [of 99] by simp
  have 3: "(Suc y + 399) div 400 = (y + 399) div 400 + (if y mod 400 = 0 then 1 else 0)"
    using step [of 399] by simp
  have 4: "(y + 99) div 100 \<le> (y + 3) div 4"
  proof -
    have "4 * ((y + 99) div 100) \<le> y + 3"
      using div_times_less_eq_dividend [of "y + 99" 100] by linarith
    then have "4 * ((y + 99) div 100) div 4 \<le> (y + 3) div 4" by (rule div_le_mono)
    then show ?thesis by simp
  qed
  have 5: "y mod 400 = 0 \<Longrightarrow> y mod 100 = 0" "y mod 100 = 0 \<Longrightarrow> y mod 4 = 0"
    using dvd_trans [of 100 400 y] dvd_trans [of 4 100 y] by (auto simp: dvd_eq_mod_eq_0 [symmetric])
  have eq: "daysBeforeYear (Suc y) = 365 * y + 365 + ((y + 3) div 4 + (if y mod 4 = 0 then 1 else 0))
      + ((y + 399) div 400 + (if y mod 400 = 0 then 1 else 0))
      - ((y + 99) div 100 + (if y mod 100 = 0 then 1 else 0))"
    unfolding daysBeforeYear_def 1 2 3 by (simp only: mult_Suc mult_Suc_right ac_simps)
  have aux: "365 * y + 365 + (a + (if P then 1 else 0)) + (c + (if R then 1 else 0))
      - (b + (if Q then 1 else 0)) =
      365 * y + a + c - b + (if P \<and> (\<not> Q \<or> R) then 366 else 365)"
    if "b \<le> a" "R \<Longrightarrow> Q" "Q \<Longrightarrow> P" for a b c :: nat and P Q R
    using that by (cases P; cases Q; cases R) auto
  show ?thesis
    unfolding eq unfolding daysBeforeYear_def daysInYear_def leapYear_def
    by (rule aux [OF 4 5])
qed

lemma yearFrom_spec:
  "yearFrom y n = (y', r) \<Longrightarrow> daysBeforeYear y + n = daysBeforeYear y' + r \<and> r < daysInYear y'"
proof (induction y n rule: yearFrom.induct)
  case (1 y n)
  then show ?case
    by (cases "n < daysInYear y") (auto simp: yearFrom.simps [of y n] daysBeforeYear_Suc)
qed

lemma daysBeforeYear_mono: "i \<le> j \<Longrightarrow> daysBeforeYear i \<le> daysBeforeYear j"
  by (rule lift_Suc_mono_le [of daysBeforeYear]) (auto simp: daysBeforeYear_Suc)

lemma daysBeforeYear_400: "daysBeforeYear 400 = cycleDays"
  by (simp add: daysBeforeYear_def cycleDays_def)

lemma yearFrom_lt: "n < cycleDays \<Longrightarrow> yearFrom 0 n = (y, r) \<Longrightarrow> y < 400"
proof (rule ccontr)
  assume n: "n < cycleDays" and yr: "yearFrom 0 n = (y, r)" and "\<not> y < 400"
  then have "cycleDays \<le> daysBeforeYear y"
    using daysBeforeYear_mono [of 400 y] daysBeforeYear_400 by simp
  with n yearFrom_spec [OF yr] show False by simp
qed

lemma monthFrom_spec:
  "n < sum_list ks \<Longrightarrow> monthFrom ks n = (m, d)
     \<Longrightarrow> m < length ks \<and> sum_list (take m ks) + d = n \<and> d < ks ! m"
proof (induction ks arbitrary: n m d)
  case (Cons k ks)
  show ?case
  proof (cases "n < k")
    case True
    with Cons.prems show ?thesis by auto
  next
    case False
    obtain m' d' where md: "monthFrom ks (n - k) = (m', d')" by (cases "monthFrom ks (n - k)")
    have "n - k < sum_list ks" using Cons.prems False by simp
    from Cons.IH [OF this md] Cons.prems False md show ?thesis by auto
  qed
qed simp

lemma sum_monthLengths: "sum_list (monthLengths y) = daysInYear y"
  by (simp add: monthLengths_def daysInYear_def)

lemma length_monthLengths [simp]: "length (monthLengths y) = 12"
  by (simp add: monthLengths_def)

lemma monthLengths_le: "m < 12 \<Longrightarrow> monthLengths y ! m \<le> 31"
proof -
  assume "m < 12"
  then have "monthLengths y ! m \<in> set (monthLengths y)" by simp
  then show ?thesis by (auto simp: monthLengths_def split: if_splits)
qed

lemma leapYear_mod: "leapYear (y mod 400) = leapYear y"
  by (simp add: leapYear_def mod_mod_cancel)

lemma isDigit_digitChar: "d < 10 \<Longrightarrow> isDigit (digitChar d) \<and> digitVal (digitChar d) = d"
  by (simp add: isDigit_def digitVal_def digitChar_def)

lemma digits_pad2: "n < 100 \<Longrightarrow> digits 2 0 (pad2 n @ s) = Some (n, s)"
  using isDigit_digitChar [of "n div 10"] isDigit_digitChar [of "n mod 10"]
  by (simp add: pad2_def numeral_2_eq_2)

lemma hourDigits_pad2: "n < 100 \<Longrightarrow> hourDigits (pad2 n @ s) = Some (n, s)"
  using isDigit_digitChar [of "n div 10"] isDigit_digitChar [of "n mod 10"]
  by (simp add: pad2_def)

lemma year_digits:
  "10 * (10 * (10 * (n div 1000) + n div 100 mod 10) + n div 10 mod 10) + n mod 10 = (n :: nat)"
proof -
  have "n div 1000 = n div 100 div 10" "n div 100 = n div 10 div 10"
    by (simp_all add: div_mult2_eq [symmetric])
  then show ?thesis by presburger
qed

lemma digits_year:
  assumes "n < 10000" shows "digits 4 0 (padYear (int n) @ s) = Some (n, s)"
proof -
  have d: "isDigit (digitChar (n div 1000))" "digitVal (digitChar (n div 1000)) = n div 1000"
    using isDigit_digitChar [of "n div 1000"] assms by auto
  note e = isDigit_digitChar [of "n div 100 mod 10"] isDigit_digitChar [of "n div 10 mod 10"]
    isDigit_digitChar [of "n mod 10"]
  have "10 * (10 * (10 * (n div 1000) + n div 100 mod 10) + n div 10 mod 10) + n mod 10 = n"
    by (rule year_digits)
  moreover have "digits 4 0 (a # b # c # d # s) =
      (if isDigit a \<and> isDigit b \<and> isDigit c \<and> isDigit d
       then Some (10 * (10 * (10 * digitVal a + digitVal b) + digitVal c) + digitVal d, s) else None)"
    for a b c d
    by (simp add: numeral_eq_Suc)
  ultimately show ?thesis using assms d e by (simp add: padYear_def Let_def)
qed

text \<open>The formatted fields and the parsed instant, for a day of the years 0 to 9999.\<close>

lemma parse_fields:
  assumes "y < 10000" "m < 12" "d < monthLengths (y mod 400) ! m" "sod < 86400"
  shows "parseRFC3339 (padYear (int y) @ ''-'' @ pad2 (Suc m) @ ''-'' @ pad2 (Suc d) @ ''T''
      @ pad2 (sod div 3600) @ '':'' @ pad2 (sod div 60 mod 60) @ '':'' @ pad2 (sod mod 60) @ ''Z'') =
    Some (((dayNumber y (Suc m) (Suc d) - epochDay) * 86400 + int sod) * Second)"
proof -
  have "d < 31" using monthLengths_le [of m "y mod 400"] assms by simp
  then have b: "Suc m < 100" "Suc d < 100" "sod div 3600 < 100" "sod div 3600 < 24"
      "sod div 60 mod 60 < 100" "sod mod 60 < 100"
    using assms by (auto simp: less_mult_imp_div_less intro: less_trans [OF mod_less_divisor])
  have sod: "sod div 3600 * 3600 + sod div 60 mod 60 * 60 + sod mod 60 = sod"
  proof -
    have "sod div 3600 = sod div 60 div 60" by (simp add: div_mult2_eq [symmetric])
    then have "sod div 3600 * 60 + sod div 60 mod 60 = sod div 60" by simp
    then show ?thesis using div_mult_mod_eq [of sod 60] by linarith
  qed
  have frac: "fraction ''Z'' = (0, ''Z'')" and z: "zone ''Z'' = Some 0"
    by (simp_all add: fraction_def zone_def)
  have ok: "1 \<le> Suc m \<and> Suc m \<le> 12 \<and> 1 \<le> Suc d \<and> Suc d \<le> monthLengths (y mod 400) ! (Suc m - 1)
      \<and> sod div 3600 < 24 \<and> sod div 60 mod 60 < 60 \<and> sod mod 60 < 60"
    using assms b by simp
  show ?thesis
    unfolding parseRFC3339_def
    by (simp only: digits_year [OF assms(1)] digits_pad2 [OF b(1)] digits_pad2 [OF b(2)]
        hourDigits_pad2 [OF b(3)] digits_pad2 [OF b(5)] digits_pad2 [OF b(6)] bind.bind_lunit
        prod.case lit.simps append.simps if_True frac z ok simp_thms sod) simp
qed

lemma dayNumber_of:
  assumes "day = int n + int cycleDays * int c" "n < cycleDays" "yearFrom 0 n = (y, doy)"
    "monthFrom (monthLengths y) doy = (m, d)"
  shows "dayNumber (y + 400 * c) (Suc m) (Suc d) = day" "m < 12"
    "d < monthLengths ((y + 400 * c) mod 400) ! m"
proof -
  have y: "y < 400" by (rule yearFrom_lt [OF assms(2,3)])
  have n: "n = daysBeforeYear y + doy" "doy < daysInYear y"
    using yearFrom_spec [OF assms(3)] by simp_all
  have "m < 12 \<and> sum_list (take m (monthLengths y)) + d = doy \<and> d < monthLengths y ! m"
    using monthFrom_spec [of doy "monthLengths y" m d] assms(4) n(2) by (simp add: sum_monthLengths)
  with y n assms(1) show "dayNumber (y + 400 * c) (Suc m) (Suc d) = day" "m < 12"
    "d < monthLengths ((y + 400 * c) mod 400) ! m"
    by (auto simp: dayNumber_def)
qed

lemma RFC3339_roundtrip:
  assumes "- epochDay * 86400 \<le> timeUnix t" and "timeUnix t < (25 * int cycleDays - epochDay) * 86400"
  shows "parseRFC3339 (formatRFC3339 t) = Some (truncSec t)"
proof -
  define s where "s = timeUnix t + epochDay * 86400"
  define day where "day = s div 86400"
  define sod where "sod = nat (s mod 86400)"
  define c where "c = day div int cycleDays"
  define n where "n = nat (day mod int cycleDays)"
  obtain y doy where y: "yearFrom 0 n = (y, doy)" by (cases "yearFrom 0 n")
  obtain m d where m: "monthFrom (monthLengths y) doy = (m, d)" by (cases "monthFrom (monthLengths y) doy")
  have cyc: "0 < int cycleDays" by (simp add: cycleDays_def)
  have s: "0 \<le> s" "s < 25 * int cycleDays * 86400" using assms by (simp_all add: s_def algebra_simps)
  have day: "0 \<le> day" "day < 25 * int cycleDays" using s by (auto simp: day_def div_less_iff_less_mult)
  have c: "0 \<le> c" "c < 25"
    using day cyc zdiv_mono1 [of day "25 * int cycleDays - 1" "int cycleDays"]
    by (simp_all add: c_def pos_imp_zdiv_nonneg_iff cycleDays_def)
  have n: "n < cycleDays" "day = int n + int cycleDays * int (nat c)"
    using cyc c by (simp_all add: n_def c_def nat_less_iff)
  note dn = dayNumber_of [OF n(2,1) y m]
  have ylt: "y < 400" by (rule yearFrom_lt [OF n(1) y])
  have "sod < 86400" by (simp add: sod_def nat_less_iff)
  moreover have "y + 400 * nat c < 10000" using ylt c by linarith
  ultimately have "parseRFC3339 (formatRFC3339 t) =
      Some (((dayNumber (y + 400 * nat c) (Suc m) (Suc d) - epochDay) * 86400 + int sod) * Second)"
    using parse_fields [OF _ dn(2,3)] c y m
    by (simp add: formatRFC3339_def Let_def s_def day_def sod_def c_def n_def)
  moreover have "(day - epochDay) * 86400 + int sod = timeUnix t"
    by (simp add: day_def sod_def s_def algebra_simps)
  ultimately show ?thesis by (simp add: dn(1) truncSec_def timeUnix_def)
qed

end
