(* ===== verification/GameNodeDrain.thy ===== *)
theory GameNodeDrain
  imports GameStatus GoTime
begin

text \<open>
  \<^verbatim>\<open>internal/controller/palworldgame_nodedrain.go\<close>: migrating the server off a cordoned node. The grace
  period is measured from an RFC 3339 annotation on the pod. The pod is deleted only after the node
  was seen unschedulable and the players were warned at least a grace period ago.
\<close>

definition drainWarnedAtAnnotation :: string where
  "drainWarnedAtAnnotation = ''palworld.twodcube.io/drain-warned-at''"

definition defaultDrainGrace :: duration where
  "defaultDrainGrace = 30 * Second"

definition nodeDrainDisabled :: "PalworldGame \<Rightarrow> bool" where
  "nodeDrainDisabled g = (case gs_NodeDrain (g_Spec g) of None \<Rightarrow> False | Some p \<Rightarrow> nd_Disabled p)"

definition drainGrace :: "PalworldGame \<Rightarrow> duration" where
  "drainGrace g =
     (case gs_NodeDrain (g_Spec g) of
        None \<Rightarrow> defaultDrainGrace
      | Some p \<Rightarrow> secs (nd_GracePeriodSeconds p))"

text \<open>
  \<open>fmt.Sprintf\<close> with one integer operand, for verbs without flags: \<open>%d\<close> and \<open>%v\<close> print it, a
  second verb finds no operand, any other verb is a bad one, and an unused operand is reported.
\<close>

fun sprintfInt :: "bool \<Rightarrow> int \<Rightarrow> string \<Rightarrow> string" where
  "sprintfInt used n [] = (if used then [] else ''%!(EXTRA int='' @ itoa n @ '')'')"
| "sprintfInt used n [c] =
     (if c = CHR ''%'' then ''%!(NOVERB)'' else [c]) @ (if used then [] else ''%!(EXTRA int='' @ itoa n @ '')'')"
| "sprintfInt used n (c # d # s) =
     (if c \<noteq> CHR ''%'' then c # sprintfInt used n (d # s)
      else if d = CHR ''%'' then CHR ''%'' # sprintfInt used n s
      else if used then ''%!'' @ [d] @ ''(MISSING)'' @ sprintfInt used n s
      else if d = CHR ''d'' \<or> d = CHR ''v'' then itoa n @ sprintfInt True n s
      else ''%!'' @ [d] @ ''(int='' @ itoa n @ '')'' @ sprintfInt True n s)"

definition drainMessage :: "PalworldGame \<Rightarrow> duration \<Rightarrow> string" where
  "drainMessage g grace =
     (let msg = ''Server node maintenance: migrating in %d seconds, please reach a safe spot'';
          msg = (case gs_NodeDrain (g_Spec g) of
                   Some p \<Rightarrow> if nd_WarnMessage p \<noteq> [] then nd_WarnMessage p else msg
                 | None \<Rightarrow> msg)
      in if containsStr msg ''%d'' then sprintfInt False (secondsInt grace) msg else msg)"

definition broadcastDrainWarning :: "PalworldGameReconciler \<Rightarrow> PalworldGame \<Rightarrow> duration \<Rightarrow> unit k" where
  "broadcastDrainWarning r g grace = do {
     rc \<leftarrow> restClientFor (gr_APIReader r) g;
     case rc of
       Inl e \<Rightarrow> ret ()
     | Inr c \<Rightarrow> do { x \<leftarrow> Announce c (drainMessage g grace); ret () }
   }"

definition setDrainMarker :: "Pod \<Rightarrow> string \<Rightarrow> Pod" where
  "setDrainMarker pod v =
     pod\<lparr>pod_Meta := (pod_Meta pod)\<lparr>m_Annotations :=
        (if v = [] then (m_Annotations (pod_Meta pod))(drainWarnedAtAnnotation := None)
         else (m_Annotations (pod_Meta pod))(drainWarnedAtAnnotation \<mapsto> v))\<rparr>\<rparr>"

definition patchDrainAnnotation :: "Pod \<Rightarrow> string \<Rightarrow> kerr option k" where
  "patchDrainAnnotation pod v = do {
     p \<leftarrow> call (PatchPod pod (setDrainMarker pod v));
     ret (asErr p)
   }"

definition podKey :: "PalworldGame \<Rightarrow> objKey" where
  "podKey g = (g_Namespace g, StatefulSetName g @ ''-0'')"

text \<open>The first detection of a cordoned node: warn the players and record when.\<close>

definition warnNodeDrain ::
    "PalworldGameReconciler \<Rightarrow> PalworldGame \<Rightarrow> Pod \<Rightarrow> Node \<Rightarrow> (PalworldGame \<times> Result \<times> kerr option) k" where
  "warnNodeDrain r g pod node =
     (let grace = drainGrace g; nname = m_Name (node_Meta node) in do {
        broadcastDrainWarning r g grace;
        t \<leftarrow> now;
        e \<leftarrow> patchDrainAnnotation pod (formatRFC3339 t);
        case e of
          Some x \<Rightarrow> ret (g, noResult, Some x)
        | None \<Rightarrow>
            (let g = setProgressing (gr_Lib r) ''NodeDraining''
                       (''Node '' @ nname @ '' is draining; migrating in '' @ itoa (secondsInt grace) @ ''s'')
                       (updStatus (gt_Phase_update (\<lambda>_. PhaseUpdating)) g) in do {
               event (OGame g) EventNormal ''NodeDraining''
                 (''Node '' @ nname @ '' cordoned; warned players, migrating in '' @ itoa (secondsInt grace) @ ''s'');
               ret (g, if grace \<le> 0 then requeueNow else requeueAfter grace, None)
             })
      })"

text \<open>The end of the grace period: announce, flush a save and delete the pod.\<close>

definition migratePod ::
    "PalworldGameReconciler \<Rightarrow> PalworldGame \<Rightarrow> Pod \<Rightarrow> Node \<Rightarrow> (PalworldGame \<times> Result \<times> kerr option) k" where
  "migratePod r g pod node = do {
     rc \<leftarrow> restClientFor (gr_APIReader r) g;
     (case rc of
        Inl e \<Rightarrow> ret ()
      | Inr c \<Rightarrow> do {
          a \<leftarrow> Announce c ''Server is migrating to another node; reconnect in a moment.'';
          s \<leftarrow> Save c;
          ret ()
        });
     d \<leftarrow> call (Delete PodKind (m_Namespace (pod_Meta pod), m_Name (pod_Meta pod)));
     case asErr d of
       Some x \<Rightarrow> ret (g, noResult, IgnoreNotFound (Some x))
     | None \<Rightarrow>
         (let g = updStatus (gt_Phase_update (\<lambda>_. PhaseUpdating)) g in do {
            event (OGame g) EventNormal ''NodeDrainMigrated''
              (''Saved and migrated server off draining node '' @ m_Name (node_Meta node));
            ret (g, requeueAfter (15 * Second), None)
          })
   }"

text \<open>The node of the running pod is unschedulable.\<close>

definition drainCordoned ::
    "PalworldGameReconciler \<Rightarrow> PalworldGame \<Rightarrow> Pod \<Rightarrow> Node \<Rightarrow> (PalworldGame \<times> Result \<times> kerr option) k" where
  "drainCordoned r g pod node =
     (case m_Annotations (pod_Meta pod) drainWarnedAtAnnotation of
        None \<Rightarrow> warnNodeDrain r g pod node
      | Some warnedAt \<Rightarrow>
          (case parseRFC3339 warnedAt of
             None \<Rightarrow> migratePod r g pod node
           | Some t \<Rightarrow> do {
               n \<leftarrow> now;
               (let remaining = timeSub (timeAdd t (drainGrace g)) n in
                if 0 < remaining then ret (g, requeueAfter remaining, None)
                else migratePod r g pod node)
             }))"

definition reconcileNodeDrain ::
    "PalworldGameReconciler \<Rightarrow> PalworldGame \<Rightarrow> (PalworldGame \<times> Result \<times> kerr option) k" where
  "reconcileNodeDrain r g = do {
     p \<leftarrow> call (Get PodKind (podKey g));
     case asPod p of
       Inl e \<Rightarrow>
         if IsNotFound e then ret (updStatus (gt_CurrentNode_update (\<lambda>_. [])) g, noResult, None)
         else ret (g, noResult, None)
     | Inr pod \<Rightarrow>
         (let g = updStatus (gt_CurrentNode_update (\<lambda>_. pod_NodeName pod)) g in
          if nodeDrainDisabled g then ret (g, noResult, None)
          else if m_DeletionTimestamp (pod_Meta pod) \<noteq> None \<or> pod_Phase pod \<noteq> ''Running'' \<or> pod_NodeName pod = []
          then ret (g, noResult, None)
          else do {
            n \<leftarrow> call (Get NodeKind ([], pod_NodeName pod));
            case asNode n of
              Inl e \<Rightarrow> ret (g, noResult, None)
            | Inr node \<Rightarrow>
                if \<not> node_Unschedulable node then do {
                  (if m_Annotations (pod_Meta pod) drainWarnedAtAnnotation \<noteq> None
                   then do { e \<leftarrow> patchDrainAnnotation pod []; ret () } else ret ());
                  ret (g, noResult, None)
                }
                else drainCordoned r g pod node
          })
   }"

text \<open>The Node watch: an object that is not a Node is \<open>None\<close>; a request is a namespaced name.\<close>

definition gamesOnNode :: "Node option \<Rightarrow> objKey list k" where
  "gamesOnNode obj =
     (case obj of
        None \<Rightarrow> ret []
      | Some node \<Rightarrow>
          if \<not> node_Unschedulable node then ret []
          else do {
            l \<leftarrow> call ListGames;
            ret (case asGames l of
                   Inl e \<Rightarrow> []
                 | Inr games \<Rightarrow>
                     map (\<lambda>g. (g_Namespace g, g_Name g))
                       (filter (\<lambda>g. gt_CurrentNode (g_Status g) = m_Name (node_Meta node)) games))
          })"

text \<open>
  When a reconcile has to migrate the pod, read off the calls and replies of that reconcile: the pod
  is live and scheduled, its node is unschedulable, and the marker is there and, if it can be read,
  lies a grace period in the past.
\<close>

definition migrationDue :: "PalworldGame \<Rightarrow> (call \<times> reply) list \<Rightarrow> Pod \<Rightarrow> bool" where
  "migrationDue g es pod \<longleftrightarrow>
     (Get PodKind (podKey g), RObj (OPod pod)) \<in> set es
     \<and> \<not> nodeDrainDisabled g
     \<and> m_DeletionTimestamp (pod_Meta pod) = None \<and> pod_Phase pod = ''Running'' \<and> pod_NodeName pod \<noteq> []
     \<and> (\<exists>node. (Get NodeKind ([], pod_NodeName pod), RObj (ONode node)) \<in> set es \<and> node_Unschedulable node)
     \<and> (\<exists>at. m_Annotations (pod_Meta pod) drainWarnedAtAnnotation = Some at
          \<and> (\<forall>t. parseRFC3339 at = Some t
                \<longrightarrow> (\<exists>n. (Now, n) \<in> set es \<and> timeAdd t (drainGrace g) \<le> asTime n)))"

section \<open>Lemmas\<close>

lemma broadcastDrainWarning_restOnly:
  "ensures (\<lambda>v es. restOnly es) (broadcastDrainWarning r g grace)"
  unfolding broadcastDrainWarning_def
  by (rule ensures_bind [OF restClientFor_restOnly])
    (auto intro!: ensures_intros ensures_bind [OF Announce_restOnly])

lemma warnNodeDrain_spec:
  "ensures (\<lambda>v es. deletes es = [] \<and> (\<forall>key x. (Get PodKind key, x) \<notin> set es)) (warnNodeDrain r g pod node)"
  unfolding warnNodeDrain_def Let_def now_def event_def patchDrainAnnotation_def
  by (rule ensures_bind [OF broadcastDrainWarning_restOnly])
    (auto intro!: ensures_intros simp: restOnly_deletes restOnly_notin)

lemma migrateAnnounce_restOnly:
  "ensures (\<lambda>v es. restOnly es)
     (case rc of
        Inl e \<Rightarrow> ret ()
      | Inr c \<Rightarrow> do { a \<leftarrow> Announce c msg; s \<leftarrow> Save c; ret () })"
  by (auto intro!: ensures_intros ensures_bind [OF Announce_restOnly] ensures_bind [OF Save_restOnly])

lemma migratePod_spec:
  "ensures (\<lambda>v es. (\<exists>x. deletes es = [(Delete PodKind (m_Namespace (pod_Meta pod), m_Name (pod_Meta pod)), x)])
        \<and> (\<forall>key x. (Get PodKind key, x) \<notin> set es) \<and> (\<forall>x. (Now, x) \<notin> set es)) (migratePod r g pod node)"
  unfolding migratePod_def event_def
  by (rule ensures_bind [OF restClientFor_restOnly], rule ensures_bind [OF migrateAnnounce_restOnly])
    (auto intro!: ensures_intros simp: Let_def restOnly_deletes restOnly_notin)

text \<open>Whether the marker of a pod has run out, given the clock readings of a reconcile.\<close>

definition graceOver :: "PalworldGame \<Rightarrow> (call \<times> reply) list \<Rightarrow> Pod \<Rightarrow> bool" where
  "graceOver g es pod \<longleftrightarrow>
     (\<exists>at. m_Annotations (pod_Meta pod) drainWarnedAtAnnotation = Some at
        \<and> (\<forall>t. parseRFC3339 at = Some t
              \<longrightarrow> (\<exists>n. (Now, n) \<in> set es \<and> timeAdd t (drainGrace g) \<le> asTime n)))"

lemma timeSub_pos: "0 < timeSub t u \<longleftrightarrow> u < t"
  by (simp add: timeSub_def)

lemma drainCordoned_spec:
  "ensures (\<lambda>v es. (\<forall>key x. (Get PodKind key, x) \<notin> set es)
      \<and> (if graceOver g es pod
         then \<exists>x. deletes es = [(Delete PodKind (m_Namespace (pod_Meta pod), m_Name (pod_Meta pod)), x)]
         else deletes es = [])) (drainCordoned r g pod node)"
  unfolding drainCordoned_def now_def Let_def
  by (auto intro!: ensures_intros ensures_mono [OF warnNodeDrain_spec] ensures_mono [OF migratePod_spec]
      simp: graceOver_def timeSub_pos)

section \<open>Properties\<close>

lemma migrationDue_iff:
  "migrationDue g es pod \<longleftrightarrow>
     (Get PodKind (podKey g), RObj (OPod pod)) \<in> set es \<and> \<not> nodeDrainDisabled g
     \<and> m_DeletionTimestamp (pod_Meta pod) = None \<and> pod_Phase pod = ''Running'' \<and> pod_NodeName pod \<noteq> []
     \<and> (\<exists>node. (Get NodeKind ([], pod_NodeName pod), RObj (ONode node)) \<in> set es \<and> node_Unschedulable node)
     \<and> graceOver g es pod"
  by (simp add: migrationDue_def graceOver_def)

lemma asPod_Inr: "asPod x = Inr pod \<longleftrightarrow> x = RObj (OPod pod)"
  by (cases x rule: asPod.cases) auto

lemma asNode_Inr: "asNode x = Inr node \<longleftrightarrow> x = RObj (ONode node)"
  by (cases x rule: asNode.cases) auto

lemma drain_frame [simp]:
  "nodeDrainDisabled (updStatus f g) = nodeDrainDisabled g"
  "graceOver (updStatus f g) es pod = graceOver g es pod"
  by (simp_all add: nodeDrainDisabled_def graceOver_def drainGrace_def)

lemma graceOver_cons:
  "c \<noteq> Now \<Longrightarrow> graceOver g ((c, x) # es) pod = graceOver g es pod"
  by (auto simp: graceOver_def)

text \<open>
  C6: a reconcile of the node drain deletes the pod exactly when migration is due: the pod it read is
  live, its node was read as unschedulable, node-drain handling is enabled, and the players' warning
  recorded on the pod is at least the grace period old by the clock of the same reconcile. It then
  deletes that pod once, and nothing else is ever deleted.
\<close>

theorem reconcileNodeDrain_deletes_iff_due:
  "ensures (\<lambda>v es.
      (\<forall>pod. migrationDue g es pod
         \<longrightarrow> (\<exists>x. deletes es = [(Delete PodKind (m_Namespace (pod_Meta pod), m_Name (pod_Meta pod)), x)]))
      \<and> (deletes es \<noteq> [] \<longrightarrow> (\<exists>pod. migrationDue g es pod)))
     (reconcileNodeDrain r g)"
  unfolding reconcileNodeDrain_def Let_def patchDrainAnnotation_def
  apply (rule ensures_call_bind, rule ensures_sum)
  subgoal by (intro ensures_intros) (auto simp: migrationDue_iff)
  apply (rule ensures_if)
  subgoal by (intro ensures_intros) (auto simp: migrationDue_iff)
  apply (rule ensures_if)
  subgoal by (intro ensures_intros) (auto simp: migrationDue_iff asPod_Inr)
  apply (rule ensures_call_bind, rule ensures_sum)
  subgoal by (intro ensures_intros) (auto simp: migrationDue_iff asPod_Inr)
  apply (rule ensures_if)
  subgoal by (simp only: bind_if bind_ret bind_assoc, intro ensures_intros)
      (auto simp: migrationDue_iff asPod_Inr asNode_Inr)
  subgoal by (rule ensures_mono [OF drainCordoned_spec])
      (auto simp: migrationDue_iff asPod_Inr asNode_Inr graceOver_cons podKey_def split: if_splits)
  done

definition drainedPod :: Pod where
  "drainedPod = \<lparr>pod_Meta = (newMeta ''pal-0'' ''games'' Map.empty)
       \<lparr>m_Annotations := [drainWarnedAtAnnotation \<mapsto> formatRFC3339 10000000000]\<rparr>,
     pod_NodeName = ''node-a'', pod_Phase = ''Running''\<rparr>"

definition drainWorld :: "(call, reply) world" where
  "drainWorld = \<lparr>srv = \<lambda>h c. (case c of
        Get kd key \<Rightarrow>
          if kd = PodKind then RObj (OPod drainedPod)
          else if kd = NodeKind then RObj (ONode \<lparr>node_Meta = newMeta ''node-a'' [] Map.empty, node_Unschedulable = True\<rparr>)
          else RErr (KErr NotFound [])
      | Now \<Rightarrow> RTime (41 * Second)
      | _ \<Rightarrow> ROk), hist = []\<rparr>"

lemma parse_sample: "parseRFC3339 (formatRFC3339 10000000000) = Some 10000000000"
  using RFC3339_roundtrip [of 10000000000]
  by (simp add: timeUnix_def truncSec_def Second_def epochDay_def cycleDays_def)

lemma drainWorld_events:
  "take 3 (events (reconcileNodeDrain sampleReconciler sampleGame) drainWorld) =
     [(Get PodKind (''games'', ''pal-0''), RObj (OPod drainedPod)),
      (Get NodeKind ([], ''node-a''),
       RObj (ONode \<lparr>node_Meta = newMeta ''node-a'' [] Map.empty, node_Unschedulable = True\<rparr>)),
      (Now, RTime (41 * Second))]"
  by (simp add: events_def reconcileNodeDrain_def Let_def fin_call val_call drainWorld_def drainedPod_def
      newMeta_def podKey_def StatefulSetName_def nodeDrainDisabled_def drainCordoned_def parse_sample
      now_def timeSub_pos timeAdd_def drainGrace_def defaultDrainGrace_def Second_def migratePod_def
      restClientFor_def adminPassword_def credentialsReader_def CredentialsSecretName_def
      GeneratedSecretName_def event_def)

theorem reconcileNodeDrain_deletes_iff_due_witness:
  "\<exists>x. deletes (events (reconcileNodeDrain sampleReconciler sampleGame) drainWorld) =
     [(Delete PodKind (''games'', ''pal-0''), x)]"
proof -
  let ?es = "events (reconcileNodeDrain sampleReconciler sampleGame) drainWorld"
  have in_es: "e \<in> set (take 3 ?es) \<Longrightarrow> e \<in> set ?es" for e by (rule in_set_takeD)
  let ?N = "\<lparr>node_Meta = newMeta ''node-a'' [] Map.empty, node_Unschedulable = True\<rparr>"
  have pod: "(Get PodKind (podKey sampleGame), RObj (OPod drainedPod)) \<in> set ?es"
    by (rule in_es) (simp add: drainWorld_events podKey_def StatefulSetName_def)
  have node: "(Get NodeKind ([], pod_NodeName drainedPod), RObj (ONode ?N)) \<in> set ?es"
    by (rule in_es) (simp add: drainWorld_events drainedPod_def)
  have "(Now, RTime (41 * Second)) \<in> set ?es"
    by (rule in_es) (simp add: drainWorld_events)
  moreover have "timeAdd 10000000000 (drainGrace sampleGame) \<le> asTime (RTime (41 * Second))"
    by (simp add: timeAdd_def drainGrace_def defaultDrainGrace_def Second_def)
  ultimately have "graceOver sampleGame ?es drainedPod"
    unfolding graceOver_def by (auto simp: drainedPod_def newMeta_def parse_sample)
  with pod node have "migrationDue sampleGame ?es drainedPod"
    unfolding migrationDue_iff
    by (auto simp: nodeDrainDisabled_def drainedPod_def newMeta_def intro!: exI [of _ ?N])
  then have "\<exists>x. deletes ?es = [(Delete PodKind (m_Namespace (pod_Meta drainedPod), m_Name (pod_Meta drainedPod)), x)]"
    using ensuresD [OF reconcileNodeDrain_deletes_iff_due, of sampleGame sampleReconciler drainWorld]
    by blast
  then show ?thesis by (simp add: drainedPod_def newMeta_def)
qed

lemma warnNodeDrain_marks:
  "ensures (\<lambda>(g', res, err) es. deletes es = [] \<and>
      (err = None \<longrightarrow> (\<exists>n x. (Now, n) \<in> set es
         \<and> (PatchPod pod (setDrainMarker pod (formatRFC3339 (asTime n))), x) \<in> set es)))
     (warnNodeDrain r g pod node)"
  unfolding warnNodeDrain_def Let_def now_def event_def patchDrainAnnotation_def
  by (rule ensures_bind [OF broadcastDrainWarning_restOnly])
    (auto intro!: ensures_intros simp: restOnly_deletes, blast+)

lemma graceOver_bound:
  assumes "graceOver g es pod"
    and "m_Annotations (pod_Meta pod) drainWarnedAtAnnotation = Some (formatRFC3339 t)"
    and "- epochDay * 86400 \<le> timeUnix t" and "timeUnix t < (25 * int cycleDays - epochDay) * 86400"
  shows "\<exists>n. (Now, n) \<in> set es \<and> t + drainGrace g - Second < asTime n"
proof -
  obtain n where "(Now, n) \<in> set es" "truncSec t + drainGrace g \<le> asTime n"
    using assms RFC3339_roundtrip [of t] by (auto simp: graceOver_def timeAdd_def)
  with truncSec_gt [of t] show ?thesis by (intro exI [of _ n]) linarith
qed

text \<open>
  C22: the players get their grace period across reconciles. The reconcile that first sees the cordon
  warns at an instant \<open>t\<close> and, if it succeeds, has patched exactly the marker for \<open>t\<close> onto the pod and
  deleted nothing; a reconcile that finds that marker and deletes the pod does so at a clock reading
  later than \<open>t\<close> plus the grace period minus one second (the resolution of the marker).
\<close>

theorem node_drain_grace_across_reconciles:
  assumes "m_Annotations (pod_Meta pod) drainWarnedAtAnnotation = None"
    and "m_Annotations (pod_Meta pod') drainWarnedAtAnnotation = Some (formatRFC3339 t)"
    and "- epochDay * 86400 \<le> timeUnix t" and "timeUnix t < (25 * int cycleDays - epochDay) * 86400"
  shows "ensures (\<lambda>(g', res, err) es. deletes es = [] \<and>
      (err = None \<longrightarrow> (\<exists>n x. (Now, n) \<in> set es
         \<and> (PatchPod pod (setDrainMarker pod (formatRFC3339 (asTime n))), x) \<in> set es)))
     (drainCordoned r g pod node)
   \<and> ensures (\<lambda>v es. deletes es \<noteq> []
      \<longrightarrow> (\<exists>n. (Now, n) \<in> set es \<and> t + drainGrace g - Second < asTime n)) (drainCordoned r g pod' node)"
proof
  show "ensures (\<lambda>(g', res, err) es. deletes es = [] \<and>
      (err = None \<longrightarrow> (\<exists>n x. (Now, n) \<in> set es
         \<and> (PatchPod pod (setDrainMarker pod (formatRFC3339 (asTime n))), x) \<in> set es)))
     (drainCordoned r g pod node)"
    using warnNodeDrain_marks assms(1) by (simp add: drainCordoned_def)
  show "ensures (\<lambda>v es. deletes es \<noteq> []
      \<longrightarrow> (\<exists>n. (Now, n) \<in> set es \<and> t + drainGrace g - Second < asTime n)) (drainCordoned r g pod' node)"
    by (rule ensures_mono [OF drainCordoned_spec]) (auto split: if_splits dest: graceOver_bound [OF _ assms(2-4)])
qed

text \<open>The pod of the sample before the warning.\<close>

definition unwarnedPod :: Pod where
  "unwarnedPod = \<lparr>pod_Meta = newMeta ''pal-0'' ''games'' Map.empty, pod_NodeName = ''node-a'', pod_Phase = ''Running''\<rparr>"

theorem node_drain_grace_across_reconciles_witness:
  "ensures (\<lambda>v es. deletes es \<noteq> []
      \<longrightarrow> (\<exists>n. (Now, n) \<in> set es \<and> 10000000000 + drainGrace sampleGame - Second < asTime n))
     (drainCordoned sampleReconciler sampleGame drainedPod
       \<lparr>node_Meta = newMeta ''node-a'' [] Map.empty, node_Unschedulable = True\<rparr>)"
  by (rule conjunct2 [OF node_drain_grace_across_reconciles [of unwarnedPod]])
    (simp_all add: unwarnedPod_def drainedPod_def newMeta_def timeUnix_def Second_def epochDay_def cycleDays_def)

end
