(* ===== verification/GameUpdate.thy ===== *)
theory GameUpdate
  imports GameNodeDrain
begin

text \<open>
  \<^verbatim>\<open>internal/controller/palworldgame_update.go\<close>: polling Steam, deciding whether an update may run now,
  the pre-update backup, draining the players and restarting the pod. \<open>pol\<close> is \<open>game.Spec.Update\<close>,
  which \<open>reconcileUpdates\<close> has found to be set before it calls the operations that dereference it.
\<close>

text \<open>Go's zero \<open>time.Time\<close>, the first instant of year 1.\<close>

definition zeroTime :: time where
  "zeroTime = - 62135596800 * Second"

definition drainPollInterval :: duration where
  "drainPollInterval = 15 * Second"

definition renderUpdateWarning :: "string \<Rightarrow> int \<Rightarrow> string" where
  "renderUpdateWarning template remaining =
     (let template = (if template = [] then ''Server will restart for updates shortly'' else template)
      in replaceAll template ''%d'' (itoa remaining))"

definition updateWarnIntervalSeconds :: "UpdatePolicy \<Rightarrow> int32" where
  "updateWarnIntervalSeconds pol =
     (if up_WarnIntervalSeconds pol < 1 then DefaultUpdateWarnIntervalSeconds else up_WarnIntervalSeconds pol)"

definition clearDrainState :: "PalworldGame \<Rightarrow> PalworldGame" where
  "clearDrainState g = updStatus (\<lambda>st. st\<lparr>gt_UpdateDrainStartTime := None, gt_UpdateDrainLastWarnTime := None\<rparr>) g"

definition announceUpdateWarning :: "PalworldGameReconciler \<Rightarrow> PalworldGame \<Rightarrow> UpdatePolicy \<Rightarrow> int \<Rightarrow> unit k" where
  "announceUpdateWarning r g pol remaining = do {
     rc \<leftarrow> restClientFor (gr_APIReader r) g;
     case rc of
       Inl e \<Rightarrow> ret ()
     | Inr c \<Rightarrow> do { x \<leftarrow> Announce c (renderUpdateWarning (up_WarnMessage pol) remaining); ret () }
   }"

text \<open>
  \<open>drainUpdate\<close>: the first element says whether the restart may proceed. The three parts after the
  timeout test are the first entry, the running drain, and its re-broadcast.
\<close>

definition startDrain ::
    "PalworldGameReconciler \<Rightarrow> PalworldGame \<Rightarrow> UpdatePolicy \<Rightarrow> time \<Rightarrow> (bool \<times> PalworldGame \<times> Result) k" where
  "startDrain r g pol t =
     (if gt_PlayersOnline (g_Status g) \<le> 0 then ret (True, g, noResult)
      else (let g = updStatus (gt_UpdateDrainStartTime_update (\<lambda>_. Some t)) g in do {
        announceUpdateWarning r g pol (up_DrainTimeoutSeconds pol);
        g \<leftarrow> ret (updStatus (gt_UpdateDrainLastWarnTime_update (\<lambda>_. Some t)) g);
        event (OGame g) EventNormal ''DrainingPlayers''
          (''Waiting up to '' @ itoa (up_DrainTimeoutSeconds pol) @ ''s for ''
           @ itoa (gt_PlayersOnline (g_Status g)) @ '' player(s) to disconnect before restarting'');
        ret (False,
             setProgressing (gr_Lib r) ''Draining''
               (''Draining '' @ itoa (gt_PlayersOnline (g_Status g)) @ '' player(s), ''
                @ itoa (up_DrainTimeoutSeconds pol) @ ''s remaining'') g,
             requeueAfter drainPollInterval)
      }))"

definition rebroadcast ::
    "PalworldGameReconciler \<Rightarrow> PalworldGame \<Rightarrow> UpdatePolicy \<Rightarrow> time \<Rightarrow> time \<Rightarrow> (bool \<times> PalworldGame \<times> Result) k" where
  "rebroadcast r g pol t deadline = do {
     u \<leftarrow> now;
     remaining \<leftarrow> ret (secondsInt (roundSec (timeSub deadline u)));
     interval \<leftarrow> ret (secs (updateWarnIntervalSeconds pol));
     g \<leftarrow> (if (case gt_UpdateDrainLastWarnTime (g_Status g) of
                  None \<Rightarrow> True | Some w \<Rightarrow> \<not> t < timeAdd w interval)
           then do {
             announceUpdateWarning r g pol remaining;
             ret (updStatus (gt_UpdateDrainLastWarnTime_update (\<lambda>_. Some t)) g)
           }
           else ret g);
     ret (False,
          setProgressing (gr_Lib r) ''Draining''
            (''Draining '' @ itoa (gt_PlayersOnline (g_Status g)) @ '' player(s), '' @ itoa remaining
             @ ''s remaining'') g,
          requeueAfter drainPollInterval)
   }"

definition continueDrain ::
    "PalworldGameReconciler \<Rightarrow> PalworldGame \<Rightarrow> UpdatePolicy \<Rightarrow> time \<Rightarrow> time \<Rightarrow> (bool \<times> PalworldGame \<times> Result) k" where
  "continueDrain r g pol t start =
     (if gt_PlayersOnline (g_Status g) \<le> 0 then do {
        event (OGame g) EventNormal ''PlayersDrained''
          ''All players disconnected; proceeding with the update restart'';
        ret (True, g, noResult)
      }
      else (let deadline = timeAdd start (secs (up_DrainTimeoutSeconds pol)) in
        if \<not> t < deadline then do {
          event (OGame g) EventNormal ''DrainTimeout''
            (''Drain timeout reached with '' @ itoa (gt_PlayersOnline (g_Status g))
             @ '' player(s) still connected; restarting'');
          ret (True, g, noResult)
        }
        else rebroadcast r g pol t deadline))"

definition drainUpdate ::
    "PalworldGameReconciler \<Rightarrow> PalworldGame \<Rightarrow> UpdatePolicy \<Rightarrow> (bool \<times> PalworldGame \<times> Result) k" where
  "drainUpdate r g pol =
     (let timeout = secs (up_DrainTimeoutSeconds pol) in
      if timeout \<le> 0 then do {
        announceUpdateWarning r g pol 0;
        ret (True, g, noResult)
      }
      else do {
        t \<leftarrow> now;
        case gt_UpdateDrainStartTime (g_Status g) of
          None \<Rightarrow> startDrain r g pol t
        | Some start \<Rightarrow> continueDrain r g pol t start
      })"

definition restartServerPod :: "PalworldGame \<Rightarrow> kerr option k" where
  "restartServerPod g = do {
     d \<leftarrow> call (Delete PodKind (podKey g));
     ret (IgnoreNotFound (asErr d))
   }"

definition sanitizeName :: "string \<Rightarrow> string" where
  "sanitizeName s = (if s = [] then ''latest'' else take 20 s)"

definition preUpdateBackup :: "PalworldGame \<Rightarrow> string \<Rightarrow> PalworldBackup" where
  "preUpdateBackup g name =
     \<lparr>b_Meta = newMeta name (g_Namespace g) (CommonLabels g),
      b_Spec = \<lparr>bs_GameRef = g_Name g,
                bs_Destination =
                  (case gs_Backup (g_Spec g) of
                     None \<Rightarrow> \<lparr>bd_Type = BackupDestinationVolumeSnapshot, bd_S3 = None, bd_PVCName = [], bd_PVCPath = []\<rparr>
                   | Some p \<Rightarrow> bp_Destination p),
                bs_FlushSave = True, bs_TTLSecondsAfterFinished = None, bs_Retain = False\<rparr>,
      b_Status = newBackupStatus\<rparr>"

definition preUpdateName :: "PalworldGame \<Rightarrow> string \<Rightarrow> string" where
  "preUpdateName g available = g_Name g @ ''-preupdate-'' @ sanitizeName available"

definition ensurePreUpdateBackup :: "PalworldGameReconciler \<Rightarrow> PalworldGame \<Rightarrow> string \<Rightarrow> bool res k" where
  "ensurePreUpdateBackup r g available =
     (let name = preUpdateName g available in do {
        b \<leftarrow> call (Get BackupKind (g_Namespace g, name));
        case asBackup b of
          Inl e \<Rightarrow>
            if IsNotFound e then
              (let newBackup = preUpdateBackup g name in
               case setRef r g (b_Meta newBackup) of
                 Inl e' \<Rightarrow> ret (Inl e')
               | Inr m \<Rightarrow> do {
                   c \<leftarrow> call (Create (OBackup (newBackup\<lparr>b_Meta := m\<rparr>)));
                   ret (case asErr c of
                          Some e' \<Rightarrow> if IsAlreadyExists e' then Inr False else Inl e'
                        | None \<Rightarrow> Inr False)
                 })
            else ret (Inl e)
        | Inr backup \<Rightarrow>
            if bt_Phase (b_Status backup) = BackupPhaseCompleted then ret (Inr True)
            else if bt_Phase (b_Status backup) = BackupPhaseFailed then do {
              event (OGame g) EventWarning ''PreUpdateBackupFailed''
                (''Pre-update backup '' @ name @ '' failed; proceeding with update'');
              ret (Inr True)
            }
            else ret (Inr False)
      })"

text \<open>The part of \<open>performUpdate\<close> from the drain on.\<close>

definition drainAndRestart ::
    "PalworldGameReconciler \<Rightarrow> PalworldGame \<Rightarrow> UpdatePolicy \<Rightarrow> string \<Rightarrow> (PalworldGame \<times> Result \<times> kerr option) k" where
  "drainAndRestart r g pol available = do {
     (fin, g, res) \<leftarrow> drainUpdate r g pol;
     if \<not> fin then ret (g, res, None)
     else do {
       e \<leftarrow> restartServerPod g;
       case e of
         Some x \<Rightarrow> ret (g, noResult, Some x)
       | None \<Rightarrow> do {
           t \<leftarrow> now;
           g \<leftarrow> ret (setCondition (gr_Lib r) ConditionUpdateAvailable ConditionFalse ''Updated''
                     (''Updated to build '' @ available)
                     (updStatus (\<lambda>st. st\<lparr>gt_UpdateDrainStartTime := None, gt_UpdateDrainLastWarnTime := None,
                          gt_LastUpdateTime := Some t, gt_CurrentVersion := available\<rparr>) g));
           event (OGame g) EventNormal ''Updated'' (''Applied build '' @ available);
           ret (g, requeueAfter (30 * Second), None)
         }
     }
   }"

definition performUpdate ::
    "PalworldGameReconciler \<Rightarrow> PalworldGame \<Rightarrow> UpdatePolicy \<Rightarrow> string \<Rightarrow> (PalworldGame \<times> Result \<times> kerr option) k" where
  "performUpdate r g pol available =
     (let g = setProgressing (gr_Lib r) ''Updating'' (''Applying build '' @ available)
                (updStatus (gt_Phase_update (\<lambda>_. PhaseUpdating)) g)
      in if up_BackupBeforeUpdate pol then do {
           d \<leftarrow> ensurePreUpdateBackup r g available;
           case d of
             Inl e \<Rightarrow> ret (g, noResult, Some e)
           | Inr done' \<Rightarrow>
               if \<not> done' then ret (g, requeueAfter (15 * Second), None)
               else drainAndRestart r g pol available
         }
         else drainAndRestart r g pol available)"

definition inMaintenanceWindow :: "PalworldGameReconciler \<Rightarrow> PalworldGame \<Rightarrow> UpdatePolicy \<Rightarrow> time \<Rightarrow> bool" where
  "inMaintenanceWindow r g pol t =
     (if up_Schedule pol = [] then False
      else (case x_ParseStandard (gr_Lib r) (up_Schedule pol) of
              Inl e \<Rightarrow> False
            | Inr next \<Rightarrow>
                (let created = (case m_CreationTimestamp (g_Meta g) of None \<Rightarrow> zeroTime | Some c \<Rightarrow> c);
                     from = (case gt_LastUpdateTime (g_Status g) of
                               Some u \<Rightarrow> if created < u then u else created
                             | None \<Rightarrow> created)
                 in \<not> t < next from)))"

text \<open>The poll gate.\<close>

definition pollInterval :: "UpdatePolicy \<Rightarrow> duration" where
  "pollInterval pol =
     (let interval = mins (up_PollIntervalMinutes pol) in if interval \<le> 0 then 30 * Minute else interval)"

definition pollSteam :: "PalworldGameReconciler \<Rightarrow> PalworldGame \<Rightarrow> UpdatePolicy \<Rightarrow> time \<Rightarrow> PalworldGame k" where
  "pollSteam r g pol t =
     (if (case gt_NextScheduledUpdateCheck (g_Status g) of None \<Rightarrow> True | Some n \<Rightarrow> n < t)
      then do {
        latest \<leftarrow> LatestBuildID (NewSteamPoller (gr_SteamInfoEndpoint r)) ''public'';
        g \<leftarrow> ret (case latest of
                 Inl e \<Rightarrow> g
               | Inr v \<Rightarrow> updStatus (gt_AvailableVersion_update (\<lambda>_. v)) g);
        ret (updStatus (gt_NextScheduledUpdateCheck_update (\<lambda>_. Some (timeAdd t (pollInterval pol)))) g)
      }
      else ret g)"

definition reconcileUpdates :: "PalworldGameReconciler \<Rightarrow> PalworldGame \<Rightarrow> (PalworldGame \<times> Result \<times> kerr option) k" where
  "reconcileUpdates r g =
     (case gs_Update (g_Spec g) of
        None \<Rightarrow> ret (g, noResult, None)
      | Some pol \<Rightarrow> do {
          t \<leftarrow> now;
          g \<leftarrow> pollSteam r g pol t;
          (let L = gr_Lib r;
               available = gt_AvailableVersion (g_Status g);
               current = gt_CurrentVersion (g_Status g) in
           if current = [] then
             (let g = (if gt_Phase (g_Status g) = PhaseRunning \<and> available \<noteq> []
                       then updStatus (gt_CurrentVersion_update (\<lambda>_. available)) g else g)
              in ret (setCondition L ConditionUpdateAvailable ConditionFalse ''UpToDate'' ''No update pending'' g,
                      noResult, None))
           else if \<not> (available \<noteq> [] \<and> available \<noteq> current) then
             ret (setCondition L ConditionUpdateAvailable ConditionFalse ''UpToDate''
                    (''Running build '' @ current) (clearDrainState g), noResult, None)
           else
             (let g = setCondition L ConditionUpdateAvailable ConditionTrue ''UpdateAvailable''
                        (''Build '' @ available @ '' available (running '' @ current @ '')'') g in
              case up_Strategy pol of
                UpdateAutomatic \<Rightarrow> performUpdate r g pol available
              | UpdateScheduled \<Rightarrow>
                  if inMaintenanceWindow r g pol t then performUpdate r g pol available
                  else do {
                    event (OGame g) EventNormal ''UpdateDeferred''
                      (''Build '' @ available @ '' available; deferring to maintenance window '' @ quote (up_Schedule pol));
                    ret (g, noResult, None)
                  }
              | _ \<Rightarrow> do {
                    event (OGame g) EventNormal ''UpdateAvailable''
                      (''Build '' @ available @ '' available; manual update strategy, not applying automatically'');
                    ret (g, noResult, None)
                  }))
        })"

section \<open>The drain as an automaton\<close>

text \<open>
  The specification of \<open>drainUpdate\<close>: a drain is idle, or runs since an instant with the instant of the
  last warning. One evaluation at clock \<open>t\<close> with \<open>n\<close> players says whether the restart may proceed,
  whether the players are warned, and what the drain is afterwards.
\<close>

datatype drain = Idle | Draining time "time option"

definition absDrain :: "PalworldGame \<Rightarrow> drain" where
  "absDrain g =
     (case gt_UpdateDrainStartTime (g_Status g) of
        None \<Rightarrow> Idle | Some s \<Rightarrow> Draining s (gt_UpdateDrainLastWarnTime (g_Status g)))"

fun drainSpec :: "duration \<Rightarrow> duration \<Rightarrow> int \<Rightarrow> time \<Rightarrow> drain \<Rightarrow> bool \<times> bool \<times> drain" where
  "drainSpec timeout interval n t Idle =
     (if timeout \<le> 0 then (True, True, Idle)
      else if n \<le> 0 then (True, False, Idle) else (False, True, Draining t (Some t)))"
| "drainSpec timeout interval n t (Draining s w) =
     (if timeout \<le> 0 then (True, True, Draining s w)
      else if n \<le> 0 \<or> s + timeout \<le> t then (True, False, Draining s w)
      else (let warn = (case w of None \<Rightarrow> True | Some w' \<Rightarrow> w' + interval \<le> t)
            in (False, warn, Draining s (if warn then Some t else w))))"

abbreviation drainTimeout :: "UpdatePolicy \<Rightarrow> duration" where
  "drainTimeout pol \<equiv> secs (up_DrainTimeoutSeconds pol)"

abbreviation warnInterval :: "UpdatePolicy \<Rightarrow> duration" where
  "warnInterval pol \<equiv> secs (updateWarnIntervalSeconds pol)"

text \<open>A warning was attempted: the credentials for it were read.\<close>

fun secretRead :: "call \<Rightarrow> bool" where
  "secretRead (Get kd key) = (kd = SecretKind)"
| "secretRead (GetUncached kd key) = (kd = SecretKind)"
| "secretRead _ = False"

definition warned :: "(call \<times> reply) list \<Rightarrow> bool" where
  "warned es \<longleftrightarrow> list_ex (\<lambda>e. secretRead (fst e)) es"

lemma warned_simps [simp]:
  "\<not> warned []" "warned ((c, x) # es) \<longleftrightarrow> secretRead c \<or> warned es"
  "warned (es @ es') \<longleftrightarrow> warned es \<or> warned es'"
  by (simp_all add: warned_def)

lemma announceUpdateWarning_spec:
  "ensures (\<lambda>v es. restOnly es \<and> warned es) (announceUpdateWarning r g pol n)"
  unfolding announceUpdateWarning_def
  by (rule ensures_bind [OF restClientFor_ensures], rule ensures_sum)
    (auto simp: readsSecret_def warned_def intro!: ensures_ret ensures_bind [OF Announce_restOnly])

text \<open>What an evaluation of the drain may do besides: read the clock, warn and record events.\<close>

definition drainOnly :: "(call \<times> reply) list \<Rightarrow> bool" where
  "drainOnly es \<longleftrightarrow> list_all (\<lambda>e. restCall (fst e) \<or> fst e = Now \<or> (\<exists>a b c d. fst e = Event a b c d)) es"

lemma drainOnly_simps [simp]:
  "drainOnly []" "drainOnly ((c, x) # es) \<longleftrightarrow> (restCall c \<or> c = Now \<or> (\<exists>a b c' d. c = Event a b c' d)) \<and> drainOnly es"
  "drainOnly (es @ es') \<longleftrightarrow> drainOnly es \<and> drainOnly es'"
  by (simp_all add: drainOnly_def)

lemma restOnly_drainOnly: "restOnly es \<Longrightarrow> drainOnly es"
  by (auto simp: drainOnly_def list_all_iff)

lemma drainOnly_deletes: "drainOnly es \<Longrightarrow> deletes es = []"
  by (auto simp: drainOnly_def filter_empty_conv list_all_iff elim!: isDelete.elims)

definition drainRefines ::
    "UpdatePolicy \<Rightarrow> PalworldGame \<Rightarrow> bool \<times> PalworldGame \<times> Result \<Rightarrow> (call \<times> reply) list \<Rightarrow> time \<Rightarrow> bool" where
  "drainRefines pol g v es t \<longleftrightarrow>
     (case v of (fin', g', res) \<Rightarrow>
        (fin', warned es, absDrain g') =
          drainSpec (drainTimeout pol) (warnInterval pol) (gt_PlayersOnline (g_Status g)) t (absDrain g)
        \<and> g_Meta g' = g_Meta g \<and> g_Spec g' = g_Spec g
        \<and> gt_CurrentVersion (g_Status g') = gt_CurrentVersion (g_Status g)
        \<and> res = (if fin' then noResult else requeueAfter drainPollInterval) \<and> drainOnly es)"

lemma startDrain_spec:
  assumes "gt_UpdateDrainStartTime (g_Status g) = None" and "0 < drainTimeout pol"
  shows "ensures (\<lambda>v es. drainRefines pol g v es t) (startDrain r g pol t)"
  unfolding startDrain_def Let_def event_def
  apply (rule ensures_if)
  subgoal using assms by (intro ensures_intros) (simp add: drainRefines_def absDrain_def)
  subgoal
    apply (rule ensures_bind [OF announceUpdateWarning_spec])
    using assms by (simp, intro ensures_intros) (simp add: drainRefines_def absDrain_def restOnly_drainOnly)
  done

lemma rebroadcast_spec:
  assumes "gt_UpdateDrainStartTime (g_Status g) = Some s" and "0 < drainTimeout pol"
    and "0 < gt_PlayersOnline (g_Status g)" and "t < s + drainTimeout pol"
  shows "ensures (\<lambda>v es. drainRefines pol g v es t) (rebroadcast r g pol t deadline)"
  unfolding rebroadcast_def now_def bind_assoc bind_ret
  apply (rule ensures_call_bind)
  subgoal for u
    unfolding bind_if bind_assoc bind_ret
    apply (rule ensures_if)
    subgoal
      apply (rule ensures_bind [OF announceUpdateWarning_spec])
      using assms by (intro ensures_intros)
        (auto simp: drainRefines_def absDrain_def restOnly_drainOnly timeAdd_def split: option.splits)
    subgoal
      using assms by (intro ensures_intros)
        (auto simp: drainRefines_def absDrain_def timeAdd_def split: option.splits)
    done
  done

lemma continueDrain_spec:
  assumes "gt_UpdateDrainStartTime (g_Status g) = Some s" and "0 < drainTimeout pol"
  shows "ensures (\<lambda>v es. drainRefines pol g v es t) (continueDrain r g pol t s)"
  unfolding continueDrain_def event_def Let_def bind_assoc bind_ret
  using assms
  by (auto intro!: ensures_intros rebroadcast_spec simp: timeAdd_def)
    (auto simp: drainRefines_def absDrain_def)

lemma drainUpdate_spec:
  "ensures (\<lambda>v es. if 0 < drainTimeout pol
        then \<exists>x rest. es = (Now, x) # rest \<and> drainRefines pol g v es (asTime x)
        else drainRefines pol g v es 0) (drainUpdate r g pol)"
proof (cases "0 < drainTimeout pol")
  case True
  have cons: "drainRefines pol g v es t \<Longrightarrow> drainRefines pol g v ((Now, x) # es) t" for v es t x
    by (auto simp: drainRefines_def)
  from True show ?thesis
    unfolding drainUpdate_def Let_def now_def bind_assoc bind_ret
    by (auto intro!: ensures_call_bind ensures_option cons ensures_mono [OF startDrain_spec]
        ensures_mono [OF continueDrain_spec])
next
  case False
  then show ?thesis
    unfolding drainUpdate_def Let_def
    by (auto intro!: ensures_bind [OF announceUpdateWarning_spec] ensures_ret
        simp: drainRefines_def restOnly_drainOnly absDrain_def split: option.split)
qed

section \<open>Properties\<close>

text \<open>
  C10: \<open>drainUpdate\<close> refines the drain automaton. From every state of the game and whatever the clock,
  the credentials and the server answer, the decision to proceed, whether a warning is attempted and the
  drain recorded in the status are those of the automaton at the clock read first and the players
  online; the metadata and the spec are untouched, a waiting drain asks for the poll interval, and
  nothing is deleted or written.
\<close>

theorem drainUpdate_refines_automaton:
  "ensures (\<lambda>(fin', g', res) es.
      (\<exists>t. (if 0 < secs (up_DrainTimeoutSeconds pol) then es \<noteq> [] \<and> hd es = (Now, t) else True)
         \<and> (fin', warned es, absDrain g') =
             drainSpec (secs (up_DrainTimeoutSeconds pol)) (secs (updateWarnIntervalSeconds pol))
               (gt_PlayersOnline (g_Status g)) (asTime t) (absDrain g))
      \<and> g_Meta g' = g_Meta g \<and> g_Spec g' = g_Spec g
      \<and> res = (if fin' then noResult else requeueAfter drainPollInterval) \<and> drainOnly es)
     (drainUpdate r g pol)"
  by (rule ensures_mono [OF drainUpdate_spec])
    (auto simp: drainRefines_def split: if_splits intro: exI [of _ "RTime 0"])

text \<open>
  The reconciles of one drain. Each finds the drain the previous one recorded, as the API server stores
  it (whole seconds), while everything else of the game may have changed, and ends with the drain still
  waiting. The list holds the instants of the warnings, the latest first.
\<close>

fun storedDrain :: "drain \<Rightarrow> drain" where
  "storedDrain Idle = Idle"
| "storedDrain (Draining s w) = Draining (truncSec s) (map_option truncSec w)"

inductive drainRun :: "PalworldGameReconciler \<Rightarrow> UpdatePolicy \<Rightarrow> PalworldGame \<Rightarrow> time list \<Rightarrow> bool"
  for r :: PalworldGameReconciler and pol :: UpdatePolicy where
  drain_idle: "absDrain g = Idle \<Longrightarrow> drainRun r pol g []"
| drain_wait: "drainRun r pol g ws \<Longrightarrow> val (drainUpdate r g pol) w = (False, g', res)
     \<Longrightarrow> absDrain g'' = storedDrain (absDrain g')
     \<Longrightarrow> ws' = (if warned (events (drainUpdate r g pol) w) then asTime (snd (hd (events (drainUpdate r g pol) w))) # ws else ws)
     \<Longrightarrow> drainRun r pol g'' ws'"

fun spaced :: "duration \<Rightarrow> time list \<Rightarrow> bool" where
  "spaced d (t # u # ts) = (u + d \<le> t \<and> spaced d (u # ts))"
| "spaced d ts = True"

lemma spaced_span: "spaced d (t # ts) \<Longrightarrow> int (length ts) * d \<le> t - last (t # ts)"
proof (induction ts arbitrary: t)
  case (Cons u ts)
  from Cons.prems have "u + d \<le> t" "int (length ts) * d \<le> u - last (u # ts)" using Cons.IH by simp_all
  then show ?case by (simp add: algebra_simps)
qed simp

lemma drain_wait_step:
  assumes v: "val (drainUpdate r g pol) w = (False, g', res)" and "0 < drainTimeout pol"
  defines "es \<equiv> events (drainUpdate r g pol) w"
  shows "(False, warned es, absDrain g') = drainSpec (drainTimeout pol) (warnInterval pol)
     (gt_PlayersOnline (g_Status g)) (asTime (snd (hd es))) (absDrain g)"
proof -
  obtain x rest where es: "es = (Now, x) # rest" and ref: "drainRefines pol g (False, g', res) es (asTime x)"
    using ensuresD [OF drainUpdate_spec [of pol g r], of w] assms by auto
  from ref show ?thesis by (simp add: drainRefines_def es)
qed

lemma drainRun_spaced:
  assumes "drainRun r pol g ws" and "0 < drainTimeout pol"
  shows "case absDrain g of
      Idle \<Rightarrow> ws = []
    | Draining s w \<Rightarrow> ws \<noteq> [] \<and> w = Some (truncSec (hd ws)) \<and> s = truncSec (last ws)
        \<and> spaced (warnInterval pol - Second + 1) ws \<and> hd ws < last ws + drainTimeout pol"
  using assms
proof (induction rule: drainRun.induct)
  case (drain_wait g ws w g' res g'' ws')
  let ?t = "asTime (snd (hd (events (drainUpdate r g pol) w)))"
  note step = drain_wait_step [OF drain_wait.hyps(2) drain_wait.prems]
  show ?case
  proof (cases "absDrain g")
    case Idle
    with step have "absDrain g' = Draining ?t (Some ?t)" "warned (events (drainUpdate r g pol) w)"
      using drain_wait.prems by (auto split: if_splits)
    with Idle drain_wait show ?thesis by simp
  next
    case (Draining s l)
    with drain_wait have IH: "ws \<noteq> []" "l = Some (truncSec (hd ws))" "s = truncSec (last ws)"
      "spaced (warnInterval pol - Second + 1) ws" "hd ws < last ws + drainTimeout pol" by simp_all
    let ?warn = "truncSec (hd ws) + warnInterval pol \<le> ?t"
    from step Draining IH(2) drain_wait.prems have
      g': "absDrain g' = Draining s (if ?warn then Some ?t else l)"
        "warned (events (drainUpdate r g pol) w) = ?warn" and t: "?t < s + drainTimeout pol"
      by (auto simp: Let_def split: if_splits)
    show ?thesis
    proof (cases ?warn)
      case True
      have "hd ws + (warnInterval pol - Second + 1) \<le> ?t" using True truncSec_gt [of "hd ws"] by linarith
      moreover have "?t < last ws + drainTimeout pol" using t IH(3) truncSec_le [of "last ws"] by simp
      ultimately show ?thesis
        using True g' drain_wait.hyps(3,4) IH by (cases ws) (auto simp: truncSec_idem)
    next
      case False
      then show ?thesis using g' drain_wait.hyps(3,4) IH by (simp add: truncSec_idem)
    qed
  qed
qed simp

text \<open>
  C26: the players are warned at a bounded rate and for a bounded time. Over any number of reconciles of
  one drain, whatever happens between them, consecutive warnings are at least the configured interval
  apart (to the second the status stores), all lie within the drain timeout of the first, and so their
  number is bounded by the timeout over the interval.
\<close>

theorem drain_warnings_bounded:
  assumes "drainRun r pol g ws" and "0 < secs (up_DrainTimeoutSeconds pol)"
  shows "spaced (secs (updateWarnIntervalSeconds pol) - Second + 1) ws
    \<and> (ws \<noteq> [] \<longrightarrow> hd ws < last ws + secs (up_DrainTimeoutSeconds pol)
        \<and> (int (length ws) - 1) * (secs (updateWarnIntervalSeconds pol) - Second + 1) < secs (up_DrainTimeoutSeconds pol))"
proof -
  have "ws = [] \<or> spaced (warnInterval pol - Second + 1) ws \<and> hd ws < last ws + drainTimeout pol"
    using drainRun_spaced [OF assms] by (auto split: drain.splits)
  then show ?thesis
    using spaced_span [of "warnInterval pol - Second + 1" "hd ws" "tl ws"] by (cases ws) auto
qed

lemma sample_drain_run: "\<exists>g t. drainRun sampleReconciler sampleUpdatePolicy g [t]"
proof -
  obtain f g' res where v: "val (drainUpdate sampleReconciler sampleGame sampleUpdatePolicy) drainWorld = (f, g', res)"
    by (metis prod_cases3)
  have pos: "0 < drainTimeout sampleUpdatePolicy"
    by (simp add: sampleUpdatePolicy_def secs_def wrap64_def Second_def)
  have idle: "absDrain sampleGame = Idle" and "0 < gt_PlayersOnline (g_Status sampleGame)"
    by (simp_all add: absDrain_def sampleStatus_def)
  then have "\<not> f" "warned (events (drainUpdate sampleReconciler sampleGame sampleUpdatePolicy) drainWorld)"
    using ensuresD [OF drainUpdate_spec [of sampleUpdatePolicy sampleGame sampleReconciler], of drainWorld] v pos
    by (auto simp: drainRefines_def)
  moreover have "\<exists>g. absDrain g = storedDrain (absDrain g')"
    by (intro exI [of _ "updStatus (\<lambda>st. st\<lparr>gt_UpdateDrainStartTime := map_option truncSec (gt_UpdateDrainStartTime (g_Status g')),
        gt_UpdateDrainLastWarnTime := map_option truncSec (gt_UpdateDrainLastWarnTime (g_Status g'))\<rparr>) g'"])
      (simp add: absDrain_def split: option.split)
  ultimately show ?thesis
    using drain_wait [OF drain_idle [OF idle], where w = drainWorld and r = sampleReconciler and pol = sampleUpdatePolicy] v
    by metis
qed

theorem drain_warnings_bounded_witness:
  "\<exists>g t. drainRun sampleReconciler sampleUpdatePolicy g [t] \<and> spaced (secs (updateWarnIntervalSeconds sampleUpdatePolicy) - Second + 1) [t]
     \<and> t < t + secs (up_DrainTimeoutSeconds sampleUpdatePolicy)"
proof -
  obtain g t where "drainRun sampleReconciler sampleUpdatePolicy g [t]" using sample_drain_run by blast
  with drain_warnings_bounded [OF this] show ?thesis
    by (auto simp: sampleUpdatePolicy_def secs_def wrap64_def Second_def)
qed

section \<open>The restart\<close>

text \<open>A backup was read as finished, successfully or not.\<close>

definition settledBackup :: "objKey \<Rightarrow> (call \<times> reply) list \<Rightarrow> bool" where
  "settledBackup key es \<longleftrightarrow>
     (\<exists>b. (Get BackupKind key, RObj (OBackup b)) \<in> set es
        \<and> bt_Phase (b_Status b) \<in> {BackupPhaseCompleted, BackupPhaseFailed})"

text \<open>
  Interface: waiting for a backup. The gate opens exactly when the backup of its key was read as finished;
  it deletes nothing and does not look at the clock. What follows a gate is reasoned about by \<open>gate_bind\<close>.
\<close>

abbreviation gateQuiet :: "(call \<times> reply) list \<Rightarrow> bool" where
  "gateQuiet es \<equiv> list_all (\<lambda>e. \<not> isDelete (fst e) \<and> fst e \<noteq> Now \<and> (\<forall>ob. fst e \<noteq> Update ob)) es"

locale backup_gate =
  fixes gate :: "bool res k" and key :: objKey
  assumes gate_spec: "ensures (\<lambda>v es. gateQuiet es \<and> (v = Inr True \<longleftrightarrow> settledBackup key es)) gate"
begin

lemma gate_bind:
  assumes "\<And>e es. gateQuiet es \<Longrightarrow> \<not> settledBackup key es \<Longrightarrow> ensures (\<lambda>v es'. Q v (es @ es')) (bad e)"
    and "\<And>es. gateQuiet es \<Longrightarrow> \<not> settledBackup key es \<Longrightarrow> ensures (\<lambda>v es'. Q v (es @ es')) waiting"
    and "\<And>es. gateQuiet es \<Longrightarrow> settledBackup key es \<Longrightarrow> ensures (\<lambda>v es'. Q v (es @ es')) next_step"
  shows "ensures Q (do {
     d \<leftarrow> gate;
     case d of Inl e \<Rightarrow> bad e | Inr done' \<Rightarrow> if \<not> done' then waiting else next_step
   })"
  by (rule ensures_bind [OF gate_spec], rule ensures_sum)
    (auto intro!: assms ensures_if)

end

lemma gateQuiet_deletes: "gateQuiet es \<Longrightarrow> deletes es = []"
  by (auto simp: filter_empty_conv list_all_iff)

lemma gateQuiet_clock: "gateQuiet es \<Longrightarrow> \<forall>x. (Now, x) \<notin> set es"
  by (force simp: list_all_iff)

text \<open>
  When the restart is due, read off the calls and replies: the pre-update backup, if asked for, was
  read as completed or failed, and the drain automaton lets the restart proceed at a clock reading.
\<close>

definition backupSettled :: "PalworldGame \<Rightarrow> UpdatePolicy \<Rightarrow> string \<Rightarrow> (call \<times> reply) list \<Rightarrow> bool" where
  "backupSettled g pol available es \<longleftrightarrow>
     (up_BackupBeforeUpdate pol \<longrightarrow> settledBackup (g_Namespace g, preUpdateName g available) es)"

definition drainOver :: "PalworldGame \<Rightarrow> UpdatePolicy \<Rightarrow> (call \<times> reply) list \<Rightarrow> bool" where
  "drainOver g pol es \<longleftrightarrow>
     drainTimeout pol \<le> 0 \<or> gt_PlayersOnline (g_Status g) \<le> 0
     \<or> (\<exists>s n. gt_UpdateDrainStartTime (g_Status g) = Some s \<and> map_of es Now = Some n \<and> s + drainTimeout pol \<le> asTime n)"

lemma asBackup_Inr: "asBackup x = Inr b \<longleftrightarrow> x = RObj (OBackup b)"
  by (cases x rule: asBackup.cases) auto

interpretation pre_update: backup_gate "ensurePreUpdateBackup r g available" "(g_Namespace g, preUpdateName g available)"
proof
  show "ensures (\<lambda>v es. gateQuiet es \<and> (v = Inr True \<longleftrightarrow> settledBackup (g_Namespace g, preUpdateName g available) es))
      (ensurePreUpdateBackup r g available)"
    unfolding ensurePreUpdateBackup_def Let_def event_def bind_assoc bind_ret
    by (intro ensures_intros) (auto simp: settledBackup_def asBackup_Inr split: option.splits if_splits)
qed

text \<open>What a restart leaves behind.\<close>

definition restarted :: "PalworldGame \<Rightarrow> string \<Rightarrow> PalworldGame \<times> Result \<times> kerr option \<Rightarrow> (call \<times> reply) list \<Rightarrow> bool" where
  "restarted g available v es \<longleftrightarrow>
     (case v of (g', res, err) \<Rightarrow>
        \<exists>x. deletes es = [(Delete PodKind (podKey g), x)] \<and> err = IgnoreNotFound (asErr x)
          \<and> (err = None \<longrightarrow> gt_CurrentVersion (g_Status g') = available \<and> absDrain g' = Idle
               \<and> gt_LastUpdateTime (g_Status g') \<noteq> None \<and> res = requeueAfter (30 * Second)))"

definition notRestarted :: "PalworldGame \<Rightarrow> PalworldGame \<times> Result \<times> kerr option \<Rightarrow> (call \<times> reply) list \<Rightarrow> bool" where
  "notRestarted g v es \<longleftrightarrow>
     deletes es = [] \<and> (case v of (g', res, err) \<Rightarrow>
        gt_CurrentVersion (g_Status g') = gt_CurrentVersion (g_Status g)
        \<and> (err = None \<longrightarrow> res = requeueAfter (15 * Second)))"

lemma drain_decides:
  assumes "if 0 < drainTimeout pol then \<exists>x rest. es = (Now, x) # rest \<and> drainRefines pol g (f, g', res) es (asTime x)
      else drainRefines pol g (f, g', res) es 0"
  shows "f \<longleftrightarrow> drainOver g pol (es @ es')"
  using assms
  by (auto simp: drainOver_def drainRefines_def absDrain_def Let_def split: if_splits option.splits)

lemma drainAndRestart_spec:
  "ensures (\<lambda>v es. if drainOver g pol es then restarted g available v es else notRestarted g v es)
     (drainAndRestart r g pol available)"
  unfolding drainAndRestart_def restartServerPod_def now_def event_def bind_assoc bind_ret
proof (rule ensures_bind [OF drainUpdate_spec], goal_cases)
  case (1 v es)
  note spec = 1
  obtain f g1 res1 where v: "v = (f, g1, res1)" by (metis prod_cases3)
  have d: "drainOver g pol (es @ es') = f" for es' using drain_decides spec unfolding v by blast
  obtain t where ref: "drainRefines pol g v es t" using spec by (auto split: if_splits)
  then have keep: "podKey g1 = podKey g" "deletes es = []" "gt_CurrentVersion (g_Status g1) = gt_CurrentVersion (g_Status g)"
    "res1 = (if f then noResult else requeueAfter drainPollInterval)"
    by (auto simp: drainRefines_def v podKey_def StatefulSetName_def drainOnly_deletes)
  show ?case
    unfolding v d prod.case
    by (cases f) (auto intro!: ensures_intros simp: restarted_def notRestarted_def keep absDrain_def drainPollInterval_def)
qed

lemma preUpdateName_frame [simp]:
  "preUpdateName (setProgressing L rs m g) available = preUpdateName g available"
  "preUpdateName (updStatus f g) available = preUpdateName g available"
  by (simp_all add: preUpdateName_def)

lemma drainOver_skip:
  assumes "\<forall>x. (Now, x) \<notin> set es"
  shows "drainOver g pol (es @ es') = drainOver g pol es'"
proof -
  have "map_of es Now = None" using assms by (auto simp: map_of_eq_None_iff)
  then have "map_of (es @ es') Now = map_of es' Now" by (simp add: map_add_def split: option.split)
  then show ?thesis by (simp add: drainOver_def)
qed

lemma performUpdate_spec:
  "ensures (\<lambda>v es. if backupSettled g pol available es \<and> drainOver g pol es
        then restarted g available v es else notRestarted g v es)
     (performUpdate r g pol available)"
proof -
  let ?g = "setProgressing (gr_Lib r) ''Updating'' (''Applying build '' @ available) (updStatus (gt_Phase_update (\<lambda>_. PhaseUpdating)) g)"
  have frame: "drainOver ?g pol es = drainOver g pol es" "restarted ?g available v es = restarted g available v es"
    "notRestarted ?g v es = notRestarted g v es" for v es
    by (simp_all add: drainOver_def restarted_def notRestarted_def podKey_def StatefulSetName_def)
  note run = drainAndRestart_spec [of ?g pol available r, unfolded frame]
  show ?thesis
  proof (cases "up_BackupBeforeUpdate pol")
    case False
    with run show ?thesis by (simp add: performUpdate_def backupSettled_def)
  next
    case True
    from True show ?thesis
      unfolding performUpdate_def Let_def
      by (simp only: if_True, intro pre_update.gate_bind ensures_ret ensures_mono [OF run])
        (auto simp: backupSettled_def settledBackup_def restarted_def notRestarted_def gateQuiet_deletes
          drainOver_skip [OF gateQuiet_clock])
  qed
qed

section \<open>The decision to update\<close>

text \<open>A build that Steam was seen to publish on the public branch.\<close>

definition published :: "string \<Rightarrow> (call \<times> reply) list \<Rightarrow> bool" where
  "published v es \<longleftrightarrow>
     (\<exists>rq x resp j parsed. (Http rq, x) \<in> set es \<and> asResponse x = Inr resp \<and> rp_Status resp = 200
        \<and> rp_Json resp = Some j \<and> decodeSteamInfo j = Inr parsed \<and> buildOf ''public'' parsed = Inr v)"

lemma LatestBuildID_seen:
  "ensures (\<lambda>v es. restOnly es \<and> es \<noteq> [] \<and> (\<forall>b. v = Inr b \<longrightarrow> published b es)) (LatestBuildID p ''public'')"
  unfolding LatestBuildID_def Let_def
  by (intro ensures_intros) (auto simp: published_def split: sum.splits if_splits option.splits)

text \<open>What the poll keeps of the game.\<close>

definition sameButPoll :: "PalworldGame \<Rightarrow> PalworldGame \<Rightarrow> bool" where
  "sameButPoll g g' \<longleftrightarrow> g_Meta g' = g_Meta g \<and> g_Spec g' = g_Spec g
     \<and> gt_Phase (g_Status g') = gt_Phase (g_Status g) \<and> gt_CurrentVersion (g_Status g') = gt_CurrentVersion (g_Status g)
     \<and> gt_PlayersOnline (g_Status g') = gt_PlayersOnline (g_Status g) \<and> gt_LastUpdateTime (g_Status g') = gt_LastUpdateTime (g_Status g)
     \<and> gt_UpdateDrainStartTime (g_Status g') = gt_UpdateDrainStartTime (g_Status g)
     \<and> gt_UpdateDrainLastWarnTime (g_Status g') = gt_UpdateDrainLastWarnTime (g_Status g)"

lemma pollSteam_spec:
  "ensures (\<lambda>g' es. restOnly es \<and> sameButPoll g g'
      \<and> (gt_AvailableVersion (g_Status g') = gt_AvailableVersion (g_Status g) \<or> published (gt_AvailableVersion (g_Status g')) es)
      \<and> (if (case gt_NextScheduledUpdateCheck (g_Status g) of None \<Rightarrow> True | Some n \<Rightarrow> n < t)
         then es \<noteq> [] \<and> gt_NextScheduledUpdateCheck (g_Status g') = Some (t + pollInterval pol)
         else es = [] \<and> g' = g)) (pollSteam r g pol t)"
proof (cases "case gt_NextScheduledUpdateCheck (g_Status g) of None \<Rightarrow> True | Some n \<Rightarrow> n < t")
  case True
  then show ?thesis
    unfolding pollSteam_def
    by (simp only: if_True bind_ret, intro ensures_bind [OF LatestBuildID_seen] ensures_ret)
      (auto simp: sameButPoll_def timeAdd_def split: sum.splits)
next
  case False
  then show ?thesis unfolding pollSteam_def by (auto intro!: ensures_ret simp: sameButPoll_def)
qed

text \<open>The conditions under which a reconcile may restart the server for an update.\<close>

definition updatePermitted ::
    "PalworldGameReconciler \<Rightarrow> PalworldGame \<Rightarrow> UpdatePolicy \<Rightarrow> string \<Rightarrow> time \<Rightarrow> (call \<times> reply) list \<Rightarrow> bool" where
  "updatePermitted r g pol available t es \<longleftrightarrow>
     gs_Update (g_Spec g) = Some pol
     \<and> gt_CurrentVersion (g_Status g) \<noteq> [] \<and> available \<noteq> [] \<and> available \<noteq> gt_CurrentVersion (g_Status g)
     \<and> (available = gt_AvailableVersion (g_Status g) \<or> published available es)
     \<and> (up_Strategy pol = UpdateAutomatic \<or> (up_Strategy pol = UpdateScheduled \<and> inMaintenanceWindow r g pol t))
     \<and> backupSettled g pol available es"

lemma inMaintenanceWindow_frame:
  assumes "sameButPoll g g'"
  shows "inMaintenanceWindow r (setCondition L ct st rs m g') pol t = inMaintenanceWindow r g pol t"
  using assms by (simp add: inMaintenanceWindow_def sameButPoll_def Let_def split: sum.split)

lemma performUpdate_deletes:
  assumes "sameButPoll g g'"
  shows "ensures (\<lambda>v es. deletes es \<noteq> [] \<longrightarrow> backupSettled g pol available es \<and> (\<exists>x. deletes es = [(Delete PodKind (podKey g), x)]))
     (performUpdate r (setCondition L ct st rs m g') pol available)"
  by (rule ensures_mono [OF performUpdate_spec])
    (use assms in \<open>auto simp: restarted_def notRestarted_def backupSettled_def sameButPoll_def podKey_def StatefulSetName_def
      preUpdateName_def split: if_splits prod.splits\<close>)

lemma backupSettled_more: "backupSettled g pol v es \<Longrightarrow> backupSettled g pol v (es' @ es)"
  by (auto simp: backupSettled_def settledBackup_def)

lemma published_more: "published v es \<Longrightarrow> published v (e # es @ es')"
  unfolding published_def by (metis Un_iff list.set_intros(2) set_append)

text \<open>A reconcile whose deletions are justified.\<close>

definition justified :: "PalworldGameReconciler \<Rightarrow> PalworldGame \<Rightarrow> (call \<times> reply) list \<Rightarrow> bool" where
  "justified r g es \<longleftrightarrow> (deletes es \<noteq> [] \<longrightarrow>
      (\<exists>pol available n x. map_of es Now = Some n \<and> updatePermitted r g pol available (asTime n) es
         \<and> deletes es = [(Delete PodKind (podKey g), x)]))"

lemma justified_none: "deletes es = [] \<Longrightarrow> justified r g es"
  by (simp add: justified_def)

lemma justified_perform:
  assumes "gs_Update (g_Spec g) = Some pol" and ro: "restOnly es" and same: "sameButPoll g g'"
    and av: "gt_AvailableVersion (g_Status g') = gt_AvailableVersion (g_Status g) \<or> published (gt_AvailableVersion (g_Status g')) es"
    and "gt_CurrentVersion (g_Status g') \<noteq> []" and "gt_AvailableVersion (g_Status g') \<noteq> []"
    and "gt_AvailableVersion (g_Status g') \<noteq> gt_CurrentVersion (g_Status g')"
    and "up_Strategy pol = UpdateAutomatic \<or> up_Strategy pol = UpdateScheduled \<and> inMaintenanceWindow r g pol (asTime n)"
  shows "ensures (\<lambda>v es'. justified r g ((Now, n) # es @ es'))
    (performUpdate r (setCondition L ct st rs m g') pol (gt_AvailableVersion (g_Status g')))"
proof (rule ensures_mono [OF performUpdate_deletes [OF same]])
  fix v es'
  let ?v = "gt_AvailableVersion (g_Status g')"
  assume d: "deletes es' \<noteq> [] \<longrightarrow> backupSettled g pol ?v es' \<and> (\<exists>x. deletes es' = [(Delete PodKind (podKey g), x)])"
  have "updatePermitted r g pol ?v (asTime n) ((Now, n) # es @ es')" if "backupSettled g pol ?v es'"
    using assms backupSettled_more [OF that, of "(Now, n) # es"] published_more [of ?v es "(Now, n)" es']
    unfolding updatePermitted_def sameButPoll_def by (metis append_Cons)
  with d show "justified r g ((Now, n) # es @ es')"
    unfolding justified_def using restOnly_deletes [OF ro] by auto
qed


text \<open>
  C8: the server is only ever restarted for an update that the policy permits. If a reconcile of the
  updates deletes anything, it deletes the server pod once, and then: there is an update policy; a
  current build is recorded and differs from the build applied, which was known before or was just
  read as published by Steam; the strategy is automatic, or scheduled with the maintenance window open
  at the clock read first; and the pre-update backup is settled if one is asked for. The manual
  strategy never restarts.
\<close>

theorem update_only_when_permitted:
  "ensures (\<lambda>v es. deletes es \<noteq> [] \<longrightarrow>
      (\<exists>pol available n x. map_of es Now = Some n \<and> updatePermitted r g pol available (asTime n) es
         \<and> deletes es = [(Delete PodKind (podKey g), x)]))
     (reconcileUpdates r g)"
proof -
  have "ensures (\<lambda>v es. justified r g es) (reconcileUpdates r g)"
    unfolding reconcileUpdates_def Let_def now_def event_def bind_assoc bind_ret
    apply (rule ensures_option)
    subgoal by (intro ensures_intros justified_none) simp
    apply (rule ensures_call_bind, rule ensures_bind [OF pollSteam_spec])
    apply (rule ensures_if)
    subgoal by (intro ensures_intros justified_none) (simp add: restOnly_deletes)
    apply (rule ensures_if)
    subgoal by (intro ensures_intros justified_none) (simp add: restOnly_deletes)
    subgoal for pol n g' es
      by (cases "up_Strategy pol")
        (auto intro!: ensures_intros justified_perform justified_none simp: restOnly_deletes inMaintenanceWindow_frame)
    done
  then show ?thesis unfolding justified_def .
qed

text \<open>The sample game with a newer build, nobody online and its pre-update backup done.\<close>

definition updatableGame :: PalworldGame where
  "updatableGame = updStatus (\<lambda>st. st\<lparr>gt_AvailableVersion := ''101'', gt_PlayersOnline := 0,
     gt_NextScheduledUpdateCheck := Some (100 * Second)\<rparr>) sampleGame"

definition updateWorld :: "(call, reply) world" where
  "updateWorld = \<lparr>srv = \<lambda>h c. (case c of
        Get kd key \<Rightarrow> if kd = BackupKind then RObj (OBackup (updBackup (bt_Phase_update (\<lambda>_. BackupPhaseCompleted)) sampleBackup))
                     else RErr (KErr NotFound [])
      | Now \<Rightarrow> RTime (50 * Second)
      | _ \<Rightarrow> ROk), hist = []\<rparr>"

lemma updatable_deletes: "deletes (events (reconcileUpdates sampleReconciler updatableGame) updateWorld) \<noteq> []"
  by (simp add: events_def fin_call val_call Let_def reconcileUpdates_def updatableGame_def updateWorld_def now_def
      sampleStatus_def sampleUpdatePolicy_def pollSteam_def performUpdate_def ensurePreUpdateBackup_def
      drainAndRestart_def drainUpdate_def startDrain_def restartServerPod_def event_def setProgressing_def setCondition_def
      secs_def wrap64_def Second_def IgnoreNotFound_def sampleBackup_def)

theorem update_only_when_permitted_witness:
  "\<exists>pol available n. updatePermitted sampleReconciler updatableGame pol available (asTime n)
     (events (reconcileUpdates sampleReconciler updatableGame) updateWorld)"
  using ensuresD [OF update_only_when_permitted [of sampleReconciler updatableGame], of updateWorld] updatable_deletes
  by blast


end
