(* ===== verification/GameBackups.thy ===== *)
theory GameBackups
  imports GameUpdate
begin

text \<open>
  \<^verbatim>\<open>internal/controller/palworldgame_backup.go\<close>: scheduled backups and their retention. The cron
  schedule is the third-party \<open>ParseStandard\<close>; the clock is read once per reconcile.
\<close>

definition LabelScheduledBackup :: string where
  "LabelScheduledBackup = ''palworld.twodcube.io/scheduled-backup''"

definition scheduledBackupName :: "PalworldGame \<Rightarrow> time \<Rightarrow> string" where
  "scheduledBackupName g t = g_Name g @ ''-scheduled-'' @ itoa (timeUnix t)"

definition scheduledBackup :: "PalworldGame \<Rightarrow> BackupPolicy \<Rightarrow> time \<Rightarrow> PalworldBackup" where
  "scheduledBackup g pol t =
     \<lparr>b_Meta = newMeta (scheduledBackupName g t) (g_Namespace g)
                 ((CommonLabels g)(LabelScheduledBackup \<mapsto> ''true'')),
      b_Spec = \<lparr>bs_GameRef = g_Name g, bs_Destination = bp_Destination pol, bs_FlushSave = True,
                bs_TTLSecondsAfterFinished = None, bs_Retain = False\<rparr>,
      b_Status = newBackupStatus\<rparr>"

definition createScheduledBackup ::
    "PalworldGameReconciler \<Rightarrow> PalworldGame \<Rightarrow> BackupPolicy \<Rightarrow> time \<Rightarrow> kerr option k" where
  "createScheduledBackup r g pol t =
     (let backup = scheduledBackup g pol t in
      case setRef r g (b_Meta backup) of
        Inl e \<Rightarrow> ret (Some e)
      | Inr m \<Rightarrow> do {
          c \<leftarrow> call (Create (OBackup (backup\<lparr>b_Meta := m\<rparr>)));
          case asErr c of
            Some e \<Rightarrow> ret (Some e)
          | None \<Rightarrow> do {
              event (OGame g) EventNormal ''ScheduledBackup''
                (''Created scheduled backup '' @ scheduledBackupName g t);
              ret None
            }
        })"

text \<open>The filter of the retention loop and its order: the latest completion first.\<close>

definition prunable :: "PalworldGame \<Rightarrow> PalworldBackup \<Rightarrow> bool" where
  "prunable g b \<longleftrightarrow>
     \<not> (bs_GameRef (b_Spec b) \<noteq> g_Name g \<or> bs_Retain (b_Spec b))
     \<and> bt_Phase (b_Status b) = BackupPhaseCompleted \<and> bt_CompletionTime (b_Status b) \<noteq> None"

definition completedAt :: "PalworldBackup \<Rightarrow> time" where
  "completedAt b = (case bt_CompletionTime (b_Status b) of None \<Rightarrow> zeroTime | Some t \<Rightarrow> t)"

definition newerBackup :: "PalworldBackup \<Rightarrow> PalworldBackup \<Rightarrow> bool" where
  "newerBackup a b \<longleftrightarrow> completedAt b < completedAt a"

definition retentionOf :: "PalworldGame \<Rightarrow> int32" where
  "retentionOf g = (case gs_Backup (g_Spec g) of None \<Rightarrow> 7 | Some p \<Rightarrow> bp_Retention p)"

definition victims :: "PalworldGame \<Rightarrow> PalworldBackup list \<Rightarrow> PalworldBackup list" where
  "victims g items =
     (let completed = filter (prunable g) items in
      if wrap32 (int (length completed)) \<le> retentionOf g then []
      else drop (nat (retentionOf g)) (sortSlice newerBackup completed))"

fun deleteVictims :: "PalworldBackup list \<Rightarrow> kerr option k" where
  "deleteVictims [] = ret None"
| "deleteVictims (b # bs) = do {
     d \<leftarrow> call (Delete BackupKind (b_Namespace b, b_Name b));
     case IgnoreNotFound (asErr d) of
       Some e \<Rightarrow> ret (Some e)
     | None \<Rightarrow> deleteVictims bs
   }"

definition retentionSelector :: "PalworldGame \<Rightarrow> labels" where
  "retentionSelector g = [LabelScheduledBackup \<mapsto> ''true'', labelInstance \<mapsto> g_Name g]"

definition enforceBackupRetention :: "PalworldGame \<Rightarrow> kerr option k" where
  "enforceBackupRetention g =
     (if retentionOf g \<le> 0 then ret None
      else do {
        l \<leftarrow> call (ListBackups (g_Namespace g) (retentionSelector g));
        case asBackups l of
          Inl e \<Rightarrow> ret (Some e)
        | Inr items \<Rightarrow> deleteVictims (victims g items)
      })"

definition reconcileScheduledBackups ::
    "PalworldGameReconciler \<Rightarrow> PalworldGame \<Rightarrow> (PalworldGame \<times> kerr option) k" where
  "reconcileScheduledBackups r g =
     (case gs_Backup (g_Spec g) of
        None \<Rightarrow> ret (updStatus (gt_NextScheduledBackup_update (\<lambda>_. None)) g, None)
      | Some pol \<Rightarrow>
          if \<not> bp_Enabled pol \<or> bp_Suspend pol \<or> bp_Schedule pol = []
          then ret (updStatus (gt_NextScheduledBackup_update (\<lambda>_. None)) g, None)
          else (case x_ParseStandard (gr_Lib r) (bp_Schedule pol) of
            Inl err \<Rightarrow>
              ret (g, Some (errorf (''invalid backup schedule '' @ quote (bp_Schedule pol) @ '': '' @ err)))
          | Inr next \<Rightarrow> do {
              t \<leftarrow> now;
              case gt_NextScheduledBackup (g_Status g) of
                None \<Rightarrow>
                  (let g = updStatus (gt_NextScheduledBackup_update (\<lambda>_. Some (next t))) g in do {
                     e \<leftarrow> enforceBackupRetention g;
                     ret (g, e)
                   })
              | Some due \<Rightarrow>
                  if due < t then do {
                    e \<leftarrow> createScheduledBackup r g pol t;
                    case e of
                      Some x \<Rightarrow> ret (g, Some x)
                    | None \<Rightarrow>
                        (let g = updStatus (gt_NextScheduledBackup_update (\<lambda>_. Some (next t))) g in do {
                           e \<leftarrow> enforceBackupRetention g;
                           ret (g, e)
                         })
                  }
                  else do {
                    e \<leftarrow> enforceBackupRetention g;
                    ret (g, e)
                  }
            }))"

section \<open>Retention\<close>

interpretation completed_sort: slice_sorter newerBackup "sortSlice newerBackup"
proof
  show "mset (sortSlice newerBackup xs) = mset xs" for xs
    by (rule mset_sortSlice)
  show "sorted_wrt (\<lambda>x y. \<not> newerBackup y x) (sortSlice newerBackup xs)" for xs
    by (rule sorted_sortSlice) (auto simp: newerBackup_def)
qed

lemma wrap32_length: "wrap32 (int n) \<le> int n"
proof -
  have "(int n + 2 ^ 31) mod 2 ^ 32 \<le> int n + 2 ^ 31" by (rule zmod_le_nonneg_dividend) simp
  then show ?thesis by (simp add: wrap32_def)
qed

lemma deleteVictims_only:
  "ensures (\<lambda>v es. \<exists>n. map fst es = take n (map (\<lambda>b. Delete BackupKind (b_Namespace b, b_Name b)) bs)
     \<and> (v = None \<longrightarrow> n = length bs)) (deleteVictims bs)"
proof (induction bs)
  case Nil
  show ?case by (simp add: ensures_ret)
next
  case (Cons b bs)
  show ?case
    unfolding deleteVictims.simps
  proof (rule ensures_call_bind, rule ensures_option)
    fix x
    show "ensures (\<lambda>v es. \<exists>n. map fst ((Delete BackupKind (b_Namespace b, b_Name b), x) # es) =
        take n (map (\<lambda>b. Delete BackupKind (b_Namespace b, b_Name b)) (b # bs))
        \<and> (v = None \<longrightarrow> n = length (b # bs))) (deleteVictims bs)"
    proof (rule ensures_mono [OF Cons.IH], elim exE conjE)
      fix v and es :: "(call \<times> reply) list" and n
      assume "map fst es = take n (map (\<lambda>b. Delete BackupKind (b_Namespace b, b_Name b)) bs)"
        and "v = None \<longrightarrow> n = length bs"
      then show "\<exists>n. map fst ((Delete BackupKind (b_Namespace b, b_Name b), x) # es) =
          take n (map (\<lambda>b. Delete BackupKind (b_Namespace b, b_Name b)) (b # bs))
          \<and> (v = None \<longrightarrow> n = length (b # bs))"
        by (intro exI [of _ "Suc n"]) simp
    qed
  next
    fix x e
    show "ensures (\<lambda>v es. \<exists>n. map fst ((Delete BackupKind (b_Namespace b, b_Name b), x) # es) =
        take n (map (\<lambda>b. Delete BackupKind (b_Namespace b, b_Name b)) (b # bs))
        \<and> (v = None \<longrightarrow> n = length (b # bs))) (ret (Some e))"
      by (rule ensures_ret) (auto intro!: exI [of _ 1])
  qed
qed

text \<open>What retention removes and keeps, whatever the list.\<close>

lemma victims_spec:
  assumes "0 < retentionOf g" "length items < 2 ^ 31"
  defines "kept \<equiv> filter (prunable g) items"
  shows "mset (victims g items) \<subseteq># mset kept"
    and "length kept - length (victims g items) = min (length kept) (nat (retentionOf g))"
    and "\<exists>k. mset kept = mset k + mset (victims g items)
           \<and> (\<forall>x \<in> set k. \<forall>y \<in> set (victims g items). completedAt y \<le> completedAt x)"
proof -
  let ?n = "nat (retentionOf g)" and ?s = "sortSlice newerBackup kept"
  have "length kept < 2 ^ 31" unfolding kept_def by (rule le_less_trans [OF length_filter_le assms(2)])
  then have w: "wrap32 (int (length kept)) = int (length kept)"
    by (intro wrap32_id) (simp add: in_int32_def)
  have v: "victims g items = drop ?n ?s"
    unfolding victims_def Let_def kept_def [symmetric] w
    using assms(1) by auto
  show "mset (victims g items) \<subseteq># mset kept"
    unfolding v using completed_sort.mset_take_drop [of ?n kept] by (metis mset_subset_eq_add_right)
  show "length kept - length (victims g items) = min (length kept) ?n"
    unfolding v by simp
  show "\<exists>k. mset kept = mset k + mset (victims g items)
           \<and> (\<forall>x \<in> set k. \<forall>y \<in> set (victims g items). completedAt y \<le> completedAt x)"
    unfolding v using completed_sort.mset_take_drop [of ?n kept] completed_sort.take_before_drop [of _ ?n kept]
    by (intro exI [of _ "take ?n ?s"]) (auto simp: newerBackup_def not_less)
qed

section \<open>Properties\<close>

lemma asBackups_Inr: "asBackups x = Inr bs \<longleftrightarrow> x = RBackups bs"
  by (cases x rule: asBackups.cases) auto

text \<open>
  C7: retention. A pass that succeeds lists the game's scheduled backups and deletes, in order, a
  set of victims such that exactly the configured number of completed, unretained backups of this
  game is left (or all of them where there are fewer), every one left is at least as recent as every one deleted, and
  no backup that is retained, unfinished, failed or another game's is ever deleted.
\<close>

theorem retention_keeps_newest:
  assumes "0 < retentionOf g"
  shows "ensures (\<lambda>v es. v = None \<longrightarrow>
     (\<exists>items x gone. es = (ListBackups (g_Namespace g) (retentionSelector g), RBackups items) # x
        \<and> map fst x = map (\<lambda>b. Delete BackupKind (b_Namespace b, b_Name b)) gone
        \<and> (length items < 2 ^ 31 \<longrightarrow>
             (\<exists>left. mset (filter (prunable g) items) = mset left + mset gone
                \<and> length left = min (length (filter (prunable g) items)) (nat (retentionOf g))
                \<and> (\<forall>b \<in> set left. \<forall>d \<in> set gone. completedAt d \<le> completedAt b)))))
     (enforceBackupRetention g)"
proof -
  have split: "\<exists>left. mset (filter (prunable g) items) = mset left + mset (victims g items)
      \<and> length left = min (length (filter (prunable g) items)) (nat (retentionOf g))
      \<and> (\<forall>b \<in> set left. \<forall>d \<in> set (victims g items). completedAt d \<le> completedAt b)"
    if n: "length items < 2 ^ 31" for items
  proof -
    obtain left where l: "mset (filter (prunable g) items) = mset left + mset (victims g items)"
      "\<forall>b \<in> set left. \<forall>d \<in> set (victims g items). completedAt d \<le> completedAt b"
      using victims_spec(3) [OF assms n] by blast
    from arg_cong [OF l(1), of size]
    have "length (filter (prunable g) items) = length left + length (victims g items)"
      by (simp del: mset_filter)
    with victims_spec(2) [OF assms n] l show ?thesis by (intro exI [of _ left]) simp
  qed
  show ?thesis
    unfolding enforceBackupRetention_def
    apply (rule ensures_if)
    subgoal using assms by simp
    apply (rule ensures_call_bind, rule ensures_sum)
    subgoal by (rule ensures_ret) simp
    subgoal premises p for x items
    proof (rule ensures_mono [OF deleteVictims_only], elim exE conjE, intro impI)
      fix v n and es :: "(call \<times> reply) list"
      assume "map fst es = take n (map (\<lambda>b. Delete BackupKind (b_Namespace b, b_Name b)) (victims g items))"
        and "v = None \<longrightarrow> n = length (victims g items)" and "v = None"
      with p(2) show "\<exists>items' x' gone. (ListBackups (g_Namespace g) (retentionSelector g), x) # es =
            (ListBackups (g_Namespace g) (retentionSelector g), RBackups items') # x'
          \<and> map fst x' = map (\<lambda>b. Delete BackupKind (b_Namespace b, b_Name b)) gone
          \<and> (length items' < 2 ^ 31 \<longrightarrow>
               (\<exists>left. mset (filter (prunable g) items') = mset left + mset gone
                  \<and> length left = min (length (filter (prunable g) items')) (nat (retentionOf g))
                  \<and> (\<forall>b \<in> set left. \<forall>d \<in> set gone. completedAt d \<le> completedAt b)))"
        by (intro exI [of _ items] exI [of _ es] exI [of _ "victims g items"] conjI impI split)
          (simp_all add: asBackups_Inr)
    qed
    done
qed

definition oldBackup :: "string \<Rightarrow> time \<Rightarrow> PalworldBackup" where
  "oldBackup name t = sampleBackup\<lparr>b_Meta := newMeta name ''games'' Map.empty,
     b_Status := newBackupStatus\<lparr>bt_Phase := BackupPhaseCompleted, bt_CompletionTime := Some t\<rparr>\<rparr>"

theorem retention_keeps_newest_witness:
  "map fst (events (enforceBackupRetention sampleGame)
     \<lparr>srv = \<lambda>h c. (case c of ListBackups ns l \<Rightarrow> RBackups [oldBackup ''a'' 10, oldBackup ''b'' 30, oldBackup ''c'' 20]
                    | _ \<Rightarrow> ROk), hist = []\<rparr>) =
   [ListBackups ''games'' (retentionSelector sampleGame), Delete BackupKind (''games'', ''a'')]
   \<and> 0 < retentionOf sampleGame"
proof -
  let ?w = "\<lparr>srv = \<lambda>h c. (case c of ListBackups ns l \<Rightarrow> RBackups [oldBackup ''a'' 10, oldBackup ''b'' 30, oldBackup ''c'' 20]
                    | _ \<Rightarrow> ROk), hist = []\<rparr> :: (call, reply) world"
  have pos: "0 < retentionOf sampleGame" by (simp add: retentionOf_def sampleBackupPolicy_def)
  have r2: "retentionOf sampleGame = 2" by (simp add: retentionOf_def sampleBackupPolicy_def)
  have v: "victims sampleGame [oldBackup ''a'' 10, oldBackup ''b'' 30, oldBackup ''c'' 20] = [oldBackup ''a'' 10]"
    by (simp add: victims_def prunable_def oldBackup_def sampleBackup_def newBackupStatus_def newerBackup_def
        completedAt_def r2 wrap32_def Let_def)
  have "map fst (events (enforceBackupRetention sampleGame) ?w) =
      [ListBackups ''games'' (retentionSelector sampleGame), Delete BackupKind (''games'', ''a'')]"
    using v by (simp add: enforceBackupRetention_def r2 events_def fin_call val_call IgnoreNotFound_def
        oldBackup_def newMeta_def)
  with pos ensuresD [OF retention_keeps_newest [OF pos], of ?w] show ?thesis by simp
qed



end
