(* ===== verification/GameDelete.thy ===== *)
theory GameDelete
  imports GameBackups
begin

text \<open>
  \<^verbatim>\<open>internal/controller/palworldgame_delete.go\<close>: the finalizer. An optional final backup, the data
  volume unless it is retained, then the removal of the finalizer. A status update that succeeds
  replaces the game in memory by the API server's answer, as the client does.
\<close>

definition finalBackupMaxWait :: duration where
  "finalBackupMaxWait = 15 * Minute"

definition finalBackupName :: "PalworldGame \<Rightarrow> string" where
  "finalBackupName g = g_Name g @ ''-final''"

definition finalBackup :: "PalworldGame \<Rightarrow> BackupPolicy \<Rightarrow> PalworldBackup" where
  "finalBackup g pol =
     \<lparr>b_Meta = newMeta (finalBackupName g) (g_Namespace g) (CommonLabels g),
      b_Spec = \<lparr>bs_GameRef = g_Name g, bs_Destination = bp_Destination pol, bs_FlushSave = True,
                bs_TTLSecondsAfterFinished = None, bs_Retain = True\<rparr>,
      b_Status = newBackupStatus\<rparr>"

text \<open>The wait for the backup, after the deadline test.\<close>

definition awaitFinalBackup :: "PalworldGame \<Rightarrow> BackupPolicy \<Rightarrow> bool res k" where
  "awaitFinalBackup g pol =
     (let name = finalBackupName g in do {
        b \<leftarrow> call (Get BackupKind (g_Namespace g, name));
        case asBackup b of
          Inl e \<Rightarrow>
            if IsNotFound e then do {
              c \<leftarrow> call (Create (OBackup (finalBackup g pol)));
              case asErr c of
                Some e' \<Rightarrow>
                  if IsAlreadyExists e' then do {
                    event (OGame g) EventNormal ''FinalBackup'' (''Created final backup '' @ name);
                    ret (Inr False)
                  } else ret (Inl e')
              | None \<Rightarrow> do {
                  event (OGame g) EventNormal ''FinalBackup'' (''Created final backup '' @ name);
                  ret (Inr False)
                }
            }
            else ret (Inl e)
        | Inr backup \<Rightarrow>
            if bt_Phase (b_Status backup) = BackupPhaseCompleted then ret (Inr True)
            else if bt_Phase (b_Status backup) = BackupPhaseFailed then do {
              event (OGame g) EventWarning ''FinalBackupFailed''
                (''Final backup '' @ name @ '' failed; proceeding with deletion'');
              ret (Inr True)
            }
            else ret (Inr False)
      })"

definition ensureFinalBackup :: "PalworldGame \<Rightarrow> BackupPolicy \<Rightarrow> bool res k" where
  "ensureFinalBackup g pol =
     (case m_DeletionTimestamp (g_Meta g) of
        None \<Rightarrow> awaitFinalBackup g pol
      | Some d \<Rightarrow> do {
          t \<leftarrow> now;
          if finalBackupMaxWait < timeSub t d then do {
            event (OGame g) EventWarning ''FinalBackupTimeout''
              ''Final backup did not complete within the deadline; proceeding with deletion'';
            ret (Inr True)
          }
          else awaitFinalBackup g pol
        })"

definition deletePVC :: "PalworldGame \<Rightarrow> kerr option k" where
  "deletePVC g = do {
     d \<leftarrow> call (Delete PVCKind (g_Namespace g, DataPVCName g));
     ret (IgnoreNotFound (asErr d))
   }"

definition removeFinalizer :: "PalworldGame \<Rightarrow> PalworldGame" where
  "removeFinalizer g =
     g\<lparr>g_Meta := (g_Meta g)\<lparr>m_Finalizers := removeString (m_Finalizers (g_Meta g)) GameFinalizer\<rparr>\<rparr>"

text \<open>Storage retention and the removal of the finalizer.\<close>

definition teardown :: "PalworldGame \<Rightarrow> (Result \<times> kerr option) k" where
  "teardown g = do {
     e \<leftarrow> (if \<not> st_Retain (gs_Storage (g_Spec g)) then deletePVC g else ret None);
     case e of
       Some x \<Rightarrow> ret (noResult, Some x)
     | None \<Rightarrow> do {
         u \<leftarrow> call (Update (OGame (removeFinalizer g)));
         ret (noResult, asErr u)
       }
   }"

definition reconcileDelete :: "PalworldGame \<Rightarrow> (Result \<times> kerr option) k" where
  "reconcileDelete g =
     (if \<not> containsString (m_Finalizers (g_Meta g)) GameFinalizer then ret (noResult, None)
      else do {
        g \<leftarrow> ret (updStatus (gt_Phase_update (\<lambda>_. PhaseTerminating)) g);
        s \<leftarrow> call (StatusUpdate (OGame g));
        g \<leftarrow> ret (case asGame s of Inl e \<Rightarrow> g | Inr g' \<Rightarrow> g');
        case gs_Backup (g_Spec g) of
          None \<Rightarrow> teardown g
        | Some pol \<Rightarrow>
            if \<not> bp_OnDelete pol then teardown g
            else do {
              d \<leftarrow> ensureFinalBackup g pol;
              case d of
                Inl e \<Rightarrow> ret (noResult, Some e)
              | Inr done' \<Rightarrow>
                  if \<not> done' then ret (requeueAfter (15 * Second), None)
                  else teardown g
            }
      })"

section \<open>Lemmas\<close>

interpretation final: backup_gate "awaitFinalBackup g pol" "(g_Namespace g, finalBackupName g)"
proof
  show "ensures (\<lambda>v es. gateQuiet es \<and> (v = Inr True \<longleftrightarrow> settledBackup (g_Namespace g, finalBackupName g) es))
      (awaitFinalBackup g pol)"
    unfolding awaitFinalBackup_def Let_def event_def bind_assoc bind_ret
    by (intro ensures_intros) (auto simp: settledBackup_def asBackup_Inr)
qed

fun isUpdate :: "call \<Rightarrow> bool" where
  "isUpdate (Update ob) = True"
| "isUpdate _ = False"

abbreviation updates :: "(call \<times> reply) list \<Rightarrow> (call \<times> reply) list" where
  "updates es \<equiv> filter (\<lambda>e. isUpdate (fst e)) es"

lemma gateQuiet_updates: "gateQuiet es \<Longrightarrow> updates es = []"
  by (auto simp: filter_empty_conv list_all_iff elim!: isUpdate.elims)

text \<open>The final backup is over: read as finished, or the deletion is older than the maximal wait by the clock.\<close>

definition deletionExpired :: "PalworldGame \<Rightarrow> (call \<times> reply) list \<Rightarrow> bool" where
  "deletionExpired g es \<longleftrightarrow>
     (\<exists>d n. m_DeletionTimestamp (g_Meta g) = Some d \<and> (Now, n) \<in> set es \<and> finalBackupMaxWait < timeSub (asTime n) d)"

definition mayTearDown :: "PalworldGame \<Rightarrow> (call \<times> reply) list \<Rightarrow> bool" where
  "mayTearDown g es \<longleftrightarrow>
     (case gs_Backup (g_Spec g) of
        None \<Rightarrow> True
      | Some pol \<Rightarrow> bp_OnDelete pol \<longrightarrow> deletionExpired g es \<or> settledBackup (g_Namespace g, finalBackupName g) es)"

text \<open>
  The tear-down: the data volume is deleted unless it is retained, and unless that fails the finalizer is removed.
\<close>

definition tornDown :: "PalworldGame \<Rightarrow> Result \<times> kerr option \<Rightarrow> (call \<times> reply) list \<Rightarrow> bool" where
  "tornDown g v es \<longleftrightarrow>
     (if st_Retain (gs_Storage (g_Spec g))
      then deletes es = [] \<and> (\<exists>y. updates es = [(Update (OGame (removeFinalizer g)), y)] \<and> v = (noResult, asErr y))
      else (\<exists>x. deletes es = [(Delete PVCKind (g_Namespace g, DataPVCName g), x)]
         \<and> (case IgnoreNotFound (asErr x) of
              Some e \<Rightarrow> updates es = [] \<and> v = (noResult, Some e)
            | None \<Rightarrow> (\<exists>y. updates es = [(Update (OGame (removeFinalizer g)), y)] \<and> v = (noResult, asErr y)))))"

lemma teardown_spec:
  assumes "deletes pre = []" and "updates pre = []"
  shows "ensures (\<lambda>v es. tornDown g v (pre @ es)) (teardown g)"
  unfolding teardown_def deletePVC_def bind_if bind_assoc bind_ret
  using assms by (intro ensures_intros) (auto simp: tornDown_def split: option.splits)

text \<open>The game after the status update: the API server's answer if there was one.\<close>

abbreviation terminating :: "PalworldGame \<Rightarrow> PalworldGame" where
  "terminating g \<equiv> updStatus (gt_Phase_update (\<lambda>_. PhaseTerminating)) g"

definition liveGame :: "PalworldGame \<Rightarrow> (call \<times> reply) list \<Rightarrow> PalworldGame" where
  "liveGame g es =
     (case es of (StatusUpdate ob, x) # _ \<Rightarrow> (case asGame x of Inl e \<Rightarrow> terminating g | Inr g' \<Rightarrow> g') | _ \<Rightarrow> terminating g)"

definition deletionOK :: "PalworldGame \<Rightarrow> Result \<times> kerr option \<Rightarrow> (call \<times> reply) list \<Rightarrow> bool" where
  "deletionOK g v es \<longleftrightarrow>
     (if mayTearDown g es then tornDown g v es
      else deletes es = [] \<and> updates es = [] \<and> (snd v = None \<longrightarrow> fst v = requeueAfter (15 * Second)))"

lemma awaitFinalBackup_ok:
  assumes b: "gs_Backup (g_Spec g) = Some pol" "bp_OnDelete pol"
    and pre: "deletes pre = []" "updates pre = []" "\<not> settledBackup (g_Namespace g, finalBackupName g) pre" "\<not> deletionExpired g pre"
  shows "ensures (\<lambda>v es. deletionOK g v (pre @ es))
     (do {
        d \<leftarrow> awaitFinalBackup g pol;
        case d of
          Inl e \<Rightarrow> ret (noResult, Some e)
        | Inr done' \<Rightarrow> if \<not> done' then ret (requeueAfter (15 * Second), None) else teardown g
      })"
proof (rule final.gate_bind, goal_cases)
  have expired: "deletionExpired g (pre @ es) = deletionExpired g pre" if "gateQuiet es" for es
    using gateQuiet_clock [OF that] by (auto simp: deletionExpired_def)
  have settled: "settledBackup key (pre @ es) \<longleftrightarrow> settledBackup key pre \<or> settledBackup key es" for key es
    by (auto simp: settledBackup_def)
  { case 1 with b pre expired show ?case
      by (intro ensures_ret) (auto simp: deletionOK_def mayTearDown_def settled gateQuiet_deletes gateQuiet_updates)
  next
    case 2 with b pre expired show ?case
      by (intro ensures_ret) (auto simp: deletionOK_def mayTearDown_def settled gateQuiet_deletes gateQuiet_updates)
  next
    case (3 es)
    have "ensures (\<lambda>v es'. tornDown g v ((pre @ es) @ es')) (teardown g)"
      by (rule teardown_spec) (simp_all add: pre gateQuiet_deletes [OF 3(1)] gateQuiet_updates [OF 3(1)])
    then show ?case
      by (rule ensures_mono) (use b 3(2) in \<open>auto simp: deletionOK_def mayTearDown_def settledBackup_def\<close>)
  }
qed

lemma ensureFinalBackup_ok:
  assumes b: "gs_Backup (g_Spec g) = Some pol" "bp_OnDelete pol"
  shows "ensures (\<lambda>v es. deletionOK g v ((StatusUpdate ob, x) # es))
     (do {
        d \<leftarrow> ensureFinalBackup g pol;
        case d of
          Inl e \<Rightarrow> ret (noResult, Some e)
        | Inr done' \<Rightarrow> if \<not> done' then ret (requeueAfter (15 * Second), None) else teardown g
      })"
proof (cases "m_DeletionTimestamp (g_Meta g)")
  case None
  then show ?thesis
    using awaitFinalBackup_ok [OF b, of "[(StatusUpdate ob, x)]"]
    by (simp add: ensureFinalBackup_def settledBackup_def deletionExpired_def)
next
  case (Some d)
  have late: "mayTearDown g ((StatusUpdate ob, x) # (Now, n) # es)" if "finalBackupMaxWait < timeSub (asTime n) d" for n es
    using b Some that by (auto simp: mayTearDown_def deletionExpired_def)
  show ?thesis
    unfolding ensureFinalBackup_def Some option.case now_def event_def bind_assoc bind_ret bind_if sum.case
    apply (rule ensures_call_bind, rule ensures_if)
    subgoal for n
      apply (rule ensures_call_bind)
      subgoal for y
        using teardown_spec [of "[(StatusUpdate ob, x), (Now, n), (Event (OGame g) EventWarning ''FinalBackupTimeout''
            ''Final backup did not complete within the deadline; proceeding with deletion'', y)]" g]
        by (simp add: deletionOK_def late)
      done
    subgoal for n
      using awaitFinalBackup_ok [OF b, of "[(StatusUpdate ob, x), (Now, n)]"] Some
      by (simp add: settledBackup_def deletionExpired_def)
    done
qed

text \<open>A reconcile of a game with the finalizer, in terms of the game after its status update.\<close>

lemma reconcileDelete_ok:
  "ensures (\<lambda>v es.
      if GameFinalizer \<notin> set (m_Finalizers (g_Meta g)) then es = [] \<and> v = (noResult, None)
      else deletionOK (liveGame g es) v es) (reconcileDelete g)"
proof -
  have tear: "ensures (\<lambda>v es. deletionOK g' v ((StatusUpdate ob, x) # es)) (teardown g')"
    if "mayTearDown g' []" for g' ob x
    by (rule ensures_mono [OF teardown_spec [of "[(StatusUpdate ob, x)]"]])
      (use that in \<open>auto simp: deletionOK_def mayTearDown_def deletionExpired_def settledBackup_def split: option.splits\<close>)
  show ?thesis
    unfolding reconcileDelete_def bind_ret containsString_iff
    apply (rule ensures_if)
    subgoal by (rule ensures_ret) simp
    apply (rule ensures_call_bind)
    apply (simp add: liveGame_def)
    apply (rule ensures_option)
    subgoal by (rule tear) (simp add: mayTearDown_def)
    apply (rule ensures_if)
    subgoal by (rule tear) (simp add: mayTearDown_def)
    subgoal by (rule ensureFinalBackup_ok) simp_all
    done
qed

text \<open>A final backup is only waited for after a look at the clock.\<close>

definition clockRead :: "PalworldGame \<Rightarrow> (call \<times> reply) list \<Rightarrow> bool" where
  "clockRead g es \<longleftrightarrow>
     mayTearDown g [] \<or> m_DeletionTimestamp (g_Meta g) = None \<or> (\<exists>n. (Now, n) \<in> set es)"

lemma teardown_logs: "logs (teardown g)"
  using ensures_logs [OF teardown_spec [of "[]"]] by simp

lemma awaitFinalBackup_logs: "logs (awaitFinalBackup g pol)"
  unfolding awaitFinalBackup_def Let_def event_def by (auto split: sum.split option.split)

lemma ensureFinalBackup_clock:
  assumes "\<And>a. logs (f a)"
  shows "ensures (\<lambda>v es. clockRead g ((StatusUpdate ob, x) # es)) (State_Monad.bind (ensureFinalBackup g pol) f)"
proof (cases "m_DeletionTimestamp (g_Meta g)")
  case None
  then show ?thesis
    unfolding ensureFinalBackup_def using assms by (intro ensures_any) (auto simp: awaitFinalBackup_logs clockRead_def)
next
  case (Some d)
  show ?thesis
    unfolding ensureFinalBackup_def Some option.case now_def event_def bind_assoc
    by (rule ensures_call_bind, rule ensures_any) (auto simp: awaitFinalBackup_logs clockRead_def assms)
qed

lemma reconcileDelete_clock:
  "ensures (\<lambda>v es. GameFinalizer \<in> set (m_Finalizers (g_Meta g)) \<longrightarrow> es \<noteq> [] \<and> clockRead (liveGame g es) es) (reconcileDelete g)"
  unfolding reconcileDelete_def bind_ret containsString_iff
  apply (rule ensures_if)
  subgoal by (rule ensures_ret) simp
  apply (rule ensures_call_bind)
  apply (simp add: liveGame_def)
  apply (intro ensures_option ensures_if)
  subgoal by (rule ensures_any) (simp_all add: teardown_logs clockRead_def mayTearDown_def)
  subgoal by (rule ensures_any) (simp_all add: teardown_logs clockRead_def mayTearDown_def)
  subgoal by (rule ensureFinalBackup_clock) (simp add: teardown_logs split: sum.split)
  done

section \<open>Properties\<close>

text \<open>
  C4: the deletion of a game waits for its final backup and for nothing else. A reconcile of a game with
  the finalizer tears it down exactly when no final backup is asked for, or the backup was read as
  completed or failed, or the clock is more than 15 minutes past the deletion timestamp. Tearing down
  deletes the data volume unless storage is retained, and then, unless that deletion failed, removes the
  finalizer; otherwise nothing is deleted or updated and the reconcile is repeated in 15 seconds or
  fails. A game without the finalizer is left alone.
\<close>

theorem deletion_waits_for_final_backup:
  "ensures (\<lambda>v es.
      if GameFinalizer \<notin> set (m_Finalizers (g_Meta g)) then es = [] \<and> v = (noResult, None)
      else (let g' = liveGame g es in
            if mayTearDown g' es then tornDown g' v es
            else deletes es = [] \<and> updates es = [] \<and> (snd v = None \<longrightarrow> fst v = requeueAfter (15 * Second))))
     (reconcileDelete g)"
  using reconcileDelete_ok by (rule ensures_mono) (auto simp: deletionOK_def Let_def split: if_splits)

definition deletedGame :: PalworldGame where
  "deletedGame = sampleGame\<lparr>g_Meta := (g_Meta sampleGame)\<lparr>m_DeletionTimestamp := Some 0\<rparr>\<rparr>"

definition deleteWorld :: "(call, reply) world" where
  "deleteWorld = \<lparr>srv = \<lambda>h c. (case c of
        Get kd key \<Rightarrow> RErr (KErr NotFound [])
      | Now \<Rightarrow> RTime (901 * Second)
      | _ \<Rightarrow> ROk), hist = []\<rparr>"

theorem deletion_waits_for_final_backup_witness:
  "\<exists>y. updates (events (reconcileDelete deletedGame) deleteWorld) = [(Update (OGame (removeFinalizer (terminating deletedGame))), y)]"
proof -
  let ?es = "events (reconcileDelete deletedGame) deleteWorld"
  have fin: "GameFinalizer \<in> set (m_Finalizers (g_Meta deletedGame))" by (simp add: deletedGame_def)
  have "take 2 ?es = [(StatusUpdate (OGame (terminating deletedGame)), ROk), (Now, RTime (901 * Second))]"
    by (simp add: events_def fin_call val_call reconcileDelete_def deletedGame_def deleteWorld_def ensureFinalBackup_def
        sampleBackupPolicy_def now_def event_def finalBackupMaxWait_def timeSub_def clamp64_def Second_def Minute_def
        teardown_def sampleStorage_def)
  then obtain es' where es: "?es = (StatusUpdate (OGame (terminating deletedGame)), ROk) # (Now, RTime (901 * Second)) # es'"
    by (metis append_Cons append_Nil append_take_drop_id)
  then have live: "liveGame deletedGame ?es = terminating deletedGame" by (simp add: liveGame_def)
  have "deletionExpired (terminating deletedGame) ?es"
    unfolding es deletionExpired_def
    by (auto simp: deletedGame_def finalBackupMaxWait_def timeSub_def clamp64_def Second_def Minute_def)
  then have "mayTearDown (terminating deletedGame) ?es" by (simp add: mayTearDown_def split: option.split)
  then have "tornDown (terminating deletedGame) (val (reconcileDelete deletedGame) deleteWorld) ?es"
    using ensuresD [OF deletion_waits_for_final_backup [of deletedGame], of deleteWorld] fin live by (simp add: Let_def)
  moreover have "st_Retain (gs_Storage (g_Spec (terminating deletedGame)))" by (simp add: deletedGame_def sampleStorage_def)
  ultimately show ?thesis unfolding tornDown_def by auto
qed



end
