(* ===== verification/GameController.thy ===== *)
theory GameController
  imports GameDelete
begin

text \<open>
  \<open>PalworldGameReconciler.Reconcile\<close> of \<^verbatim>\<open>internal/controller/palworldgame_controller.go\<close>: the whole
  pass over one game, composed as in the source. It returns the reconciler too, because the
  capability probe is remembered in it.
\<close>

text \<open>The part after the owned resources were reconciled.\<close>

definition observeAndAct :: "PalworldGameReconciler \<Rightarrow> PalworldGame \<Rightarrow> (Result \<times> kerr option) k" where
  "observeAndAct r g = do {
     g \<leftarrow> reconcileObservedStatus r g;
     (g, drainRes, e1) \<leftarrow> reconcileNodeDrain r g;
     (g, updateRes, e2) \<leftarrow> reconcileUpdates r g;
     (g, e3) \<leftarrow> reconcileScheduledBackups r g;
     (g, e4) \<leftarrow> updateStatus g;
     case e4 of
       Some x \<Rightarrow> ret (if IsConflict x then (requeueNow, None) else (noResult, Some x))
     | None \<Rightarrow>
         ret (requeueAfter
                (foldl (\<lambda>requeue d. if 0 < d \<and> d < requeue then d else requeue) requeueInterval
                   [res_RequeueAfter updateRes, res_RequeueAfter drainRes]), None)
   }"

definition reconcileLive :: "PalworldGameReconciler \<Rightarrow> PalworldGame \<Rightarrow> (Result \<times> kerr option) k" where
  "reconcileLive r g =
     (if \<not> containsString (m_Finalizers (g_Meta g)) GameFinalizer then do {
        u \<leftarrow> call (Update (OGame (g\<lparr>g_Meta := (g_Meta g)\<lparr>m_Finalizers := m_Finalizers (g_Meta g) @ [GameFinalizer]\<rparr>\<rparr>)));
        case asErr u of
          Some e \<Rightarrow> ret (noResult, Some e)
        | None \<Rightarrow> ret (requeueNow, None)
      }
      else do {
        (g, e) \<leftarrow> reconcileResources r g;
        case e of
          Some x \<Rightarrow> do {
            (g', e') \<leftarrow> updateStatus (setProgressing (gr_Lib r) ''ReconcileError'' (messageOf x) g);
            ret (noResult, Some x)
          }
        | None \<Rightarrow> observeAndAct r g
      })"

definition Reconcile :: "PalworldGameReconciler \<Rightarrow> objKey \<Rightarrow> (PalworldGameReconciler \<times> Result \<times> kerr option) k" where
  "Reconcile r key = do {
     x \<leftarrow> call (Get GameKind key);
     case asGame x of
       Inl e \<Rightarrow> ret (r, noResult, IgnoreNotFound (Some e))
     | Inr g \<Rightarrow> do {
         r \<leftarrow> probeCapabilities r;
         (res, err) \<leftarrow> (if m_DeletionTimestamp (g_Meta g) \<noteq> None then reconcileDelete g else reconcileLive r g);
         ret (r, res, err)
       }
   }"

section \<open>Lemmas\<close>

lemma requeue_fold:
  assumes "0 < (a::int)"
  shows "0 < foldl (\<lambda>requeue d. if 0 < d \<and> d < requeue then d else requeue) a ds
     \<and> foldl (\<lambda>requeue d. if 0 < d \<and> d < requeue then d else requeue) a ds \<le> a"
  using assms by (induction ds arbitrary: a) (auto, fastforce)

lemma observeAndAct_requeues:
  "snd (val (observeAndAct r g) w) = None \<Longrightarrow>
     fst (val (observeAndAct r g) w) = requeueNow
     \<or> 0 < res_RequeueAfter (fst (val (observeAndAct r g) w)) \<and> res_RequeueAfter (fst (val (observeAndAct r g) w)) \<le> requeueInterval"
  using requeue_fold [of requeueInterval]
  by (auto simp: observeAndAct_def requeueInterval_def Second_def requeueAfter_def split: prod.splits option.splits if_splits)

lemma reconcileLive_requeues:
  "snd (val (reconcileLive r g) w) = None \<Longrightarrow>
     fst (val (reconcileLive r g) w) = requeueNow
     \<or> 0 < res_RequeueAfter (fst (val (reconcileLive r g) w)) \<and> res_RequeueAfter (fst (val (reconcileLive r g) w)) \<le> requeueInterval"
  using observeAndAct_requeues
  by (auto simp: reconcileLive_def split: prod.splits option.splits if_splits)

section \<open>Properties\<close>

text \<open>
  C32: a live game is never forgotten. Whenever a reconcile of a game that is not being deleted succeeds,
  it asks to be run again, at once or after a positive delay of at most 60 seconds, whatever the drain,
  the update and the outside did. (A reconcile that fails is retried by the work queue.)
\<close>

theorem live_game_reconciled_again:
  assumes "srv w (hist w) (Get GameKind key) = RObj (OGame g)" and "m_DeletionTimestamp (g_Meta g) = None"
  shows "case val (Reconcile r key) w of (r', res, err) \<Rightarrow>
     err = None \<longrightarrow> res_Requeue res \<or> 0 < res_RequeueAfter res \<and> res_RequeueAfter res \<le> 60 * Second"
proof -
  let ?w = "fin (probeCapabilities r) (fin (call (Get GameKind key)) w)" and ?r = "val (probeCapabilities r) (fin (call (Get GameKind key)) w)"
  have "val (Reconcile r key) w = (?r, val (reconcileLive ?r g) ?w)"
    using assms by (simp add: Reconcile_def val_call split: prod.split)
  then show ?thesis
    using reconcileLive_requeues [of ?r g ?w] by (auto simp: requeueInterval_def requeueNow_def split: prod.splits)
qed

definition plainGame :: PalworldGame where
  "plainGame = sampleGame\<lparr>g_Meta := (g_Meta sampleGame)\<lparr>m_Finalizers := []\<rparr>\<rparr>"

definition plainWorld :: "(call, reply) world" where
  "plainWorld = \<lparr>srv = \<lambda>h c. (case c of Get kd key \<Rightarrow> RObj (OGame plainGame) | _ \<Rightarrow> ROk), hist = []\<rparr>"

theorem live_game_reconciled_again_witness:
  "case val (Reconcile sampleReconciler (''games'', ''pal'')) plainWorld of (r', res, err) \<Rightarrow>
     err = None \<and> (res_Requeue res \<or> 0 < res_RequeueAfter res \<and> res_RequeueAfter res \<le> 60 * Second)"
proof -
  have "snd (snd (val (Reconcile sampleReconciler (''games'', ''pal'')) plainWorld)) = None"
    by (simp add: Reconcile_def val_call fin_call plainWorld_def plainGame_def probeCapabilities_def sampleReconciler_def reconcileLive_def)
  moreover have "m_DeletionTimestamp (g_Meta plainGame) = None" by (simp add: plainGame_def)
  ultimately show ?thesis
    using live_game_reconciled_again [of plainWorld "(''games'', ''pal'')" plainGame sampleReconciler]
    by (auto simp: plainWorld_def split: prod.splits)
qed

end
