(* ===== verification/PhaseMachine.thy ===== *)
theory PhaseMachine
  imports ControllerHelpers
begin

text \<open>
  What the backup and restore controllers have in common: a reconcile reads an object, makes calls,
  and may persist a new status by a status update. \<open>runs\<close> is the sequences of reconciles of one
  object: after each the stored status is the old one (no write, or a refused one) or one that was
  sent, while metadata and spec may be changed by others at any time. The locale
  \<open>phase_machine\<close> is the contract of such a controller, with the lemmas every instance gets:
  phases only advance, a terminal phase is final. \<open>evidenced_phases\<close> adds phases that are entered only
  on seeing certain evidence, and \<open>guarded_phases\<close> calls that are made only in such phases: in every
  run such a call comes after the evidence.
\<close>

inductive runs ::
    "('o \<Rightarrow> 'a k) \<Rightarrow> (call \<Rightarrow> 's option) \<Rightarrow> ('o \<Rightarrow> 's) \<Rightarrow> 'o \<Rightarrow> 'o \<Rightarrow> (call \<times> reply) list \<Rightarrow> bool"
  for rec :: "'o \<Rightarrow> 'a k" and written :: "call \<Rightarrow> 's option" and status :: "'o \<Rightarrow> 's" and o0 :: 'o where
  runs_start: "runs rec written status o0 o0 []"
| runs_step:
    "runs rec written status o0 ob tr
     \<Longrightarrow> status ob' = status ob \<or> (\<exists>c x. (c, x) \<in> set (events (rec ob) w) \<and> written c = Some (status ob'))
     \<Longrightarrow> runs rec written status o0 ob' (tr @ events (rec ob) w)"

inductive_cases runs_emptyE: "runs rec written status o0 ob []"

locale phase_machine =
  fixes rec :: "'o \<Rightarrow> 'a k" and written :: "call \<Rightarrow> 's option" and status :: "'o \<Rightarrow> 's"
    and phase :: "'s \<Rightarrow> 'p" and step :: "'p \<Rightarrow> 'p \<Rightarrow> bool" and rank :: "'p \<Rightarrow> nat"
    and terminal :: "'p \<Rightarrow> bool"
  assumes writes_step:
      "ensures (\<lambda>v es. \<forall>c x st. (c, x) \<in> set es \<and> written c = Some st \<longrightarrow> step (phase (status ob)) (phase st)) (rec ob)"
    and step_rank: "step p q \<Longrightarrow> rank p \<le> rank q"
    and terminal_no_step: "terminal p \<Longrightarrow> \<not> step p q"
begin

lemma event_step:
  "(c, x) \<in> set (events (rec ob) w) \<Longrightarrow> written c = Some st \<Longrightarrow> step (phase (status ob)) (phase st)"
  using ensuresD [OF writes_step] by blast

lemma runs_rank:
  assumes "runs rec written status o0 ob tr"
  shows "rank (phase (status o0)) \<le> rank (phase (status ob))"
  using assms
proof (induction rule: runs.induct)
  case (runs_step ob tr ob' w)
  then show ?case using event_step [of _ _ ob w "status ob'"] step_rank by (metis le_trans)
qed simp

lemma runs_terminal:
  assumes "runs rec written status o0 ob tr" and "terminal (phase (status o0))"
  shows "status ob = status o0"
  using assms
proof (induction rule: runs.induct)
  case (runs_step ob tr ob' w)
  then show ?case using event_step [of _ _ ob w "status ob'"] terminal_no_step by metis
qed simp

lemma runs_steps:
  assumes "runs rec written status o0 ob tr"
  shows "step\<^sup>*\<^sup>* (phase (status o0)) (phase (status ob))"
  using assms
proof (induction rule: runs.induct)
  case (runs_step ob tr ob' w)
  from runs_step.hyps(2) show ?case
  proof
    assume "status ob' = status ob"
    with runs_step.IH show ?thesis by simp
  next
    assume "\<exists>c x. (c, x) \<in> set (events (rec ob) w) \<and> written c = Some (status ob')"
    then have "step (phase (status ob)) (phase (status ob'))" using event_step by blast
    with runs_step.IH show ?thesis by (rule rtranclp.rtrancl_into_rtrancl)
  qed
qed simp

end

locale evidenced_phases = phase_machine rec written status phase step rank terminal
  for rec :: "'o \<Rightarrow> 'a k" and written :: "call \<Rightarrow> 's option" and status :: "'o \<Rightarrow> 's"
    and phase :: "'s \<Rightarrow> 'p" and step rank terminal +
  fixes late :: "'p \<Rightarrow> bool" and evidence :: "call \<times> reply \<Rightarrow> bool"
  assumes enter_late:
      "ensures (\<lambda>v es. \<forall>c x st. (c, x) \<in> set es \<and> written c = Some st \<and> late (phase st) \<and> \<not> late (phase (status ob))
         \<longrightarrow> (\<exists>e \<in> set es. evidence e)) (rec ob)"
begin

lemma runs_late:
  assumes "runs rec written status o0 ob tr" and "\<not> late (phase (status o0))" and "late (phase (status ob))"
  shows "\<exists>e \<in> set tr. evidence e"
  using assms
proof (induction rule: runs.induct)
  case (runs_step ob tr ob' w)
  show ?case
  proof (cases "late (phase (status ob))")
    case True
    with runs_step show ?thesis by auto
  next
    case False
    with runs_step.prems(2) have "status ob' \<noteq> status ob" by auto
    with runs_step.hyps(2) obtain c x where
      "(c, x) \<in> set (events (rec ob) w)" "written c = Some (status ob')" by blast
    with False runs_step.prems(2) ensuresD [OF enter_late, of ob w] show ?thesis by auto
  qed
qed simp

end

locale guarded_phases = evidenced_phases rec written status phase step rank terminal late evidence
  for rec :: "'o \<Rightarrow> 'a k" and written :: "call \<Rightarrow> 's option" and status :: "'o \<Rightarrow> 's"
    and phase :: "'s \<Rightarrow> 'p" and step rank terminal late evidence +
  fixes risky :: "call \<Rightarrow> bool"
  assumes risky_late:
      "ensures (\<lambda>v es. \<forall>c x. (c, x) \<in> set es \<and> risky c \<longrightarrow> late (phase (status ob))) (rec ob)"
begin

lemma risky_after_evidence:
  assumes "runs rec written status o0 ob tr" and "\<not> late (phase (status o0))"
    and "tr = pre @ (c, x) # post" and "risky c"
  shows "\<exists>e \<in> set pre. evidence e"
  using assms
proof (induction arbitrary: post rule: runs.induct)
  case (runs_step ob tr ob' w)
  let ?es = "events (rec ob) w"
  from runs_step.prems(2) consider
      post' where "tr = pre @ (c, x) # post'"
    | us where "pre = tr @ us" and "us @ (c, x) # post = ?es"
    by (auto simp: append_eq_append_conv2 append_eq_Cons_conv)
  then show ?case
  proof cases
    case 1
    then show ?thesis using runs_step.IH runs_step.prems by blast
  next
    case 2
    have "(c, x) \<in> set ?es" unfolding 2(2) [symmetric] by simp
    with runs_step.prems(3) ensuresD [OF risky_late, of ob w] have "late (phase (status ob))" by blast
    with runs_late [OF runs_step.hyps(1) runs_step.prems(1)] 2 show ?thesis by auto
  qed
qed simp

end

end
