(* ===== verification/BackupController.thy ===== *)
theory BackupController
  imports GameResources PhaseMachine
begin

text \<open>
  \<^verbatim>\<open>internal/controller/palworldbackup_controller.go\<close>: the life cycle of a backup, from the flush of the
  world through the snapshot and the upload Job to the terminal phases and the TTL. A reconcile
  persists its transition by one status update; the theorems read the phases off those calls.
\<close>

record PalworldBackupReconciler =
  br_Lib :: Lib
  br_APIReader :: bool
  br_DefaultServerImage :: string
  br_capDone :: bool
  br_openShift :: bool
  br_hasSnapshot :: bool

definition probeBackup :: "PalworldBackupReconciler \<Rightarrow> PalworldBackupReconciler k" where
  "probeBackup r =
     (if br_capDone r then ret r
      else do {
        o' \<leftarrow> hasAPI RouteGVK;
        s \<leftarrow> hasAPI VolumeSnapshotGVK;
        ret (r\<lparr>br_capDone := True, br_openShift := o', br_hasSnapshot := s\<rparr>)
      })"

definition setBackupCondition ::
    "PalworldBackupReconciler \<Rightarrow> string \<Rightarrow> ConditionStatus \<Rightarrow> string \<Rightarrow> PalworldBackup \<Rightarrow> PalworldBackup" where
  "setBackupCondition r reason status message b =
     updBackup (bt_Conditions_update (\<lambda>cs.
       setStatusCondition (br_Lib r) cs ''Ready'' status reason message (m_Generation (b_Meta b)))) b"

definition backupServerImage :: "PalworldBackupReconciler \<Rightarrow> string" where
  "backupServerImage r =
     (if br_DefaultServerImage r \<noteq> [] then br_DefaultServerImage r else defaultServerImageFallback)"

definition SetupBackup :: "(string \<Rightarrow> string) \<Rightarrow> PalworldBackupReconciler \<Rightarrow> PalworldBackupReconciler" where
  "SetupBackup getenv r =
     r\<lparr>br_DefaultServerImage :=
          (if br_DefaultServerImage r = [] then envOr getenv ''DEFAULT_SERVER_IMAGE'' defaultServerImageFallback
           else br_DefaultServerImage r),
       br_APIReader := True\<rparr>"

fun hasRWX_modes :: "string list \<Rightarrow> bool" where
  "hasRWX_modes [] = False"
| "hasRWX_modes (m # ms) = (if m = ''ReadWriteMany'' then True else hasRWX_modes ms)"

definition hasRWX :: "PalworldGame \<Rightarrow> bool" where
  "hasRWX g = hasRWX_modes (st_AccessModes (gs_Storage (g_Spec g)))"

fun jobConditionFailed :: "JobCondition list \<Rightarrow> bool" where
  "jobConditionFailed [] = False"
| "jobConditionFailed (c # cs) =
     (if jc_Type c = ''Failed'' \<and> jc_Status c = ConditionTrue then True else jobConditionFailed cs)"

definition isJobFailed :: "Job \<Rightarrow> bool" where
  "isJobFailed job = jobConditionFailed (job_Conditions job)"

definition backupPhaseTimeout :: duration where
  "backupPhaseTimeout = 45 * Minute"

definition timedOut :: "PalworldBackup \<Rightarrow> bool k" where
  "timedOut b =
     (case bt_StartTime (b_Status b) of
        None \<Rightarrow> ret False
      | Some st \<Rightarrow> do { t \<leftarrow> now; ret (backupPhaseTimeout < timeSub t st) })"

section \<open>Ends of a reconcile\<close>

definition completeBackup :: "PalworldBackupReconciler \<Rightarrow> PalworldBackup \<Rightarrow> (Result \<times> kerr option) k" where
  "completeBackup r b = do {
     t \<leftarrow> now;
     b \<leftarrow> ret (setBackupCondition r ''Completed'' ConditionTrue ''Backup completed''
               (updBackup (\<lambda>st. st\<lparr>bt_CompletionTime := Some t, bt_Phase := BackupPhaseCompleted,
                                   bt_Message := ''Backup completed''\<rparr>) b));
     event (OBackup b) EventNormal ''BackupCompleted'' (''Backup stored at '' @ bt_Location (b_Status b));
     s \<leftarrow> call (StatusUpdate (OBackup b));
     ret (noResult, asErr s)
   }"

definition failBackup ::
    "PalworldBackupReconciler \<Rightarrow> PalworldBackup \<Rightarrow> string \<Rightarrow> string \<Rightarrow> (Result \<times> kerr option) k" where
  "failBackup r b reason message = do {
     t \<leftarrow> now;
     b \<leftarrow> ret (setBackupCondition r reason ConditionFalse message
               (updBackup (\<lambda>st. st\<lparr>bt_CompletionTime := Some t, bt_Phase := BackupPhaseFailed,
                                   bt_Message := message\<rparr>) b));
     event (OBackup b) EventWarning reason message;
     s \<leftarrow> call (StatusUpdate (OBackup b));
     ret (noResult, asErr s)
   }"

definition requeueBackup :: "PalworldBackup \<Rightarrow> duration \<Rightarrow> (Result \<times> kerr option) k" where
  "requeueBackup b after = do {
     s \<leftarrow> call (StatusUpdate (OBackup b));
     ret (case asErr s of
            Some e \<Rightarrow> if IsConflict e then (requeueNow, None) else (noResult, Some e)
          | None \<Rightarrow> (requeueAfter after, None))
   }"

definition handleTTL :: "PalworldBackup \<Rightarrow> (Result \<times> kerr option) k" where
  "handleTTL b =
     (case (bs_TTLSecondsAfterFinished (b_Spec b), bt_CompletionTime (b_Status b)) of
        (Some n, Some ct) \<Rightarrow>
          (let deadline = timeAdd ct (secs n) in do {
             t \<leftarrow> now;
             if deadline < t then do {
               d \<leftarrow> call (Delete BackupKind (b_Namespace b, b_Name b));
               ret (noResult, IgnoreNotFound (asErr d))
             }
             else do {
               u \<leftarrow> now;
               ret (requeueAfter (timeSub deadline u), None)
             }
           })
      | _ \<Rightarrow> ret (noResult, None))"

section \<open>The phases\<close>

abbreviation setBackupRef :: "PalworldBackupReconciler \<Rightarrow> PalworldBackup \<Rightarrow> ObjectMeta \<Rightarrow> kerr + ObjectMeta" where
  "setBackupRef r b m \<equiv> x_SetControllerReference (br_Lib r) ''PalworldBackup'' (b_Meta b) m"

text \<open>\<open>Create\<close> answers with the stored object, which replaces the one in memory.\<close>

definition createUploadJob ::
    "PalworldBackupReconciler \<Rightarrow> PalworldBackup \<Rightarrow> PalworldGame \<Rightarrow> string \<Rightarrow> (Result \<times> kerr option) k" where
  "createUploadJob r b g srcPVC =
     (let img = ResolveServerImage g \<lparr>p_OpenShift = False, p_OperatorImage = [], p_DefaultServerImage = backupServerImage r\<rparr>;
          job = DesiredBackupJob g b img srcPVC (br_openShift r)
      in case setBackupRef r b (job_Meta job) of
           Inl e \<Rightarrow> ret (noResult, Some e)
         | Inr m \<Rightarrow> do {
             c \<leftarrow> call (Create (OJob (job\<lparr>job_Meta := m\<rparr>)));
             case (case asErr c of Some e \<Rightarrow> if IsAlreadyExists e then None else Some e | None \<Rightarrow> None) of
               Some e \<Rightarrow> ret (noResult, Some e)
             | None \<Rightarrow>
                 (let name = (case asJob c of Inr j \<Rightarrow> m_Name (job_Meta j) | Inl _ \<Rightarrow> m_Name m) in
                  requeueBackup
                    (setBackupCondition r ''Uploading'' ConditionFalse ''Exporting backup''
                      (updBackup (\<lambda>st. st\<lparr>bt_JobName := name, bt_Phase := BackupPhaseUploading\<rparr>) b))
                    (10 * Second))
           })"

text \<open>The best-effort flush of the world.\<close>

definition flushSave :: "PalworldBackupReconciler \<Rightarrow> PalworldGame \<Rightarrow> unit k" where
  "flushSave r g = do {
     rc \<leftarrow> restClientFor (br_APIReader r) g;
     case rc of
       Inl e \<Rightarrow> ret ()
     | Inr c \<Rightarrow> do {
         s \<leftarrow> Save c;
         case s of
           Inl e \<Rightarrow> ret ()
         | Inr u \<Rightarrow> do { x \<leftarrow> call (Sleep (2 * Second)); ret () }
       }
   }"

definition startBackup ::
    "PalworldBackupReconciler \<Rightarrow> PalworldBackup \<Rightarrow> PalworldGame \<Rightarrow> (Result \<times> kerr option) k" where
  "startBackup r b g = do {
     b \<leftarrow> (case bt_StartTime (b_Status b) of
             None \<Rightarrow> do { t \<leftarrow> now; ret (updBackup (bt_StartTime_update (\<lambda>_. Some t)) b) }
           | Some st \<Rightarrow> ret b);
     b \<leftarrow> ret (updBackup (bt_ServerVersion_update (\<lambda>_. gt_CurrentVersion (g_Status g))) b);
     b \<leftarrow> (if bs_FlushSave (b_Spec b) then do {
             flushSave r g;
             ret (updBackup (bt_Phase_update (\<lambda>_. BackupPhaseSaving)) b)
           }
           else ret b);
     (let dtype = (if bd_Type (bs_Destination (b_Spec b)) = BackupDestinationUnset
                   then BackupDestinationVolumeSnapshot else bd_Type (bs_Destination (b_Spec b))) in
      if br_hasSnapshot r then
        (let snap = DesiredVolumeSnapshot g b in
         case setBackupRef r b (un_Meta snap) of
           Inl e \<Rightarrow> ret (noResult, Some e)
         | Inr m \<Rightarrow> do {
             c \<leftarrow> call (Create (OUn (snap\<lparr>un_Meta := m\<rparr>)));
             case (case asErr c of Some e \<Rightarrow> if IsAlreadyExists e then None else Some e | None \<Rightarrow> None) of
               Some e \<Rightarrow> ret (noResult, Some e)
             | None \<Rightarrow>
                 requeueBackup
                   (setBackupCondition r ''Snapshotting'' ConditionFalse ''Creating VolumeSnapshot''
                     (updBackup (\<lambda>st. st\<lparr>bt_VolumeSnapshotName := SnapshotName b,
                                         bt_Phase := BackupPhaseSnapshotting\<rparr>) b))
                   (5 * Second)
           })
      else if dtype = BackupDestinationVolumeSnapshot then
        failBackup r b ''NoSnapshotSupport''
          ''cluster has no VolumeSnapshot API; use an S3 or PVC destination on a ReadWriteMany volume''
      else if \<not> hasRWX g then
        failBackup r b ''NoSnapshotSupport''
          ''tarball backup without VolumeSnapshot support requires a ReadWriteMany data volume''
      else createUploadJob r b g (DataPVCName g))
   }"

text \<open>The snapshot is ready: complete, or provision the clone volume and the upload Job.\<close>

definition snapshotDone ::
    "PalworldBackupReconciler \<Rightarrow> PalworldBackup \<Rightarrow> PalworldGame \<Rightarrow> (Result \<times> kerr option) k" where
  "snapshotDone r b g =
     (if bd_Type (bs_Destination (b_Spec b)) = BackupDestinationUnset
        \<or> bd_Type (bs_Destination (b_Spec b)) = BackupDestinationVolumeSnapshot
      then completeBackup r
             (updBackup (bt_Location_update (\<lambda>_. ''volumesnapshot://'' @ b_Namespace b @ ''/'' @ SnapshotName b)) b)
      else (let pvc = DesiredRestorePVCFromSnapshot g (RestorePVCName (b_Name b)) (SnapshotName b) in
        case setBackupRef r b (pvc_Meta pvc) of
          Inl e \<Rightarrow> ret (noResult, Some e)
        | Inr m \<Rightarrow> do {
            c \<leftarrow> call (Create (OPVC (pvc\<lparr>pvc_Meta := m\<rparr>)));
            case (case asErr c of Some e \<Rightarrow> if IsAlreadyExists e then None else Some e | None \<Rightarrow> None) of
              Some e \<Rightarrow> ret (noResult, Some e)
            | None \<Rightarrow> createUploadJob r b g (RestorePVCName (b_Name b))
          }))"

definition reconcileSnapshot ::
    "PalworldBackupReconciler \<Rightarrow> PalworldBackup \<Rightarrow> PalworldGame \<Rightarrow> (Result \<times> kerr option) k" where
  "reconcileSnapshot r b g = do {
     s \<leftarrow> call (Get (UnKind VolumeSnapshotGVK) (b_Namespace b, SnapshotName b));
     case asUn s of
       Inl e \<Rightarrow>
         if IsNotFound e then do {
           late \<leftarrow> timedOut b;
           if late then failBackup r b ''SnapshotMissing'' ''VolumeSnapshot did not appear within the deadline''
           else ret (requeueAfter (5 * Second), None)
         }
         else ret (noResult, Some e)
     | Inr snap \<Rightarrow>
         (let (ready, size) = SnapshotReady (x_ParseQuantity (br_Lib r)) snap in
          if \<not> ready then requeueBackup b (10 * Second)
          else snapshotDone r (updBackup (bt_SizeBytes_update (\<lambda>_. size)) b) g)
   }"

definition uploadLocation :: "PalworldBackup \<Rightarrow> PalworldGame \<Rightarrow> string" where
  "uploadLocation b g =
     (case bd_Type (bs_Destination (b_Spec b)) of
        BackupDestinationS3 \<Rightarrow>
          (case bd_S3 (bs_Destination (b_Spec b)) of
             Some s3 \<Rightarrow>
               (let prefix = (if s3_Prefix s3 \<noteq> [] then s3_Prefix s3 @ ''/'' else []) in
                ''s3://'' @ s3_Bucket s3 @ ''/'' @ prefix @ g_Name g @ ''/'' @ b_Name b @ ''.tar.gz'')
           | None \<Rightarrow> [])
      | BackupDestinationPVC \<Rightarrow>
          ''pvc://'' @ bd_PVCName (bs_Destination (b_Spec b)) @ ''/'' @ g_Name g @ ''/'' @ b_Name b @ ''.tar.gz''
      | _ \<Rightarrow> [])"

definition cleanupTransient :: "PalworldBackup \<Rightarrow> unit k" where
  "cleanupTransient b = do {
     p \<leftarrow> call (Delete PVCKind (b_Namespace b, RestorePVCName (b_Name b)));
     s \<leftarrow> call (Delete (UnKind VolumeSnapshotGVK) (b_Namespace b, SnapshotName b));
     ret ()
   }"

definition reconcileUpload ::
    "PalworldBackupReconciler \<Rightarrow> PalworldBackup \<Rightarrow> PalworldGame \<Rightarrow> (Result \<times> kerr option) k" where
  "reconcileUpload r b g = do {
     j \<leftarrow> call (Get JobKind (b_Namespace b, BackupJobName (b_Name b)));
     case asJob j of
       Inl e \<Rightarrow>
         if IsNotFound e then do {
           late \<leftarrow> timedOut b;
           if late then failBackup r b ''UploadJobMissing'' ''upload Job disappeared before completion was observed''
           else ret (requeueAfter (10 * Second), None)
         }
         else ret (noResult, Some e)
     | Inr job \<Rightarrow>
         if 1 \<le> job_Succeeded job then do {
           b \<leftarrow> ret (updBackup (bt_Location_update (\<lambda>_. uploadLocation b g)) b);
           cleanupTransient b;
           completeBackup r b
         }
         else if isJobFailed job then do {
           cleanupTransient b;
           failBackup r b ''UploadFailed'' ''backup upload job failed''
         }
         else requeueBackup b (10 * Second)
   }"

text \<open>The switch on the phase; a terminal phase was handled before it.\<close>

definition stepBackup ::
    "PalworldBackupReconciler \<Rightarrow> PalworldBackup \<Rightarrow> PalworldGame \<Rightarrow> (Result \<times> kerr option) k" where
  "stepBackup r b g =
     (case bt_Phase (b_Status b) of
        BackupPhaseUnset \<Rightarrow> startBackup r b g
      | BackupPhasePending \<Rightarrow> startBackup r b g
      | BackupPhaseSaving \<Rightarrow> reconcileSnapshot r b g
      | BackupPhaseSnapshotting \<Rightarrow> reconcileSnapshot r b g
      | BackupPhaseUploading \<Rightarrow> reconcileUpload r b g
      | _ \<Rightarrow> ret (noResult, None))"

definition reconcileBackup :: "PalworldBackupReconciler \<Rightarrow> PalworldBackup \<Rightarrow> (Result \<times> kerr option) k" where
  "reconcileBackup r b =
     (if bt_Phase (b_Status b) = BackupPhaseCompleted \<or> bt_Phase (b_Status b) = BackupPhaseFailed
      then handleTTL b
      else do {
        x \<leftarrow> call (Get GameKind (b_Namespace b, bs_GameRef (b_Spec b)));
        case asGame x of
          Inl e \<Rightarrow>
            if IsNotFound e
            then failBackup r b ''GameNotFound''
                   (''referenced PalworldGame '' @ quote (bs_GameRef (b_Spec b)) @ '' not found'')
            else ret (noResult, Some e)
        | Inr g \<Rightarrow> stepBackup r b g
      })"

definition ReconcileBackup ::
    "PalworldBackupReconciler \<Rightarrow> objKey \<Rightarrow> (PalworldBackupReconciler \<times> Result \<times> kerr option) k" where
  "ReconcileBackup r key = do {
     x \<leftarrow> call (Get BackupKind key);
     case asBackup x of
       Inl e \<Rightarrow> ret (r, noResult, IgnoreNotFound (Some e))
     | Inr b \<Rightarrow> do {
         r \<leftarrow> probeBackup r;
         (res, err) \<leftarrow> reconcileBackup r b;
         ret (r, res, err)
       }
   }"

section \<open>The phases of a backup\<close>

inductive backup_step :: "BackupPhase \<Rightarrow> BackupPhase \<Rightarrow> bool" where
  snapshot: "p = BackupPhaseUnset \<or> p = BackupPhasePending \<Longrightarrow> backup_step p BackupPhaseSnapshotting"
| direct: "p = BackupPhaseUnset \<or> p = BackupPhasePending \<Longrightarrow> backup_step p BackupPhaseUploading"
| waiting: "p = BackupPhaseSaving \<or> p = BackupPhaseSnapshotting \<or> p = BackupPhaseUploading \<Longrightarrow> backup_step p p"
| upload: "p = BackupPhaseSaving \<or> p = BackupPhaseSnapshotting \<Longrightarrow> backup_step p BackupPhaseUploading"
| stored: "p = BackupPhaseSaving \<or> p = BackupPhaseSnapshotting \<or> p = BackupPhaseUploading
     \<Longrightarrow> backup_step p BackupPhaseCompleted"
| failing: "p \<noteq> BackupPhaseCompleted \<and> p \<noteq> BackupPhaseFailed \<Longrightarrow> backup_step p BackupPhaseFailed"

inductive_simps backup_step_simps:
  "backup_step p BackupPhaseUnset" "backup_step p BackupPhasePending" "backup_step p BackupPhaseSaving"
  "backup_step p BackupPhaseSnapshotting" "backup_step p BackupPhaseUploading"
  "backup_step p BackupPhaseCompleted" "backup_step p BackupPhaseFailed"

fun backupRank :: "BackupPhase \<Rightarrow> nat" where
  "backupRank BackupPhaseUnset = 0"
| "backupRank BackupPhasePending = 0"
| "backupRank BackupPhaseSaving = 1"
| "backupRank BackupPhaseSnapshotting = 1"
| "backupRank BackupPhaseUploading = 2"
| "backupRank BackupPhaseCompleted = 3"
| "backupRank BackupPhaseFailed = 3"

definition backupTerminal :: "BackupPhase \<Rightarrow> bool" where
  "backupTerminal p \<longleftrightarrow> p = BackupPhaseCompleted \<or> p = BackupPhaseFailed"

fun backupWritten :: "call \<Rightarrow> PalworldBackupStatus option" where
  "backupWritten (StatusUpdate (OBackup b)) = Some (b_Status b)"
| "backupWritten _ = None"

text \<open>
  The evidence that the data of a backup was stored: its own snapshot read as ready to use, or its own
  upload Job read as succeeded.
\<close>

fun dataStored :: "(string \<Rightarrow> int64 option) \<Rightarrow> PalworldBackup \<Rightarrow> call \<times> reply \<Rightarrow> bool" where
  "dataStored pq b (Get (UnKind gvk) key, RObj (OUn s)) =
     (gvk = VolumeSnapshotGVK \<and> key = (b_Namespace b, SnapshotName b) \<and> fst (SnapshotReady pq s)
      \<and> bd_Type (bs_Destination (b_Spec b)) \<in> {BackupDestinationUnset, BackupDestinationVolumeSnapshot})"
| "dataStored pq b (Get JobKind key, RObj (OJob j)) =
     (key = (b_Namespace b, BackupJobName (b_Name b)) \<and> 1 \<le> job_Succeeded j)"
| "dataStored pq b _ = False"

text \<open>What a reconcile may write: a step of the phase, a completion only with evidence and a completion time.\<close>

definition backupOK :: "PalworldBackupReconciler \<Rightarrow> PalworldBackup \<Rightarrow> (call \<times> reply) list \<Rightarrow> bool" where
  "backupOK r b es \<longleftrightarrow>
     list_all (\<lambda>e. case backupWritten (fst e) of
         None \<Rightarrow> True
       | Some st \<Rightarrow> backup_step (bt_Phase (b_Status b)) (bt_Phase st)
           \<and> (bt_Phase st = BackupPhaseCompleted \<longrightarrow>
                bt_CompletionTime st \<noteq> None \<and> list_ex (dataStored (x_ParseQuantity (br_Lib r)) b) es)) es"

lemma backup_frame [simp]:
  "b_Meta (setBackupCondition r rs st m b) = b_Meta b" "b_Spec (setBackupCondition r rs st m b) = b_Spec b"
  "bt_Phase (b_Status (setBackupCondition r rs st m b)) = bt_Phase (b_Status b)"
  "bt_CompletionTime (b_Status (setBackupCondition r rs st m b)) = bt_CompletionTime (b_Status b)"
  by (simp_all add: setBackupCondition_def)

lemma SnapshotName_frame [simp]: "SnapshotName (updBackup f b) = SnapshotName b"
  by (simp add: SnapshotName_def)

lemma asUn_Inr: "asUn x = Inr s \<longleftrightarrow> x = RObj (OUn s)"
  by (cases x rule: asUn.cases) auto

lemma asJob_Inr: "asJob x = Inr j \<longleftrightarrow> x = RObj (OJob j)"
  by (cases x rule: asJob.cases) auto

lemma restCall_quiet: "restCall c \<Longrightarrow> backupWritten c = None"
  by (cases c rule: restCall.cases) simp_all

lemma restOnly_quiet: "restOnly es \<Longrightarrow> list_all (\<lambda>e. backupWritten (fst e) = None) es"
  by (auto simp: list_all_iff restCall_quiet)

interpretation backup_frame: quiet_frame "\<lambda>c. backupWritten c = None" "\<lambda>v. backupOK r b"
  by unfold_locales (fastforce simp: backupOK_def list_all_iff split: option.splits)

lemmas backupOK_single = backup_frame.frame and backup_call_bind = backup_frame.call_bind

lemma backupOK_nil [simp]: "backupOK r b []"
  by (simp add: backupOK_def)

lemma failBackup_ok:
  "\<not> backupTerminal (bt_Phase (b_Status b)) \<Longrightarrow> ensures (\<lambda>v es. backupOK r b es) (failBackup r b' reason msg)"
  unfolding failBackup_def now_def event_def
  by (simp, intro ensures_intros) (simp add: backupOK_def backup_step_simps backupTerminal_def)

lemma requeueBackup_ok:
  "backup_step (bt_Phase (b_Status b)) (bt_Phase (b_Status b')) \<Longrightarrow> bt_Phase (b_Status b') \<noteq> BackupPhaseCompleted
   \<Longrightarrow> ensures (\<lambda>v es. backupOK r b es) (requeueBackup b' d)"
  unfolding requeueBackup_def by (intro ensures_intros) (simp add: backupOK_def)

lemmas backup_rest_bind = backup_frame.action_bind [OF ensures_mono [OF _ restOnly_quiet]]

lemma backup_timedOut_bind:
  assumes "\<And>late. ensures (\<lambda>v es. backupOK r b es) (f late)"
  shows "ensures (\<lambda>v es. backupOK r b es) (State_Monad.bind (timedOut b') f)"
  unfolding timedOut_def now_def bind_option bind_assoc bind_ret
  by (auto intro!: ensures_option backup_call_bind assms)

lemmas backup_ok_intros = ensures_if ensures_sum ensures_option ensures_ret backup_call_bind
  backup_timedOut_bind failBackup_ok requeueBackup_ok

lemma createUploadJob_ok:
  assumes "backup_step (bt_Phase (b_Status b)) BackupPhaseUploading"
  shows "ensures (\<lambda>v es. backupOK r b es) (createUploadJob r b' g src)"
  unfolding createUploadJob_def Let_def
  using assms by (auto intro!: backup_ok_intros)

lemma flushSave_bind:
  assumes "ensures (\<lambda>v es. backupOK r b es) k"
  shows "ensures (\<lambda>v es. backupOK r b es) (State_Monad.bind (flushSave r' g) (\<lambda>_. k))"
  unfolding flushSave_def bind_assoc bind_sum bind_ret
  by (rule backup_rest_bind [OF restClientFor_restOnly])
    (auto intro!: backup_ok_intros backup_rest_bind [OF Save_restOnly] assms)

lemma completeBackup_ok:
  assumes "bt_Phase (b_Status b) = BackupPhaseSaving \<or> bt_Phase (b_Status b) = BackupPhaseSnapshotting
      \<or> bt_Phase (b_Status b) = BackupPhaseUploading"
    and "list_ex (dataStored (x_ParseQuantity (br_Lib r)) b) pre"
    and "list_all (\<lambda>e. backupWritten (fst e) = None) pre"
  shows "ensures (\<lambda>v es. backupOK r b (pre @ es)) (completeBackup r b')"
  unfolding completeBackup_def now_def event_def
  using assms by (simp, intro ensures_intros) (auto simp: backupOK_def backup_step_simps list_all_iff)

lemma startBackup_ok:
  assumes "bt_Phase (b_Status b) = BackupPhaseUnset \<or> bt_Phase (b_Status b) = BackupPhasePending"
  shows "ensures (\<lambda>v es. backupOK r b es) (startBackup r b g)"
proof -
  have "\<not> backupTerminal (bt_Phase (b_Status b))" "backup_step (bt_Phase (b_Status b)) BackupPhaseUploading"
    "backup_step (bt_Phase (b_Status b)) BackupPhaseSnapshotting"
    using assms by (auto simp: backupTerminal_def backup_step_simps)
  then show ?thesis
    unfolding startBackup_def Let_def now_def bind_option bind_assoc bind_ret bind_if
    by (auto intro!: backup_ok_intros flushSave_bind createUploadJob_ok)
qed

lemma snapshotDone_ok:
  assumes p: "bt_Phase (b_Status b) = BackupPhaseSaving \<or> bt_Phase (b_Status b) = BackupPhaseSnapshotting"
    and "fst (SnapshotReady (x_ParseQuantity (br_Lib r)) s)"
    and b': "b_Meta b' = b_Meta b" "b_Spec b' = b_Spec b"
  shows "ensures (\<lambda>v es. backupOK r b ((Get (UnKind VolumeSnapshotGVK) (b_Namespace b, SnapshotName b), RObj (OUn s)) # es))
     (snapshotDone r b' g)"
proof (cases "bd_Type (bs_Destination (b_Spec b)) \<in> {BackupDestinationUnset, BackupDestinationVolumeSnapshot}")
  case True
  with assms completeBackup_ok [of b r "[(Get (UnKind VolumeSnapshotGVK) (b_Namespace b, SnapshotName b), RObj (OUn s))]"]
  show ?thesis by (auto simp: snapshotDone_def)
next
  case False
  have "backup_step (bt_Phase (b_Status b)) BackupPhaseUploading" using p by (auto simp: backup_step_simps)
  with False b' have "ensures (\<lambda>v es. backupOK r b es) (snapshotDone r b' g)"
    unfolding snapshotDone_def Let_def by (auto intro!: backup_ok_intros createUploadJob_ok)
  then show ?thesis by (rule ensures_mono) (rule backupOK_single, simp)
qed

lemma reconcileSnapshot_ok:
  assumes "bt_Phase (b_Status b) = BackupPhaseSaving \<or> bt_Phase (b_Status b) = BackupPhaseSnapshotting"
  shows "ensures (\<lambda>v es. backupOK r b es) (reconcileSnapshot r b g)"
proof -
  have p: "\<not> backupTerminal (bt_Phase (b_Status b))" "backup_step (bt_Phase (b_Status b)) (bt_Phase (b_Status b))"
    using assms by (auto simp: backupTerminal_def intro: backup_step.intros)
  show ?thesis
    unfolding reconcileSnapshot_def Let_def
    apply (rule ensures_call_bind, rule ensures_sum)
    subgoal by (rule ensures_mono [of "\<lambda>v es. backupOK r b es"])
        (auto intro!: backup_ok_intros p simp: backupOK_single)
    apply (rule ensures_prod, rule ensures_if)
    subgoal using assms
      by (intro ensures_mono [OF requeueBackup_ok [of b b r]] p) (auto simp: backupOK_single)
    subgoal using assms by (auto simp: asUn_Inr intro!: snapshotDone_ok)
    done
qed

lemma reconcileUpload_ok:
  assumes "bt_Phase (b_Status b) = BackupPhaseUploading"
  shows "ensures (\<lambda>v es. backupOK r b es) (reconcileUpload r b g)"
proof -
  have p: "\<not> backupTerminal (bt_Phase (b_Status b))" "backup_step (bt_Phase (b_Status b)) (bt_Phase (b_Status b))"
    using assms by (auto simp: backupTerminal_def intro: backup_step.intros)
  show ?thesis
    unfolding reconcileUpload_def cleanupTransient_def bind_assoc bind_ret
    apply (rule ensures_call_bind, rule ensures_sum)
    subgoal by (rule ensures_mono [of "\<lambda>v es. backupOK r b es"])
        (auto intro!: backup_ok_intros p simp: backupOK_single)
    apply (rule ensures_if)
    subgoal for x j
      apply (intro ensures_call_bind)
      subgoal for y z
        using assms completeBackup_ok [of b r "[(Get JobKind (b_Namespace b, BackupJobName (b_Name b)), x),
            (Delete PVCKind (b_Namespace b, RestorePVCName (b_Name b)), y),
            (Delete (UnKind VolumeSnapshotGVK) (b_Namespace b, SnapshotName b), z)]"]
        by (simp add: asJob_Inr)
      done
    subgoal by (rule ensures_mono [of "\<lambda>v es. backupOK r b es"])
        (use assms p in \<open>auto intro!: backup_ok_intros simp: backupOK_single\<close>)
    done
qed

lemma handleTTL_ok: "ensures (\<lambda>v es. backupOK r b es) (handleTTL b)"
  unfolding handleTTL_def Let_def now_def bind_assoc bind_ret
  by (auto intro!: backup_ok_intros split: option.split prod.split)

lemma reconcileBackup_ok: "ensures (\<lambda>v es. backupOK r b es) (reconcileBackup r b)"
proof -
  have "ensures (\<lambda>v es. backupOK r b es) (stepBackup r b g)" for g
    by (cases "bt_Phase (b_Status b)")
      (simp_all add: stepBackup_def startBackup_ok reconcileSnapshot_ok reconcileUpload_ok ensures_ret)
  then show ?thesis
    unfolding reconcileBackup_def
    by (auto intro!: backup_ok_intros handleTTL_ok simp: backupTerminal_def)
qed

interpretation backup_machine: evidenced_phases "reconcileBackup r" backupWritten b_Status bt_Phase
    backup_step backupRank backupTerminal "\<lambda>p. p = BackupPhaseCompleted"
    "\<lambda>e. \<exists>b. dataStored (x_ParseQuantity (br_Lib r)) b e"
proof
  fix ob
  note ok = reconcileBackup_ok [of r ob]
  show "ensures (\<lambda>v es. \<forall>c x st. (c, x) \<in> set es \<and> backupWritten c = Some st
      \<longrightarrow> backup_step (bt_Phase (b_Status ob)) (bt_Phase st)) (reconcileBackup r ob)"
    by (rule ensures_mono [OF ok]) (fastforce simp: backupOK_def list_all_iff)
  show "ensures (\<lambda>v es. \<forall>c x st. (c, x) \<in> set es \<and> backupWritten c = Some st \<and> bt_Phase st = BackupPhaseCompleted
      \<and> bt_Phase (b_Status ob) \<noteq> BackupPhaseCompleted
      \<longrightarrow> (\<exists>e \<in> set es. \<exists>b. dataStored (x_ParseQuantity (br_Lib r)) b e)) (reconcileBackup r ob)"
    by (rule ensures_mono [OF ok]) (fastforce simp: backupOK_def list_all_iff list_ex_iff)
next
  fix p q
  show "backup_step p q \<Longrightarrow> backupRank p \<le> backupRank q"
    by (cases p; cases q) (simp_all add: backup_step_simps)
  show "backupTerminal p \<Longrightarrow> \<not> backup_step p q"
    by (cases q) (auto simp: backup_step_simps backupTerminal_def)
qed

section \<open>Properties\<close>

text \<open>
  C5: a backup is only ever recorded as completed when its data is there. Whatever the cluster
  answers, a reconcile that writes the phase \<open>Completed\<close> also sets the completion time and has, in the
  same reconcile, either read the backup's own snapshot as ready to use (for a snapshot destination)
  or read the backup's own upload Job as succeeded.
\<close>

theorem backup_completes_only_with_data:
  "ensures (\<lambda>v es. \<forall>c x st. (c, x) \<in> set es \<and> backupWritten c = Some st \<and> bt_Phase st = BackupPhaseCompleted
      \<longrightarrow> bt_CompletionTime st \<noteq> None \<and> (\<exists>e \<in> set es. dataStored (x_ParseQuantity (br_Lib r)) b e))
     (reconcileBackup r b)"
  by (rule ensures_mono [OF reconcileBackup_ok]) (fastforce simp: backupOK_def list_all_iff list_ex_iff)

text \<open>A backup of the sample game whose snapshot is ready.\<close>

definition snapshottingBackup :: PalworldBackup where
  "snapshottingBackup = updBackup (\<lambda>st. st\<lparr>bt_Phase := BackupPhaseSnapshotting, bt_StartTime := Some 0\<rparr>) sampleBackup"

definition readySnapshot :: Unstructured where
  "readySnapshot = \<lparr>un_GVK = VolumeSnapshotGVK, un_Meta = newMeta ''bk'' ''games'' Map.empty, un_Spec = JNull,
     un_Status = JObj [(''readyToUse'', JBool True)]\<rparr>"

definition backupWorld :: "(call, reply) world" where
  "backupWorld = \<lparr>srv = \<lambda>h c. (case c of
        Get kd key \<Rightarrow>
          if kd = GameKind then RObj (OGame sampleGame)
          else if kd = UnKind VolumeSnapshotGVK then RObj (OUn readySnapshot)
          else RErr (KErr NotFound [])
      | Now \<Rightarrow> RTime (90 * Second)
      | _ \<Rightarrow> ROk), hist = []\<rparr>"

definition sampleBackupReconciler :: PalworldBackupReconciler where
  "sampleBackupReconciler = \<lparr>br_Lib = refLib, br_APIReader = True, br_DefaultServerImage = [], br_capDone = True,
     br_openShift = False, br_hasSnapshot = True\<rparr>"

lemmas backup_sample_defs = backupWorld_def readySnapshot_def snapshottingBackup_def sampleBackupReconciler_def
  sampleBackup_def newBackupStatus_def sampleDestination_def newMeta_def refLib_def reconcileBackup_def
  stepBackup_def reconcileSnapshot_def snapshotDone_def completeBackup_def setBackupCondition_def
  setStatusCondition_def SnapshotReady_def SnapshotName_def now_def event_def

lemma snapshotting_writes:
  "\<exists>c x st. (c, x) \<in> set (events (reconcileBackup sampleBackupReconciler snapshottingBackup) backupWorld)
     \<and> backupWritten c = Some st \<and> bt_Phase st = BackupPhaseCompleted"
proof -
  have "list_ex (\<lambda>e. case backupWritten (fst e) of None \<Rightarrow> False | Some st \<Rightarrow> bt_Phase st = BackupPhaseCompleted)
      (events (reconcileBackup sampleBackupReconciler snapshottingBackup) backupWorld)"
    by (simp add: events_def fin_call val_call Let_def backup_sample_defs)
  then show ?thesis by (fastforce simp: list_ex_iff split: option.splits)
qed

theorem backup_completes_only_with_data_witness:
  "\<exists>e \<in> set (events (reconcileBackup sampleBackupReconciler snapshottingBackup) backupWorld).
     dataStored (x_ParseQuantity (br_Lib sampleBackupReconciler)) snapshottingBackup e"
  using ensuresD [OF backup_completes_only_with_data, of sampleBackupReconciler snapshottingBackup backupWorld]
    snapshotting_writes by blast

text \<open>
  C21: the life of a backup over any sequence of reconciles, with any answers of the cluster and any
  foreign changes to its metadata and spec: the phase moves only along the documented steps and never
  back, a completed or failed status is final, and a run that ends completed contains the evidence
  that the data was stored.
\<close>

theorem backup_phase_order:
  assumes "runs (reconcileBackup r) backupWritten b_Status b0 b tr"
  shows "backup_step\<^sup>*\<^sup>* (bt_Phase (b_Status b0)) (bt_Phase (b_Status b))
    \<and> backupRank (bt_Phase (b_Status b0)) \<le> backupRank (bt_Phase (b_Status b))
    \<and> (backupTerminal (bt_Phase (b_Status b0)) \<longrightarrow> b_Status b = b_Status b0)
    \<and> (bt_Phase (b_Status b0) \<noteq> BackupPhaseCompleted \<and> bt_Phase (b_Status b) = BackupPhaseCompleted
       \<longrightarrow> (\<exists>e \<in> set tr. \<exists>b. dataStored (x_ParseQuantity (br_Lib r)) b e))"
  using backup_machine.runs_steps [OF assms] backup_machine.runs_rank [OF assms]
    backup_machine.runs_terminal [OF assms] backup_machine.runs_late [OF assms] by blast

lemma snapshotting_run:
  "\<exists>b tr. runs (reconcileBackup sampleBackupReconciler) backupWritten b_Status snapshottingBackup b tr
     \<and> bt_Phase (b_Status b) = BackupPhaseCompleted"
proof -
  obtain c x st where w: "(c, x) \<in> set (events (reconcileBackup sampleBackupReconciler snapshottingBackup) backupWorld)"
      "backupWritten c = Some st" "bt_Phase st = BackupPhaseCompleted"
    using snapshotting_writes by blast
  then have "runs (reconcileBackup sampleBackupReconciler) backupWritten b_Status snapshottingBackup
      (snapshottingBackup\<lparr>b_Status := st\<rparr>) ([] @ events (reconcileBackup sampleBackupReconciler snapshottingBackup) backupWorld)"
    by (intro runs_step [OF runs_start]) auto
  with w(3) show ?thesis by fastforce
qed

theorem backup_phase_order_witness:
  "\<exists>tr. \<exists>e \<in> set tr. \<exists>b. dataStored (x_ParseQuantity (br_Lib sampleBackupReconciler)) b e"
proof -
  obtain b tr where "runs (reconcileBackup sampleBackupReconciler) backupWritten b_Status snapshottingBackup b tr"
      "bt_Phase (b_Status b) = BackupPhaseCompleted"
    using snapshotting_run by blast
  with backup_phase_order [OF this(1)] show ?thesis
    by (auto simp: snapshottingBackup_def sampleBackup_def)
qed

lemma failBackup_fails:
  "ensures (\<lambda>v es. \<exists>b' x. (StatusUpdate (OBackup b'), x) \<in> set es \<and> bt_Phase (b_Status b') = BackupPhaseFailed)
     (failBackup r b reason msg)"
  unfolding failBackup_def now_def event_def bind_assoc bind_ret by (intro ensures_intros) auto

text \<open>The object a waiting backup looks for: its snapshot, or its upload Job.\<close>

definition awaitedObject :: "PalworldBackup \<Rightarrow> call" where
  "awaitedObject b =
     (if bt_Phase (b_Status b) = BackupPhaseUploading then Get JobKind (b_Namespace b, BackupJobName (b_Name b))
      else Get (UnKind VolumeSnapshotGVK) (b_Namespace b, SnapshotName b))"

lemma requeueBackup_writes:
  "ensures (\<lambda>v es. \<exists>x. es = [(StatusUpdate (OBackup b), x)]) (requeueBackup b d)"
  unfolding requeueBackup_def by (intro ensures_intros) auto

text \<open>Operations that read no object.\<close>

fun isGet :: "call \<Rightarrow> bool" where
  "isGet (Get kd key) = True"
| "isGet _ = False"

definition noGets :: "(call \<times> reply) list \<Rightarrow> bool" where
  "noGets es \<longleftrightarrow> list_all (\<lambda>e. \<not> isGet (fst e)) es"

lemma noGets_iff: "noGets es \<longleftrightarrow> (\<forall>kd key x. (Get kd key, x) \<notin> set es)"
  unfolding noGets_def list_all_iff by (fastforce elim: isGet.elims)

lemma noGets_simps [simp]: "noGets []" "noGets (e # es) = (\<not> isGet (fst e) \<and> noGets es)"
  by (simp_all add: noGets_def)

lemma awaited_none: "noGets es \<Longrightarrow> (awaitedObject b, z) \<in> set ((Get GameKind key, x) # es) \<longleftrightarrow> False"
  by (auto simp: noGets_iff awaitedObject_def)

lemma awaited_once:
  "noGets es \<Longrightarrow> (awaitedObject b, z) \<in> set ((Get GameKind key, x) # (awaitedObject b, y) # es) \<longleftrightarrow> z = y"
  by (auto simp: noGets_iff awaitedObject_def)

lemma failBackup_noGets: "ensures (\<lambda>v es. noGets es) (failBackup r b reason msg)"
  unfolding failBackup_def now_def event_def bind_assoc bind_ret by (intro ensures_intros) simp

lemma snapshotDone_noGets: "ensures (\<lambda>v es. noGets es) (snapshotDone r b g)"
  unfolding snapshotDone_def completeBackup_def createUploadJob_def requeueBackup_def Let_def now_def event_def
    bind_assoc bind_ret
  by (intro ensures_intros) simp_all

lemma completeBackup_noGets: "ensures (\<lambda>v es. noGets es) (completeBackup r b)"
  unfolding completeBackup_def now_def event_def bind_assoc bind_ret by (intro ensures_intros) simp

lemma timedOut_bind_fails:
  assumes "bt_StartTime (b_Status b) = Some st"
  shows "ensures (\<lambda>v es. noGets es \<and> ((\<exists>n. (Now, n) \<in> set es \<and> backupPhaseTimeout < timeSub (asTime n) st)
        \<longrightarrow> (\<exists>b' x. (StatusUpdate (OBackup b'), x) \<in> set es \<and> bt_Phase (b_Status b') = BackupPhaseFailed)))
     (do { late \<leftarrow> timedOut b; if late then failBackup r b reason msg else ret v })"
  unfolding timedOut_def now_def
  using assms
  by (auto intro!: ensures_intros ensures_mono [OF ensures_conj [OF failBackup_fails failBackup_noGets]], blast+)

text \<open>What a waiting backup owes its deadline.\<close>

definition deadlineKept ::
    "PalworldBackupReconciler \<Rightarrow> PalworldBackup \<Rightarrow> time \<Rightarrow> (call \<times> reply) list \<Rightarrow> bool" where
  "deadlineKept r b st es \<longleftrightarrow>
     (\<forall>e. (awaitedObject b, RErr e) \<in> set es \<and> IsNotFound e
         \<and> (\<exists>n. (Now, n) \<in> set es \<and> backupPhaseTimeout < timeSub (asTime n) st)
       \<longrightarrow> (\<exists>b' x. (StatusUpdate (OBackup b'), x) \<in> set es \<and> bt_Phase (b_Status b') = BackupPhaseFailed))
      \<and> (\<forall>s. bt_Phase (b_Status b) \<noteq> BackupPhaseUploading \<and> (awaitedObject b, RObj (OUn s)) \<in> set es
           \<and> \<not> fst (SnapshotReady (x_ParseQuantity (br_Lib r)) s)
         \<longrightarrow> (\<exists>x. last es = (StatusUpdate (OBackup b), x)) \<and> list_all (\<lambda>e. fst e \<noteq> Now) es)"

lemma deadlineKept_none: "noGets es \<Longrightarrow> deadlineKept r b st ((Get GameKind key, x) # es)"
  unfolding deadlineKept_def awaited_none by blast

lemma deadlineKept_seen:
  assumes "noGets es" "\<And>e. y = RErr e \<Longrightarrow> \<not> IsNotFound e"
    and "\<And>s. bt_Phase (b_Status b) \<noteq> BackupPhaseUploading \<Longrightarrow> y = RObj (OUn s)
        \<Longrightarrow> fst (SnapshotReady (x_ParseQuantity (br_Lib r)) s)"
  shows "deadlineKept r b st ((Get GameKind key, x) # (awaitedObject b, y) # es)"
  using assms(2,3) unfolding deadlineKept_def awaited_once [OF assms(1)] by blast

lemma deadlineKept_missing:
  assumes "noGets es \<and> ((\<exists>n. (Now, n) \<in> set es \<and> backupPhaseTimeout < timeSub (asTime n) st)
        \<longrightarrow> (\<exists>b' x. (StatusUpdate (OBackup b'), x) \<in> set es \<and> bt_Phase (b_Status b') = BackupPhaseFailed))"
    and "\<And>s. bt_Phase (b_Status b) \<noteq> BackupPhaseUploading \<Longrightarrow> y \<noteq> RObj (OUn s)"
  shows "deadlineKept r b st ((Get GameKind key, x) # (awaitedObject b, y) # es)"
  using assms unfolding deadlineKept_def awaited_once [OF conjunct1 [OF assms(1)]] by (auto simp: awaitedObject_def)

lemma deadlineKept_waiting:
  "deadlineKept r b st [(Get GameKind key, x), (awaitedObject b, RObj ob), (StatusUpdate (OBackup b), z)]"
  by (auto simp: deadlineKept_def awaitedObject_def)

lemma reconcileSnapshot_deadline:
  assumes "bt_StartTime (b_Status b) = Some st" and "bt_Phase (b_Status b) \<noteq> BackupPhaseUploading"
  shows "ensures (\<lambda>v es. deadlineKept r b st ((Get GameKind key, x) # es)) (reconcileSnapshot r b g)"
proof -
  have a: "Get (UnKind VolumeSnapshotGVK) (b_Namespace b, SnapshotName b) = awaitedObject b"
    using assms(2) by (simp add: awaitedObject_def)
  show ?thesis unfolding reconcileSnapshot_def a Let_def
    apply (rule ensures_call_bind, rule ensures_sum, rule ensures_if)
    subgoal by (rule ensures_mono [OF timedOut_bind_fails [OF assms(1)]]) (auto intro!: deadlineKept_missing)
    subgoal by (rule ensures_ret, rule deadlineKept_seen) auto
    apply (rule ensures_prod, rule ensures_if)
    subgoal by (rule ensures_mono [OF requeueBackup_writes]) (auto simp: asUn_Inr deadlineKept_waiting)
    subgoal by (rule ensures_mono [OF snapshotDone_noGets], rule deadlineKept_seen) (auto simp: asUn_Inr)
    done
qed

lemma reconcileUpload_deadline:
  assumes "bt_StartTime (b_Status b) = Some st" and up: "bt_Phase (b_Status b) = BackupPhaseUploading"
  shows "ensures (\<lambda>v es. deadlineKept r b st ((Get GameKind key, x) # es)) (reconcileUpload r b g)"
proof -
  have a: "Get JobKind (b_Namespace b, BackupJobName (b_Name b)) = awaitedObject b"
    using up by (simp add: awaitedObject_def)
  show ?thesis unfolding reconcileUpload_def a cleanupTransient_def bind_assoc bind_ret
    apply (rule ensures_call_bind, rule ensures_sum, rule ensures_if)
    subgoal by (rule ensures_mono [OF timedOut_bind_fails [OF assms(1)]]) (auto intro!: deadlineKept_missing simp: up)
    subgoal by (rule ensures_ret, rule deadlineKept_seen) (auto simp: up)
    subgoal by (auto simp: asJob_Inr up intro!: ensures_intros deadlineKept_seen ensures_mono [OF completeBackup_noGets]
          ensures_mono [OF failBackup_noGets] ensures_mono [OF requeueBackup_writes])
    done
qed


definition missingWorld :: "(call, reply) world" where
  "missingWorld = \<lparr>srv = \<lambda>h c. (case c of
        Get kd key \<Rightarrow> if kd = GameKind then RObj (OGame sampleGame) else RErr (KErr NotFound [])
      | Now \<Rightarrow> RTime (3000 * Second)
      | _ \<Rightarrow> ROk), hist = []\<rparr>"

lemma missing_events:
  "take 3 (events (reconcileBackup sampleBackupReconciler snapshottingBackup) missingWorld) =
     [(Get GameKind (''games'', ''pal''), RObj (OGame sampleGame)),
      (Get (UnKind VolumeSnapshotGVK) (''games'', SnapshotName snapshottingBackup), RErr (KErr NotFound [])),
      (Now, RTime (3000 * Second))]"
  by (simp add: events_def fin_call val_call Let_def backup_sample_defs missingWorld_def timedOut_def failBackup_def
      reason_defs backupPhaseTimeout_def timeSub_def clamp64_def Second_def Minute_def)

lemma snapshottingBackup_simps [simp]:
  "awaitedObject snapshottingBackup = Get (UnKind VolumeSnapshotGVK) (''games'', SnapshotName snapshottingBackup)"
  "bt_Phase (b_Status snapshottingBackup) = BackupPhaseSnapshotting"
  "bt_StartTime (b_Status snapshottingBackup) = Some 0"
  by (simp_all add: awaitedObject_def snapshottingBackup_def sampleBackup_def newMeta_def)




end
