(* ===== verification/RestoreController.thy ===== *)
theory RestoreController
  imports BackupController
begin

text \<open>
  \<^verbatim>\<open>internal/controller/palworldrestore_controller.go\<close>: a restore stops the game, waits until no pod
  runs, replaces the world data from a snapshot or a tarball, and scales the game back. The plan is
  resolved before the phase switch of every reconcile.
\<close>

record PalworldRestoreReconciler =
  rr_Lib :: Lib
  rr_DefaultServerImage :: string
  rr_openShift :: bool
  rr_probed :: bool

record restorePlan =
  plan_tarball :: bool
  plan_snapshot :: string
  plan_dest :: BackupDestination
  plan_key :: string

definition noDestination :: BackupDestination where
  "noDestination = \<lparr>bd_Type = BackupDestinationUnset, bd_S3 = None, bd_PVCName = [], bd_PVCPath = []\<rparr>"

definition restoredAnnotation :: string where
  "restoredAnnotation = ''palworld.twodcube.io/restored-from''"

definition directSourcePlan :: "BackupDestination \<Rightarrow> restorePlan res" where
  "directSourcePlan src =
     (case bd_Type src of
        BackupDestinationVolumeSnapshot \<Rightarrow> Inl (errorf ''direct VolumeSnapshot source requires backupRef'')
      | BackupDestinationS3 \<Rightarrow>
          (case bd_S3 src of
             None \<Rightarrow> Inl (errorf ''source.s3 is required for the S3 source type'')
           | Some s3 \<Rightarrow>
               if s3_Bucket s3 = [] then Inl (errorf ''source.s3.bucket is required for the S3 source type'')
               else if s3_CredentialsSecret s3 = []
               then Inl (errorf ''source.s3.credentialsSecret is required for the S3 source type'')
               else if s3_Prefix s3 = []
               then Inl (errorf (''source.s3.prefix is required for a direct S3 source: ''
                      @ ''it carries the full object key of the archive (e.g. '' @ [CHR 0x22]
                      @ ''seeds/world.tar.gz'' @ [CHR 0x22] @ '')''))
               else Inr \<lparr>plan_tarball = True, plan_snapshot = [],
                         plan_dest = src\<lparr>bd_S3 := Some (s3\<lparr>s3_Prefix := []\<rparr>)\<rparr>,
                         plan_key = s3_Prefix s3\<rparr>)
      | BackupDestinationPVC \<Rightarrow>
          if bd_PVCName src = [] then Inl (errorf ''source.pvcName is required for the PVC source type'')
          else if bd_PVCPath src = []
          then Inl (errorf (''source.pvcPath is required for a direct PVC source: it is the archive''
                 @ [CHR 0x27] @ ''s path inside '' @ quote (bd_PVCName src)
                 @ '', relative to the mount root (e.g. '' @ [CHR 0x22] @ ''seeds/world.tar.gz'' @ [CHR 0x22] @ '')''))
          else Inr \<lparr>plan_tarball = True, plan_snapshot = [], plan_dest = src, plan_key = bd_PVCPath src\<rparr>
      | t \<Rightarrow> Inl (errorf (''unsupported source type '' @ quote (destTypeString t))))"

definition backupPlan :: "PalworldRestore \<Rightarrow> PalworldBackup \<Rightarrow> restorePlan res" where
  "backupPlan rs backup =
     (if bt_Phase (b_Status backup) \<noteq> BackupPhaseCompleted
      then Inl (errorf (''backup '' @ quote (rs_BackupRef (r_Spec rs)) @ '' is not completed''))
      else if bt_VolumeSnapshotName (b_Status backup) \<noteq> []
      then Inr \<lparr>plan_tarball = False, plan_snapshot = bt_VolumeSnapshotName (b_Status backup),
                plan_dest = noDestination, plan_key = []\<rparr>
      else Inr \<lparr>plan_tarball = True, plan_snapshot = [], plan_dest = bs_Destination (b_Spec backup),
                plan_key = rs_GameRef (r_Spec rs) @ ''/'' @ b_Name backup @ ''.tar.gz''\<rparr>)"

definition resolvePlan :: "PalworldRestore \<Rightarrow> restorePlan res k" where
  "resolvePlan rs =
     (if rs_BackupRef (r_Spec rs) \<noteq> [] then do {
        x \<leftarrow> call (Get BackupKind (r_Namespace rs, rs_BackupRef (r_Spec rs)));
        ret (case asBackup x of
               Inl e \<Rightarrow> Inl (wrapErr (''backup '' @ quote (rs_BackupRef (r_Spec rs)) @ '': '') e)
             | Inr backup \<Rightarrow> backupPlan rs backup)
      }
      else ret (case rs_Source (r_Spec rs) of
                  Some src \<Rightarrow> directSourcePlan src
                | None \<Rightarrow> Inl (errorf ''one of backupRef or source must be set'')))"

section \<open>Ends of a reconcile\<close>

definition failRestore ::
    "PalworldRestoreReconciler \<Rightarrow> PalworldRestore \<Rightarrow> string \<Rightarrow> string \<Rightarrow> (Result \<times> kerr option) k" where
  "failRestore r rs reason message = do {
     t \<leftarrow> now;
     rs \<leftarrow> ret (updRestore (\<lambda>st. st\<lparr>rt_CompletionTime := Some t, rt_Phase := RestorePhaseFailed,
              rt_Message := message,
              rt_Conditions := setStatusCondition (rr_Lib r) (rt_Conditions st) ''Ready'' ConditionFalse
                reason message (m_Generation (r_Meta rs))\<rparr>) rs);
     event (ORestore rs) EventWarning reason message;
     s \<leftarrow> call (StatusUpdate (ORestore rs));
     ret (noResult, asErr s)
   }"

definition requeueRestore :: "PalworldRestore \<Rightarrow> duration \<Rightarrow> (Result \<times> kerr option) k" where
  "requeueRestore rs after = do {
     s \<leftarrow> call (StatusUpdate (ORestore rs));
     ret (case asErr s of
            Some e \<Rightarrow> if IsConflict e then (requeueNow, None) else (noResult, Some e)
          | None \<Rightarrow> (requeueAfter after, None))
   }"

definition restoreServerImage :: "PalworldRestoreReconciler \<Rightarrow> string" where
  "restoreServerImage r =
     (if rr_DefaultServerImage r \<noteq> [] then rr_DefaultServerImage r else defaultServerImageFallback)"

definition SetupRestore :: "(string \<Rightarrow> string) \<Rightarrow> PalworldRestoreReconciler \<Rightarrow> PalworldRestoreReconciler" where
  "SetupRestore getenv r =
     r\<lparr>rr_DefaultServerImage :=
          (if rr_DefaultServerImage r = [] then envOr getenv ''DEFAULT_SERVER_IMAGE'' defaultServerImageFallback
           else rr_DefaultServerImage r)\<rparr>"

section \<open>The phases\<close>

definition scaleGame :: "PalworldGame \<Rightarrow> int32 \<Rightarrow> kerr option k" where
  "scaleGame g replicas = do {
     x \<leftarrow> call (Get GameKind (g_Namespace g, g_Name g));
     case asGame x of
       Inl e \<Rightarrow> ret (Some e)
     | Inr fresh \<Rightarrow>
         if gs_Replicas (g_Spec fresh) = Some replicas then ret None
         else do {
           u \<leftarrow> call (Update (OGame (fresh\<lparr>g_Spec := (g_Spec fresh)\<lparr>gs_Replicas := Some replicas\<rparr>\<rparr>)));
           ret (asErr u)
         }
   }"

definition stopGame ::
    "PalworldRestoreReconciler \<Rightarrow> PalworldRestore \<Rightarrow> PalworldGame \<Rightarrow> (Result \<times> kerr option) k" where
  "stopGame r rs g =
     (if DesiredReplicas g \<noteq> 0 \<and> \<not> rs_Force (r_Spec rs)
      then failRestore r rs ''GameRunning'' ''game is running; set spec.force=true to stop it for restore''
      else do {
        rs \<leftarrow> (case rt_StartTime (r_Status rs) of
                 None \<Rightarrow> do { t \<leftarrow> now; ret (updRestore (rt_StartTime_update (\<lambda>_. Some t)) rs) }
               | Some st \<Rightarrow> ret rs);
        rs \<leftarrow> ret (case rt_OriginalReplicas (r_Status rs) of
                    None \<Rightarrow> updRestore (rt_OriginalReplicas_update (\<lambda>_. Some (DesiredReplicas g))) rs
                  | Some n \<Rightarrow> rs);
        e \<leftarrow> scaleGame g 0;
        case e of
          Some x \<Rightarrow> ret (noResult, Some x)
        | None \<Rightarrow>
            (let rs = updRestore (\<lambda>st. st\<lparr>rt_Phase := RestorePhaseStopping,
                                         rt_Message := ''Stopping server for restore''\<rparr>) rs in do {
               event (ORestore rs) EventNormal ''Stopping'' ''Scaling game to 0 for restore'';
               requeueRestore rs (5 * Second)
             })
      })"

definition awaitStopped :: "PalworldRestore \<Rightarrow> PalworldGame \<Rightarrow> (Result \<times> kerr option) k" where
  "awaitStopped rs g = do {
     x \<leftarrow> call (Get StsKind (g_Namespace g, StatefulSetName g));
     case (case asSts x of Inl e \<Rightarrow> if IsNotFound e then Inr None else Inl e | Inr sts \<Rightarrow> Inr (Some sts)) of
       Inl e \<Rightarrow> ret (noResult, Some e)
     | Inr sts \<Rightarrow>
         if (case sts of Some s \<Rightarrow> 0 < sts_StatusReplicas s \<or> 0 < sts_StatusReadyReplicas s | None \<Rightarrow> False)
         then requeueRestore rs (5 * Second)
         else requeueRestore
                (updRestore (\<lambda>st. st\<lparr>rt_Phase := RestorePhaseRestoring,
                                    rt_Message := ''Restoring world data''\<rparr>) rs) (2 * Second)
   }"

definition awaitTarballRestore ::
    "PalworldRestoreReconciler \<Rightarrow> PalworldRestore \<Rightarrow> PalworldGame \<Rightarrow> restorePlan \<Rightarrow> (Result \<times> kerr option) k" where
  "awaitTarballRestore r rs g plan = do {
     x \<leftarrow> call (Get JobKind (r_Namespace rs, RestoreJobName (r_Name rs)));
     case asJob x of
       Inl e \<Rightarrow>
         if IsNotFound e then
           (let img = ResolveServerImage g \<lparr>p_OpenShift = False, p_OperatorImage = [], p_DefaultServerImage = restoreServerImage r\<rparr>;
                newJob = DesiredRestoreJob g (r_Name rs) img (plan_key plan) (plan_dest plan) (rr_openShift r)
            in case x_SetControllerReference (rr_Lib r) ''PalworldRestore'' (r_Meta rs) (job_Meta newJob) of
                 Inl e' \<Rightarrow> ret (noResult, Some e')
               | Inr m \<Rightarrow> do {
                   c \<leftarrow> call (Create (OJob (newJob\<lparr>job_Meta := m\<rparr>)));
                   case (case asErr c of Some e' \<Rightarrow> if IsAlreadyExists e' then None else Some e' | None \<Rightarrow> None) of
                     Some e' \<Rightarrow> ret (noResult, Some e')
                   | None \<Rightarrow>
                       (let name = (case asJob c of Inr j \<Rightarrow> m_Name (job_Meta j) | Inl _ \<Rightarrow> m_Name m) in
                        requeueRestore (updRestore (rt_JobName_update (\<lambda>_. name)) rs) (10 * Second))
                 })
         else ret (noResult, Some e)
     | Inr job \<Rightarrow>
         if 1 \<le> job_Succeeded job
         then requeueRestore (updRestore (rt_Phase_update (\<lambda>_. RestorePhaseStarting)) rs) (2 * Second)
         else if isJobFailed job then failRestore r rs ''RestoreFailed'' ''restore job failed''
         else requeueRestore rs (10 * Second)
   }"

definition restoredPVC :: "PalworldGame \<Rightarrow> string \<Rightarrow> PersistentVolumeClaim" where
  "restoredPVC g snapshot =
     (let pvc = DesiredRestorePVCFromSnapshot g (DataPVCName g) snapshot in
      pvc\<lparr>pvc_Meta := (pvc_Meta pvc)\<lparr>m_Annotations :=
            (m_Annotations (pvc_Meta pvc))(restoredAnnotation \<mapsto> snapshot)\<rparr>\<rparr>)"

definition awaitSnapshotRestore ::
    "PalworldRestore \<Rightarrow> PalworldGame \<Rightarrow> restorePlan \<Rightarrow> (Result \<times> kerr option) k" where
  "awaitSnapshotRestore rs g plan =
     (let name = DataPVCName g in do {
        x \<leftarrow> call (Get PVCKind (g_Namespace g, name));
        case asPVC x of
          Inr pvc \<Rightarrow>
            if (case m_Annotations (pvc_Meta pvc) restoredAnnotation of None \<Rightarrow> [] | Some s \<Rightarrow> s) = plan_snapshot plan
            then requeueRestore (updRestore (rt_Phase_update (\<lambda>_. RestorePhaseStarting)) rs) (2 * Second)
            else if m_DeletionTimestamp (pvc_Meta pvc) = None then do {
              d \<leftarrow> call (Delete PVCKind (m_Namespace (pvc_Meta pvc), m_Name (pvc_Meta pvc)));
              case asErr d of
                Some e \<Rightarrow> ret (noResult, IgnoreNotFound (Some e))
              | None \<Rightarrow> requeueRestore rs (3 * Second)
            }
            else requeueRestore rs (3 * Second)
        | Inl e \<Rightarrow>
            if \<not> IsNotFound e then ret (noResult, Some e)
            else do {
              c \<leftarrow> call (Create (OPVC (restoredPVC g (plan_snapshot plan))));
              case (case asErr c of Some e' \<Rightarrow> if IsAlreadyExists e' then None else Some e' | None \<Rightarrow> None) of
                Some e' \<Rightarrow> ret (noResult, Some e')
              | None \<Rightarrow> requeueRestore rs (3 * Second)
            }
      })"

definition awaitRestore ::
    "PalworldRestoreReconciler \<Rightarrow> PalworldRestore \<Rightarrow> PalworldGame \<Rightarrow> restorePlan \<Rightarrow> (Result \<times> kerr option) k" where
  "awaitRestore r rs g plan =
     (if plan_tarball plan then awaitTarballRestore r rs g plan else awaitSnapshotRestore rs g plan)"

definition startGame ::
    "PalworldRestoreReconciler \<Rightarrow> PalworldRestore \<Rightarrow> PalworldGame \<Rightarrow> (Result \<times> kerr option) k" where
  "startGame r rs g =
     (let target = (case rt_OriginalReplicas (r_Status rs) of Some n \<Rightarrow> n | None \<Rightarrow> 1) in do {
        e \<leftarrow> scaleGame g target;
        case e of
          Some x \<Rightarrow> ret (noResult, Some x)
        | None \<Rightarrow> do {
            t \<leftarrow> now;
            rs \<leftarrow> ret (updRestore (\<lambda>st. st\<lparr>rt_CompletionTime := Some t, rt_Phase := RestorePhaseCompleted,
                     rt_Message := ''Restore completed; server restarting'',
                     rt_Conditions := setStatusCondition (rr_Lib r) (rt_Conditions st) ''Ready'' ConditionTrue
                       ''Completed'' ''Restore completed'' (m_Generation (r_Meta rs))\<rparr>) rs);
            event (ORestore rs) EventNormal ''Restored'' ''World restored; game scaled back up'';
            s \<leftarrow> call (StatusUpdate (ORestore rs));
            ret (noResult, asErr s)
          }
      })"

definition stepRestore ::
    "PalworldRestoreReconciler \<Rightarrow> PalworldRestore \<Rightarrow> PalworldGame \<Rightarrow> restorePlan \<Rightarrow> (Result \<times> kerr option) k" where
  "stepRestore r rs g plan =
     (case rt_Phase (r_Status rs) of
        RestorePhaseUnset \<Rightarrow> stopGame r rs g
      | RestorePhasePending \<Rightarrow> stopGame r rs g
      | RestorePhaseStopping \<Rightarrow> awaitStopped rs g
      | RestorePhaseRestoring \<Rightarrow> awaitRestore r rs g plan
      | RestorePhaseStarting \<Rightarrow> startGame r rs g
      | _ \<Rightarrow> ret (noResult, None))"

definition reconcileRestore ::
    "PalworldRestoreReconciler \<Rightarrow> PalworldRestore \<Rightarrow> (Result \<times> kerr option) k" where
  "reconcileRestore r rs =
     (if rt_Phase (r_Status rs) = RestorePhaseCompleted \<or> rt_Phase (r_Status rs) = RestorePhaseFailed
      then ret (noResult, None)
      else do {
        x \<leftarrow> call (Get GameKind (r_Namespace rs, rs_GameRef (r_Spec rs)));
        case asGame x of
          Inl e \<Rightarrow>
            if IsNotFound e then failRestore r rs ''GameNotFound'' ''referenced PalworldGame not found''
            else ret (noResult, Some e)
        | Inr g \<Rightarrow> do {
            p \<leftarrow> resolvePlan rs;
            case p of
              Inl e \<Rightarrow> failRestore r rs ''InvalidSource'' (messageOf e)
            | Inr plan \<Rightarrow> stepRestore r rs g plan
          }
      })"

definition ReconcileRestore ::
    "PalworldRestoreReconciler \<Rightarrow> objKey \<Rightarrow> (PalworldRestoreReconciler \<times> Result \<times> kerr option) k" where
  "ReconcileRestore r key = do {
     x \<leftarrow> call (Get RestoreKind key);
     case asRestore x of
       Inl e \<Rightarrow> ret (r, noResult, IgnoreNotFound (Some e))
     | Inr rs \<Rightarrow> do {
         r \<leftarrow> (if rr_probed r then ret r
               else do { os \<leftarrow> hasAPI RouteGVK; ret (r\<lparr>rr_openShift := os, rr_probed := True\<rparr>) });
         (res, err) \<leftarrow> reconcileRestore r rs;
         ret (r, res, err)
       }
   }"

section \<open>The phase machine\<close>

inductive restore_step :: "RestorePhase \<Rightarrow> RestorePhase \<Rightarrow> bool" where
  stop: "p = RestorePhaseUnset \<or> p = RestorePhasePending \<Longrightarrow> restore_step p RestorePhaseStopping"
| wait: "p = RestorePhaseStopping \<or> p = RestorePhaseRestoring \<Longrightarrow> restore_step p p"
| stopped: "restore_step RestorePhaseStopping RestorePhaseRestoring"
| restored: "restore_step RestorePhaseRestoring RestorePhaseStarting"
| completed: "restore_step RestorePhaseStarting RestorePhaseCompleted"
| failed: "p \<noteq> RestorePhaseCompleted \<and> p \<noteq> RestorePhaseFailed \<Longrightarrow> restore_step p RestorePhaseFailed"

inductive_simps restore_step_simps:
  "restore_step p RestorePhaseStopping" "restore_step p RestorePhaseRestoring"
  "restore_step p RestorePhaseStarting" "restore_step p RestorePhaseCompleted"
  "restore_step p RestorePhaseFailed" "restore_step p RestorePhaseUnset" "restore_step p RestorePhasePending"

fun restoreRank :: "RestorePhase \<Rightarrow> nat" where
  "restoreRank RestorePhaseUnset = 0"
| "restoreRank RestorePhasePending = 0"
| "restoreRank RestorePhaseStopping = 1"
| "restoreRank RestorePhaseRestoring = 2"
| "restoreRank RestorePhaseStarting = 3"
| "restoreRank RestorePhaseCompleted = 4"
| "restoreRank RestorePhaseFailed = 4"

definition restoreTerminal :: "RestorePhase \<Rightarrow> bool" where
  "restoreTerminal p \<longleftrightarrow> p = RestorePhaseCompleted \<or> p = RestorePhaseFailed"

text \<open>The status a call persists.\<close>

fun restoreWritten :: "call \<Rightarrow> PalworldRestoreStatus option" where
  "restoreWritten (StatusUpdate (ORestore rs)) = Some (r_Status rs)"
| "restoreWritten _ = None"

text \<open>The phases past the stop, the evidence that the server is down, and the calls that touch the data.\<close>

definition pastStop :: "RestorePhase \<Rightarrow> bool" where
  "pastStop p \<longleftrightarrow> p = RestorePhaseRestoring \<or> p = RestorePhaseStarting \<or> p = RestorePhaseCompleted"

fun seenStopped :: "call \<times> reply \<Rightarrow> bool" where
  "seenStopped (Get StsKind key, RObj (OSts s)) = (sts_StatusReplicas s \<le> 0 \<and> sts_StatusReadyReplicas s \<le> 0)"
| "seenStopped (Get StsKind key, RErr e) = IsNotFound e"
| "seenStopped _ = False"

fun touchesData :: "call \<Rightarrow> bool" where
  "touchesData (Delete kd key) = True"
| "touchesData (Create ob) = True"
| "touchesData _ = False"

definition restoreOK :: "PalworldRestore \<Rightarrow> (call \<times> reply) list \<Rightarrow> bool" where
  "restoreOK rs es \<longleftrightarrow>
     (let p = rt_Phase (r_Status rs) in
      list_all (\<lambda>(c, x). (case restoreWritten c of
                   None \<Rightarrow> True
                 | Some st \<Rightarrow> restore_step p (rt_Phase st)
                     \<and> (pastStop (rt_Phase st) \<and> \<not> pastStop p \<longrightarrow> list_ex seenStopped es))
          \<and> (touchesData c \<longrightarrow> pastStop p)) es)"

lemma seenStopped_append: "list_ex seenStopped (es @ es') = (list_ex seenStopped es \<or> list_ex seenStopped es')"
  by (rule list_ex_append)

text \<open>Calls that neither persist a status nor touch data leave the condition alone.\<close>

interpretation ok_frame: quiet_frame "\<lambda>c. restoreWritten c = None \<and> \<not> touchesData c" "\<lambda>v. restoreOK rs"
  by unfold_locales (fastforce simp: restoreOK_def Let_def list_all_iff split: option.splits)

lemma failRestore_ok:
  "\<not> restoreTerminal (rt_Phase (r_Status rs)) \<Longrightarrow> ensures (\<lambda>v es. restoreOK rs es) (failRestore r rs' reason msg)"
  unfolding failRestore_def now_def event_def
  by (simp, intro ensures_intros)
    (simp add: restoreOK_def restore_step_simps pastStop_def restoreTerminal_def)

lemma requeueRestore_ok:
  "restore_step (rt_Phase (r_Status rs)) (rt_Phase (r_Status rs'))
   \<Longrightarrow> pastStop (rt_Phase (r_Status rs')) = pastStop (rt_Phase (r_Status rs))
   \<Longrightarrow> ensures (\<lambda>v es. restoreOK rs es) (requeueRestore rs' d)"
  unfolding requeueRestore_def
  by (intro ensures_intros) (simp add: restoreOK_def Let_def)

lemma scaleGame_quiet:
  "ensures (\<lambda>v es. list_all (\<lambda>e. restoreWritten (fst e) = None \<and> \<not> touchesData (fst e)) es) (scaleGame g n)"
  unfolding scaleGame_def by (intro ensures_intros) simp_all

lemma restoreOK_nil: "restoreOK rs []"
  by (simp add: restoreOK_def)

lemmas quiet_bind = ok_frame.action_bind and quiet_call_bind = ok_frame.call_bind

lemma stopGame_ok:
  assumes "rt_Phase (r_Status rs) = RestorePhaseUnset \<or> rt_Phase (r_Status rs) = RestorePhasePending"
  shows "ensures (\<lambda>v es. restoreOK rs es) (stopGame r rs g)"
proof -
  have nt: "\<not> restoreTerminal (rt_Phase (r_Status rs))" using assms by (auto simp: restoreTerminal_def)
  have req: "ensures (\<lambda>v es. restoreOK rs es) (requeueRestore rs' d)"
    if "rt_Phase (r_Status rs') = RestorePhaseStopping" for rs' d
    using assms that by (intro requeueRestore_ok) (auto simp: restore_step_simps pastStop_def)
  show ?thesis
    unfolding stopGame_def Let_def event_def now_def bind_option bind_assoc bind_ret
    by (auto intro!: ensures_if ensures_option quiet_call_bind quiet_bind [OF scaleGame_quiet]
        failRestore_ok [OF nt] req ensures_ret simp: restoreOK_nil)
qed

lemma awaitStopped_ok:
  assumes "rt_Phase (r_Status rs) = RestorePhaseStopping"
  shows "ensures (\<lambda>v es. restoreOK rs es) (awaitStopped rs g)"
proof -
  have stopped: "seenStopped (Get StsKind key, x)"
    if "(case asSts x of Inl e \<Rightarrow> if IsNotFound e then Inr None else Inl e | Inr s \<Rightarrow> Inr (Some s)) = Inr sts"
      "\<not> (case sts of Some s \<Rightarrow> 0 < sts_StatusReplicas s \<or> 0 < sts_StatusReadyReplicas s | None \<Rightarrow> False)"
    for key x sts
    using that by (cases x rule: asSts.cases) (auto simp: badReply_def errorf_def IsNotFound_def split: if_splits)
  show ?thesis
    unfolding awaitStopped_def requeueRestore_def
    apply (rule ensures_call_bind, rule ensures_sum)
    subgoal by (rule ensures_ret) (simp add: restoreOK_def)
    apply (rule ensures_if)
    subgoal by (intro ensures_intros) (simp add: restoreOK_def restore_step.wait assms pastStop_def)
    subgoal by (intro ensures_intros) (simp add: restoreOK_def restore_step.stopped assms pastStop_def stopped)
    done
qed

lemma awaitTarballRestore_ok:
  assumes "rt_Phase (r_Status rs) = RestorePhaseRestoring"
  shows "ensures (\<lambda>v es. restoreOK rs es) (awaitTarballRestore r rs g plan)"
  unfolding awaitTarballRestore_def requeueRestore_def failRestore_def Let_def now_def event_def
    bind_option bind_assoc bind_ret
  by (intro ensures_intros)
    (simp_all add: restoreOK_def restore_step.intros assms pastStop_def)

lemma awaitSnapshotRestore_ok:
  assumes "rt_Phase (r_Status rs) = RestorePhaseRestoring"
  shows "ensures (\<lambda>v es. restoreOK rs es) (awaitSnapshotRestore rs g plan)"
  unfolding awaitSnapshotRestore_def requeueRestore_def Let_def
  by (intro ensures_intros)
    (simp_all add: restoreOK_def restore_step.intros assms pastStop_def)

lemma startGame_ok:
  assumes "rt_Phase (r_Status rs) = RestorePhaseStarting"
  shows "ensures (\<lambda>v es. restoreOK rs es) (startGame r rs g)"
  unfolding startGame_def Let_def now_def event_def bind_option bind_assoc bind_ret
  by (rule quiet_bind [OF scaleGame_quiet], intro ensures_intros)
    (simp_all add: restoreOK_def restore_step.intros assms pastStop_def)

lemma reconcileRestore_ok: "ensures (\<lambda>v es. restoreOK rs es) (reconcileRestore r rs)"
proof -
  have step: "ensures (\<lambda>v es. restoreOK rs es) (stepRestore r rs g plan)" for g plan
    by (cases "rt_Phase (r_Status rs)")
      (simp_all add: stepRestore_def stopGame_ok awaitStopped_ok awaitRestore_def awaitTarballRestore_ok
        awaitSnapshotRestore_ok startGame_ok ensures_ret restoreOK_nil)
  have plan: "ensures (\<lambda>v es. list_all (\<lambda>e. restoreWritten (fst e) = None \<and> \<not> touchesData (fst e)) es) (resolvePlan rs)"
    unfolding resolvePlan_def by (intro ensures_intros) simp_all
  show ?thesis
    unfolding reconcileRestore_def
    by (auto intro!: ensures_if ensures_sum quiet_call_bind quiet_bind [OF plan] failRestore_ok step
        ensures_ret simp: restoreOK_nil restoreTerminal_def)
qed

interpretation restore_machine: guarded_phases "reconcileRestore r" restoreWritten r_Status rt_Phase
    restore_step restoreRank restoreTerminal pastStop seenStopped touchesData
proof
  fix ob
  note ok = reconcileRestore_ok [of ob r]
  show "ensures (\<lambda>v es. \<forall>c x st. (c, x) \<in> set es \<and> restoreWritten c = Some st
      \<longrightarrow> restore_step (rt_Phase (r_Status ob)) (rt_Phase st)) (reconcileRestore r ob)"
    by (rule ensures_mono [OF ok]) (fastforce simp: restoreOK_def Let_def list_all_iff)
  show "ensures (\<lambda>v es. \<forall>c x st. (c, x) \<in> set es \<and> restoreWritten c = Some st \<and> pastStop (rt_Phase st)
      \<and> \<not> pastStop (rt_Phase (r_Status ob)) \<longrightarrow> (\<exists>e \<in> set es. seenStopped e)) (reconcileRestore r ob)"
    by (rule ensures_mono [OF ok]) (fastforce simp: restoreOK_def Let_def list_all_iff list_ex_iff)
  show "ensures (\<lambda>v es. \<forall>c x. (c, x) \<in> set es \<and> touchesData c \<longrightarrow> pastStop (rt_Phase (r_Status ob)))
      (reconcileRestore r ob)"
    by (rule ensures_mono [OF ok]) (fastforce simp: restoreOK_def Let_def list_all_iff)
next
  fix p q
  show "restore_step p q \<Longrightarrow> restoreRank p \<le> restoreRank q"
    by (cases p; cases q) (simp_all add: restore_step_simps)
  show "restoreTerminal p \<Longrightarrow> \<not> restore_step p q"
    by (cases q) (auto simp: restore_step_simps restoreTerminal_def)
qed

section \<open>Properties\<close>


text \<open>A snapshot restore of the sample game whose StatefulSet and volume are gone.\<close>

definition stoppingRestore :: PalworldRestore where
  "stoppingRestore = updRestore (rt_Phase_update (\<lambda>_. RestorePhaseStopping)) sampleRestore"

definition restoringRestore :: PalworldRestore where
  "restoringRestore = updRestore (\<lambda>st. st\<lparr>rt_Phase := RestorePhaseRestoring, rt_Message := ''Restoring world data''\<rparr>) sampleRestore"

definition snapshotBackup :: PalworldBackup where
  "snapshotBackup = updBackup (\<lambda>st. st\<lparr>bt_Phase := BackupPhaseCompleted, bt_VolumeSnapshotName := ''bk''\<rparr>) sampleBackup"

definition restoreWorld :: "(call, reply) world" where
  "restoreWorld = \<lparr>srv = \<lambda>h c. (case c of
        Get kd key \<Rightarrow>
          if kd = GameKind then RObj (OGame sampleGame)
          else if kd = BackupKind then RObj (OBackup snapshotBackup)
          else RErr (KErr NotFound [])
      | _ \<Rightarrow> ROk), hist = []\<rparr>"

definition sampleRestoreReconciler :: PalworldRestoreReconciler where
  "sampleRestoreReconciler = \<lparr>rr_Lib = refLib, rr_DefaultServerImage = [], rr_openShift = False, rr_probed = True\<rparr>"

lemmas restore_sample_defs = restoreWorld_def snapshotBackup_def sampleRestoreReconciler_def
  stoppingRestore_def restoringRestore_def sampleRestore_def sampleBackup_def newBackupStatus_def
  newMeta_def reconcileRestore_def resolvePlan_def backupPlan_def stepRestore_def awaitStopped_def
  awaitRestore_def awaitSnapshotRestore_def requeueRestore_def StatefulSetName_def reason_defs
  noDestination_def

lemma stopping_events:
  "events (reconcileRestore sampleRestoreReconciler stoppingRestore) restoreWorld =
     [(Get GameKind (''games'', ''pal''), RObj (OGame sampleGame)),
      (Get BackupKind (''games'', ''bk''), RObj (OBackup snapshotBackup)),
      (Get StsKind (''games'', ''pal''), RErr (KErr NotFound [])),
      (StatusUpdate (ORestore restoringRestore), ROk)]"
  by (simp add: events_def fin_call val_call Let_def restore_sample_defs)

lemma restoring_events:
  "events (reconcileRestore sampleRestoreReconciler restoringRestore) restoreWorld =
     [(Get GameKind (''games'', ''pal''), RObj (OGame sampleGame)),
      (Get BackupKind (''games'', ''bk''), RObj (OBackup snapshotBackup)),
      (Get PVCKind (''games'', DataPVCName sampleGame), RErr (KErr NotFound [])),
      (Create (OPVC (restoredPVC sampleGame ''bk'')), ROk),
      (StatusUpdate (ORestore restoringRestore), ROk)]"
  by (simp add: events_def fin_call val_call Let_def restore_sample_defs)

lemma sample_run:
  "runs (reconcileRestore sampleRestoreReconciler) restoreWritten r_Status stoppingRestore restoringRestore
     (events (reconcileRestore sampleRestoreReconciler stoppingRestore) restoreWorld
      @ events (reconcileRestore sampleRestoreReconciler restoringRestore) restoreWorld)"
proof -
  have "runs (reconcileRestore sampleRestoreReconciler) restoreWritten r_Status stoppingRestore restoringRestore
      ([] @ events (reconcileRestore sampleRestoreReconciler stoppingRestore) restoreWorld)"
  proof (rule runs_step [OF runs_start], rule disjI2)
    have "(StatusUpdate (ORestore restoringRestore), ROk)
        \<in> set (events (reconcileRestore sampleRestoreReconciler stoppingRestore) restoreWorld)"
      by (simp add: stopping_events)
    then show "\<exists>c x. (c, x) \<in> set (events (reconcileRestore sampleRestoreReconciler stoppingRestore) restoreWorld)
        \<and> restoreWritten c = Some (r_Status restoringRestore)"
      by force
  qed
  from runs_step [OF this, of restoringRestore restoreWorld] show ?thesis by simp
qed


text \<open>
  C20: the phase of a restore moves only along the documented steps (pending, stopping, restoring,
  starting, completed, or failed from any of them), never back, and a terminal status is final.
\<close>

theorem restore_phase_order:
  assumes "runs (reconcileRestore r) restoreWritten r_Status rs0 rs tr"
  shows "restore_step\<^sup>*\<^sup>* (rt_Phase (r_Status rs0)) (rt_Phase (r_Status rs))
    \<and> restoreRank (rt_Phase (r_Status rs0)) \<le> restoreRank (rt_Phase (r_Status rs))
    \<and> (restoreTerminal (rt_Phase (r_Status rs0)) \<longrightarrow> r_Status rs = r_Status rs0)"
  using restore_machine.runs_steps [OF assms] restore_machine.runs_rank [OF assms]
    restore_machine.runs_terminal [OF assms] by blast

theorem restore_phase_order_witness:
  "restore_step\<^sup>*\<^sup>* (rt_Phase (r_Status stoppingRestore)) (rt_Phase (r_Status restoringRestore))"
  using restore_phase_order [OF sample_run] by simp

text \<open>The calls that write to the game or create and delete objects.\<close>

fun actsOnGame :: "call \<Rightarrow> bool" where
  "actsOnGame (Update ob) = True"
| "actsOnGame c = touchesData c"

lemma asGame_Inr: "asGame x = Inr g \<longleftrightarrow> x = RObj (OGame g)"
  by (cases x rule: asGame.cases) auto

lemma failRestore_effect:
  "ensures (\<lambda>v es. list_all (\<lambda>e. \<not> actsOnGame (fst e)) es
      \<and> (\<exists>t. map fst es = [Now, Event (ORestore (t rs)) EventWarning reason msg, StatusUpdate (ORestore (t rs))]
           \<and> rt_Phase (r_Status (t rs)) = RestorePhaseFailed \<and> rt_Message (r_Status (t rs)) = msg))
     (failRestore r rs reason msg)"
  unfolding failRestore_def now_def event_def bind_assoc bind_ret
  by (intro ensures_intros)
    (auto intro!: exI [where x = "\<lambda>rs. updRestore (\<lambda>st. st\<lparr>rt_CompletionTime := Some (asTime _),
        rt_Phase := RestorePhaseFailed, rt_Message := msg,
        rt_Conditions := setStatusCondition (rr_Lib r) (rt_Conditions st) ''Ready'' ConditionFalse
          reason msg (m_Generation (r_Meta rs))\<rparr>) rs"])

text \<open>
  C29: a restore that names no backup and whose direct source is missing or incomplete never
  touches the game: no reconcile of it updates, creates or deletes anything, in whatever phase, and
  one that could read the game and is not finished persists the phase \<open>Failed\<close>.
\<close>

theorem restore_invalid_source_leaves_game:
  assumes "rs_BackupRef (r_Spec rs) = []"
    and "\<And>src. rs_Source (r_Spec rs) = Some src \<Longrightarrow> \<exists>e. directSourcePlan src = Inl e"
  shows "ensures (\<lambda>v es. list_all (\<lambda>e. \<not> actsOnGame (fst e)) es
     \<and> (\<not> restoreTerminal (rt_Phase (r_Status rs)) \<and> (\<exists>key g. (Get GameKind key, RObj (OGame g)) \<in> set es)
        \<longrightarrow> (\<exists>rs' x. (StatusUpdate (ORestore rs'), x) \<in> set es \<and> rt_Phase (r_Status rs') = RestorePhaseFailed)))
     (reconcileRestore r rs)"
proof -
  obtain e where e: "(case rs_Source (r_Spec rs) of Some src \<Rightarrow> directSourcePlan src
      | None \<Rightarrow> Inl (errorf ''one of backupRef or source must be set'')) = Inl e"
    using assms(2) by (cases "rs_Source (r_Spec rs)") auto
  have fail: "ensures (\<lambda>v es. list_all (\<lambda>e. \<not> actsOnGame (fst e)) es
      \<and> (\<exists>rs' x. (StatusUpdate (ORestore rs'), x) \<in> set es \<and> rt_Phase (r_Status rs') = RestorePhaseFailed))
     (failRestore r rs reason msg)" for reason msg
  proof (rule ensures_mono [OF failRestore_effect])
    fix v es
    assume "list_all (\<lambda>e. \<not> actsOnGame (fst e)) es
      \<and> (\<exists>t. map fst es = [Now, Event (ORestore (t rs)) EventWarning reason msg, StatusUpdate (ORestore (t rs))]
           \<and> rt_Phase (r_Status (t rs)) = RestorePhaseFailed \<and> rt_Message (r_Status (t rs)) = msg)"
    then show "list_all (\<lambda>e. \<not> actsOnGame (fst e)) es
      \<and> (\<exists>rs' x. (StatusUpdate (ORestore rs'), x) \<in> set es \<and> rt_Phase (r_Status rs') = RestorePhaseFailed)"
      by (auto simp: map_eq_Cons_conv)
  qed
  show ?thesis
    unfolding reconcileRestore_def resolvePlan_def using assms(1)
    by (auto simp: e restoreTerminal_def intro!: ensures_if ensures_call_bind ensures_sum ensures_ret
        ensures_mono [OF fail], blast+)
qed

theorem restore_invalid_source_leaves_game_witness:
  "ensures (\<lambda>v es. list_all (\<lambda>e. \<not> actsOnGame (fst e)) es)
     (reconcileRestore sampleRestoreReconciler
       (sampleRestore\<lparr>r_Spec := \<lparr>rs_GameRef = ''pal'', rs_BackupRef = [],
          rs_Source = Some (noDestination\<lparr>bd_Type := BackupDestinationPVC\<rparr>), rs_Force = True\<rparr>\<rparr>))"
  by (rule ensures_mono [OF restore_invalid_source_leaves_game])
    (auto simp: directSourcePlan_def noDestination_def)

text \<open>
  A direct source is accepted exactly when it names a complete archive location, and the
  restore Job then reads precisely that archive: the S3 object whose key is the given prefix, or the
  given path inside the given claim. The key is never empty.
\<close>

theorem direct_source_reads_named_archive:
  "case directSourcePlan src of
     Inr plan \<Rightarrow> plan_tarball plan \<and> plan_key plan \<noteq> [] \<and>
       (case bd_Type src of
          BackupDestinationS3 \<Rightarrow> (\<exists>s3. bd_S3 src = Some s3 \<and> s3_Bucket s3 \<noteq> [] \<and> s3_CredentialsSecret s3 \<noteq> [] \<and>
            archiveOf (DesiredRestoreJob g name img (plan_key plan) (plan_dest plan) os) =
              S3Archive (s3_Bucket s3) [] (s3_Prefix s3))
        | BackupDestinationPVC \<Rightarrow> bd_PVCName src \<noteq> [] \<and>
            archiveOf (DesiredRestoreJob g name img (plan_key plan) (plan_dest plan) os) =
              PVCArchive (bd_PVCName src) (''/backup/'' @ bd_PVCPath src)
        | _ \<Rightarrow> False)
   | Inl e \<Rightarrow>
       (case bd_Type src of
          BackupDestinationS3 \<Rightarrow> (case bd_S3 src of None \<Rightarrow> True
            | Some s3 \<Rightarrow> s3_Bucket s3 = [] \<or> s3_CredentialsSecret s3 = [] \<or> s3_Prefix s3 = [])
        | BackupDestinationPVC \<Rightarrow> bd_PVCName src = [] \<or> bd_PVCPath src = []
        | _ \<Rightarrow> True)"
  by (auto simp: directSourcePlan_def archiveOf_restore_s3 archiveOf_restore_pvc
      split: BackupDestinationType.split option.split)

lemma scaleGame_spec:
  "ensures (\<lambda>v es. v = None \<longrightarrow> (\<exists>fresh. (Get GameKind (g_Namespace g, g_Name g), RObj (OGame fresh)) \<in> set es
      \<and> (gs_Replicas (g_Spec fresh) = Some n
         \<or> (\<exists>x. (Update (OGame (fresh\<lparr>g_Spec := (g_Spec fresh)\<lparr>gs_Replicas := Some n\<rparr>\<rparr>)), x) \<in> set es \<and> asErr x = None))))
     (scaleGame g n)"
  unfolding scaleGame_def
  by (intro ensures_intros) (auto simp: asGame_Inr)

text \<open>
  What a reconcile owes the replica count of the game: a recorded count stays; the status that
  starts the stop records the count the game wants; completion means the game is at that count.
\<close>

definition replicasKept :: "PalworldRestore \<Rightarrow> (call \<times> reply) list \<Rightarrow> bool" where
  "replicasKept rs es \<longleftrightarrow>
     (\<forall>rs' x. (StatusUpdate (ORestore rs'), x) \<in> set es \<longrightarrow>
        (\<forall>n. rt_OriginalReplicas (r_Status rs) = Some n \<longrightarrow> rt_OriginalReplicas (r_Status rs') = Some n)
        \<and> (rt_Phase (r_Status rs') = RestorePhaseStopping \<and> rt_Phase (r_Status rs) \<noteq> RestorePhaseStopping
             \<and> rt_OriginalReplicas (r_Status rs) = None
           \<longrightarrow> (\<exists>g key. (Get GameKind key, RObj (OGame g)) \<in> set es
                  \<and> rt_OriginalReplicas (r_Status rs') = Some (DesiredReplicas g)))
        \<and> (rt_Phase (r_Status rs') = RestorePhaseCompleted \<longrightarrow>
             (\<exists>fresh key. (Get GameKind key, RObj (OGame fresh)) \<in> set es \<and>
               (let n = (case rt_OriginalReplicas (r_Status rs) of Some n \<Rightarrow> n | None \<Rightarrow> 1) in
                gs_Replicas (g_Spec fresh) = Some n
                \<or> (\<exists>y. (Update (OGame (fresh\<lparr>g_Spec := (g_Spec fresh)\<lparr>gs_Replicas := Some n\<rparr>\<rparr>)), y) \<in> set es
                        \<and> asErr y = None)))))"

interpretation replicas_frame: quiet_frame "\<lambda>c. restoreWritten c = None" "\<lambda>v. replicasKept rs"
proof
  fix c and x :: reply and es :: "(call \<times> reply) list"
  assume "restoreWritten c = None" and "replicasKept rs es"
  moreover from this(1) have "(StatusUpdate (ORestore rs'), y) \<noteq> (c, x)" for rs' y by auto
  ultimately show "replicasKept rs ((c, x) # es)"
    unfolding replicasKept_def Let_def set_simps insert_iff by meson
qed

lemmas replicasKept_quiet = replicas_frame.frame_list and replicas_call_bind = replicas_frame.call_bind

lemma replicasKept_same:
  "(\<And>rs' x. (StatusUpdate (ORestore rs'), x) \<in> set es \<Longrightarrow>
     rt_OriginalReplicas (r_Status rs') = rt_OriginalReplicas (r_Status rs)
     \<and> rt_Phase (r_Status rs') \<noteq> RestorePhaseCompleted
     \<and> (rt_Phase (r_Status rs') = RestorePhaseStopping \<longrightarrow> rt_Phase (r_Status rs) = RestorePhaseStopping))
   \<Longrightarrow> replicasKept rs es"
  by (fastforce simp: replicasKept_def)

lemma failRestore_replicas: "ensures (\<lambda>v es. replicasKept rs es) (failRestore r rs reason msg)"
  unfolding failRestore_def now_def event_def bind_assoc bind_ret
  by (intro ensures_intros) (rule replicasKept_same, auto)

lemma requeueRestore_replicas:
  "rt_OriginalReplicas (r_Status rs') = rt_OriginalReplicas (r_Status rs)
   \<Longrightarrow> rt_Phase (r_Status rs') \<noteq> RestorePhaseCompleted
   \<Longrightarrow> (rt_Phase (r_Status rs') = RestorePhaseStopping \<longrightarrow> rt_Phase (r_Status rs) = RestorePhaseStopping)
   \<Longrightarrow> ensures (\<lambda>v es. replicasKept rs es) (requeueRestore rs' d)"
  unfolding requeueRestore_def
  by (intro ensures_intros) (rule replicasKept_same, auto)

lemmas replicas_intros = ensures_if ensures_sum ensures_option replicas_call_bind failRestore_replicas
  requeueRestore_replicas ensures_ret ensures_let

lemma replicasKept_nil: "replicasKept rs []"
  by (simp add: replicasKept_def)

lemma awaitStopped_replicas:
  "rt_Phase (r_Status rs) = RestorePhaseStopping \<Longrightarrow> ensures (\<lambda>v es. replicasKept rs es) (awaitStopped rs g)"
  unfolding awaitStopped_def by (intro replicas_intros) (simp_all add: replicasKept_nil)

lemma awaitRestore_replicas:
  "rt_Phase (r_Status rs) = RestorePhaseRestoring \<Longrightarrow> ensures (\<lambda>v es. replicasKept rs es) (awaitRestore r rs g plan)"
  unfolding awaitRestore_def awaitTarballRestore_def awaitSnapshotRestore_def
  by (intro replicas_intros) (simp_all add: replicasKept_nil)

lemma scaleGame_writes: "ensures (\<lambda>v es. list_all (\<lambda>e. restoreWritten (fst e) = None) es) (scaleGame g n)"
  by (rule ensures_mono [OF scaleGame_quiet]) (simp add: list_all_iff)

lemma startGame_replicas: "ensures (\<lambda>v es. replicasKept rs es) (startGame r rs g)"
  unfolding startGame_def Let_def now_def event_def bind_assoc bind_ret
  apply (rule ensures_bind [OF ensures_conj [OF scaleGame_writes scaleGame_spec]])
  subgoal premises p for e es
  proof -
    have nw: "(StatusUpdate (ORestore rs'), x) \<notin> set es" for rs' x
      using p by (auto simp: list_all_iff)
    show ?thesis
      apply (rule ensures_option)
      subgoal using p by (intro ensures_intros) (auto simp: replicasKept_def nw Let_def; blast)
      subgoal by (rule ensures_ret) (simp add: replicasKept_def nw)
      done
  qed
  done

text \<open>The stop itself, relative to the game it was given.\<close>

definition stopKept :: "PalworldRestore \<Rightarrow> PalworldGame \<Rightarrow> (call \<times> reply) list \<Rightarrow> bool" where
  "stopKept rs g es \<longleftrightarrow>
     (\<forall>rs' x. (StatusUpdate (ORestore rs'), x) \<in> set es \<longrightarrow>
        (\<forall>n. rt_OriginalReplicas (r_Status rs) = Some n \<longrightarrow> rt_OriginalReplicas (r_Status rs') = Some n)
        \<and> rt_Phase (r_Status rs') \<noteq> RestorePhaseCompleted
        \<and> (rt_Phase (r_Status rs') = RestorePhaseStopping \<and> rt_OriginalReplicas (r_Status rs) = None
           \<longrightarrow> rt_OriginalReplicas (r_Status rs') = Some (DesiredReplicas g)))"

lemma stopGame_kept: "ensures (\<lambda>v es. stopKept rs g es) (stopGame r rs g)"
proof -
  have tail: "ensures (\<lambda>v es. stopKept rs g (pre @ es))
      (do { e \<leftarrow> scaleGame g 0;
            case e of
              Some x \<Rightarrow> ret (noResult, Some x)
            | None \<Rightarrow> do { x \<leftarrow> call (Event ob EventNormal a b); requeueRestore rs' d } })"
    if "list_all (\<lambda>e. restoreWritten (fst e) = None) pre" "stopKept rs g [(StatusUpdate (ORestore rs'), ROk)]"
    for pre ob a b rs' d
  proof (rule ensures_bind [OF scaleGame_writes])
    fix e es
    assume "list_all (\<lambda>e. restoreWritten (fst e) = None) (es :: (call \<times> reply) list)"
    with that(1) have nw: "(StatusUpdate (ORestore q), x) \<notin> set pre \<union> set es" for q x
      by (auto simp: list_all_iff)
    show "ensures (\<lambda>v es'. stopKept rs g (pre @ es @ es'))
      (case e of Some x \<Rightarrow> ret (noResult, Some x)
       | None \<Rightarrow> do { x \<leftarrow> call (Event ob EventNormal a b); requeueRestore rs' d })"
      unfolding requeueRestore_def using that(2) nw
      by (intro ensures_intros) (auto simp: stopKept_def)
  qed
  have fail: "ensures (\<lambda>v es. stopKept rs g es) (failRestore r rs reason msg)" for reason msg
    unfolding failRestore_def now_def event_def bind_assoc bind_ret
    by (intro ensures_intros) (auto simp: stopKept_def)
  show ?thesis
    unfolding stopGame_def Let_def event_def now_def bind_option bind_assoc bind_ret
    apply (rule ensures_if)
    subgoal by (rule fail)
    apply (rule ensures_option)
    subgoal by (rule ensures_call_bind, rule tail [of "[_]", simplified])
        (auto simp: stopKept_def split: option.splits)
    subgoal by (rule tail [of "[]", simplified]) (auto simp: stopKept_def split: option.splits)
    done
qed

lemma stopKept_replicas:
  assumes "stopKept rs g es" and "list_all (\<lambda>e. restoreWritten (fst e) = None) pre"
    and "(Get GameKind key, RObj (OGame g)) \<in> set pre"
  shows "replicasKept rs (pre @ es)"
proof -
  have nw: "(StatusUpdate (ORestore rs'), x) \<notin> set pre" for rs' x
    using assms(2) by (auto simp: list_all_iff)
  show ?thesis
    unfolding replicasKept_def
  proof (intro allI impI)
    fix rs' x
    assume "(StatusUpdate (ORestore rs'), x) \<in> set (pre @ es)"
    with nw have "(StatusUpdate (ORestore rs'), x) \<in> set es" by auto
    with assms(1) have k: "\<forall>n. rt_OriginalReplicas (r_Status rs) = Some n \<longrightarrow> rt_OriginalReplicas (r_Status rs') = Some n"
      "rt_Phase (r_Status rs') \<noteq> RestorePhaseCompleted"
      "rt_Phase (r_Status rs') = RestorePhaseStopping \<and> rt_OriginalReplicas (r_Status rs) = None
         \<longrightarrow> rt_OriginalReplicas (r_Status rs') = Some (DesiredReplicas g)"
      unfolding stopKept_def by blast+
    moreover have "(Get GameKind key, RObj (OGame g)) \<in> set (pre @ es)" using assms(3) by simp
    ultimately show "(\<forall>n. rt_OriginalReplicas (r_Status rs) = Some n \<longrightarrow> rt_OriginalReplicas (r_Status rs') = Some n)
        \<and> (rt_Phase (r_Status rs') = RestorePhaseStopping \<and> rt_Phase (r_Status rs) \<noteq> RestorePhaseStopping
             \<and> rt_OriginalReplicas (r_Status rs) = None
           \<longrightarrow> (\<exists>g key. (Get GameKind key, RObj (OGame g)) \<in> set (pre @ es)
                  \<and> rt_OriginalReplicas (r_Status rs') = Some (DesiredReplicas g)))
        \<and> (rt_Phase (r_Status rs') = RestorePhaseCompleted \<longrightarrow>
             (\<exists>fresh key. (Get GameKind key, RObj (OGame fresh)) \<in> set (pre @ es) \<and>
               (let n = (case rt_OriginalReplicas (r_Status rs) of Some n \<Rightarrow> n | None \<Rightarrow> 1) in
                gs_Replicas (g_Spec fresh) = Some n
                \<or> (\<exists>y. (Update (OGame (fresh\<lparr>g_Spec := (g_Spec fresh)\<lparr>gs_Replicas := Some n\<rparr>\<rparr>)), y) \<in> set (pre @ es)
                        \<and> asErr y = None))))"
      by blast
  qed
qed

text \<open>
  A restore gives the game back the replica count it had: every reconcile keeps what
  \<open>replicasKept\<close> asks, whatever the cluster answers.
\<close>

theorem restore_returns_original_replicas:
  "ensures (\<lambda>v es. replicasKept rs es) (reconcileRestore r rs)"
proof -
  have step: "ensures (\<lambda>v es. replicasKept rs (pre @ es)) (stepRestore r rs g plan)"
    if pre: "list_all (\<lambda>e. restoreWritten (fst e) = None) pre" "(Get GameKind key, RObj (OGame g)) \<in> set pre"
    for pre key g plan
  proof (cases "rt_Phase (r_Status rs) = RestorePhaseUnset \<or> rt_Phase (r_Status rs) = RestorePhasePending")
    case True
    then have "stepRestore r rs g plan = stopGame r rs g" by (auto simp: stepRestore_def)
    then show ?thesis
      using ensures_mono [OF stopGame_kept] stopKept_replicas [OF _ pre] by metis
  next
    case False
    then have "ensures (\<lambda>v es. replicasKept rs es) (stepRestore r rs g plan)"
      by (cases "rt_Phase (r_Status rs)")
        (simp_all add: stepRestore_def awaitStopped_replicas awaitRestore_replicas startGame_replicas
          ensures_ret replicasKept_nil)
    then show ?thesis by (rule ensures_mono) (rule replicasKept_quiet [OF pre(1)])
  qed
  have plan: "ensures (\<lambda>v es. list_all (\<lambda>e. restoreWritten (fst e) = None) es) (resolvePlan rs)"
    unfolding resolvePlan_def by (intro ensures_intros) simp_all
  have fail: "ensures (\<lambda>v es. replicasKept rs (pre @ es)) (failRestore r rs reason msg)"
    if "list_all (\<lambda>e. restoreWritten (fst e) = None) pre" for pre reason msg
    by (rule ensures_mono [OF failRestore_replicas]) (rule replicasKept_quiet [OF that])
  show ?thesis
    unfolding reconcileRestore_def
    apply (rule ensures_if)
    subgoal by (rule ensures_ret) (rule replicasKept_nil)
    apply (rule ensures_call_bind, rule ensures_sum)
    subgoal by (intro ensures_if fail [of "[_]", simplified] ensures_ret)
        (simp_all add: replicasKept_def)
    apply (rule ensures_bind [OF plan], rule ensures_sum)
    subgoal for x g p es by (rule fail [of "_ # es", simplified]) simp_all
    subgoal for x g p es
      by (rule step [of "_ # es" "(r_Namespace rs, rs_GameRef (r_Spec rs))", simplified]) (simp_all add: asGame_Inr)
    done
qed

lemma restore_archive_iff:
  assumes "backupPlan rs b = Inr plan" and "plan_tarball plan" and "g_Name g = bs_GameRef (b_Spec b)"
    and "case bd_Type (bs_Destination (b_Spec b)) of
          BackupDestinationS3 \<Rightarrow> bd_S3 (bs_Destination (b_Spec b)) \<noteq> None
        | BackupDestinationPVC \<Rightarrow> bd_PVCName (bs_Destination (b_Spec b)) \<noteq> []
        | _ \<Rightarrow> False"
  shows "archiveOf (DesiredRestoreJob g' name img' (plan_key plan) (plan_dest plan) os') = archiveOf (DesiredBackupJob g b img src os)
     \<longleftrightarrow> rs_GameRef (r_Spec rs) = bs_GameRef (b_Spec b)"
proof -
  have plan: "plan_dest plan = bs_Destination (b_Spec b)"
    "plan_key plan = rs_GameRef (r_Spec rs) @ ''/'' @ b_Name b @ ''.tar.gz''"
    using assms(1,2) by (auto simp: backupPlan_def split: if_splits)
  show ?thesis
    using assms(3,4) unfolding plan
    by (auto simp: archiveOf_restore_s3 archiveOf_restore_pvc archiveOf_backup_s3 archiveOf_backup_pvc
        split: BackupDestinationType.splits)
qed

text \<open>
  C28: a restore from a tarball backup reads the archive that backup wrote, exactly when the restored
  game is the game that was backed up: for every usable S3 or PVC destination the restore Job's archive
  equals the backup Job's if and only if the two game references agree. A restore of one game's
  backup into another game looks for a key that was never written.
\<close>

theorem restore_reads_backup_archive:
  assumes "backupPlan rs b = Inr plan" and "plan_tarball plan" and "g_Name g = bs_GameRef (b_Spec b)"
    and "case bd_Type (bs_Destination (b_Spec b)) of
          BackupDestinationS3 \<Rightarrow> bd_S3 (bs_Destination (b_Spec b)) \<noteq> None
        | BackupDestinationPVC \<Rightarrow> bd_PVCName (bs_Destination (b_Spec b)) \<noteq> []
        | _ \<Rightarrow> False"
  shows "archiveOf (DesiredRestoreJob g' name img' (plan_key plan) (plan_dest plan) os') = archiveOf (DesiredBackupJob g b img src os)
     \<longleftrightarrow> rs_GameRef (r_Spec rs) = bs_GameRef (b_Spec b)"
  by (rule restore_archive_iff [OF assms])

theorem restore_reads_backup_archive_witness:
  "\<exists>plan. backupPlan sampleRestore
      (sampleBackup\<lparr>b_Spec := (b_Spec sampleBackup)\<lparr>bs_Destination := noDestination\<lparr>bd_Type := BackupDestinationPVC, bd_PVCName := ''store''\<rparr>\<rparr>,
         b_Status := newBackupStatus\<lparr>bt_Phase := BackupPhaseCompleted\<rparr>\<rparr>) = Inr plan \<and>
    archiveOf (DesiredRestoreJob sampleGame ''rs'' ''img'' (plan_key plan) (plan_dest plan) False) =
    archiveOf (DesiredBackupJob sampleGame
      (sampleBackup\<lparr>b_Spec := (b_Spec sampleBackup)\<lparr>bs_Destination := noDestination\<lparr>bd_Type := BackupDestinationPVC, bd_PVCName := ''store''\<rparr>\<rparr>,
         b_Status := newBackupStatus\<lparr>bt_Phase := BackupPhaseCompleted\<rparr>\<rparr>) ''img'' ''src'' False)"
proof -
  let ?b = "sampleBackup\<lparr>b_Spec := (b_Spec sampleBackup)\<lparr>bs_Destination := noDestination\<lparr>bd_Type := BackupDestinationPVC, bd_PVCName := ''store''\<rparr>\<rparr>,
         b_Status := newBackupStatus\<lparr>bt_Phase := BackupPhaseCompleted\<rparr>\<rparr>"
  obtain plan where plan: "backupPlan sampleRestore ?b = Inr plan" "plan_tarball plan"
    by (simp add: backupPlan_def newBackupStatus_def)
  then show ?thesis
    using restore_reads_backup_archive [OF plan, of sampleGame sampleGame "''rs''" "''img''" False "''img''" "''src''" False]
    by (auto simp: sampleBackup_def sampleRestore_def noDestination_def)
qed

end
