(* ===== verification/Exporter.thy ===== *)
theory Exporter
  imports PalworldClients
begin

text \<open>
  \<^verbatim>\<open>internal/exporter/exporter.go\<close>: the metrics sidecar. Its configuration from the environment, its two
  routes, and the page it writes from the game server's REST API. The reference is a reader of the
  Prometheus text format, which rejects a page with a malformed line.
\<close>

section \<open>The exporter\<close>

definition exporterEnvOr :: "(string \<Rightarrow> string) \<Rightarrow> string \<Rightarrow> string \<Rightarrow> string" where
  "exporterEnvOr getenv key def = (let v = getenv key in if v \<noteq> [] then v else def)"

record ExporterServer =
  xs_Addr :: string
  xs_Client :: RESTClient
  xs_ReadHeaderTimeout :: duration

text \<open>\<open>Run\<close>: the server it listens with.\<close>

definition exporterServer :: "(string \<Rightarrow> string) \<Rightarrow> ExporterServer" where
  "exporterServer getenv =
     (let addr = exporterEnvOr getenv ''EXPORTER_ADDR'' '':9877'';
          endpoint = exporterEnvOr getenv ''REST_ENDPOINT'' ''http://127.0.0.1:8212'';
          password = getenv ''ADMIN_PASSWORD'' in
      \<lparr>xs_Addr = addr, xs_Client = WithTimeout (NewRESTClientURL endpoint password) (5 * Second),
       xs_ReadHeaderTimeout = 5 * Second\<rparr>)"

definition metric :: "string \<Rightarrow> string \<Rightarrow> string \<Rightarrow> float64 \<Rightarrow> string \<Rightarrow> string" where
  "metric name help typ v labels =
     ''# HELP '' @ name @ '' '' @ help @ [CHR 0x0A] @ ''# TYPE '' @ name @ '' '' @ typ @ [CHR 0x0A] @
     (if labels \<noteq> [] then name @ ''{'' @ labels @ ''} '' @ FormatFloat v @ [CHR 0x0A]
      else name @ '' '' @ FormatFloat v @ [CHR 0x0A])"

definition writeMetrics :: "RESTClient \<Rightarrow> string k" where
  "writeMetrics c = do {
     m \<leftarrow> Metrics c;
     case m of
       Inl e \<Rightarrow> ret (metric ''palworld_server_up'' ''1 if the Palworld REST API is reachable'' ''gauge'' (toFloat64 0) [])
     | Inr m \<Rightarrow> do {
         page \<leftarrow> ret (
           metric ''palworld_server_up'' ''1 if the Palworld REST API is reachable'' ''gauge'' (toFloat64 1) [] @
           metric ''palworld_server_fps'' ''Current server frames per second'' ''gauge'' (toFloat64 (mt_ServerFPS m)) [] @
           metric ''palworld_players_online'' ''Currently connected players'' ''gauge'' (toFloat64 (mt_CurrentPlayerNum m)) [] @
           metric ''palworld_players_max'' ''Maximum player capacity'' ''gauge'' (toFloat64 (mt_MaxPlayerNum m)) [] @
           metric ''palworld_server_frame_time_ms'' ''Server frame time in milliseconds'' ''gauge'' (mt_ServerFrameTime m) [] @
           metric ''palworld_uptime_seconds'' ''Server uptime in seconds'' ''counter'' (toFloat64 (mt_Uptime m)) [] @
           metric ''palworld_world_days'' ''In-game day counter'' ''gauge'' (toFloat64 (mt_Days m)) []);
         info \<leftarrow> Info c;
         ret (case info of
                Inr info \<Rightarrow>
                  page @ metric ''palworld_build_info'' ''Server build info'' ''gauge'' (toFloat64 1)
                    (''version='' @ quote (inf_Version info) @ '',servername='' @ quote (inf_ServerName info))
              | Inl e \<Rightarrow> page)
       }
   }"

text \<open>The routes, for a path in canonical form: the status and the body.\<close>

definition serve :: "RESTClient \<Rightarrow> string \<Rightarrow> (int \<times> string) k" where
  "serve c path =
     (if path = ''/healthz'' then ret (200, ''ok'')
      else if path = ''/metrics'' then do { page \<leftarrow> writeMetrics c; ret (200, page) }
      else ret (404, ''404 page not found'' @ [CHR 0x0A]))"

section \<open>Reading the text format\<close>

type_synonym sample = "string \<times> (string \<times> string) list \<times> string"

text \<open>A label value after its opening quote, with the three escapes of the format, and what follows it.\<close>

fun unescape :: "string \<Rightarrow> (string \<times> string) option" where
  "unescape [] = None"
| "unescape (c # s) =
     (if c = CHR 0x22 then Some ([], s)
      else if c = CHR 0x5C then
        (case s of
           [] \<Rightarrow> None
         | x # s' \<Rightarrow>
             if x = CHR 0x5C \<or> x = CHR 0x22 then map_option (\<lambda>(v, rest). (x # v, rest)) (unescape s')
             else if x = CHR ''n'' then map_option (\<lambda>(v, rest). (CHR 0x0A # v, rest)) (unescape s')
             else None)
      else map_option (\<lambda>(v, rest). (c # v, rest)) (unescape s))"

lemma unescape_shorter: "unescape s = Some (v, rest) \<Longrightarrow> length rest < length s"
  by (induction s arbitrary: v rest rule: unescape.induct) (fastforce split: if_splits list.splits)+

text \<open>The labels after the opening brace, and what follows the closing one.\<close>

function readLabels :: "string \<Rightarrow> ((string \<times> string) list \<times> string) option" where
  "readLabels s =
     (let n = takeWhile (\<lambda>c. c \<noteq> CHR ''='') s in
      case drop (length n) s of
        x # y # t \<Rightarrow>
          if y \<noteq> CHR 0x22 then None
          else (case unescape t of
             Some (v, z # rest) \<Rightarrow>
               if z = CHR ''}'' then Some ([(n, v)], rest)
               else if z = CHR '','' then map_option (\<lambda>(ls, r). ((n, v) # ls, r)) (readLabels rest)
               else None
           | _ \<Rightarrow> None)
      | _ \<Rightarrow> None)"
  by pat_completeness auto
termination
proof (relation "measure length", goal_cases)
  case (2 s n x xs y t a v b z rest)
  then have "length (drop (length n) s) = Suc (Suc (length t))" by (metis length_Cons)
  moreover have "length (z # rest) < length t" using 2 by (intro unescape_shorter [of t v]) simp
  ultimately show ?case by simp
qed simp

declare readLabels.simps [simp del]

definition readSample :: "string \<Rightarrow> sample option" where
  "readSample l =
     (let name = takeWhile (\<lambda>c. c \<noteq> CHR ''{'' \<and> c \<noteq> CHR '' '') l in
      case drop (length name) l of
        [] \<Rightarrow> None
      | x # t \<Rightarrow>
          if x = CHR '' '' then Some (name, [], t)
          else (case readLabels t of
                  Some (ls, y # v) \<Rightarrow> if y = CHR '' '' then Some (name, ls, v) else None
                | _ \<Rightarrow> None))"

definition readPage :: "string \<Rightarrow> sample list option" where
  "readPage page = those (map readSample (filter (\<lambda>l. l \<noteq> [] \<and> hd l \<noteq> CHR ''#'') (splitOn (CHR 0x0A) page)))"

section \<open>What the page means\<close>

text \<open>Strings whose Go quoting only uses the escapes the text format has.\<close>

definition promText :: "string \<Rightarrow> bool" where
  "promText s \<longleftrightarrow> list_all (\<lambda>c. let n = of_char c :: nat in n = 10 \<or> 32 \<le> n \<and> n \<noteq> 127) s"

definition metricSamples :: "ServerMetrics \<Rightarrow> sample list" where
  "metricSamples m =
     [(''palworld_server_up'', [], ''1''),
      (''palworld_server_fps'', [], itoa (mt_ServerFPS m)),
      (''palworld_players_online'', [], itoa (mt_CurrentPlayerNum m)),
      (''palworld_players_max'', [], itoa (mt_MaxPlayerNum m)),
      (''palworld_server_frame_time_ms'', [], FormatFloat (mt_ServerFrameTime m)),
      (''palworld_uptime_seconds'', [], FormatFloat (toFloat64 (mt_Uptime m))),
      (''palworld_world_days'', [], itoa (mt_Days m))]"

definition infoSample :: "ServerInfo \<Rightarrow> sample" where
  "infoSample i = (''palworld_build_info'', [(''version'', inf_Version i), (''servername'', inf_ServerName i)], ''1'')"

section \<open>Characters of the parts\<close>

lemma code_eq: "(of_char c :: nat) = of_char d \<longleftrightarrow> c = d"
  by simp

lemma code_34: "(of_char c :: nat) = 34 \<longleftrightarrow> c = CHR 0x22"
  using code_eq [of c "CHR 0x22"] by simp

lemma code_92: "(of_char c :: nat) = 92 \<longleftrightarrow> c = CHR 0x5C"
  using code_eq [of c "CHR 0x5C"] by simp

lemma code_10: "(of_char c :: nat) = 10 \<longleftrightarrow> c = CHR 0x0A"
  using code_eq [of c "CHR 0x0A"] by simp

lemma digitChar_code: "d < 10 \<Longrightarrow> (of_char (digitChar d) :: nat) = 48 + d"
  by (simp add: digitChar_def)

lemma natStr_codes: "c \<in> set (natStr n) \<Longrightarrow> 48 \<le> (of_char c :: nat)"
  using natStr_digits [of c n] digitChar_code by fastforce

lemma fracDigits_codes: "c \<in> set (fracDigits n k) \<Longrightarrow> 48 \<le> (of_char c :: nat)"
  by (induction n k rule: fracDigits.induct) (auto simp: digitChar_code)

text \<open>Formatted numbers have no white space.\<close>

lemma FormatFloat_codes: "c \<in> set (FormatFloat x) \<Longrightarrow> 32 < (of_char c :: nat)"
  by (cases x) (auto simp: decimal_def split: prod.splits if_splits dest!: natStr_codes fracDigits_codes)

lemma FormatFloat_line: "CHR 0x0A \<notin> set (FormatFloat x)"
  using FormatFloat_codes [of "CHR 0x0A" x] by auto

lemma hexChar_line: "d < 16 \<Longrightarrow> CHR 0x0A \<noteq> hexChar d"
proof
  assume "d < 16" and "CHR 0x0A = hexChar d"
  moreover have "48 \<le> (of_char (hexChar d) :: nat)" if "d < 16" using that by (auto simp: hexChar_def)
  ultimately have "48 \<le> (of_char (CHR 0x0A) :: nat)" by metis
  then show False by simp
qed

lemma quoteChar_line: "CHR 0x0A \<notin> set (quoteChar c)"
proof -
  have "(of_char c :: nat) < 256" by simp
  then have "CHR 0x0A \<noteq> hexChar ((of_char c :: nat) div 16)" "CHR 0x0A \<noteq> hexChar ((of_char c :: nat) mod 16)"
    by (intro hexChar_line; simp add: less_mult_imp_div_less)+
  then show ?thesis by (auto simp: quoteChar_def Let_def)
qed

lemma quote_line: "CHR 0x0A \<notin> set (quote s)"
  using quoteChar_line by (auto simp: quote_def)

section \<open>Reading back the parts\<close>

lemma unescape_quoteChar:
  "unescape (quoteChar c @ t) =
     (if promText [c] then map_option (\<lambda>(v, rest). (c # v, rest)) (unescape t) else None)"
  by (auto simp: quoteChar_def Let_def promText_def code_34 code_92 code_10)

lemma unescape_quote:
  "unescape (concat (map quoteChar s) @ CHR 0x22 # rest) = (if promText s then Some (s, rest) else None)"
proof (induction s)
  case Nil show ?case by (simp add: promText_def)
next
  case (Cons c s)
  have "promText (c # s) \<longleftrightarrow> promText [c] \<and> promText s" by (simp add: promText_def)
  with Cons show ?case by (simp add: unescape_quoteChar)
qed

lemma readLabels_quote:
  assumes "CHR ''='' \<notin> set n"
  shows "readLabels (n @ CHR ''='' # quote v @ z # rest) =
     (if promText v then
        (if z = CHR ''}'' then Some ([(n, v)], rest)
         else if z = CHR '','' then map_option (\<lambda>(ls, r). ((n, v) # ls, r)) (readLabels rest) else None)
      else None)"
proof -
  have "takeWhile (\<lambda>c. c \<noteq> CHR ''='') (n @ CHR ''='' # quote v @ z # rest) = n"
    using assms by (auto simp: takeWhile_append)
  then show ?thesis by (subst readLabels.simps) (simp add: quote_def unescape_quote Let_def)
qed

definition plainName :: "string \<Rightarrow> bool" where
  "plainName n \<longleftrightarrow> n \<noteq> [] \<and> hd n \<noteq> CHR ''#'' \<and> CHR ''{'' \<notin> set n \<and> CHR '' '' \<notin> set n \<and> CHR 0x0A \<notin> set n"

lemma readSample_plain: "plainName n \<Longrightarrow> readSample (n @ CHR '' '' # v) = Some (n, [], v)"
proof -
  assume "plainName n"
  then have "takeWhile (\<lambda>c. c \<noteq> CHR ''{'' \<and> c \<noteq> CHR '' '') (n @ CHR '' '' # v) = n"
    by (auto simp: takeWhile_append plainName_def)
  then show ?thesis by (simp add: readSample_def)
qed

lemma readSample_labels:
  assumes "plainName n" and "readLabels t = Some (ls, CHR '' '' # v)"
  shows "readSample (n @ CHR ''{'' # t) = Some (n, ls, v)"
proof -
  have "takeWhile (\<lambda>c. c \<noteq> CHR ''{'' \<and> c \<noteq> CHR '' '') (n @ CHR ''{'' # t) = n"
    using assms by (auto simp: takeWhile_append plainName_def)
  then show ?thesis using assms(2) by (simp add: readSample_def)
qed

lemma readSample_malformed:
  assumes "plainName n" and "readLabels t = None"
  shows "readSample (n @ CHR ''{'' # t) = None"
proof -
  have "takeWhile (\<lambda>c. c \<noteq> CHR ''{'' \<and> c \<noteq> CHR '' '') (n @ CHR ''{'' # t) = n"
    using assms by (auto simp: takeWhile_append plainName_def)
  then show ?thesis using assms(2) by (simp add: readSample_def)
qed

text \<open>One metric at the head of a page.\<close>

definition andPage :: "sample option \<Rightarrow> sample list option \<Rightarrow> sample list option" where
  "andPage x xs = (case x of None \<Rightarrow> None | Some a \<Rightarrow> map_option (Cons a) xs)"

lemma readPage_line:
  assumes "CHR 0x0A \<notin> set l"
  shows "readPage (l @ CHR 0x0A # t) =
     (if l \<noteq> [] \<and> hd l \<noteq> CHR ''#'' then andPage (readSample l) (readPage t) else readPage t)"
  using assms by (simp add: readPage_def splitOn_app andPage_def)

lemma readPage_block:
  assumes "CHR 0x0A \<notin> set l1" "l1 \<noteq> []" "hd l1 = CHR ''#''" "CHR 0x0A \<notin> set l2" "l2 \<noteq> []" "hd l2 = CHR ''#''"
    and "CHR 0x0A \<notin> set l3" "l3 \<noteq> []" "hd l3 \<noteq> CHR ''#''"
  shows "readPage (l1 @ CHR 0x0A # l2 @ CHR 0x0A # l3 @ CHR 0x0A # t) = andPage (readSample l3) (readPage t)"
  using assms by (simp add: readPage_line)

lemma readPage_metric:
  assumes "plainName n" and "CHR 0x0A \<notin> set help" and "CHR 0x0A \<notin> set typ" and "CHR 0x0A \<notin> set labels"
  shows "readPage (metric n help typ v labels @ t) =
     andPage (readSample (n @ (if labels \<noteq> [] then CHR ''{'' # labels @ CHR ''}'' # CHR '' '' # FormatFloat v
                               else CHR '' '' # FormatFloat v))) (readPage t)"
proof -
  have n: "CHR 0x0A \<notin> set n" "n \<noteq> []" "hd n \<noteq> CHR ''#''" using assms(1) by (simp_all add: plainName_def)
  let ?l1 = "''# HELP '' @ n @ '' '' @ help" and ?l2 = "''# TYPE '' @ n @ '' '' @ typ"
    and ?l3 = "n @ (if labels \<noteq> [] then CHR ''{'' # labels @ CHR ''}'' # CHR '' '' # FormatFloat v else CHR '' '' # FormatFloat v)"
  have "metric n help typ v labels @ t = ?l1 @ CHR 0x0A # ?l2 @ CHR 0x0A # ?l3 @ CHR 0x0A # t"
    by (simp add: metric_def)
  moreover have "CHR 0x0A \<notin> set ?l1" "CHR 0x0A \<notin> set ?l2" "CHR 0x0A \<notin> set ?l3"
    using assms n FormatFloat_line [of v] by auto
  moreover have "?l1 \<noteq> []" "hd ?l1 = CHR ''#''" "?l2 \<noteq> []" "hd ?l2 = CHR ''#''" "?l3 \<noteq> []" "hd ?l3 \<noteq> CHR ''#''"
    using n by simp_all
  ultimately show ?thesis by (metis (no_types) readPage_block)
qed

text \<open>The decoded counters fit their widths.\<close>

lemma decodeInts_fits: "decodeInts fits z vs = Inr i \<Longrightarrow> fits z \<Longrightarrow> fits i"
  by (induction fits z vs rule: decodeInts.induct) (auto split: if_splits)

lemma int32Field_fits: "int32Field kvs name = Inr i \<Longrightarrow> in_int32 i"
  unfolding int32Field_def by (erule decodeInts_fits) (simp add: in_int32_def)

definition int32Metrics :: "ServerMetrics \<Rightarrow> bool" where
  "int32Metrics m \<longleftrightarrow> in_int32 (mt_ServerFPS m) \<and> in_int32 (mt_CurrentPlayerNum m) \<and> in_int32 (mt_MaxPlayerNum m)
     \<and> in_int32 (mt_Days m)"

lemma decodeMetrics_fits: "decodeMetrics j = Inr m \<Longrightarrow> int32Metrics m"
  by (cases j rule: decodeMetrics.cases)
    (auto simp: int32Metrics_def zeroMetrics_def in_int32_def [of 0] split: sum.splits dest: int32Field_fits)

lemma Metrics_fits: "val (Metrics c) w = Inr m \<Longrightarrow> int32Metrics m"
  by (auto simp: Metrics_def do_request_def zeroMetrics_def int32Metrics_def in_int32_def [of 0]
      split: sum.splits if_splits option.splits dest!: decodeMetrics_fits)

lemma FormatFloat_int32: "in_int32 i \<Longrightarrow> FormatFloat (toFloat64 i) = itoa i"
  by (rule FormatFloat_int) (auto simp: in_int32_def)

lemma readPage_empty: "readPage [] = Some []"
  by (simp add: readPage_def)

lemma small_ints: "FormatFloat (toFloat64 0) = ''0''" "FormatFloat (toFloat64 1) = ''1''"
proof -
  have "itoa 0 = ''0''" "itoa 1 = ''1''" by code_simp+
  then show "FormatFloat (toFloat64 0) = ''0''" "FormatFloat (toFloat64 1) = ''1''"
    by (simp_all add: FormatFloat_int)
qed

lemma metric_plain:
  assumes "plainName n" and "CHR 0x0A \<notin> set help" and "CHR 0x0A \<notin> set typ"
  shows "readPage (metric n help typ v [] @ t) = map_option (Cons (n, [], FormatFloat v)) (readPage t)"
  using readPage_metric [of n "help" "typ" "[]" v t] assms by (simp add: readSample_plain andPage_def)

lemma metric_info:
  "readPage (metric ''palworld_build_info'' ''Server build info'' ''gauge'' (toFloat64 1)
      (''version='' @ quote (inf_Version i) @ '',servername='' @ quote (inf_ServerName i))) =
     (if promText (inf_Version i) \<and> promText (inf_ServerName i) then Some [infoSample i] else None)"
proof -
  let ?n = "''palworld_build_info''"
  let ?labels = "''version='' @ quote (inf_Version i) @ '',servername='' @ quote (inf_ServerName i)"
  have n: "plainName ?n" by (simp add: plainName_def)
  have line: "CHR 0x0A \<notin> set ?labels" using quote_line by auto
  have labels: "readLabels (?labels @ CHR ''}'' # CHR '' '' # v) =
      (if promText (inf_Version i) \<and> promText (inf_ServerName i)
       then Some ([(''version'', inf_Version i), (''servername'', inf_ServerName i)], CHR '' '' # v) else None)" for v
    using readLabels_quote [of "''version''" "inf_Version i" "CHR '',''"] readLabels_quote [of "''servername''" "inf_ServerName i" "CHR ''}''"]
    by simp
  have "readSample (?n @ CHR ''{'' # ?labels @ CHR ''}'' # CHR '' '' # ''1'') =
      (if promText (inf_Version i) \<and> promText (inf_ServerName i) then Some (infoSample i) else None)"
    using readSample_labels [OF n, of "?labels @ CHR ''}'' # CHR '' '' # ''1''"]
      readSample_malformed [OF n, of "?labels @ CHR ''}'' # CHR '' '' # ''1''"] labels
    by (simp add: infoSample_def)
  then show ?thesis
    using readPage_metric [OF n _ _ line, of "''Server build info''" "''gauge''" "toFloat64 1" "[]"]
    by (simp add: small_ints andPage_def readPage_empty)
qed

section \<open>Properties\<close>


text \<open>
  The exporter only reads: serving any path makes at most the metrics request and then the info
  request to the configured endpoint, with the admin password; health checks and unknown paths make none.
\<close>

lemma exporter_only_reads:
  "ensures (\<lambda>reply es.
      list_all (\<lambda>(q, x). \<exists>u. q = Http \<lparr>rq_Method = HttpGet, rq_URL = rc_baseURL c @ u,
          rq_BasicAuth = Some (''admin'', rc_password c), rq_Body = None, rq_Timeout = rc_timeout c\<rparr>
        \<and> (u = ''/v1/api/metrics'' \<or> u = ''/v1/api/info'')) es
      \<and> length es \<le> (if path = ''/metrics'' then 2 else 0))
     (serve c path)"
  unfolding serve_def writeMetrics_def Metrics_def Info_def do_request_def bind_assoc bind_ret bind_sum
  by (intro ensures_intros) (auto split: sum.splits)

end
