(* ===== verification/Manager.thy ===== *)
theory Manager
  imports GameController RestoreController Exporter
begin

text \<open>
  \<^verbatim>\<open>cmd/main.go\<close>: the command line, the informer cache configuration and the start-up of the manager.
  Start-up is an action over its own calls (certificate watchers, the manager, the controllers, the
  health checks); each call succeeds or fails, and a failure ends the process with exit code 1.
\<close>

section \<open>The cache configuration\<close>

text \<open>The label selector of the informer cache per kind; \<open>None\<close>: every object of the kind is cached.\<close>

definition operatorCacheOptions :: "kkind \<Rightarrow> labels option" where
  "operatorCacheOptions kd =
     (let managed = [LabelManagedBy \<mapsto> ManagedByValue] in
      if kd \<in> {SecretKind, ConfigMapKind, ServiceKind, ServiceAccountKind, PVCKind, PodKind, StsKind, JobKind,
                PDBKind, NetworkPolicyKind}
      then Some managed else None)"

text \<open>Whether an object of a kind with these labels is in the cache.\<close>

definition cacheHolds :: "kkind \<Rightarrow> labels \<Rightarrow> bool" where
  "cacheHolds kd l = (case operatorCacheOptions kd of None \<Rightarrow> True | Some sel \<Rightarrow> sel \<subseteq>\<^sub>m l)"

section \<open>The command line\<close>

record Flags =
  fl_metricsAddr :: string
  fl_probeAddr :: string
  fl_enableLeaderElection :: bool
  fl_secureMetrics :: bool
  fl_webhookCertPath :: string
  fl_webhookCertName :: string
  fl_webhookCertKey :: string
  fl_metricsCertPath :: string
  fl_metricsCertName :: string
  fl_metricsCertKey :: string
  fl_enableHTTP2 :: bool
  fl_enableWebhooks :: bool

definition defaultFlags :: Flags where
  "defaultFlags = \<lparr>fl_metricsAddr = ''0'', fl_probeAddr = '':8081'', fl_enableLeaderElection = False,
     fl_secureMetrics = True, fl_webhookCertPath = [], fl_webhookCertName = ''tls.crt'', fl_webhookCertKey = ''tls.key'',
     fl_metricsCertPath = [], fl_metricsCertName = ''tls.crt'', fl_metricsCertKey = ''tls.key'',
     fl_enableHTTP2 = False, fl_enableWebhooks = False\<rparr>"

definition stringVars :: "(string \<times> (string \<Rightarrow> Flags \<Rightarrow> Flags)) list" where
  "stringVars =
     [(''metrics-bind-address'', \<lambda>v. fl_metricsAddr_update (\<lambda>_. v)),
      (''health-probe-bind-address'', \<lambda>v. fl_probeAddr_update (\<lambda>_. v)),
      (''webhook-cert-path'', \<lambda>v. fl_webhookCertPath_update (\<lambda>_. v)),
      (''webhook-cert-name'', \<lambda>v. fl_webhookCertName_update (\<lambda>_. v)),
      (''webhook-cert-key'', \<lambda>v. fl_webhookCertKey_update (\<lambda>_. v)),
      (''metrics-cert-path'', \<lambda>v. fl_metricsCertPath_update (\<lambda>_. v)),
      (''metrics-cert-name'', \<lambda>v. fl_metricsCertName_update (\<lambda>_. v)),
      (''metrics-cert-key'', \<lambda>v. fl_metricsCertKey_update (\<lambda>_. v))]"

definition boolVars :: "(string \<times> (bool \<Rightarrow> Flags \<Rightarrow> Flags)) list" where
  "boolVars =
     [(''leader-elect'', \<lambda>v. fl_enableLeaderElection_update (\<lambda>_. v)),
      (''metrics-secure'', \<lambda>v. fl_secureMetrics_update (\<lambda>_. v)),
      (''enable-http2'', \<lambda>v. fl_enableHTTP2_update (\<lambda>_. v)),
      (''enable-webhooks'', \<lambda>v. fl_enableWebhooks_update (\<lambda>_. v))]"

text \<open>\<open>strconv.ParseBool\<close>.\<close>

definition parseBool :: "string \<Rightarrow> bool option" where
  "parseBool s =
     (if s \<in> {''1'', ''t'', ''T'', ''TRUE'', ''true'', ''True''} then Some True
      else if s \<in> {''0'', ''f'', ''F'', ''FALSE'', ''false'', ''False''} then Some False else None)"

text \<open>
  \<open>flag.Parse\<close> of Go's standard library. \<open>other\<close> stands for the flags that logging and the Kubernetes
  client register on the same command line: whether a name is theirs, whether it is boolean, and which
  values they accept.
\<close>

datatype parseOutcome = Parsed Flags | FlagError | FlagHelp

type_synonym otherFlags = "string \<Rightarrow> (bool \<times> (string \<Rightarrow> bool)) option"

definition setFlag :: "otherFlags \<Rightarrow> string \<Rightarrow> string \<Rightarrow> Flags \<Rightarrow> Flags option" where
  "setFlag other name v fl =
     (case map_of stringVars name of
        Some upd \<Rightarrow> Some (upd v fl)
      | None \<Rightarrow>
          (case map_of boolVars name of
             Some upd \<Rightarrow> map_option (\<lambda>b. upd b fl) (parseBool v)
           | None \<Rightarrow> (case other name of Some (_, accepts) \<Rightarrow> if accepts v then Some fl else None | None \<Rightarrow> None)))"

definition isBoolFlag :: "otherFlags \<Rightarrow> string \<Rightarrow> bool" where
  "isBoolFlag other name =
     (map_of boolVars name \<noteq> None
      \<or> (map_of stringVars name = None \<and> (case other name of Some (b, _) \<Rightarrow> b | None \<Rightarrow> False)))"

definition definedFlag :: "otherFlags \<Rightarrow> string \<Rightarrow> bool" where
  "definedFlag other name = (map_of boolVars name \<noteq> None \<or> map_of stringVars name \<noteq> None \<or> other name \<noteq> None)"

text \<open>An argument without its dashes: the name and, after the first \<open>=\<close> that is not its first character, a value.\<close>

definition splitArg :: "string \<Rightarrow> string \<times> string option" where
  "splitArg s =
     (case s of
        [] \<Rightarrow> ([], None)
      | c # cs \<Rightarrow>
          (case dropWhile (\<lambda>x. x \<noteq> CHR ''='') cs of
             [] \<Rightarrow> (s, None)
           | _ # v \<Rightarrow> (c # takeWhile (\<lambda>x. x \<noteq> CHR ''='') cs, Some v)))"

definition flagText :: "string \<Rightarrow> string option" where
  "flagText s =
     (if length s < 2 \<or> hd s \<noteq> CHR ''-'' \<or> s = ''--'' then None
      else Some (if s ! 1 = CHR ''-'' then drop 2 s else drop 1 s))"

function parseFlags :: "otherFlags \<Rightarrow> string list \<Rightarrow> Flags \<Rightarrow> parseOutcome" where
  "parseFlags other [] fl = Parsed fl"
| "parseFlags other (s # args) fl =
     (case flagText s of
        None \<Rightarrow> Parsed fl
      | Some txt \<Rightarrow>
          if txt = [] \<or> hd txt = CHR ''-'' \<or> hd txt = CHR ''='' then FlagError
          else (case splitArg txt of (name, v) \<Rightarrow>
            if \<not> definedFlag other name then (if name = ''help'' \<or> name = ''h'' then FlagHelp else FlagError)
            else if isBoolFlag other name then
              (case setFlag other name (case v of Some x \<Rightarrow> x | None \<Rightarrow> ''true'') fl of
                 Some fl' \<Rightarrow> parseFlags other args fl' | None \<Rightarrow> FlagError)
            else (case v of
                Some x \<Rightarrow> (case setFlag other name x fl of Some fl' \<Rightarrow> parseFlags other args fl' | None \<Rightarrow> FlagError)
              | None \<Rightarrow>
                  (case args of
                     [] \<Rightarrow> FlagError
                   | x # rest \<Rightarrow>
                       (case setFlag other name x fl of Some fl' \<Rightarrow> parseFlags other rest fl' | None \<Rightarrow> FlagError)))))"
  by pat_completeness auto
termination by (relation "measure (\<lambda>(other, args, fl). length args)") auto

section \<open>Start-up\<close>

datatype tlsOption = NextProtosHttp11 | GetCertificateFrom string string

record MetricsOptions =
  mo_BindAddress :: string
  mo_SecureServing :: bool
  mo_TLSOpts :: "tlsOption list"
  mo_FilterProvider :: bool

record ManagerOptions =
  mgo_Metrics :: MetricsOptions
  mgo_WebhookTLSOpts :: "tlsOption list"
  mgo_HealthProbeBindAddress :: string
  mgo_LeaderElection :: bool
  mgo_LeaderElectionID :: string
  mgo_LeaderElectionReleaseOnCancel :: bool
  mgo_Cache :: "kkind \<Rightarrow> labels option"

datatype mainCall =
    ListenAndServe ExporterServer
  | NewCertWatcher string string
  | GetConfig
  | NewManager ManagerOptions
  | SetupGameController PalworldGameReconciler
  | SetupBackupController PalworldBackupReconciler
  | SetupRestoreController PalworldRestoreReconciler
  | SetupWebhook
  | AddCertWatcher string string
  | AddHealthzCheck string
  | AddReadyzCheck string
  | StartManager

datatype mainReply = MainOK | MainErr

type_synonym 'a m = "(mainCall, mainReply, 'a) op"

definition orExit :: "mainCall \<Rightarrow> nat m \<Rightarrow> nat m" where
  "orExit c k = do { r \<leftarrow> call c; if r = MainErr then ret 1 else k }"

definition withCertWatcher :: "string \<Rightarrow> string \<Rightarrow> string \<Rightarrow> ((string \<times> string) option \<Rightarrow> nat m) \<Rightarrow> nat m" where
  "withCertWatcher path crt key k =
     (if path = [] then k None
      else orExit (NewCertWatcher (path @ ''/'' @ crt) (path @ ''/'' @ key))
             (k (Some (path @ ''/'' @ crt, path @ ''/'' @ key))))"

fun certOption :: "(string \<times> string) option \<Rightarrow> tlsOption list" where
  "certOption None = []"
| "certOption (Some (c, k)) = [GetCertificateFrom c k]"

definition addWatcher :: "(string \<times> string) option \<Rightarrow> nat m \<Rightarrow> nat m" where
  "addWatcher w k = (case w of None \<Rightarrow> k | Some (c, key) \<Rightarrow> orExit (AddCertWatcher c key) k)"

definition baseTLSOpts :: "Flags \<Rightarrow> tlsOption list" where
  "baseTLSOpts fl = (if fl_enableHTTP2 fl then [] else [NextProtosHttp11])"

definition managerOptions ::
    "Flags \<Rightarrow> (string \<times> string) option \<Rightarrow> (string \<times> string) option \<Rightarrow> ManagerOptions" where
  "managerOptions fl webhookWatcher metricsWatcher =
     \<lparr>mgo_Metrics =
        \<lparr>mo_BindAddress = fl_metricsAddr fl, mo_SecureServing = fl_secureMetrics fl,
         mo_TLSOpts = baseTLSOpts fl @ certOption metricsWatcher, mo_FilterProvider = fl_secureMetrics fl\<rparr>,
      mgo_WebhookTLSOpts = baseTLSOpts fl @ certOption webhookWatcher,
      mgo_HealthProbeBindAddress = fl_probeAddr fl, mgo_LeaderElection = fl_enableLeaderElection fl,
      mgo_LeaderElectionID = ''palworld-operator.twodcube.io'', mgo_LeaderElectionReleaseOnCancel = True,
      mgo_Cache = operatorCacheOptions\<rparr>"

text \<open>The reconcilers \<open>main\<close> builds, before their set-up fills in the environment.\<close>

definition newGameReconciler :: "Lib \<Rightarrow> PalworldGameReconciler" where
  "newGameReconciler L = \<lparr>gr_Lib = L, gr_APIReader = False, gr_OperatorNamespace = [], gr_OperatorImage = [],
     gr_DefaultServerImage = [], gr_SteamInfoEndpoint = [], gr_capDone = False, gr_hasRoute = False,
     gr_hasServiceMonitor = False\<rparr>"

definition newBackupReconciler :: "Lib \<Rightarrow> PalworldBackupReconciler" where
  "newBackupReconciler L = \<lparr>br_Lib = L, br_APIReader = False, br_DefaultServerImage = [], br_capDone = False,
     br_openShift = False, br_hasSnapshot = False\<rparr>"

definition newRestoreReconciler :: "Lib \<Rightarrow> PalworldRestoreReconciler" where
  "newRestoreReconciler L = \<lparr>rr_Lib = L, rr_DefaultServerImage = [], rr_openShift = False, rr_probed = False\<rparr>"

definition operatorMain :: "Lib \<Rightarrow> (string \<Rightarrow> string) \<Rightarrow> Flags \<Rightarrow> nat m" where
  "operatorMain L getenv fl =
     withCertWatcher (fl_webhookCertPath fl) (fl_webhookCertName fl) (fl_webhookCertKey fl) (\<lambda>webhookWatcher.
     withCertWatcher (fl_metricsCertPath fl) (fl_metricsCertName fl) (fl_metricsCertKey fl) (\<lambda>metricsWatcher.
     orExit GetConfig
     (orExit (NewManager (managerOptions fl webhookWatcher metricsWatcher))
     (orExit (SetupGameController (SetupWithManager getenv (newGameReconciler L)))
     (orExit (SetupBackupController (SetupBackup getenv (newBackupReconciler L)))
     (orExit (SetupRestoreController (SetupRestore getenv (newRestoreReconciler L)))
     ((if fl_enableWebhooks fl then orExit SetupWebhook else id)
     (addWatcher metricsWatcher
     (addWatcher webhookWatcher
     (orExit (AddHealthzCheck ''healthz'')
     (orExit (AddReadyzCheck ''readyz'')
     (orExit StartManager (ret 0)))))))))))))"

text \<open>\<open>os.Args\<close> includes the program name. A bad command line exits with 2, \<^verbatim>\<open>-help\<close> with 0.\<close>

definition main :: "otherFlags \<Rightarrow> Lib \<Rightarrow> (string \<Rightarrow> string) \<Rightarrow> string list \<Rightarrow> nat m" where
  "main other L getenv args =
     (if 1 < length args \<and> args ! 1 = ''exporter'' then orExit (ListenAndServe (exporterServer getenv)) (ret 0)
      else (case parseFlags other (drop 1 args) defaultFlags of
              Parsed fl \<Rightarrow> operatorMain L getenv fl
            | FlagError \<Rightarrow> ret 2
            | FlagHelp \<Rightarrow> ret 0))"

section \<open>The start-up sequence\<close>

text \<open>
  The specification of start-up: one fixed list of calls per command line, executed in order up to
  the first failure.
\<close>

fun certWatch :: "string \<Rightarrow> string \<Rightarrow> string \<Rightarrow> (string \<times> string) option" where
  "certWatch path crt key = (if path = [] then None else Some (path @ ''/'' @ crt, path @ ''/'' @ key))"

abbreviation webhookWatch :: "Flags \<Rightarrow> (string \<times> string) option" where
  "webhookWatch fl \<equiv> certWatch (fl_webhookCertPath fl) (fl_webhookCertName fl) (fl_webhookCertKey fl)"

abbreviation metricsWatch :: "Flags \<Rightarrow> (string \<times> string) option" where
  "metricsWatch fl \<equiv> certWatch (fl_metricsCertPath fl) (fl_metricsCertName fl) (fl_metricsCertKey fl)"

fun watcherCalls :: "(string \<Rightarrow> string \<Rightarrow> mainCall) \<Rightarrow> (string \<times> string) option \<Rightarrow> mainCall list" where
  "watcherCalls f None = []"
| "watcherCalls f (Some (c, k)) = [f c k]"

definition startupCalls :: "Lib \<Rightarrow> (string \<Rightarrow> string) \<Rightarrow> Flags \<Rightarrow> mainCall list" where
  "startupCalls L getenv fl =
     watcherCalls NewCertWatcher (webhookWatch fl) @ watcherCalls NewCertWatcher (metricsWatch fl)
     @ [GetConfig, NewManager (managerOptions fl (webhookWatch fl) (metricsWatch fl)),
        SetupGameController (SetupWithManager getenv (newGameReconciler L)),
        SetupBackupController (SetupBackup getenv (newBackupReconciler L)),
        SetupRestoreController (SetupRestore getenv (newRestoreReconciler L))]
     @ (if fl_enableWebhooks fl then [SetupWebhook] else [])
     @ watcherCalls AddCertWatcher (metricsWatch fl) @ watcherCalls AddCertWatcher (webhookWatch fl)
     @ [AddHealthzCheck ''healthz'', AddReadyzCheck ''readyz'', StartManager]"

primrec runCalls :: "mainCall list \<Rightarrow> nat m" where
  "runCalls [] = ret 0"
| "runCalls (c # cs) = orExit c (runCalls cs)"

lemma runCalls_append: "runCalls (xs @ ys) = fold (\<lambda>c k. orExit c k) (rev xs) (runCalls ys)"
  by (induction xs) simp_all

lemma withCertWatcher_run:
  "withCertWatcher path crt key k =
     fold (\<lambda>c k. orExit c k) (rev (watcherCalls NewCertWatcher (certWatch path crt key))) (k (certWatch path crt key))"
  by (simp add: withCertWatcher_def)

lemma addWatcher_run: "addWatcher w k = fold (\<lambda>c k. orExit c k) (rev (watcherCalls AddCertWatcher w)) k"
  by (cases w) (auto simp: addWatcher_def)

lemma operatorMain_runCalls: "operatorMain L getenv fl = runCalls (startupCalls L getenv fl)"
  unfolding operatorMain_def startupCalls_def withCertWatcher_run addWatcher_run
  by (simp add: runCalls_append)

text \<open>Fail-fast execution: the calls made are a prefix of the list, only the last may have failed, and the exit code says which.\<close>

definition failFast :: "mainCall list \<Rightarrow> nat \<Rightarrow> (mainCall \<times> mainReply) list \<Rightarrow> bool" where
  "failFast cs code es \<longleftrightarrow>
     (code = 0 \<and> map fst es = cs \<and> list_all (\<lambda>e. snd e = MainOK) es)
     \<or> (code = 1 \<and> es \<noteq> [] \<and> map fst es = take (length es) cs \<and> snd (last es) = MainErr
        \<and> list_all (\<lambda>e. snd e = MainOK) (butlast es))"

lemma mainReply_not_err: "x \<noteq> MainErr \<longleftrightarrow> x = MainOK"
  by (cases x) simp_all

lemma runCalls_failFast: "ensures (failFast cs) (runCalls cs)"
proof (induction cs)
  case Nil show ?case by (auto intro!: ensures_intros simp: failFast_def)
next
  case (Cons c cs)
  show ?case unfolding runCalls.simps orExit_def
    by (intro ensures_intros, simp add: failFast_def, rule ensures_mono [OF Cons])
      (auto simp: failFast_def mainReply_not_err)
qed

section \<open>Printing a command line\<close>

definition formatBoolFlag :: "bool \<Rightarrow> string" where
  "formatBoolFlag b = (if b then ''true'' else ''false'')"

definition flagArg :: "string \<Rightarrow> string \<Rightarrow> string" where
  "flagArg name v = ''--'' @ name @ ''='' @ v"

definition printFlags :: "Flags \<Rightarrow> string list" where
  "printFlags fl =
     [flagArg ''metrics-bind-address'' (fl_metricsAddr fl), flagArg ''health-probe-bind-address'' (fl_probeAddr fl),
      flagArg ''leader-elect'' (formatBoolFlag (fl_enableLeaderElection fl)),
      flagArg ''metrics-secure'' (formatBoolFlag (fl_secureMetrics fl)),
      flagArg ''webhook-cert-path'' (fl_webhookCertPath fl), flagArg ''webhook-cert-name'' (fl_webhookCertName fl),
      flagArg ''webhook-cert-key'' (fl_webhookCertKey fl), flagArg ''metrics-cert-path'' (fl_metricsCertPath fl),
      flagArg ''metrics-cert-name'' (fl_metricsCertName fl), flagArg ''metrics-cert-key'' (fl_metricsCertKey fl),
      flagArg ''enable-http2'' (formatBoolFlag (fl_enableHTTP2 fl)),
      flagArg ''enable-webhooks'' (formatBoolFlag (fl_enableWebhooks fl))]"

lemma flagText_flagArg: "flagText (flagArg name v) = Some (name @ ''='' @ v)"
  by (simp add: flagText_def flagArg_def)

lemma splitArg_named:
  "name \<noteq> [] \<Longrightarrow> CHR ''='' \<notin> set name \<Longrightarrow> splitArg (name @ CHR ''='' # v) = (name, Some v)"
  by (cases name) (auto simp: splitArg_def dropWhile_append takeWhile_append)

text \<open>A name that a flag can have: it does not start with a dash and has no equals sign.\<close>

definition flagName :: "string \<Rightarrow> bool" where
  "flagName name \<longleftrightarrow> name \<noteq> [] \<and> hd name \<noteq> CHR ''-'' \<and> CHR ''='' \<notin> set name"

lemma parseFlags_string:
  assumes "map_of stringVars name = Some upd" and "map_of boolVars name = None" and n: "flagName name"
  shows "parseFlags other (flagArg name v # args) fl = parseFlags other args (upd v fl)"
proof -
  have "hd (name @ ''='' @ v) \<noteq> CHR ''-''" "hd (name @ ''='' @ v) \<noteq> CHR ''=''"
    using n by (cases name; auto simp: flagName_def)+
  with assms show ?thesis
    by (simp add: flagText_flagArg splitArg_named flagName_def definedFlag_def isBoolFlag_def setFlag_def)
qed

lemma parseFlags_bool:
  assumes "map_of boolVars name = Some upd" and "map_of stringVars name = None" and n: "flagName name"
  shows "parseFlags other (flagArg name (formatBoolFlag b) # args) fl = parseFlags other args (upd b fl)"
proof -
  have "hd (name @ ''='' @ v) \<noteq> CHR ''-''" "hd (name @ ''='' @ v) \<noteq> CHR ''=''" for v
    using n by (cases name; auto simp: flagName_def)+
  with assms show ?thesis
    by (simp add: flagText_flagArg splitArg_named flagName_def definedFlag_def isBoolFlag_def setFlag_def
        formatBoolFlag_def parseBool_def)
qed

lemma string_flags:
  "flagName name \<and> map_of boolVars name = None"
  if "name \<in> {''metrics-bind-address'', ''health-probe-bind-address'', ''webhook-cert-path'', ''webhook-cert-name'',
       ''webhook-cert-key'', ''metrics-cert-path'', ''metrics-cert-name'', ''metrics-cert-key''}"
  using that by (elim insertE emptyE) (simp_all add: flagName_def boolVars_def)

lemma bool_flags:
  "flagName name \<and> map_of stringVars name = None"
  if "name \<in> {''leader-elect'', ''metrics-secure'', ''enable-http2'', ''enable-webhooks''}"
  using that by (elim insertE emptyE) (simp_all add: flagName_def stringVars_def)

section \<open>Properties\<close>

text \<open>
  The command line is complete: every configuration of the twelve flags can be written as
  arguments that \<open>flag.Parse\<close> reads back to exactly that configuration, whatever the values are and
  whatever flags other packages register.
\<close>

theorem flags_roundtrip: "parseFlags other (printFlags fl) defaultFlags = Parsed fl"
  unfolding printFlags_def
  by (simp add: parseFlags_string parseFlags_bool string_flags bool_flags stringVars_def boolVars_def
      defaultFlags_def del: parseFlags.simps(2))

text \<open>
  C25: start-up is fail-fast and complete. For every command line that parses and is not the exporter
  subcommand, the process makes the calls of one fixed sequence in order (certificate watchers, the
  manager with its options, the three controllers with their configuration from the environment, the
  webhook if enabled, the health checks, the start), stops at the first failure with exit code 1, and
  returns normally exactly when all succeeded. In particular the manager is only started when every
  earlier step was made and succeeded.
\<close>

theorem main_starts_complete_or_exits:
  assumes "\<not> (1 < length args \<and> args ! 1 = ''exporter'')"
    and "parseFlags other (drop 1 args) defaultFlags = Parsed fl"
  shows "ensures (\<lambda>code es. failFast (startupCalls L getenv fl) code es
      \<and> (\<forall>x. (StartManager, x) \<in> set es \<longrightarrow>
           map fst (butlast es) = butlast (startupCalls L getenv fl) \<and> list_all (\<lambda>e. snd e = MainOK) (butlast es)))
     (main other L getenv args)"
proof -
  have m: "main other L getenv args = runCalls (startupCalls L getenv fl)"
    using assms by (auto simp: main_def operatorMain_runCalls)
  let ?cs = "startupCalls L getenv fl"
  have only_last: "StartManager \<notin> set (butlast ?cs)" "?cs \<noteq> []"
    by (auto simp: startupCalls_def butlast_append elim!: watcherCalls.elims)
  have "map fst (butlast es) = butlast ?cs \<and> list_all (\<lambda>e. snd e = MainOK) (butlast es)"
    if ff: "failFast ?cs code es" and x: "(StartManager, x) \<in> set es" for code es x
  proof -
    have "map fst es = take (length es) ?cs"
      using ff unfolding failFast_def by (metis length_map take_all_iff order_refl)
    moreover from this have "length es \<le> length ?cs"
      by (auto dest: arg_cong [where f = length])
    moreover have "\<not> length es < length ?cs"
    proof
      assume "length es < length ?cs"
      then have "set (take (length es) ?cs) \<subseteq> set (butlast ?cs)"
        by (simp add: butlast_conv_take set_take_subset_set_take)
      moreover have "StartManager \<in> set (map fst es)" using x by force
      ultimately show False using only_last \<open>map fst es = take (length es) ?cs\<close> by auto
    qed
    ultimately have "map fst es = ?cs" by simp
    then show ?thesis
      using ff by (auto simp: failFast_def map_butlast list_all_iff dest: in_set_butlastD)
  qed
  then show ?thesis unfolding m by (intro ensures_mono [OF runCalls_failFast]) blast
qed

definition mainWorld :: "(mainCall, mainReply) world" where
  "mainWorld = \<lparr>srv = \<lambda>h c. (if c = AddReadyzCheck ''readyz'' then MainErr else MainOK), hist = []\<rparr>"

theorem main_starts_complete_or_exits_witness:
  "failFast (startupCalls refLib (\<lambda>_. []) defaultFlags)
     (val (main (\<lambda>_. None) refLib (\<lambda>_. []) [''manager'']) mainWorld)
     (events (main (\<lambda>_. None) refLib (\<lambda>_. []) [''manager'']) mainWorld)"
  by (rule conjunct1, rule ensuresD [OF main_starts_complete_or_exits]) simp_all

end
