(* ===== verification/Rbac.thy ===== *)
theory Rbac
  imports Cluster
begin

text \<open>
  The permissions of the operator: the RBAC markers above the three reconcilers, from which the manager's
  role is generated, and what the API server asks for each call. A read through the client's cache needs
  the verbs of an informer as well.
\<close>

datatype verb = VGet | VList | VWatch | VCreate | VUpdate | VPatch | VDelete

record rbacRule =
  rule_Group :: string
  rule_Resources :: "string list"
  rule_Verbs :: "verb list"

definition allVerbs :: "verb list" where
  "allVerbs = [VGet, VList, VWatch, VCreate, VUpdate, VPatch, VDelete]"

definition rule :: "string \<Rightarrow> string list \<Rightarrow> verb list \<Rightarrow> rbacRule" where
  "rule grp resources verbs = \<lparr>rule_Group = grp, rule_Resources = resources, rule_Verbs = verbs\<rparr>"

definition gameRules :: "rbacRule list" where
  "gameRules =
     [rule ''palworld.twodcube.io'' [''palworldgames''] allVerbs,
      rule ''palworld.twodcube.io'' [''palworldgames/status''] [VGet, VUpdate, VPatch],
      rule ''palworld.twodcube.io'' [''palworldgames/finalizers''] [VUpdate],
      rule ''palworld.twodcube.io'' [''palworldbackups''] allVerbs,
      rule ''apps'' [''statefulsets''] allVerbs,
      rule [] [''services'', ''configmaps'', ''secrets'', ''serviceaccounts'', ''persistentvolumeclaims''] allVerbs,
      rule [] [''pods''] [VGet, VList, VWatch, VPatch, VUpdate, VDelete],
      rule [] [''nodes''] [VGet, VList, VWatch],
      rule [] [''events''] [VCreate, VPatch],
      rule ''policy'' [''poddisruptionbudgets''] allVerbs,
      rule ''networking.k8s.io'' [''networkpolicies''] allVerbs,
      rule ''route.openshift.io'' [''routes''] allVerbs,
      rule ''monitoring.coreos.com'' [''servicemonitors''] allVerbs]"

definition backupRules :: "rbacRule list" where
  "backupRules =
     [rule ''palworld.twodcube.io'' [''palworldbackups''] allVerbs,
      rule ''palworld.twodcube.io'' [''palworldbackups/status''] [VGet, VUpdate, VPatch],
      rule ''palworld.twodcube.io'' [''palworldbackups/finalizers''] [VUpdate],
      rule ''palworld.twodcube.io'' [''palworldgames''] [VGet, VList, VWatch],
      rule ''snapshot.storage.k8s.io'' [''volumesnapshots''] allVerbs,
      rule ''batch'' [''jobs''] allVerbs]"

definition restoreRules :: "rbacRule list" where
  "restoreRules =
     [rule ''palworld.twodcube.io'' [''palworldrestores''] allVerbs,
      rule ''palworld.twodcube.io'' [''palworldrestores/status''] [VGet, VUpdate, VPatch],
      rule ''palworld.twodcube.io'' [''palworldrestores/finalizers''] [VUpdate],
      rule ''palworld.twodcube.io'' [''palworldgames''] [VGet, VList, VWatch, VUpdate, VPatch],
      rule ''palworld.twodcube.io'' [''palworldbackups''] [VGet, VList, VWatch]]"

definition managerRole :: "rbacRule list" where
  "managerRole = gameRules @ backupRules @ restoreRules"

definition permits :: "rbacRule list \<Rightarrow> string \<times> string \<Rightarrow> verb \<Rightarrow> bool" where
  "permits role target v =
     list_ex (\<lambda>q. rule_Group q = fst target \<and> snd target \<in> set (rule_Resources q) \<and> v \<in> set (rule_Verbs q)) role"

text \<open>The API group and the resource of a kind; an unknown unstructured kind has none.\<close>

fun targetOf :: "kkind \<Rightarrow> string \<times> string" where
  "targetOf GameKind = (''palworld.twodcube.io'', ''palworldgames'')"
| "targetOf BackupKind = (''palworld.twodcube.io'', ''palworldbackups'')"
| "targetOf RestoreKind = (''palworld.twodcube.io'', ''palworldrestores'')"
| "targetOf StsKind = (''apps'', ''statefulsets'')"
| "targetOf PodKind = ([], ''pods'')"
| "targetOf NodeKind = ([], ''nodes'')"
| "targetOf SecretKind = ([], ''secrets'')"
| "targetOf ServiceKind = ([], ''services'')"
| "targetOf PVCKind = ([], ''persistentvolumeclaims'')"
| "targetOf JobKind = (''batch'', ''jobs'')"
| "targetOf ServiceAccountKind = ([], ''serviceaccounts'')"
| "targetOf ConfigMapKind = ([], ''configmaps'')"
| "targetOf PDBKind = (''policy'', ''poddisruptionbudgets'')"
| "targetOf NetworkPolicyKind = (''networking.k8s.io'', ''networkpolicies'')"
| "targetOf (UnKind gvk) =
     (if gvk = VolumeSnapshotGVK then (''snapshot.storage.k8s.io'', ''volumesnapshots'')
      else if gvk = RouteGVK then (''route.openshift.io'', ''routes'')
      else if gvk = ServiceMonitorGVK then (''monitoring.coreos.com'', ''servicemonitors'')
      else ([], []))"

fun kindOf :: "kobj \<Rightarrow> kkind" where
  "kindOf (OGame x) = GameKind"
| "kindOf (OBackup x) = BackupKind"
| "kindOf (ORestore x) = RestoreKind"
| "kindOf (OSts x) = StsKind"
| "kindOf (OPod x) = PodKind"
| "kindOf (ONode x) = NodeKind"
| "kindOf (OSecret x) = SecretKind"
| "kindOf (OService x) = ServiceKind"
| "kindOf (OPVC x) = PVCKind"
| "kindOf (OJob x) = JobKind"
| "kindOf (OUn x) = UnKind (un_GVK x)"
| "kindOf (OServiceAccount x) = ServiceAccountKind"
| "kindOf (OConfigMap x) = ConfigMapKind"
| "kindOf (OPDB x) = PDBKind"
| "kindOf (ONetworkPolicy x) = NetworkPolicyKind"

abbreviation statusOf :: "string \<times> string \<Rightarrow> string \<times> string" where
  "statusOf target \<equiv> (fst target, snd target @ ''/status'')"

fun demands :: "call \<Rightarrow> ((string \<times> string) \<times> verb) list" where
  "demands (Get kd key) = map (Pair (targetOf kd)) [VGet, VList, VWatch]"
| "demands (GetUncached kd key) = [(targetOf kd, VGet)]"
| "demands (Create ob) = [(targetOf (kindOf ob), VCreate)]"
| "demands (Update ob) = [(targetOf (kindOf ob), VUpdate)]"
| "demands (StatusUpdate ob) = [(statusOf (targetOf (kindOf ob)), VUpdate)]"
| "demands (Delete kd key) = [(targetOf kd, VDelete)]"
| "demands (PatchPod old new) = [(targetOf PodKind, VPatch)]"
| "demands (CreateOrUpdate kd key f) = map (Pair (targetOf kd)) [VGet, VList, VWatch, VCreate, VUpdate]"
| "demands (ListBackups ns l) = map (Pair (targetOf BackupKind)) [VList, VWatch]"
| "demands ListGames = map (Pair (targetOf GameKind)) [VList, VWatch]"
| "demands (Event ob ty reason msg) = map (Pair ([], ''events'')) [VCreate, VPatch]"
| "demands _ = []"

definition authorized :: "call \<Rightarrow> bool" where
  "authorized c \<longleftrightarrow> list_all (\<lambda>(target, v). permits managerRole target v) (demands c)"

section \<open>What the role covers\<close>

text \<open>Every verb on a kind, for the kinds the role gives all of them.\<close>

definition fullAccess :: "kkind \<Rightarrow> bool" where
  "fullAccess kd \<longleftrightarrow> list_all (permits managerRole (targetOf kd)) allVerbs"

lemmas role_defs = permits_def managerRole_def gameRules_def backupRules_def restoreRules_def rule_def allVerbs_def

lemma gvk_distinct: "VolumeSnapshotGVK \<noteq> RouteGVK" "VolumeSnapshotGVK \<noteq> ServiceMonitorGVK" "RouteGVK \<noteq> ServiceMonitorGVK"
  by (simp_all add: VolumeSnapshotGVK_def RouteGVK_def ServiceMonitorGVK_def)

lemma fullAccess_kinds [simp]:
  "fullAccess GameKind" "fullAccess BackupKind" "fullAccess RestoreKind" "fullAccess StsKind" "fullAccess SecretKind"
  "fullAccess ServiceKind" "fullAccess PVCKind" "fullAccess JobKind" "fullAccess ServiceAccountKind"
  "fullAccess ConfigMapKind" "fullAccess PDBKind" "fullAccess NetworkPolicyKind" "fullAccess (UnKind VolumeSnapshotGVK)"
  "fullAccess (UnKind RouteGVK)" "fullAccess (UnKind ServiceMonitorGVK)"
  using gvk_distinct by (simp_all add: fullAccess_def role_defs)

lemma fullAccess_authorized [simp]:
  assumes "fullAccess kd"
  shows "authorized (Get kd key)" "authorized (GetUncached kd key)" "authorized (Delete kd key)"
    "authorized (CreateOrUpdate kd key f)"
  using assms by (simp_all add: fullAccess_def authorized_def allVerbs_def)

lemma fullAccess_objects [simp]:
  assumes "fullAccess (kindOf ob)"
  shows "authorized (Create ob)" "authorized (Update ob)"
  using assms by (simp_all add: fullAccess_def authorized_def allVerbs_def)

lemma other_authorized [simp]:
  "authorized (Get PodKind key)" "authorized (Get NodeKind key)" "authorized (GetUncached PodKind key)"
  "authorized (Delete PodKind key)" "authorized (PatchPod p q)" "authorized (Event ob ty reason msg)"
  "authorized (ListBackups ns l)" "authorized ListGames" "authorized (StatusUpdate (OGame g))"
  "authorized (StatusUpdate (OBackup b))" "authorized (StatusUpdate (ORestore rs))"
  "authorized (RESTMapping gvk)" "authorized Now" "authorized (Sleep d)" "authorized (RandInt n)" "authorized (Http rq)"
  "authorized (Rcon a b' c d)"
  by (simp_all add: authorized_def role_defs)

end
