(* ===== verification/CacheVisibility.thy ===== *)
theory CacheVisibility
  imports Manager Rbac
begin

text \<open>
  The informer cache of \<^verbatim>\<open>cmd/main.go\<close> only holds objects with the operator's label, for ten kinds. The
  controllers read these kinds through the cache, so an object they write without the label would be
  invisible to them: they would create it again and again. This theory shows that no reconcile of
  the three controllers writes such an object, whatever the outside answers and whatever labels
  users put on their games, and that every call they make is one the operator's role permits.
\<close>

section \<open>Labelled writes\<close>

text \<open>The labels of an object of a kind the operator creates.\<close>

fun labelsOf :: "kobj \<Rightarrow> labels" where
  "labelsOf (OGame x) = m_Labels (g_Meta x)"
| "labelsOf (OBackup x) = m_Labels (b_Meta x)"
| "labelsOf (ORestore x) = m_Labels (r_Meta x)"
| "labelsOf (OSts x) = m_Labels (sts_Meta x)"
| "labelsOf (OPod x) = m_Labels (pod_Meta x)"
| "labelsOf (ONode x) = Map.empty"
| "labelsOf (OSecret x) = m_Labels (sec_Meta x)"
| "labelsOf (OService x) = m_Labels (svc_Meta x)"
| "labelsOf (OPVC x) = m_Labels (pvc_Meta x)"
| "labelsOf (OJob x) = m_Labels (job_Meta x)"
| "labelsOf (OUn x) = m_Labels (un_Meta x)"
| "labelsOf (OServiceAccount x) = m_Labels (sa_Meta x)"
| "labelsOf (OConfigMap x) = m_Labels (cm_Meta x)"
| "labelsOf (OPDB x) = m_Labels (pdb_Meta x)"
| "labelsOf (ONetworkPolicy x) = m_Labels (np_Meta x)"

text \<open>The objects the API server derives from an object: pods, and the claims of a new StatefulSet.\<close>

fun derived :: "kobj \<Rightarrow> (kkind \<times> labels) list" where
  "derived (OSts x) =
     (PodKind, pt_Labels (stp_Template (sts_Spec x)))
     # (if m_CreationTimestamp (sts_Meta x) = None
        then map (\<lambda>c. (PVCKind, m_Labels (pvc_Meta c))) (stp_VolumeClaimTemplates (sts_Spec x)) else [])"
| "derived (OJob x) = [(PodKind, pt_Labels (job_Template x))]"
| "derived _ = []"

definition visible :: "kobj \<Rightarrow> bool" where
  "visible ob \<longleftrightarrow> list_all (\<lambda>(kd, l). cacheHolds kd l) ((kindOf ob, labelsOf ob) # derived ob)"

text \<open>A call that only writes objects the cache holds; a mutate function is judged on every live object.\<close>

fun visibleWrite :: "call \<Rightarrow> bool" where
  "visibleWrite (Create ob) = visible ob"
| "visibleWrite (Update ob) = visible ob"
| "visibleWrite (CreateOrUpdate kd key f) = (\<forall>live ob. f live = Inr ob \<longrightarrow> visible ob)"
| "visibleWrite _ = True"

text \<open>\<open>SetControllerReference\<close> adds an owner reference and leaves the labels and the creation time alone.\<close>

definition keepsLabels :: "Lib \<Rightarrow> bool" where
  "keepsLabels L \<longleftrightarrow>
     (\<forall>kd own m m'. x_SetControllerReference L kd own m = Inr m' \<longrightarrow>
        m_Labels m' = m_Labels m \<and> m_CreationTimestamp m' = m_CreationTimestamp m)"

lemma keepsLabelsD:
  "keepsLabels L \<Longrightarrow> x_SetControllerReference L kd own m = Inr m' \<Longrightarrow> m_Labels m' = m_Labels m"
  "keepsLabels L \<Longrightarrow> x_SetControllerReference L kd own m = Inr m' \<Longrightarrow> m_CreationTimestamp m' = m_CreationTimestamp m"
  unfolding keepsLabels_def by blast+

lemma managed_le: "[LabelManagedBy \<mapsto> ManagedByValue] \<subseteq>\<^sub>m l \<longleftrightarrow> l LabelManagedBy = Some ManagedByValue"
  by (auto simp: map_le_def)

lemma cacheHolds_managed: "l LabelManagedBy = Some ManagedByValue \<Longrightarrow> cacheHolds kd l"
  by (simp add: cacheHolds_def operatorCacheOptions_def Let_def managed_le)

lemma cacheHolds_free: "cacheHolds GameKind l" "cacheHolds BackupKind l" "cacheHolds RestoreKind l" "cacheHolds (UnKind gvk) l"
  by (simp_all add: cacheHolds_def operatorCacheOptions_def)

text \<open>One walk through the controllers shows both that writes are visible and that calls are authorized.\<close>

definition lawful :: "call \<Rightarrow> bool" where
  "lawful c \<longleftrightarrow> visibleWrite c \<and> authorized c"

named_theorems visible_only \<open>operations that only make visible writes\<close>

lemmas visible_simps = lawful_def visible_def newMeta_def cacheHolds_managed cacheHolds_free CommonLabels_reserved keepsLabelsD

text \<open>The rule for a result that remembers which it was.\<close>

lemma only_result:
  "(\<And>a. x = Inl a \<Longrightarrow> only P (f a)) \<Longrightarrow> (\<And>b. x = Inr b \<Longrightarrow> only P (g b))
     \<Longrightarrow> only P (case x of Inl a \<Rightarrow> f a | Inr b \<Rightarrow> g b)"
  by (cases x) simp_all

declare lawful_def [simp]

lemmas run_only = only_ret only_call only_bind only_if only_prod only_option only_result only_let

section \<open>The owned objects of a game\<close>

lemma hasAPI_visible [visible_only]: "only lawful (hasAPI gvk)"
  unfolding hasAPI_def by (intro only_intros) simp

lemma adminPassword_visible [visible_only]: "only lawful (adminPassword b g)"
  unfolding adminPassword_def Let_def by (intro only_intros) (simp add: credentialsReader_def)

lemma restClientFor_visible [visible_only]: "only lawful (restClientFor b g)"
  unfolding restClientFor_def by (intro only_intros visible_only)

lemma now_visible [visible_only]: "only lawful now"
  unfolding now_def by (intro only_intros) simp

lemma event_visible [visible_only]: "only lawful (event ob ty rs m)"
  unfolding event_def by (intro only_intros) simp

lemma do_request_visible: "only lawful (do_request c me p b z out)"
  unfolding do_request_def by (intro only_intros) simp

lemma rest_visible [visible_only]:
  "only lawful (Info c)" "only lawful (Metrics c)" "only lawful (Announce c m)"
  "only lawful (Save c)"
  unfolding Info_def Metrics_def Announce_def Save_def by (rule do_request_visible)+

lemma LatestBuildID_visible [visible_only]: "only lawful (LatestBuildID p b)"
  unfolding LatestBuildID_def Let_def by (intro only_intros) simp

lemma probeCapabilities_visible [visible_only]: "only lawful (probeCapabilities r)"
  unfolding probeCapabilities_def by (intro only_intros visible_only)

lemma GeneratePassword_visible [visible_only]: "only lawful (GeneratePassword n)"
  by (induction n) (auto intro!: only_intros)

lemma ensureCredentials_visible:
  assumes "keepsLabels (gr_Lib r)"
  shows "only lawful (ensureCredentials r g)"
  unfolding ensureCredentials_def Let_def
  by (intro run_only visible_only) (use assms in \<open>auto simp: visible_simps DesiredGeneratedSecret_def\<close>)

lemma createOrUpdate_visible:
  "fullAccess kd \<Longrightarrow> (\<And>live ob. f live = Inr ob \<Longrightarrow> visible ob) \<Longrightarrow> only lawful (createOrUpdate kd key f)"
  unfolding createOrUpdate_def by (intro run_only) simp

lemma deleteIfExists_visible [visible_only]: "fullAccess kd \<Longrightarrow> only lawful (deleteIfExists kd key)"
  unfolding deleteIfExists_def by (intro run_only) simp

lemma ensureServiceAccount_visible:
  assumes "keepsLabels (gr_Lib r)"
  shows "only lawful (ensureServiceAccount r g)"
  unfolding ensureServiceAccount_def Let_def
  by (intro run_only createOrUpdate_visible)
    (use assms in \<open>auto simp: mutateServiceAccount_def DesiredServiceAccount_def visible_simps Let_def split: sum.splits\<close>)

lemma ensureConfigMap_visible:
  assumes "keepsLabels (gr_Lib r)"
  shows "only lawful (ensureConfigMap r g)"
  unfolding ensureConfigMap_def Let_def
  by (intro run_only createOrUpdate_visible)
    (use assms in \<open>auto simp: mutateConfigMap_def DesiredConfigMap_def visible_simps Let_def split: sum.splits\<close>)

lemma ensurePodDisruptionBudget_visible:
  assumes "keepsLabels (gr_Lib r)"
  shows "only lawful (ensurePodDisruptionBudget r g)"
  unfolding ensurePodDisruptionBudget_def Let_def
  by (intro run_only createOrUpdate_visible visible_only)
    (use assms in \<open>auto simp: mutatePDB_def DesiredPodDisruptionBudget_def visible_simps Let_def split: sum.splits\<close>)

lemma ensureNetworkPolicy_visible:
  assumes "keepsLabels (gr_Lib r)"
  shows "only lawful (ensureNetworkPolicy r g)"
  unfolding ensureNetworkPolicy_def Let_def
  by (intro run_only createOrUpdate_visible visible_only)
    (use assms in \<open>auto simp: mutateNetworkPolicy_def DesiredNetworkPolicy_def visible_simps Let_def split: sum.splits\<close>)

lemma mutateStatefulSet_visible:
  assumes "keepsLabels (gr_Lib r)" and "mutateStatefulSet r g (DesiredStatefulSet g p h) live = Inr ob"
  shows "visible ob"
proof -
  let ?d = "DesiredStatefulSet g p h"
  obtain sts where ob: "ob = OSts sts" and "m_Labels (sts_Meta sts) = m_Labels (sts_Meta ?d)"
    "stp_Template (sts_Spec sts) = stp_Template (sts_Spec ?d)"
    "m_CreationTimestamp (sts_Meta sts) = None \<Longrightarrow> sts_Spec sts = sts_Spec ?d"
    using assms by (auto simp: mutateStatefulSet_def Let_def keepsLabelsD split: sum.splits if_splits)
  then show ?thesis
    by (auto simp: visible_def DesiredStatefulSet_def Let_def dataVolumeClaim_def newMeta_def cacheHolds_managed CommonLabels_reserved)
qed

lemma ensureStatefulSet_visible:
  assumes "keepsLabels (gr_Lib r)"
  shows "only lawful (ensureStatefulSet r g)"
  unfolding ensureStatefulSet_def Let_def
  by (intro run_only createOrUpdate_visible mutateStatefulSet_visible [OF assms]) simp

lemma reconcileService_visible:
  assumes "keepsLabels L" and "m_Labels (svc_Meta d) LabelManagedBy = Some ManagedByValue"
  shows "only lawful (reconcileService L g d)"
  unfolding reconcileService_def Let_def
  by (intro run_only) (use assms in \<open>auto simp: visible_simps mergeService_def\<close>)

lemma reconcileServices_visible:
  assumes "keepsLabels L" and "\<And>d. d \<in> set ss \<Longrightarrow> m_Labels (svc_Meta d) LabelManagedBy = Some ManagedByValue"
  shows "only lawful (reconcileServices L g ss)"
  using assms by (induction ss) (auto intro!: run_only reconcileService_visible)

lemma desiredServices_managed:
  "d \<in> set (desiredServices r g) \<Longrightarrow> m_Labels (svc_Meta d) LabelManagedBy = Some ManagedByValue"
  using label_keys_distinct
  by (auto simp: desiredServices_def DesiredHeadlessService_def DesiredGameService_def DesiredAdminService_def
      DesiredMetricsService_def newService_def newMeta_def Let_def CommonLabels_reserved split: if_splits)

lemma reconcileUnstructured_visible [visible_only]:
  "fullAccess (UnKind (un_GVK d)) \<Longrightarrow> only lawful (reconcileUnstructured L g d)"
  unfolding reconcileUnstructured_def Let_def by (intro run_only) (auto simp: visible_simps)

lemma firstError_only: "(\<And>m. m \<in> set ms \<Longrightarrow> only P m) \<Longrightarrow> only P (firstError ms)"
  by (induction ms) (auto intro!: only_intros)

lemma reconcileResources_visible:
  assumes "keepsLabels (gr_Lib r)"
  shows "only lawful (reconcileResources r g)"
proof -
  have "only lawful (ensureServices r g)" for g
    unfolding ensureServices_def by (rule reconcileServices_visible [OF assms desiredServices_managed])
  moreover have "only lawful (ensureMonitoring r g)" "only lawful (ensureRoute r g)" for g
    unfolding ensureMonitoring_def ensureRoute_def
    by (intro run_only visible_only; simp add: DesiredServiceMonitor_def DesiredRoute_def Let_def)+
  ultimately show ?thesis
    using ensureServiceAccount_visible [OF assms] ensureConfigMap_visible [OF assms] ensureNetworkPolicy_visible [OF assms]
      ensurePodDisruptionBudget_visible [OF assms] ensureStatefulSet_visible [OF assms]
    unfolding reconcileResources_def
    by (intro run_only ensureCredentials_visible [OF assms] firstError_only) auto
qed

section \<open>The rest of a game's reconcile\<close>

lemma updateStatus_visible [visible_only]: "only lawful (updateStatus g)"
  unfolding updateStatus_def Let_def by (intro run_only visible_only) simp_all

lemma observe_visible [visible_only]:
  "only lawful (gameEndpoint g)" "only lawful (routeURL r g)" "only lawful (observeBackups g)"
  "only lawful (observeLive r g)"
  unfolding gameEndpoint_def routeURL_def observeBackups_def observeLive_def Let_def
  by (intro run_only visible_only; simp)+

lemma observeSts_visible [visible_only]: "only lawful (observeSts r g sts)"
  unfolding observeSts_def Let_def by (intro run_only visible_only)

lemma reconcileObservedStatus_visible [visible_only]: "only lawful (reconcileObservedStatus r g)"
  unfolding reconcileObservedStatus_def Let_def by (intro run_only visible_only) simp_all

lemma broadcast_visible [visible_only]:
  "only lawful (broadcastDrainWarning r g d)" "only lawful (announceUpdateWarning r g pol n)"
  unfolding broadcastDrainWarning_def announceUpdateWarning_def Let_def by (intro run_only visible_only)+

lemma patchDrainAnnotation_visible [visible_only]: "only lawful (patchDrainAnnotation p v)"
  unfolding patchDrainAnnotation_def Let_def by (intro run_only visible_only) simp

lemma drainCordoned_visible [visible_only]: "only lawful (drainCordoned r g pod node)"
  unfolding drainCordoned_def warnNodeDrain_def migratePod_def Let_def
  by (intro run_only visible_only) simp_all

lemma reconcileNodeDrain_visible [visible_only]: "only lawful (reconcileNodeDrain r g)"
  unfolding reconcileNodeDrain_def Let_def
  by (intro run_only visible_only) simp_all

lemma drainUpdate_visible [visible_only]: "only lawful (drainUpdate r g pol)"
  unfolding drainUpdate_def startDrain_def continueDrain_def rebroadcast_def Let_def
  by (intro run_only visible_only)

lemma drainAndRestart_visible [visible_only]: "only lawful (drainAndRestart r g pol v)"
  unfolding drainAndRestart_def restartServerPod_def Let_def
  by (intro run_only visible_only) simp_all

lemma ensurePreUpdateBackup_visible [visible_only]: "only lawful (ensurePreUpdateBackup r g v)"
  unfolding ensurePreUpdateBackup_def Let_def
  by (intro run_only visible_only) (simp_all add: visible_simps)

lemma performUpdate_visible [visible_only]: "only lawful (performUpdate r g pol v)"
  unfolding performUpdate_def Let_def by (intro run_only visible_only)

lemma pollSteam_visible [visible_only]: "only lawful (pollSteam r g pol t)"
  unfolding pollSteam_def Let_def by (intro run_only visible_only)

lemma only_strategy:
  "only P m \<Longrightarrow> only P n \<Longrightarrow> only P k \<Longrightarrow>
     only P (case s of UpdateAutomatic \<Rightarrow> m | UpdateScheduled \<Rightarrow> n | _ \<Rightarrow> k)"
  by (cases s) simp_all

lemma reconcileUpdates_visible [visible_only]: "only lawful (reconcileUpdates r g)"
  unfolding reconcileUpdates_def Let_def by (intro run_only visible_only only_strategy)

lemma deleteVictims_visible [visible_only]: "only lawful (deleteVictims bs)"
  by (induction bs) (auto intro!: run_only visible_only)

lemma reconcileScheduledBackups_visible [visible_only]: "only lawful (reconcileScheduledBackups r g)"
  unfolding reconcileScheduledBackups_def createScheduledBackup_def enforceBackupRetention_def Let_def
  by (intro run_only visible_only) (simp_all add: visible_simps)

lemma reconcileDelete_visible [visible_only]: "only lawful (reconcileDelete g)"
  unfolding reconcileDelete_def ensureFinalBackup_def awaitFinalBackup_def teardown_def deletePVC_def Let_def
  by (intro run_only visible_only) (simp_all add: visible_simps)

lemma reconcileLive_visible:
  assumes "keepsLabels (gr_Lib r)"
  shows "only lawful (reconcileLive r g)"
  unfolding reconcileLive_def observeAndAct_def Let_def
  by (intro run_only visible_only reconcileResources_visible) (simp_all add: visible_simps assms)

lemma Reconcile_visible:
  assumes "keepsLabels (gr_Lib r)"
  shows "only lawful (Reconcile r key)"
  unfolding Reconcile_def probeCapabilities_def bind_if bind_assoc bind_ret
  by (intro run_only visible_only reconcileLive_visible) (simp_all add: assms)

lemma gamesOnNode_visible: "only lawful (gamesOnNode node)"
  unfolding gamesOnNode_def by (intro run_only) simp

section \<open>Backups and restores\<close>

lemma workerJob_visible:
  assumes "m_Labels m = m_Labels (job_Meta (buildWorkerJob g js))"
  shows "visible (OJob ((buildWorkerJob g js)\<lparr>job_Meta := m\<rparr>))"
  using assms by (simp add: visible_simps buildWorkerJob_def Let_def)

lemma backup_end_visible [visible_only]:
  "only lawful (timedOut b)" "only lawful (completeBackup r b)" "only lawful (failBackup r b rs m)"
  "only lawful (requeueBackup b d)" "only lawful (handleTTL b)" "only lawful (cleanupTransient b)"
  "only lawful (flushSave r g)"
  unfolding timedOut_def completeBackup_def failBackup_def requeueBackup_def handleTTL_def cleanupTransient_def
    flushSave_def Let_def
  by (intro run_only visible_only; simp)+

lemma createUploadJob_visible:
  assumes "keepsLabels (br_Lib r)"
  shows "only lawful (createUploadJob r b g pvc)"
  unfolding createUploadJob_def DesiredBackupJob_def Let_def
  by (intro run_only visible_only) (use assms in \<open>auto intro: workerJob_visible simp: keepsLabelsD\<close>)

lemma startBackup_visible:
  assumes "keepsLabels (br_Lib r)"
  shows "only lawful (startBackup r b g)"
  unfolding startBackup_def Let_def
  by (intro run_only visible_only createUploadJob_visible [OF assms]) (simp_all add: visible_simps DesiredVolumeSnapshot_def Let_def)

lemma snapshotDone_visible:
  assumes "keepsLabels (br_Lib r)"
  shows "only lawful (snapshotDone r b g)"
  unfolding snapshotDone_def Let_def
  by (intro run_only visible_only createUploadJob_visible [OF assms])
    (use assms in \<open>auto simp: visible_simps DesiredRestorePVCFromSnapshot_def Let_def\<close>)

lemma reconcileSnapshot_visible:
  assumes "keepsLabels (br_Lib r)"
  shows "only lawful (reconcileSnapshot r b g)"
  unfolding reconcileSnapshot_def Let_def
  by (intro run_only visible_only snapshotDone_visible [OF assms]) simp

lemma reconcileUpload_visible [visible_only]: "only lawful (reconcileUpload r b g)"
  unfolding reconcileUpload_def Let_def by (intro run_only visible_only) simp

lemma reconcileBackup_visible:
  assumes "keepsLabels (br_Lib r)"
  shows "only lawful (reconcileBackup r b)"
proof -
  have "only lawful (stepBackup r b g)" for g
    unfolding stepBackup_def
    by (cases "bt_Phase (b_Status b)")
      (auto intro: only_ret startBackup_visible reconcileSnapshot_visible reconcileUpload_visible assms)
  then show ?thesis unfolding reconcileBackup_def by (intro run_only visible_only) simp_all
qed

lemma ReconcileBackup_visible:
  assumes "keepsLabels (br_Lib r)"
  shows "only lawful (ReconcileBackup r key)"
  unfolding ReconcileBackup_def probeBackup_def bind_if bind_assoc bind_ret
  by (intro run_only visible_only reconcileBackup_visible) (simp_all add: assms)

lemma restore_end_visible [visible_only]:
  "only lawful (failRestore r rs reason m)" "only lawful (requeueRestore rs d)"
  "only lawful (resolvePlan rs)" "only lawful (scaleGame g n)"
  unfolding failRestore_def requeueRestore_def resolvePlan_def scaleGame_def Let_def
  by (intro run_only visible_only; simp add: visible_simps)+

lemma restore_phase_visible [visible_only]:
  "only lawful (stopGame r rs g)" "only lawful (awaitStopped rs g)" "only lawful (startGame r rs g)"
  unfolding stopGame_def awaitStopped_def startGame_def Let_def
  by (intro run_only visible_only; simp)+

lemma awaitRestore_visible:
  assumes "keepsLabels (rr_Lib r)"
  shows "only lawful (awaitRestore r rs g plan)"
proof -
  have "only lawful (awaitTarballRestore r rs g plan)"
    unfolding awaitTarballRestore_def DesiredRestoreJob_def Let_def
    by (intro run_only visible_only) (use assms in \<open>auto intro: workerJob_visible simp: keepsLabelsD\<close>)
  moreover have "only lawful (awaitSnapshotRestore rs g plan)"
    unfolding awaitSnapshotRestore_def Let_def
    by (intro run_only visible_only) (simp_all add: visible_simps restoredPVC_def DesiredRestorePVCFromSnapshot_def Let_def)
  ultimately show ?thesis unfolding awaitRestore_def by (intro run_only)
qed

lemma reconcileRestore_visible:
  assumes "keepsLabels (rr_Lib r)"
  shows "only lawful (reconcileRestore r rs)"
proof -
  have "only lawful (stepRestore r rs g plan)" for g plan
    unfolding stepRestore_def
    by (cases "rt_Phase (r_Status rs)") (auto intro: only_ret visible_only awaitRestore_visible assms)
  then show ?thesis unfolding reconcileRestore_def by (intro run_only visible_only) simp_all
qed

lemma ReconcileRestore_visible:
  assumes "keepsLabels (rr_Lib r)"
  shows "only lawful (ReconcileRestore r key)"
  unfolding ReconcileRestore_def bind_if bind_assoc bind_ret
  by (intro run_only visible_only reconcileRestore_visible) (simp_all add: assms)

section \<open>Properties\<close>

text \<open>
  C9: the operator never loses sight of what it writes. Provided that \<open>SetControllerReference\<close> leaves
  labels and creation time alone, every object a reconcile of a game, a backup or a restore creates
  or updates, and every pod and volume claim the API server derives from it, is one the filtered
  informer cache holds: whatever labels the user put on the game, whatever is live in the cluster and
  whatever the outside answers.
\<close>

theorem operator_writes_are_cached:
  assumes "\<And>kd own m m'. x_SetControllerReference L kd own m = Inr m'
      \<Longrightarrow> m_Labels m' = m_Labels m \<and> m_CreationTimestamp m' = m_CreationTimestamp m"
    and "gr_Lib r = L" and "br_Lib b = L" and "rr_Lib s = L"
    and "c \<in> set (calls (Reconcile r key) w) \<or> c \<in> set (calls (ReconcileBackup b key) w)
      \<or> c \<in> set (calls (ReconcileRestore s key) w)"
  shows "visibleWrite c"
proof -
  have "keepsLabels L" using assms(1) unfolding keepsLabels_def by blast
  then show ?thesis
    using assms(2-5) onlyD [OF Reconcile_visible] onlyD [OF ReconcileBackup_visible] onlyD [OF ReconcileRestore_visible]
    unfolding lawful_def by metis
qed

text \<open>
  C11: the operator never makes a call it may not make. Under the same proviso, every call of a reconcile of a game,
  a backup or a restore, and of the Node watch, is covered by the role the RBAC markers of the three reconcilers generate: the verb
  on the resource (or its status), with the verbs of an informer for a cached read, whatever the outside answers.
\<close>

theorem operator_calls_authorized:
  assumes "\<And>kd own m m'. x_SetControllerReference L kd own m = Inr m'
      \<Longrightarrow> m_Labels m' = m_Labels m \<and> m_CreationTimestamp m' = m_CreationTimestamp m"
    and "gr_Lib r = L" and "br_Lib b = L" and "rr_Lib s = L"
    and "c \<in> set (calls (Reconcile r key) w) \<or> c \<in> set (calls (ReconcileBackup b key) w)
      \<or> c \<in> set (calls (ReconcileRestore s key) w) \<or> c \<in> set (calls (gamesOnNode node) w)"
  shows "list_all (\<lambda>(target, v). permits managerRole target v) (demands c)"
proof -
  have "keepsLabels L" using assms(1) unfolding keepsLabels_def by blast
  then show ?thesis
    using assms(2-5) onlyD [OF Reconcile_visible] onlyD [OF ReconcileBackup_visible] onlyD [OF ReconcileRestore_visible]
      onlyD [OF gamesOnNode_visible]
    unfolding lawful_def authorized_def by metis
qed

text \<open>A world in which the game has no child objects yet and the creation of its Secret fails.\<close>

definition cacheWorld :: "(call, reply) world" where
  "cacheWorld = \<lparr>srv = \<lambda>h c. (case c of
        Get kd key \<Rightarrow> if kd = GameKind then RObj (OGame sampleGame) else RErr (KErr NotFound [])
      | RandInt n \<Rightarrow> RInt 0
      | Create ob \<Rightarrow> RErr (KErr Conflict [])
      | _ \<Rightarrow> ROk), hist = []\<rparr>"

lemma cacheWorld_replies:
  "srv cacheWorld h (Get kd key) = (if kd = GameKind then RObj (OGame sampleGame) else RErr (KErr NotFound []))"
  "srv cacheWorld h (RandInt n) = RInt 0" "srv cacheWorld h (Create ob) = RErr (KErr Conflict [])"
  "hist cacheWorld = []"
  by (simp_all add: cacheWorld_def)

lemma GeneratePassword_cacheWorld:
  "srv w = srv cacheWorld \<Longrightarrow> val (GeneratePassword n) w = Inr (replicate n (passwordAlphabet ! 0))"
  by (induction n arbitrary: w)
    (auto simp: val_call fin_call cacheWorld_replies passwordAlphabet_def)

lemma cacheWorld_credentials:
  assumes "srv w = srv cacheWorld"
  shows "\<exists>x. Create (OSecret x) \<in> fst ` set (hist (fin (ensureCredentials sampleReconciler sampleGame) w))
     \<and> val (ensureCredentials sampleReconciler sampleGame) w = (sampleGame, Some (KErr Conflict []))"
proof -
  note logs = only_logs [OF GeneratePassword_visible]
  have pw: "val (GeneratePassword 24) w' = Inr (replicate 24 (passwordAlphabet ! 0))" if "srv w' = srv cacheWorld" for w'
    using that by (rule GeneratePassword_cacheWorld)
  show ?thesis
    using assms logs
    by (auto simp: ensureCredentials_def pw cacheWorld_replies fin_call val_call Let_def sampleReconciler_def refLib_owner
        refOwner_def DesiredGeneratedSecret_def newMeta_def image_Un IsNotFound_def IsAlreadyExists_def)
qed

lemma cacheWorld_creates:
  "\<exists>x. Create (OSecret x) \<in> set (calls (Reconcile sampleReconciler (''ns'', ''game'')) cacheWorld)"
proof -
  let ?w = "fin (call (Get GameKind (''ns'', ''game''))) cacheWorld"
  have w: "srv ?w = srv cacheWorld" by (simp add: fin_call)
  let ?w' = "fin (ensureCredentials sampleReconciler sampleGame) ?w"
  obtain x where x: "Create (OSecret x) \<in> fst ` set (hist ?w')"
    and v: "val (ensureCredentials sampleReconciler sampleGame) ?w = (sampleGame, Some (KErr Conflict []))"
    using cacheWorld_credentials [OF w] by blast
  have fin: "\<exists>g. fin (Reconcile sampleReconciler (''ns'', ''game'')) cacheWorld = fin (updateStatus g) ?w'"
    using v by (simp add: Reconcile_def val_call cacheWorld_replies probeCapabilities_def sampleReconciler_def
        reconcileLive_def reconcileResources_def split: prod.split) blast
  then obtain g where fin: "fin (Reconcile sampleReconciler (''ns'', ''game'')) cacheWorld = fin (updateStatus g) ?w'" by blast
  have "hist (fin (updateStatus g) ?w') = hist ?w' @ events (updateStatus g) ?w'"
    by (rule logs_hist [OF only_logs [OF updateStatus_visible]])
  with x fin have "Create (OSecret x) \<in> fst ` set (hist (fin (Reconcile sampleReconciler (''ns'', ''game'')) cacheWorld))"
    by auto
  then show ?thesis by (auto simp: calls_def events_def cacheWorld_replies)
qed

theorem operator_writes_are_cached_witness:
  "\<exists>x. Create (OSecret x) \<in> set (calls (Reconcile sampleReconciler (''ns'', ''game'')) cacheWorld)
     \<and> m_Labels (sec_Meta x) LabelManagedBy = Some ManagedByValue"
proof -
  obtain x where x: "Create (OSecret x) \<in> set (calls (Reconcile sampleReconciler (''ns'', ''game'')) cacheWorld)"
    using cacheWorld_creates by blast
  have "visibleWrite (Create (OSecret x))"
    by (rule operator_writes_are_cached [of refLib sampleReconciler "newBackupReconciler refLib" "newRestoreReconciler refLib"])
      (use x in \<open>auto simp: refLib_owner refOwner_def Let_def sampleReconciler_def newBackupReconciler_def
        newRestoreReconciler_def split: if_splits\<close>)
  then show ?thesis
    using x by (auto simp: visible_def cacheHolds_def operatorCacheOptions_def Let_def managed_le)
qed

theorem operator_calls_authorized_witness:
  "\<exists>x. Create (OSecret x) \<in> set (calls (Reconcile sampleReconciler (''ns'', ''game'')) cacheWorld)
     \<and> permits managerRole ([], ''secrets'') VCreate"
proof -
  obtain x where x: "Create (OSecret x) \<in> set (calls (Reconcile sampleReconciler (''ns'', ''game'')) cacheWorld)"
    using cacheWorld_creates by blast
  have "list_all (\<lambda>(target, v). permits managerRole target v) (demands (Create (OSecret x)))"
    by (rule operator_calls_authorized [of refLib sampleReconciler "newBackupReconciler refLib" "newRestoreReconciler refLib"])
      (use x in \<open>auto simp: refLib_owner refOwner_def Let_def sampleReconciler_def newBackupReconciler_def
        newRestoreReconciler_def split: if_splits\<close>)
  then show ?thesis using x by auto
qed

end
