(* ===== verification/PhaseProgress.thy ===== *)
theory PhaseProgress
  imports PhaseMachine
begin

text \<open>
  Progress of backups and restores over endless sequences of reconciles. A \<open>schedule\<close> is such a
  sequence in which every accepted status update is stored and nothing else changes the status. The
  locale \<open>progressing_phases\<close> extends the phase machine by what a reconcile owes: it moves the
  phase on unless it has an excuse. Then at most as many reconciles as there are ranks go without
  an excuse before the object is finished, so an object that is not held up forever terminates.
\<close>

section \<open>Schedules\<close>

text \<open>The status after the events of a reconcile: the last accepted write, or the old one.\<close>

definition storedStatus :: "(call \<Rightarrow> 's option) \<Rightarrow> 's \<Rightarrow> (call \<times> reply) list \<Rightarrow> 's" where
  "storedStatus written s es =
     foldl (\<lambda>s (c, x). case written c of Some st \<Rightarrow> if asErr x = None then st else s | None \<Rightarrow> s) s es"

definition schedule ::
    "('o \<Rightarrow> 'a k) \<Rightarrow> (call \<Rightarrow> 's option) \<Rightarrow> ('o \<Rightarrow> 's) \<Rightarrow> (nat \<Rightarrow> 'o) \<Rightarrow> (nat \<Rightarrow> (call, reply) world) \<Rightarrow> bool" where
  "schedule rec written status s w \<longleftrightarrow>
     (\<forall>n. status (s (Suc n)) = storedStatus written (status (s n)) (events (rec (s n)) (w n)))"

lemma storedStatus_cases:
  "storedStatus written s es = s \<or> (\<exists>c x. (c, x) \<in> set es \<and> asErr x = None \<and> written c = Some (storedStatus written s es))"
proof (induction es rule: rev_induct)
  case (snoc e es)
  then show ?case by (cases e) (auto simp: storedStatus_def split: option.split)
qed (simp add: storedStatus_def)

lemma storedStatus_quiet:
  "list_all (\<lambda>e. written (fst e) = None) es \<Longrightarrow> storedStatus written s (es @ es') = storedStatus written s es'"
  by (induction es) (auto simp: storedStatus_def split: option.split)

lemma storedStatus_simps [simp]:
  "storedStatus written s [] = s"
  "storedStatus written s ((c, x) # es) =
     storedStatus written (case written c of Some st \<Rightarrow> if asErr x = None then st else s | None \<Rightarrow> s) es"
  by (simp_all add: storedStatus_def)

text \<open>The reconciles of unfinished objects that have no excuse.\<close>

definition unexcused ::
    "('o \<Rightarrow> 'a k) \<Rightarrow> ('o \<Rightarrow> bool) \<Rightarrow> ('o \<Rightarrow> 'a \<Rightarrow> (call \<times> reply) list \<Rightarrow> bool)
     \<Rightarrow> (nat \<Rightarrow> 'o) \<Rightarrow> (nat \<Rightarrow> (call, reply) world) \<Rightarrow> nat set" where
  "unexcused rec finished excused s w =
     {n. \<not> finished (s n) \<and> \<not> excused (s n) (val (rec (s n)) (w n)) (events (rec (s n)) (w n))}"

section \<open>Progress\<close>

locale progressing_phases = phase_machine rec written status phase step rank terminal
  for rec :: "'o \<Rightarrow> 'a k" and written :: "call \<Rightarrow> 's option" and status :: "'o \<Rightarrow> 's"
    and phase :: "'s \<Rightarrow> 'p" and step rank terminal +
  fixes excused :: "'o \<Rightarrow> 'a \<Rightarrow> (call \<times> reply) list \<Rightarrow> bool" and top :: nat
  assumes rank_top: "rank p \<le> top"
    and advances: "ensures (\<lambda>v es. terminal (phase (status ob)) \<or> excused ob v es
        \<or> rank (phase (status ob)) < rank (phase (storedStatus written (status ob) es))) (rec ob)"
begin

lemma schedule_step:
  assumes "schedule rec written status s w"
  shows "status (s (Suc n)) = status (s n) \<or> step (phase (status (s n))) (phase (status (s (Suc n))))"
  using assms event_step [of _ _ "s n" "w n"]
    storedStatus_cases [of written "status (s n)" "events (rec (s n)) (w n)"]
  unfolding schedule_def by metis

lemma schedule_rank:
  assumes "schedule rec written status s w" and "n \<le> m"
  shows "rank (phase (status (s n))) \<le> rank (phase (status (s m)))"
  using assms(2)
proof (induction rule: dec_induct)
  case (step k)
  then show ?case using schedule_step [OF assms(1), of k] step_rank by (metis le_trans)
qed simp

lemma schedule_terminal:
  assumes "schedule rec written status s w" and "terminal (phase (status (s n)))" and "n \<le> m"
  shows "status (s m) = status (s n)"
  using assms(3)
proof (induction rule: dec_induct)
  case (step k)
  then show ?case using schedule_step [OF assms(1), of k] terminal_no_step assms(2) by metis
qed simp

lemma unexcused_advances:
  assumes "schedule rec written status s w" and "n \<in> unexcused rec (\<lambda>ob. terminal (phase (status ob))) excused s w"
  shows "rank (phase (status (s n))) < rank (phase (status (s (Suc n))))"
  using assms ensuresD [OF advances, of "s n" "w n"] by (auto simp: unexcused_def schedule_def)

lemma unexcused_bounded:
  assumes "schedule rec written status s w"
  shows "finite (unexcused rec (\<lambda>ob. terminal (phase (status ob))) excused s w) \<and> card (unexcused rec (\<lambda>ob. terminal (phase (status ob))) excused s w) \<le> top"
proof -
  let ?f = "\<lambda>n. rank (phase (status (s n)))"
  have less: "?f n < ?f m" if "n \<in> unexcused rec (\<lambda>ob. terminal (phase (status ob))) excused s w" "n < m" for n m
    using unexcused_advances [OF assms that(1)] schedule_rank [OF assms, of "Suc n" m] that(2) by simp
  have inj: "inj_on ?f (unexcused rec (\<lambda>ob. terminal (phase (status ob))) excused s w)"
    using less by (intro inj_onI) (metis linorder_neqE_nat less_irrefl)
  have "?f ` unexcused rec (\<lambda>ob. terminal (phase (status ob))) excused s w \<subseteq> {..<top}"
    using unexcused_advances [OF assms] rank_top by (auto intro: less_le_trans)
  with inj show ?thesis
    using card_inj_on_le [OF inj, of "{..<top}"] inj_on_finite [OF inj, of "{..<top}"] by simp
qed

lemma terminates:
  assumes "schedule rec written status s w"
    and "infinite {n. \<not> excused (s n) (val (rec (s n)) (w n)) (events (rec (s n)) (w n))}"
  shows "\<exists>N. terminal (phase (status (s N))) \<and> (\<forall>m \<ge> N. status (s m) = status (s N))"
proof -
  have "unexcused rec (\<lambda>ob. terminal (phase (status ob))) excused s w \<noteq> {n. \<not> excused (s n) (val (rec (s n)) (w n)) (events (rec (s n)) (w n))}"
    using unexcused_bounded [OF assms(1)] assms(2) by metis
  then obtain N where "terminal (phase (status (s N)))" by (auto simp: unexcused_def)
  with schedule_terminal [OF assms(1)] show ?thesis by blast
qed

end

text \<open>The result asks the work queue for another reconcile.\<close>

definition requeues :: "Result \<Rightarrow> bool" where
  "requeues res \<longleftrightarrow> res_Requeue res \<or> 0 < res_RequeueAfter res"

end
