(* ===== verification/BackupProgress.thy ===== *)
theory BackupProgress
  imports BackupController PhaseProgress
begin

text \<open>
  Progress of backups: what a reconcile of an unfinished backup may wait for, that it otherwise moves the
  phase on, that a backup therefore terminates, and that no unfinished backup drops out of the work queue.
\<close>

section \<open>Backups\<close>

text \<open>
  What a backup may wait for: a snapshot that is not ready, a Job that is neither done nor failed, a refused
  status update. While its snapshot or Job is missing it waits as well, until the deadline is seen to have passed.
\<close>

fun backupWaits :: "PalworldBackupReconciler \<Rightarrow> call \<times> reply \<Rightarrow> bool" where
  "backupWaits r (Get kd key, x) =
     (kd = UnKind VolumeSnapshotGVK
        \<and> (case asUn x of Inr s \<Rightarrow> \<not> fst (SnapshotReady (x_ParseQuantity (br_Lib r)) s) | Inl e \<Rightarrow> False)
      \<or> kd = JobKind \<and> (case asJob x of Inr j \<Rightarrow> job_Succeeded j < 1 \<and> \<not> isJobFailed j | Inl e \<Rightarrow> False))"
| "backupWaits r (StatusUpdate ob, x) = (asErr x \<noteq> None)"
| "backupWaits r _ = False"

definition missingAwaited :: "PalworldBackup \<Rightarrow> call \<times> reply \<Rightarrow> bool" where
  "missingAwaited b e \<longleftrightarrow> fst e = awaitedObject b \<and> (case asErr (snd e) of Some x \<Rightarrow> IsNotFound x | None \<Rightarrow> False)"

definition overdue :: "PalworldBackup \<Rightarrow> call \<times> reply \<Rightarrow> bool" where
  "overdue b e \<longleftrightarrow> fst e = Now
     \<and> (case bt_StartTime (b_Status b) of None \<Rightarrow> False | Some st \<Rightarrow> backupPhaseTimeout < timeSub (asTime (snd e)) st)"

definition backupExcused ::
    "PalworldBackupReconciler \<Rightarrow> PalworldBackup \<Rightarrow> Result \<times> kerr option \<Rightarrow> (call \<times> reply) list \<Rightarrow> bool" where
  "backupExcused r b v es \<longleftrightarrow> snd v \<noteq> None \<or> list_ex (backupWaits r) es
     \<or> list_ex (missingAwaited b) es \<and> \<not> list_ex (overdue b) es"

text \<open>A reconcile moves the phase on, or waits for something that is there.\<close>

definition backupMoves ::
    "PalworldBackupReconciler \<Rightarrow> PalworldBackup \<Rightarrow> Result \<times> kerr option \<Rightarrow> (call \<times> reply) list \<Rightarrow> bool" where
  "backupMoves r b v es \<longleftrightarrow> snd v \<noteq> None \<or> list_ex (backupWaits r) es
     \<or> backupRank (bt_Phase (b_Status b)) < backupRank (bt_Phase (storedStatus backupWritten (b_Status b) es))"

definition backupAdvances ::
    "PalworldBackupReconciler \<Rightarrow> PalworldBackup \<Rightarrow> Result \<times> kerr option \<Rightarrow> (call \<times> reply) list \<Rightarrow> bool" where
  "backupAdvances r b v es \<longleftrightarrow> backupExcused r b v es \<or> backupMoves r b v es"

interpretation moves_frame: quiet_frame "\<lambda>c. backupWritten c = None" "backupMoves r b"
  by unfold_locales (auto simp: backupMoves_def)

lemmas backupMoves_quiet = moves_frame.frame_list and backupMoves_call = moves_frame.call_bind
  and backupMoves_rest = moves_frame.action_bind [OF ensures_mono [OF _ restOnly_quiet]]

lemma backupMoves_error: "ensures (backupMoves r b) (ret (res, Some e))"
  by (rule ensures_ret) (simp add: backupMoves_def)

lemma endBackup_moves:
  assumes "\<not> backupTerminal (bt_Phase (b_Status b))"
  shows "ensures (backupMoves r b) (failBackup r b' reason msg)" "ensures (backupMoves r b) (completeBackup r b')"
  unfolding failBackup_def completeBackup_def now_def event_def bind_assoc bind_ret
  using assms
  by (cases "bt_Phase (b_Status b)"; intro ensures_intros; simp add: backupMoves_def backupTerminal_def)+

lemma requeueBackup_moves:
  "backupRank (bt_Phase (b_Status b)) < backupRank (bt_Phase (b_Status b')) \<Longrightarrow> ensures (backupMoves r b) (requeueBackup b' d)"
  unfolding requeueBackup_def by (intro ensures_intros) (auto simp: backupMoves_def)

lemmas moves_intros = ensures_if ensures_sum ensures_option backupMoves_call backupMoves_error endBackup_moves
  requeueBackup_moves ensures_let

lemma createUploadJob_moves:
  "backupRank (bt_Phase (b_Status b)) < 2 \<Longrightarrow> ensures (backupMoves r b) (createUploadJob r b' g src)"
  unfolding createUploadJob_def by (intro moves_intros) simp_all

lemma flushSave_moves:
  assumes "ensures (backupMoves r b) k"
  shows "ensures (backupMoves r b) (State_Monad.bind (flushSave r' g) (\<lambda>_. k))"
  unfolding flushSave_def bind_assoc bind_sum bind_ret
  by (rule backupMoves_rest [OF restClientFor_restOnly])
    (auto intro!: moves_intros backupMoves_rest [OF Save_restOnly] assms)

lemma startBackup_moves:
  assumes "bt_Phase (b_Status b) = BackupPhaseUnset \<or> bt_Phase (b_Status b) = BackupPhasePending"
  shows "ensures (backupMoves r b) (startBackup r b g)"
proof -
  have "\<not> backupTerminal (bt_Phase (b_Status b))" "backupRank (bt_Phase (b_Status b)) = 0"
    using assms by (auto simp: backupTerminal_def)
  then show ?thesis
    unfolding startBackup_def Let_def now_def bind_option bind_assoc bind_ret bind_if
    by (auto intro!: moves_intros flushSave_moves createUploadJob_moves)
qed

lemma snapshotDone_moves:
  assumes "bt_Phase (b_Status b) = BackupPhaseSaving \<or> bt_Phase (b_Status b) = BackupPhaseSnapshotting"
  shows "ensures (backupMoves r b) (snapshotDone r b' g)"
  unfolding snapshotDone_def using assms
  by (intro moves_intros createUploadJob_moves) (auto simp: backupTerminal_def)

lemma backupAdvances_get:
  "backupAdvances r b v es \<Longrightarrow> backupAdvances r b v ((Get kd key, x) # es)"
  using backupMoves_quiet [of "[(Get kd key, x)]" r b v es]
  by (auto simp: backupAdvances_def backupExcused_def overdue_def)

lemma moves_advances: "ensures (backupMoves r b) m \<Longrightarrow> ensures (\<lambda>v es. backupAdvances r b v ((Get kd key, x) # es)) m"
  by (rule ensures_mono, assumption, rule backupAdvances_get) (simp add: backupAdvances_def)

lemma waiting_advances:
  assumes "backupWaits r e" and "logs m" shows "ensures (\<lambda>v es. backupAdvances r b v (e # es)) m"
  by (rule ensures_any [OF assms(2)]) (simp add: backupAdvances_def backupExcused_def assms(1))

lemma missing_advances:
  assumes "\<not> backupTerminal (bt_Phase (b_Status b))" and "missingAwaited b (Get kd key, x)"
  shows "ensures (\<lambda>v es. backupAdvances r b v ((Get kd key, x) # es))
     (do { late \<leftarrow> timedOut b; if late then failBackup r b reason msg else ret (res, None) })"
proof (cases "bt_StartTime (b_Status b)")
  case None
  then show ?thesis
    using assms(2)
    by (auto simp: timedOut_def backupAdvances_def backupExcused_def overdue_def intro!: ensures_ret)
next
  case (Some st)
  have fail: "ensures (\<lambda>v es. backupAdvances r b v ((Get kd key, x) # (Now, t) # es)) (failBackup r b reason msg)" for t
    by (rule ensures_mono [OF endBackup_moves(1) [OF assms(1)]], rule backupAdvances_get)
      (use backupMoves_quiet [of "[(Now, t)]"] in \<open>simp add: backupAdvances_def\<close>)
  show ?thesis
    unfolding timedOut_def now_def Some option.case bind_assoc bind_ret
    by (intro ensures_call_bind ensures_if fail ensures_ret)
      (use Some assms(2) in \<open>auto simp: backupAdvances_def backupExcused_def overdue_def\<close>)
qed

lemma requeueBackup_logs [simp]: "logs (requeueBackup b d)"
  unfolding requeueBackup_def by simp

lemma asUn_Inl: "asUn x = Inl e \<Longrightarrow> IsNotFound e \<Longrightarrow> asErr x = Some e"
  by (cases x rule: asUn.cases) (auto simp: badReply_def errorf_def reason_defs)

lemma asJob_Inl: "asJob x = Inl e \<Longrightarrow> IsNotFound e \<Longrightarrow> asErr x = Some e"
  by (cases x rule: asJob.cases) (auto simp: badReply_def errorf_def reason_defs)

lemma reconcileSnapshot_advances:
  assumes "bt_Phase (b_Status b) = BackupPhaseSaving \<or> bt_Phase (b_Status b) = BackupPhaseSnapshotting"
  shows "ensures (backupAdvances r b) (reconcileSnapshot r b g)"
proof -
  have nt: "\<not> backupTerminal (bt_Phase (b_Status b))" and up: "bt_Phase (b_Status b) \<noteq> BackupPhaseUploading"
    using assms by (auto simp: backupTerminal_def)
  show ?thesis
    unfolding reconcileSnapshot_def Let_def
    apply (rule ensures_call_bind, rule ensures_sum, rule ensures_if)
    subgoal by (rule missing_advances [OF nt]) (simp add: missingAwaited_def awaitedObject_def up asUn_Inl)
    subgoal by (rule moves_advances, rule backupMoves_error)
    apply (rule ensures_prod, rule ensures_if)
    subgoal by (rule waiting_advances) simp_all
    subgoal by (rule moves_advances, rule snapshotDone_moves [OF assms])
    done
qed

lemma reconcileUpload_advances:
  assumes "bt_Phase (b_Status b) = BackupPhaseUploading"
  shows "ensures (backupAdvances r b) (reconcileUpload r b g)"
proof -
  have nt: "\<not> backupTerminal (bt_Phase (b_Status b))" using assms by (simp add: backupTerminal_def)
  show ?thesis
    unfolding reconcileUpload_def cleanupTransient_def bind_assoc bind_ret
    apply (rule ensures_call_bind, rule ensures_sum, rule ensures_if)
    subgoal by (rule missing_advances [OF nt]) (simp add: missingAwaited_def awaitedObject_def assms asJob_Inl)
    subgoal by (rule moves_advances, rule backupMoves_error)
    apply (rule ensures_if)
    subgoal by (rule moves_advances, intro moves_intros nt) simp_all
    apply (rule ensures_if)
    subgoal by (rule moves_advances, intro moves_intros nt) simp_all
    subgoal by (rule waiting_advances) simp_all
    done
qed

lemma reconcileBackup_advances:
  "ensures (\<lambda>v es. backupTerminal (bt_Phase (b_Status b)) \<or> backupAdvances r b v es) (reconcileBackup r b)"
proof (cases "backupTerminal (bt_Phase (b_Status b))")
  case True
  have "logs (reconcileBackup r b)" by (rule ensures_logs [OF reconcileBackup_ok])
  with True show ?thesis by (simp add: ensures_any)
next
  case False
  have start: "ensures (backupAdvances r b) (startBackup r b g)"
    if "bt_Phase (b_Status b) = BackupPhaseUnset \<or> bt_Phase (b_Status b) = BackupPhasePending" for g
    by (rule ensures_mono [OF startBackup_moves [OF that]]) (simp add: backupAdvances_def)
  have step: "ensures (backupAdvances r b) (stepBackup r b g)" for g
    using False
    by (cases "bt_Phase (b_Status b)")
      (simp_all add: stepBackup_def start reconcileSnapshot_advances reconcileUpload_advances backupTerminal_def)
  have "ensures (backupAdvances r b) (reconcileBackup r b)"
    unfolding reconcileBackup_def
    apply (rule ensures_if)
    subgoal using False by (simp add: backupTerminal_def)
    apply (rule ensures_call_bind, rule ensures_sum)
    subgoal by (intro moves_advances moves_intros False)
    subgoal by (rule ensures_mono [OF step]) (rule backupAdvances_get)
    done
  then show ?thesis by (rule ensures_mono) simp
qed

interpretation backup_progress: progressing_phases "reconcileBackup r" backupWritten b_Status bt_Phase
    backup_step backupRank backupTerminal "backupExcused r" 3
proof
  fix p ob
  show "backupRank p \<le> 3" by (cases p) simp_all
  show "ensures (\<lambda>v es. backupTerminal (bt_Phase (b_Status ob)) \<or> backupExcused r ob v es
      \<or> backupRank (bt_Phase (b_Status ob)) < backupRank (bt_Phase (storedStatus backupWritten (b_Status ob) es)))
     (reconcileBackup r ob)"
    by (rule ensures_mono [OF reconcileBackup_advances]) (auto simp: backupAdvances_def backupMoves_def backupExcused_def)
qed


primrec backupRounds :: "nat \<Rightarrow> PalworldBackup" where
  "backupRounds 0 = snapshottingBackup"
| "backupRounds (Suc n) = (backupRounds n)\<lparr>b_Status := storedStatus backupWritten (b_Status (backupRounds n))
     (events (reconcileBackup sampleBackupReconciler (backupRounds n)) backupWorld)\<rparr>"

lemma backupRounds_spec: "b_Spec (backupRounds n) = b_Spec sampleBackup"
  by (induction n) (simp_all add: snapshottingBackup_def)

lemma first_round:
  "bt_Phase (storedStatus backupWritten (b_Status snapshottingBackup)
     (events (reconcileBackup sampleBackupReconciler snapshottingBackup) backupWorld)) = BackupPhaseCompleted
   \<and> \<not> backupExcused sampleBackupReconciler b (val (reconcileBackup sampleBackupReconciler snapshottingBackup) backupWorld)
       (events (reconcileBackup sampleBackupReconciler snapshottingBackup) backupWorld)"
  by (simp add: backupExcused_def missingAwaited_def events_def fin_call val_call Let_def backup_sample_defs)

lemma completed_round:
  assumes "bt_Phase (b_Status b) = BackupPhaseCompleted" and "b_Spec b = b_Spec sampleBackup"
  shows "reconcileBackup sampleBackupReconciler b = ret (noResult, None)"
  using assms by (simp add: reconcileBackup_def handleTTL_def sampleBackup_def)

lemma later_rounds: "bt_Phase (b_Status (backupRounds (Suc n))) = BackupPhaseCompleted"
proof (induction n)
  case 0
  show ?case using first_round by simp
next
  case (Suc n)
  from completed_round [OF Suc backupRounds_spec] Suc show ?case
    unfolding backupRounds.simps(2) [of "Suc n"] by simp
qed

lemma rounds_unexcused:
  "\<not> backupExcused sampleBackupReconciler b (val (reconcileBackup sampleBackupReconciler (backupRounds n)) backupWorld)
       (events (reconcileBackup sampleBackupReconciler (backupRounds n)) backupWorld)"
proof (cases n)
  case 0
  then show ?thesis using first_round by simp
next
  case (Suc k)
  with completed_round [OF later_rounds backupRounds_spec] show ?thesis by (simp add: backupExcused_def del: backupRounds.simps)
qed


section \<open>No backup is forgotten\<close>

fun finishesBackup :: "call \<times> reply \<Rightarrow> bool" where
  "finishesBackup (StatusUpdate (OBackup b), x) = (asErr x = None \<and> backupTerminal (bt_Phase (b_Status b)))"
| "finishesBackup _ = False"

definition backupKept :: "Result \<times> kerr option \<Rightarrow> (call \<times> reply) list \<Rightarrow> bool" where
  "backupKept v es \<longleftrightarrow> snd v \<noteq> None \<or> requeues (fst v) \<or> list_ex finishesBackup es"

interpretation kept_frame: quiet_frame "\<lambda>c. True" backupKept
  by unfold_locales (auto simp: backupKept_def)

lemma backupKept_bind:
  assumes "logs m" and "\<And>a. ensures backupKept (f a)"
  shows "ensures backupKept (State_Monad.bind m f)"
  by (rule kept_frame.action_bind [OF ensures_any [OF assms(1)] assms(2)]) (simp add: list_all_iff)

lemma endBackup_kept:
  "ensures backupKept (failBackup r b reason msg)" "ensures backupKept (completeBackup r b)"
  unfolding failBackup_def completeBackup_def now_def event_def bind_assoc bind_ret
  by (intro ensures_intros, auto simp: backupKept_def backupTerminal_def)+

lemma ret_kept: "err \<noteq> None \<or> requeues res \<Longrightarrow> ensures backupKept (ret (res, err))"
  by (rule ensures_ret) (auto simp: backupKept_def)

lemma requeues_seconds: "0 < n \<Longrightarrow> requeues (requeueAfter (n * Second))"
  by (simp add: requeues_def result_defs Second_def)

lemma requeueBackup_kept: "0 < n \<Longrightarrow> ensures backupKept (requeueBackup b (n * Second))"
  unfolding requeueBackup_def
  by (intro ensures_intros)
    (auto simp: backupKept_def requeues_seconds split: option.split, simp add: requeues_def requeueNow_def)

lemmas kept_intros = ensures_if ensures_sum ensures_option ensures_prod ensures_let backupKept_bind endBackup_kept
  requeueBackup_kept ret_kept

lemma createUploadJob_kept: "ensures backupKept (createUploadJob r b g src)"
  unfolding createUploadJob_def by (intro kept_intros) simp_all

lemma timedOut_logs: "logs (timedOut b)"
  unfolding timedOut_def now_def by (auto split: option.split)

lemma flushSave_logs: "logs (flushSave r g)"
  unfolding flushSave_def using ensures_logs [OF restClientFor_restOnly] ensures_logs [OF Save_restOnly]
  by (auto intro!: logs_bind split: sum.split)

lemma reconcileBackup_kept:
  assumes "\<not> backupTerminal (bt_Phase (b_Status b))"
  shows "ensures backupKept (reconcileBackup r b)"
proof -
  have "ensures backupKept (startBackup r b g)" for g
    unfolding startBackup_def now_def
    by (intro kept_intros createUploadJob_kept logs_bind flushSave_logs) (auto simp: flushSave_logs split: option.split)
  moreover have "ensures backupKept (reconcileSnapshot r b g)" for g
    unfolding reconcileSnapshot_def snapshotDone_def
    by (intro kept_intros createUploadJob_kept) (auto simp: timedOut_logs requeues_seconds)
  moreover have "ensures backupKept (reconcileUpload r b g)" for g
    unfolding reconcileUpload_def cleanupTransient_def
    by (intro kept_intros) (auto simp: timedOut_logs requeues_seconds)
  ultimately have "ensures backupKept (stepBackup r b g)" for g
    using assms by (cases "bt_Phase (b_Status b)") (simp_all add: stepBackup_def backupTerminal_def)
  with assms show ?thesis
    unfolding reconcileBackup_def by (intro kept_intros) (auto simp: backupTerminal_def)
qed

end
