(* ===== verification/RestoreProgress.thy ===== *)
theory RestoreProgress
  imports RestoreController BackupProgress
begin

text \<open>
  Progress of restores, as for backups, and which unfinished restore can drop out of the work queue.
\<close>

section \<open>Restores\<close>

text \<open>
  What a restore may wait for: pods that still run, a Job that is neither done nor failed, a volume that
  is being deleted, and a status update that was refused. A reconcile is excused when it returned an
  error (the work queue retries it), waits, or did work on the data.
\<close>

fun restoreWaits :: "call \<times> reply \<Rightarrow> bool" where
  "restoreWaits (Get kd key, x) =
     (kd = StsKind \<and> (case asSts x of Inr s \<Rightarrow> 0 < sts_StatusReplicas s \<or> 0 < sts_StatusReadyReplicas s | Inl e \<Rightarrow> False)
      \<or> kd = JobKind \<and> (case asJob x of Inr j \<Rightarrow> job_Succeeded j < 1 \<and> \<not> isJobFailed j | Inl e \<Rightarrow> False)
      \<or> kd = PVCKind \<and> (case asPVC x of Inr p \<Rightarrow> m_DeletionTimestamp (pvc_Meta p) \<noteq> None | Inl e \<Rightarrow> False))"
| "restoreWaits (StatusUpdate ob, x) = (asErr x \<noteq> None)"
| "restoreWaits _ = False"

definition restoreExcused :: "PalworldRestore \<Rightarrow> Result \<times> kerr option \<Rightarrow> (call \<times> reply) list \<Rightarrow> bool" where
  "restoreExcused rs v es \<longleftrightarrow>
     snd v \<noteq> None \<or> list_ex restoreWaits es \<or> list_ex (\<lambda>e. touchesData (fst e)) es"

definition restoreAdvances :: "PalworldRestore \<Rightarrow> Result \<times> kerr option \<Rightarrow> (call \<times> reply) list \<Rightarrow> bool" where
  "restoreAdvances rs v es \<longleftrightarrow> restoreExcused rs v es
     \<or> restoreRank (rt_Phase (r_Status rs)) < restoreRank (rt_Phase (storedStatus restoreWritten (r_Status rs) es))"

interpretation advances_frame: quiet_frame "\<lambda>c. restoreWritten c = None" "restoreAdvances rs"
  by unfold_locales (auto simp: restoreAdvances_def restoreExcused_def)

lemmas restoreAdvances_quiet = advances_frame.frame_list and restoreAdvances_call = advances_frame.call_bind
  and restoreAdvances_bind = advances_frame.action_bind

lemma failRestore_advances:
  "\<not> restoreTerminal (rt_Phase (r_Status rs)) \<Longrightarrow> ensures (restoreAdvances rs) (failRestore r rs reason msg)"
  unfolding failRestore_def now_def event_def bind_assoc bind_ret
  by (intro ensures_intros)
    (cases "rt_Phase (r_Status rs)"; simp add: restoreAdvances_def restoreExcused_def restoreTerminal_def)

lemma requeueRestore_advances:
  "restoreRank (rt_Phase (r_Status rs)) < restoreRank (rt_Phase (r_Status rs'))
   \<Longrightarrow> ensures (restoreAdvances rs) (requeueRestore rs' d)"
  unfolding requeueRestore_def
  by (intro ensures_intros) (auto simp: restoreAdvances_def restoreExcused_def split: option.split elim!: asErr.elims)

text \<open>A reconcile with an excuse on record.\<close>

lemma requeueRestore_any:
  "logs (requeueRestore rs d)"
  unfolding requeueRestore_def by simp

lemma restoreAdvances_error: "ensures (restoreAdvances rs) (ret (res, Some e))"
  by (rule ensures_ret) (simp add: restoreAdvances_def restoreExcused_def)

lemma restoreAdvances_excuse:
  assumes "restoreWaits (c, x) \<or> touchesData c" shows "restoreAdvances rs v ((c, x) # es)"
  using assms by (auto simp: restoreAdvances_def restoreExcused_def)

lemma advances_skip:
  assumes "ensures (restoreAdvances rs) m"
  shows "ensures (\<lambda>v es. restoreAdvances rs v ((Get kd key, x) # es)) m"
  by (rule ensures_mono [OF assms]) (use restoreAdvances_quiet [of "[(Get kd key, x)]"] in simp)

lemma advances_create:
  assumes "\<And>x. logs (f x)"
  shows "ensures (restoreAdvances rs) (State_Monad.bind (call (Create ob)) f)"
  by (rule ensures_call_bind, rule ensures_any [OF assms]) (simp add: restoreAdvances_excuse)

lemmas advance_intros = ensures_if ensures_sum ensures_option restoreAdvances_error failRestore_advances

lemma stopGame_advances:
  assumes "rt_Phase (r_Status rs) = RestorePhaseUnset \<or> rt_Phase (r_Status rs) = RestorePhasePending"
  shows "ensures (restoreAdvances rs) (stopGame r rs g)"
  unfolding stopGame_def Let_def event_def now_def bind_option bind_assoc bind_ret
  using assms
  by (intro advance_intros restoreAdvances_call restoreAdvances_bind [OF scaleGame_writes] requeueRestore_advances)
    (auto simp: restoreTerminal_def)

lemma awaitStopped_advances:
  assumes "rt_Phase (r_Status rs) = RestorePhaseStopping"
  shows "ensures (restoreAdvances rs) (awaitStopped rs g)"
  unfolding awaitStopped_def
  apply (rule ensures_call_bind, rule ensures_sum)
  subgoal by (rule ensures_ret) (simp add: restoreAdvances_def restoreExcused_def)
  apply (rule ensures_if)
  subgoal by (rule ensures_any [OF requeueRestore_any], rule restoreAdvances_excuse)
      (auto split: sum.splits if_splits option.splits)
  subgoal by (rule ensures_mono [OF requeueRestore_advances [of rs]])
      (use assms restoreAdvances_quiet [of "[(Get StsKind _, _)]"] in auto)
  done

lemma awaitTarballRestore_advances:
  assumes "rt_Phase (r_Status rs) = RestorePhaseRestoring"
  shows "ensures (restoreAdvances rs) (awaitTarballRestore r rs g plan)"
proof -
  have nt: "\<not> restoreTerminal (rt_Phase (r_Status rs))" using assms by (simp add: restoreTerminal_def)
  show ?thesis
    unfolding awaitTarballRestore_def Let_def
    apply (rule ensures_call_bind, rule ensures_sum)
    subgoal by (intro advances_skip advance_intros advances_create)
        (auto split: option.split simp: requeueRestore_any)
    apply (rule ensures_if)
    subgoal by (rule advances_skip, rule requeueRestore_advances) (simp add: assms)
    apply (rule ensures_if)
    subgoal by (rule advances_skip, rule failRestore_advances [OF nt])
    subgoal by (rule ensures_any [OF requeueRestore_any], rule restoreAdvances_excuse) simp
    done
qed

lemma awaitSnapshotRestore_advances:
  assumes "rt_Phase (r_Status rs) = RestorePhaseRestoring"
  shows "ensures (restoreAdvances rs) (awaitSnapshotRestore rs g plan)"
  unfolding awaitSnapshotRestore_def Let_def
  apply (rule ensures_call_bind, rule ensures_sum)
  subgoal by (intro advances_skip advance_intros advances_create)
      (auto split: option.split simp: requeueRestore_any)
  apply (rule ensures_if)
  subgoal by (rule advances_skip, rule requeueRestore_advances) (simp add: assms)
  apply (rule ensures_if)
  subgoal by (rule advances_skip, rule ensures_call_bind, rule ensures_any)
      (auto simp: restoreAdvances_excuse requeueRestore_any split: option.split)
  subgoal by (rule ensures_any [OF requeueRestore_any], rule restoreAdvances_excuse) simp
  done

lemma startGame_advances:
  assumes "rt_Phase (r_Status rs) = RestorePhaseStarting"
  shows "ensures (restoreAdvances rs) (startGame r rs g)"
proof -
  have completes: "restoreAdvances rs (res, asErr x) [(StatusUpdate (ORestore rs'), x)]"
    if "rt_Phase (r_Status rs') = RestorePhaseCompleted" for rs' res x
    using assms that by (auto simp: restoreAdvances_def restoreExcused_def)
  show ?thesis
    unfolding startGame_def Let_def now_def event_def bind_assoc bind_ret
    by (intro advance_intros restoreAdvances_call restoreAdvances_bind [OF scaleGame_writes]
        ensures_call_bind ensures_ret completes) simp_all
qed

lemma reconcileRestore_advances:
  "ensures (\<lambda>v es. restoreTerminal (rt_Phase (r_Status rs)) \<or> restoreAdvances rs v es) (reconcileRestore r rs)"
proof (cases "restoreTerminal (rt_Phase (r_Status rs))")
  case True
  then show ?thesis by (auto simp: reconcileRestore_def restoreTerminal_def intro: ensures_ret)
next
  case False
  have step: "ensures (restoreAdvances rs) (stepRestore r rs g plan)" for g plan
    using False
    by (cases "rt_Phase (r_Status rs)")
      (simp_all add: stepRestore_def stopGame_advances awaitStopped_advances awaitRestore_def
        awaitTarballRestore_advances awaitSnapshotRestore_advances startGame_advances restoreTerminal_def)
  have plan: "ensures (\<lambda>v es. list_all (\<lambda>e. restoreWritten (fst e) = None) es) (resolvePlan rs)"
    unfolding resolvePlan_def by (intro ensures_intros) simp_all
  have "ensures (restoreAdvances rs) (reconcileRestore r rs)"
    unfolding reconcileRestore_def using False
    by (auto intro!: advance_intros restoreAdvances_call restoreAdvances_bind [OF plan] step
        simp: restoreTerminal_def)
  then show ?thesis by (rule ensures_mono) simp
qed

interpretation restore_progress: progressing_phases "reconcileRestore r" restoreWritten r_Status rt_Phase
    restore_step restoreRank restoreTerminal restoreExcused 4
proof
  fix p ob
  show "restoreRank p \<le> 4" by (cases p) simp_all
  show "ensures (\<lambda>v es. restoreTerminal (rt_Phase (r_Status ob)) \<or> restoreExcused ob v es
      \<or> restoreRank (rt_Phase (r_Status ob)) < restoreRank (rt_Phase (storedStatus restoreWritten (r_Status ob) es)))
     (reconcileRestore r ob)"
    by (rule ensures_mono [OF reconcileRestore_advances]) (auto simp: restoreAdvances_def)
qed

text \<open>
  C13: a restore terminates. In every endless sequence of reconciles in which accepted status updates
  are stored, at most four reconciles of the unfinished restore return without an error, find nothing to
  wait for (a running pod, an unfinished Job, a volume being deleted, a refused status update) and do no
  work on the data; each of them moves the phase on. So unless it is held up from some point on, the
  restore becomes completed or failed, and stays so.
\<close>

theorem restore_terminates:
  assumes "schedule (reconcileRestore r) restoreWritten r_Status s w"
  shows "finite (unexcused (reconcileRestore r) (\<lambda>rs. restoreTerminal (rt_Phase (r_Status rs))) restoreExcused s w)
    \<and> card (unexcused (reconcileRestore r) (\<lambda>rs. restoreTerminal (rt_Phase (r_Status rs))) restoreExcused s w) \<le> 4
    \<and> (infinite (unexcused (reconcileRestore r) (\<lambda>rs. False) restoreExcused s w)
       \<longrightarrow> (\<exists>N. restoreTerminal (rt_Phase (r_Status (s N))) \<and> (\<forall>m \<ge> N. r_Status (s m) = r_Status (s N))))"
  using restore_progress.unexcused_bounded [OF assms] restore_progress.terminates [OF assms]
  by (auto simp: unexcused_def)

text \<open>A cluster in which nothing is left to wait for: no StatefulSet, and the volume already swapped.\<close>

definition settledWorld :: "(call, reply) world" where
  "settledWorld = \<lparr>srv = \<lambda>h c. (case c of
        Get kd key \<Rightarrow>
          if kd = GameKind then RObj (OGame sampleGame)
          else if kd = BackupKind then RObj (OBackup snapshotBackup)
          else if kd = PVCKind then RObj (OPVC (restoredPVC sampleGame ''bk''))
          else RErr (KErr NotFound [])
      | _ \<Rightarrow> ROk), hist = []\<rparr>"

primrec restoreRounds :: "nat \<Rightarrow> PalworldRestore" where
  "restoreRounds 0 = sampleRestore"
| "restoreRounds (Suc n) = (restoreRounds n)\<lparr>r_Status := storedStatus restoreWritten (r_Status (restoreRounds n))
     (events (reconcileRestore sampleRestoreReconciler (restoreRounds n)) settledWorld)\<rparr>"

lemma settled_rounds:
  "\<exists>st. restoreRounds n = sampleRestore\<lparr>r_Status := st\<rparr>"
proof (induction n)
  case 0
  have "sampleRestore = sampleRestore\<lparr>r_Status := r_Status sampleRestore\<rparr>" by simp
  then show ?case by (metis restoreRounds.simps(1))
next
  case (Suc n)
  then show ?case by auto
qed

lemma settled_plan:
  "restoredPVC sampleGame ''bk'' = pvc \<Longrightarrow>
     m_Annotations (pvc_Meta pvc) restoredAnnotation = Some ''bk'' \<and> m_DeletionTimestamp (pvc_Meta pvc) = None"
  by (auto simp: restoredPVC_def DesiredRestorePVCFromSnapshot_def newMeta_def Let_def)

lemma settled_unexcused:
  "\<not> restoreExcused rs (val (reconcileRestore sampleRestoreReconciler (sampleRestore\<lparr>r_Status := st\<rparr>)) settledWorld)
       (events (reconcileRestore sampleRestoreReconciler (sampleRestore\<lparr>r_Status := st\<rparr>)) settledWorld)"
  by (cases "rt_Phase st"; cases "rt_StartTime st"; cases "rt_OriginalReplicas st")
    (simp_all add: restoreExcused_def settledWorld_def settled_plan [OF refl] events_def fin_call val_call Let_def
      restore_sample_defs stopGame_def startGame_def scaleGame_def failRestore_def now_def event_def)

theorem restore_terminates_witness:
  "\<exists>N. restoreTerminal (rt_Phase (r_Status (restoreRounds N)))
     \<and> (\<forall>m \<ge> N. r_Status (restoreRounds m) = r_Status (restoreRounds N))"
proof -
  have "schedule (reconcileRestore sampleRestoreReconciler) restoreWritten r_Status restoreRounds (\<lambda>n. settledWorld)"
    by (simp add: schedule_def)
  moreover have "\<not> restoreExcused rs (val (reconcileRestore sampleRestoreReconciler (restoreRounds n)) settledWorld)
      (events (reconcileRestore sampleRestoreReconciler (restoreRounds n)) settledWorld)" for rs n
    using settled_rounds [of n] settled_unexcused by auto
  then have "unexcused (reconcileRestore sampleRestoreReconciler) (\<lambda>rs. False) restoreExcused restoreRounds
      (\<lambda>n. settledWorld) = UNIV"
    by (simp add: unexcused_def)
  ultimately show ?thesis using restore_terminates [of sampleRestoreReconciler restoreRounds "\<lambda>n. settledWorld"] by simp
qed

section \<open>No restore is forgotten, but for one race\<close>

text \<open>A stored terminal status, and a volume that was already gone when it should be deleted.\<close>

fun finishesRestore :: "call \<times> reply \<Rightarrow> bool" where
  "finishesRestore (StatusUpdate (ORestore rs), x) = (asErr x = None \<and> restoreTerminal (rt_Phase (r_Status rs)))"
| "finishesRestore _ = False"

fun goneAtDelete :: "call \<times> reply \<Rightarrow> bool" where
  "goneAtDelete (Delete kd key, RErr e) = (kd = PVCKind \<and> IsNotFound e)"
| "goneAtDelete _ = False"

definition restoreForgotten :: "Result \<times> kerr option \<Rightarrow> (call \<times> reply) list \<Rightarrow> bool" where
  "restoreForgotten v es \<longleftrightarrow> snd v = None \<and> \<not> requeues (fst v) \<and> \<not> list_ex finishesRestore es"

definition lostAtDelete :: "Result \<times> kerr option \<Rightarrow> (call \<times> reply) list \<Rightarrow> bool" where
  "lostAtDelete v es \<longleftrightarrow> (restoreForgotten v es \<longleftrightarrow> list_ex goneAtDelete es)"

interpretation lost_frame: quiet_frame "\<lambda>c. \<forall>x. \<not> finishesRestore (c, x) \<and> \<not> goneAtDelete (c, x)" lostAtDelete
  by unfold_locales (simp add: lostAtDelete_def restoreForgotten_def)

lemmas lost_call = lost_frame.call_bind

lemma requeueRestore_lost: "0 < d \<Longrightarrow> ensures lostAtDelete (requeueRestore rs d)"
  unfolding requeueRestore_def
  by (intro ensures_intros) (auto simp: lostAtDelete_def restoreForgotten_def requeues_def result_defs split: option.split)

lemma failRestore_lost: "ensures lostAtDelete (failRestore r rs reason msg)"
  unfolding failRestore_def now_def event_def bind_assoc bind_ret
  by (intro lost_call ensures_call_bind ensures_ret)
    (auto simp: lostAtDelete_def restoreForgotten_def restoreTerminal_def)

lemma error_lost: "ensures lostAtDelete (ret (res, Some e))"
  by (rule ensures_ret) (simp add: lostAtDelete_def restoreForgotten_def)

lemmas lost_intros = ensures_if ensures_sum ensures_option lost_call requeueRestore_lost failRestore_lost error_lost ensures_let

lemma scaleGame_lost:
  assumes "\<And>e. ensures lostAtDelete (f e)" shows "ensures lostAtDelete (State_Monad.bind (scaleGame g n) f)"
  unfolding scaleGame_def bind_assoc bind_sum bind_if bind_ret
  by (intro lost_intros assms) simp_all

lemma stepRestore_lost:
  assumes "\<not> restoreTerminal (rt_Phase (r_Status rs))"
  shows "ensures lostAtDelete (stepRestore r rs g plan)"
proof -
  have seconds: "0 < n * Second" if "0 < n" for n using that by (simp add: Second_def)
  have "ensures lostAtDelete (stopGame r rs g)"
    unfolding stopGame_def Let_def event_def now_def bind_option bind_assoc bind_ret
    by (intro lost_intros scaleGame_lost seconds) simp_all
  moreover have "ensures lostAtDelete (awaitStopped rs g)"
    unfolding awaitStopped_def by (intro lost_intros seconds) simp_all
  moreover have "ensures lostAtDelete (awaitTarballRestore r rs g plan)"
    unfolding awaitTarballRestore_def by (intro lost_intros seconds) simp_all
  moreover have "ensures lostAtDelete (awaitSnapshotRestore rs g plan)"
  proof -
    have delete: "ensures lostAtDelete (do { d \<leftarrow> call (Delete PVCKind key);
        case asErr d of Some e \<Rightarrow> ret (noResult, IgnoreNotFound (Some e)) | None \<Rightarrow> requeueRestore rs (3 * Second) })" for key
    proof (rule ensures_call_bind, rule ensures_option)
      fix d
      assume "asErr d = None"
      then have "\<not> goneAtDelete (Delete PVCKind key, d)" by (cases d) simp_all
      then show "ensures (\<lambda>b es. lostAtDelete b ((Delete PVCKind key, d) # es)) (requeueRestore rs (3 * Second))"
        by (intro ensures_mono [OF requeueRestore_lost [OF seconds]]) (simp_all add: lostAtDelete_def restoreForgotten_def)
    next
      fix d e
      assume "asErr d = Some e"
      then have "d = RErr e" by (cases d) simp_all
      then show "ensures (\<lambda>b es. lostAtDelete b ((Delete PVCKind key, d) # es)) (ret (noResult, IgnoreNotFound (Some e)))"
        by (intro ensures_ret) (simp add: lostAtDelete_def restoreForgotten_def IgnoreNotFound_def requeues_def noResult_def)
    qed
    show ?thesis
      unfolding awaitSnapshotRestore_def by (intro lost_intros delete seconds) simp_all
  qed
  moreover have "ensures lostAtDelete (startGame r rs g)"
    unfolding startGame_def Let_def event_def now_def bind_assoc bind_ret
    by (intro lost_intros scaleGame_lost ensures_call_bind ensures_ret)
      (auto simp: lostAtDelete_def restoreForgotten_def restoreTerminal_def)
  ultimately show ?thesis
    using assms by (cases "rt_Phase (r_Status rs)") (simp_all add: stepRestore_def awaitRestore_def restoreTerminal_def)
qed


lemma reconcileRestore_lost:
  assumes "\<not> restoreTerminal (rt_Phase (r_Status rs))"
  shows "ensures lostAtDelete (reconcileRestore r rs)"
  unfolding reconcileRestore_def resolvePlan_def bind_assoc bind_if bind_ret
  using assms by (auto intro!: lost_intros stepRestore_lost simp: restoreTerminal_def)

text \<open>
  C15: an unfinished backup or restore is not forgotten. A reconcile that returns no error and asks for no
  further reconcile has stored a terminal status; the one exception is a snapshot restore whose old
  volume vanished between its read and its deletion, which returns success with nothing scheduled
  and nothing stored.
\<close>

theorem unfinished_work_reconciled_again:
  assumes "\<not> backupTerminal (bt_Phase (b_Status b))" and "\<not> restoreTerminal (rt_Phase (r_Status rs))"
  shows "ensures (\<lambda>(res, err) es. err = None \<and> \<not> requeues res \<longrightarrow> list_ex finishesBackup es) (reconcileBackup br b)
    \<and> ensures (\<lambda>(res, err) es. (err = None \<and> \<not> requeues res \<and> \<not> list_ex finishesRestore es) \<longleftrightarrow> list_ex goneAtDelete es)
        (reconcileRestore rr rs)"
proof
  show "ensures (\<lambda>(res, err) es. err = None \<and> \<not> requeues res \<longrightarrow> list_ex finishesBackup es) (reconcileBackup br b)"
    by (rule ensures_mono [OF reconcileBackup_kept [OF assms(1)]]) (auto simp: backupKept_def)
  show "ensures (\<lambda>(res, err) es. (err = None \<and> \<not> requeues res \<and> \<not> list_ex finishesRestore es) \<longleftrightarrow> list_ex goneAtDelete es)
      (reconcileRestore rr rs)"
    by (rule ensures_mono [OF reconcileRestore_lost [OF assms(2)]]) (auto simp: lostAtDelete_def restoreForgotten_def)
qed

text \<open>The old volume is read, and gone when it is deleted.\<close>

definition oldPVC :: PersistentVolumeClaim where
  "oldPVC = DesiredRestorePVCFromSnapshot sampleGame (DataPVCName sampleGame) ''old''"

definition vanishingWorld :: "(call, reply) world" where
  "vanishingWorld = \<lparr>srv = \<lambda>h c. (case c of
        Get kd key \<Rightarrow>
          if kd = GameKind then RObj (OGame sampleGame)
          else if kd = BackupKind then RObj (OBackup snapshotBackup)
          else RObj (OPVC oldPVC)
      | Delete kd key \<Rightarrow> RErr (KErr NotFound [])
      | _ \<Rightarrow> ROk), hist = []\<rparr>"

lemma oldPVC_simps: "m_Annotations (pvc_Meta oldPVC) = Map.empty" "m_DeletionTimestamp (pvc_Meta oldPVC) = None"
  by (simp_all add: oldPVC_def DesiredRestorePVCFromSnapshot_def newMeta_def Let_def)

lemma vanishing_events:
  "list_ex goneAtDelete (events (reconcileRestore sampleRestoreReconciler restoringRestore) vanishingWorld)"
  by (simp add: events_def fin_call val_call Let_def restore_sample_defs vanishingWorld_def oldPVC_simps)

theorem unfinished_work_reconciled_again_witness:
  "snd (val (reconcileRestore sampleRestoreReconciler restoringRestore) vanishingWorld) = None
   \<and> \<not> requeues (fst (val (reconcileRestore sampleRestoreReconciler restoringRestore) vanishingWorld))"
proof -
  have "\<not> backupTerminal (bt_Phase (b_Status snapshottingBackup))" "\<not> restoreTerminal (rt_Phase (r_Status restoringRestore))"
    by (simp_all add: backupTerminal_def restoreTerminal_def restoringRestore_def)
  from ensuresD [OF conjunct2 [OF unfinished_work_reconciled_again [OF this]], of sampleRestoreReconciler vanishingWorld]
  show ?thesis using vanishing_events by (auto split: prod.splits)
qed

end
