(* ===== verification/BackupRestore.thy ===== *)
theory BackupRestore
  imports RestoreController
begin

text \<open>
  The controllers together: what a restore from a completed backup reads, and how a restore reaches the
  StatefulSet through the game controller. The trail of a backup says what its status records in each
  phase about the snapshot, and that the transient snapshot of an archive was deleted.
\<close>

definition snapshotDestination :: "PalworldBackup \<Rightarrow> bool" where
  "snapshotDestination b \<longleftrightarrow>
     bd_Type (bs_Destination (b_Spec b)) \<in> {BackupDestinationUnset, BackupDestinationVolumeSnapshot}"

definition recordedSnapshot :: "PalworldBackupReconciler \<Rightarrow> PalworldBackup \<Rightarrow> string" where
  "recordedSnapshot r b = (if br_hasSnapshot r then SnapshotName b else [])"

definition snapshotDeleted :: "PalworldBackup \<Rightarrow> call \<times> reply \<Rightarrow> bool" where
  "snapshotDeleted b e \<longleftrightarrow> fst e = Delete (UnKind VolumeSnapshotGVK) (b_Namespace b, SnapshotName b)"

definition trail :: "PalworldBackupReconciler \<Rightarrow> PalworldBackup \<Rightarrow> PalworldBackupStatus \<Rightarrow> (call \<times> reply) list \<Rightarrow> bool" where
  "trail r b st tr =
     (case bt_Phase st of
        BackupPhaseUnset \<Rightarrow> bt_VolumeSnapshotName st = []
      | BackupPhasePending \<Rightarrow> bt_VolumeSnapshotName st = []
      | BackupPhaseSaving \<Rightarrow> False
      | BackupPhaseSnapshotting \<Rightarrow> br_hasSnapshot r \<and> bt_VolumeSnapshotName st = SnapshotName b
      | BackupPhaseUploading \<Rightarrow> \<not> snapshotDestination b \<and> bt_VolumeSnapshotName st = recordedSnapshot r b
      | BackupPhaseCompleted \<Rightarrow>
          bt_VolumeSnapshotName st = recordedSnapshot r b
          \<and> (if snapshotDestination b then br_hasSnapshot r else list_ex (snapshotDeleted b) tr)
      | BackupPhaseFailed \<Rightarrow> True)"

definition trailKept ::
    "PalworldBackupReconciler \<Rightarrow> PalworldBackup \<Rightarrow> (call \<times> reply) list \<Rightarrow> (call \<times> reply) list \<Rightarrow> bool" where
  "trailKept r b tr es \<longleftrightarrow>
     list_all (\<lambda>e. case backupWritten (fst e) of None \<Rightarrow> True | Some st \<Rightarrow> trail r b st (tr @ es)) es"

lemma trail_mono: "trail r b st tr \<Longrightarrow> set tr \<subseteq> set tr' \<Longrightarrow> trail r b st tr'"
  by (auto simp: trail_def list_ex_iff split: BackupPhase.splits if_splits)

lemma trailKept_nil [simp]: "trailKept r b tr []"
  by (simp add: trailKept_def)

interpretation trail_frame: quiet_frame "\<lambda>c. backupWritten c = None" "\<lambda>v. trailKept r b tr"
proof
  fix c and x :: reply and es :: "(call \<times> reply) list"
  assume "backupWritten c = None" and "trailKept r b tr es"
  moreover have "trail r b st (tr @ (c, x) # es)" if "trail r b st (tr @ es)" for st
    by (rule trail_mono [OF that]) auto
  ultimately show "trailKept r b tr ((c, x) # es)"
    by (auto simp: trailKept_def list_all_iff split: option.splits)
qed

lemmas trail_call = trail_frame.call_bind and trail_rest = trail_frame.action_bind [OF ensures_mono [OF _ restOnly_quiet]]

lemma trail_write:
  assumes "trail r b (b_Status b') tr" shows "trailKept r b tr [(StatusUpdate (OBackup b'), x)]"
  using trail_mono [OF assms, of "tr @ [(StatusUpdate (OBackup b'), x)]"] by (auto simp: trailKept_def)

lemma snapshot_frame [simp]:
  "bt_VolumeSnapshotName (b_Status (setBackupCondition r rs st m b)) = bt_VolumeSnapshotName (b_Status b)"
  by (simp add: setBackupCondition_def)

lemma failBackup_trail: "ensures (\<lambda>v es. trailKept r b tr es) (failBackup r' b' reason msg)"
  unfolding failBackup_def now_def event_def bind_assoc bind_ret
  by (intro trail_call ensures_call_bind ensures_ret trail_write) (simp_all add: trail_def)

lemma requeueBackup_trail:
  "trail r b (b_Status b') tr \<Longrightarrow> ensures (\<lambda>v es. trailKept r b tr es) (requeueBackup b' d)"
  unfolding requeueBackup_def by (intro ensures_call_bind ensures_ret trail_write)

lemma completeBackup_trail:
  assumes "bt_VolumeSnapshotName (b_Status b') = recordedSnapshot r b"
    and "if snapshotDestination b then br_hasSnapshot r else list_ex (snapshotDeleted b) tr"
  shows "ensures (\<lambda>v es. trailKept r b tr es) (completeBackup r' b')"
  unfolding completeBackup_def now_def event_def bind_assoc bind_ret
  using assms by (intro trail_call ensures_call_bind ensures_ret trail_write) (simp_all add: trail_def)

lemma timedOut_trail:
  assumes "\<And>late. ensures (\<lambda>v es. trailKept r b tr es) (f late)"
  shows "ensures (\<lambda>v es. trailKept r b tr es) (State_Monad.bind (timedOut b') f)"
  unfolding timedOut_def now_def bind_option bind_assoc bind_ret
  by (auto intro!: ensures_option trail_call assms)

lemmas trail_intros = ensures_if ensures_sum ensures_option ensures_let ensures_ret trail_call failBackup_trail
  requeueBackup_trail timedOut_trail

lemma createUploadJob_trail:
  assumes "\<not> snapshotDestination b" and "bt_VolumeSnapshotName (b_Status b') = recordedSnapshot r b"
  shows "ensures (\<lambda>v es. trailKept r b tr es) (createUploadJob r' b' g src)"
  unfolding createUploadJob_def using assms by (intro trail_intros) (simp_all add: trail_def)

lemma flushSave_trail:
  assumes "ensures (\<lambda>v es. trailKept r b tr es) k"
  shows "ensures (\<lambda>v es. trailKept r b tr es) (State_Monad.bind (flushSave r' g) (\<lambda>_. k))"
  unfolding flushSave_def bind_assoc bind_sum bind_ret
  by (rule trail_rest [OF restClientFor_restOnly])
    (auto intro!: trail_intros trail_rest [OF Save_restOnly] assms)

lemma startBackup_trail:
  assumes "bt_VolumeSnapshotName (b_Status b) = []"
  shows "ensures (\<lambda>v es. trailKept r b tr es) (startBackup r b g)"
  unfolding startBackup_def Let_def now_def bind_option bind_assoc bind_ret bind_if
  using assms
  by (intro trail_intros flushSave_trail createUploadJob_trail)
    (simp_all add: trail_def snapshotDestination_def recordedSnapshot_def SnapshotName_def split: if_splits)

lemma snapshotDone_trail:
  assumes "br_hasSnapshot r" and "bt_VolumeSnapshotName (b_Status b') = SnapshotName b" and "b_Spec b' = b_Spec b"
  shows "ensures (\<lambda>v es. trailKept r b tr es) (snapshotDone r b' g)"
  unfolding snapshotDone_def using assms
  by (intro trail_intros completeBackup_trail createUploadJob_trail) (simp_all add: snapshotDestination_def recordedSnapshot_def)

lemma reconcileSnapshot_trail:
  assumes "trail r b (b_Status b) tr" and "bt_Phase (b_Status b) = BackupPhaseSnapshotting"
  shows "ensures (\<lambda>v es. trailKept r b tr es) (reconcileSnapshot r b g)"
  unfolding reconcileSnapshot_def Let_def
  using assms by (auto intro!: trail_intros ensures_prod snapshotDone_trail simp: trail_def)

lemma reconcileUpload_trail:
  assumes "trail r b (b_Status b) tr" and "bt_Phase (b_Status b) = BackupPhaseUploading"
  shows "ensures (\<lambda>v es. trailKept r b tr es) (reconcileUpload r b g)"
proof -
  have s: "\<not> snapshotDestination b" "bt_VolumeSnapshotName (b_Status b) = recordedSnapshot r b"
    using assms by (simp_all add: trail_def)
  let ?d = "Delete (UnKind VolumeSnapshotGVK) (b_Namespace b, SnapshotName b)"
  have completes: "ensures (\<lambda>v es. trailKept r b tr es) (do { x \<leftarrow> call ?d; completeBackup r b' })"
    if "bt_VolumeSnapshotName (b_Status b') = recordedSnapshot r b" for b'
  proof (rule ensures_call_bind)
    fix x
    have "ensures (\<lambda>v es. trailKept r b (tr @ [(?d, x)]) es) (completeBackup r b')"
      using s that by (intro completeBackup_trail) (simp_all add: snapshotDeleted_def)
    then show "ensures (\<lambda>v es. trailKept r b tr ((?d, x) # es)) (completeBackup r b')"
      unfolding trailKept_def append_assoc append.simps by (rule ensures_mono) simp
  qed
  show ?thesis
    unfolding reconcileUpload_def cleanupTransient_def bind_assoc bind_ret
    apply (rule trail_call, simp, rule ensures_sum)
    subgoal by (intro trail_intros) simp_all
    apply (rule ensures_if)
    subgoal by (rule trail_call) (use completes s in simp_all)
    subgoal using assms(1) by (intro trail_intros) simp_all
    done
qed

lemma handleTTL_trail: "ensures (\<lambda>v es. trailKept r b tr es) (handleTTL b')"
  unfolding handleTTL_def Let_def now_def bind_assoc bind_ret
  by (auto intro!: trail_intros split: option.split prod.split)

lemma reconcileBackup_trail:
  assumes "trail r b (b_Status b) tr"
  shows "ensures (\<lambda>v es. trailKept r b tr es) (reconcileBackup r b)"
proof -
  have "ensures (\<lambda>v es. trailKept r b tr es) (stepBackup r b g)" for g
    using assms
    by (cases "bt_Phase (b_Status b)")
      (simp_all add: stepBackup_def startBackup_trail reconcileSnapshot_trail reconcileUpload_trail ensures_ret trail_def)
  then show ?thesis
    unfolding reconcileBackup_def by (auto intro!: trail_intros handleTTL_trail)
qed

section \<open>Restoring a completed backup\<close>

lemma trail_status [simp]:
  "trail r (b\<lparr>b_Status := st\<rparr>) st' tr = trail r b st' tr" "trailKept r (b\<lparr>b_Status := st\<rparr>) tr es = trailKept r b tr es"
proof -
  have frame: "snapshotDestination (b\<lparr>b_Status := st\<rparr>) = snapshotDestination b"
      "recordedSnapshot r (b\<lparr>b_Status := st\<rparr>) = recordedSnapshot r b"
      "SnapshotName (b\<lparr>b_Status := st\<rparr>) = SnapshotName b"
      "snapshotDeleted (b\<lparr>b_Status := st\<rparr>) = snapshotDeleted b"
    by (auto simp: snapshotDestination_def recordedSnapshot_def SnapshotName_def snapshotDeleted_def)
  show "trail r (b\<lparr>b_Status := st\<rparr>) st' tr = trail r b st' tr" for st' tr
    unfolding trail_def frame ..
  then show "trailKept r (b\<lparr>b_Status := st\<rparr>) tr es = trailKept r b tr es"
    unfolding trailKept_def by presburger
qed

abbreviation backupRuns ::
    "PalworldBackupReconciler \<Rightarrow> PalworldBackup \<Rightarrow> PalworldBackupStatus \<Rightarrow> (call \<times> reply) list \<Rightarrow> bool" where
  "backupRuns r b \<equiv> runs (\<lambda>st. reconcileBackup r (b\<lparr>b_Status := st\<rparr>)) backupWritten (\<lambda>st. st) newBackupStatus"

lemma runs_trail:
  assumes "backupRuns r b st tr" shows "trail r b st tr"
  using assms
proof (induction rule: runs.induct)
  case runs_start
  show ?case by (simp add: trail_def newBackupStatus_def)
next
  case (runs_step st tr st' w)
  let ?es = "events (reconcileBackup r (b\<lparr>b_Status := st\<rparr>)) w"
  have kept: "trailKept r b tr ?es"
    using ensuresD [OF reconcileBackup_trail [of r "b\<lparr>b_Status := st\<rparr>" tr]] runs_step.IH by simp
  from runs_step.hyps(2) show ?case
  proof
    assume "st' = st"
    with runs_step.IH show ?thesis by (auto intro: trail_mono)
  next
    assume "\<exists>c x. (c, x) \<in> set ?es \<and> backupWritten c = Some st'"
    with kept show ?thesis by (fastforce simp: trailKept_def list_all_iff)
  qed
qed

lemma DesiredBackupJob_status: "DesiredBackupJob g (b\<lparr>b_Status := st\<rparr>) img src os = DesiredBackupJob g b img src os"
  by (simp add: DesiredBackupJob_def cong: BackupDestinationType.case_cong)

text \<open>The destination names an archive.\<close>

definition usableArchive :: "BackupDestination \<Rightarrow> bool" where
  "usableArchive d \<longleftrightarrow>
     (case bd_Type d of
        BackupDestinationS3 \<Rightarrow> bd_S3 d \<noteq> None
      | BackupDestinationPVC \<Rightarrow> bd_PVCName d \<noteq> []
      | _ \<Rightarrow> False)"

text \<open>
  C12: restoring a completed backup. After any run of the backup controller from a fresh backup to the
  phase \<open>Completed\<close>, a restore that references it gets a plan. On a cluster without snapshots the
  backup has an archive destination and the restore Job of the same game reads the very archive the
  backup Job wrote. On a cluster with snapshots the plan is to clone the backup's snapshot: right for a
  snapshot destination, but for an archive destination that snapshot was deleted before the backup was completed.
\<close>

theorem completed_backup_restores:
  assumes "backupRuns r b st tr" and "bt_Phase st = BackupPhaseCompleted" and "b_Name b \<noteq> []"
    and "rs_GameRef (r_Spec rs) = bs_GameRef (b_Spec b)" and "g_Name g = bs_GameRef (b_Spec b)"
  shows "\<exists>plan. backupPlan rs (b\<lparr>b_Status := st\<rparr>) = Inr plan \<and>
    (if br_hasSnapshot r
     then \<not> plan_tarball plan \<and> plan_snapshot plan = SnapshotName b
       \<and> (snapshotDestination b \<or> list_ex (snapshotDeleted b) tr)
     else plan_tarball plan \<and> \<not> snapshotDestination b
       \<and> (usableArchive (bs_Destination (b_Spec b)) \<longrightarrow>
            archiveOf (DesiredRestoreJob g name img (plan_key plan) (plan_dest plan) os)
            = archiveOf (DesiredBackupJob g b img' src os')))"
proof -
  have t: "bt_VolumeSnapshotName st = recordedSnapshot r b"
      "if snapshotDestination b then br_hasSnapshot r else list_ex (snapshotDeleted b) tr"
    using runs_trail [OF assms(1)] assms(2) by (simp_all add: trail_def)
  show ?thesis
  proof (cases "br_hasSnapshot r")
    case True
    with t assms(2,3) show ?thesis
      by (auto simp: backupPlan_def recordedSnapshot_def SnapshotName_def split: if_splits)
  next
    case False
    then obtain plan where plan: "backupPlan rs (b\<lparr>b_Status := st\<rparr>) = Inr plan" "plan_tarball plan"
      using t(1) assms(2) by (simp add: backupPlan_def recordedSnapshot_def)
    have "archiveOf (DesiredRestoreJob g name img (plan_key plan) (plan_dest plan) os)
        = archiveOf (DesiredBackupJob g (b\<lparr>b_Status := st\<rparr>) img' src os')"
      if "usableArchive (bs_Destination (b_Spec b))"
      using restore_archive_iff [OF plan, of g g name img os img' src os'] assms(4,5) that
      by (simp add: usableArchive_def split: BackupDestinationType.splits)
    with False t plan show ?thesis
      by (intro exI [of _ plan]) (auto simp: DesiredBackupJob_status)
  qed
qed

text \<open>
  An archive backup of the sample game on a cluster with snapshots: the snapshot is taken, it becomes
  ready, the upload Job succeeds.
\<close>

definition archiveBackup :: PalworldBackup where
  "archiveBackup = sampleBackup\<lparr>b_Spec := \<lparr>bs_GameRef = ''pal'',
     bs_Destination = noDestination\<lparr>bd_Type := BackupDestinationPVC, bd_PVCName := ''store''\<rparr>,
     bs_FlushSave = False, bs_TTLSecondsAfterFinished = None, bs_Retain = False\<rparr>\<rparr>"

definition doneJob :: Job where
  "doneJob = (DesiredBackupJob sampleGame archiveBackup [] [] False)\<lparr>job_Succeeded := 1\<rparr>"

definition archiveWorld :: "(call, reply) world" where
  "archiveWorld = \<lparr>srv = \<lambda>h c. (case c of
        Get kd key \<Rightarrow>
          if kd = GameKind then RObj (OGame sampleGame)
          else if kd = JobKind then RObj (OJob doneJob)
          else RObj (OUn readySnapshot)
      | _ \<Rightarrow> ROk), hist = []\<rparr>"

abbreviation archiveRound :: "PalworldBackupStatus \<Rightarrow> (call \<times> reply) list" where
  "archiveRound st \<equiv> events (reconcileBackup sampleBackupReconciler (archiveBackup\<lparr>b_Status := st\<rparr>)) archiveWorld"

definition nextStatus :: "PalworldBackupStatus \<Rightarrow> PalworldBackupStatus option" where
  "nextStatus st = (case List.map_filter (backupWritten \<circ> fst) (archiveRound st) of [] \<Rightarrow> None | st' # _ \<Rightarrow> Some st')"

lemma nextStatus_written:
  assumes "nextStatus st = Some st'"
  shows "\<exists>c x. (c, x) \<in> set (archiveRound st) \<and> backupWritten c = Some st'"
proof -
  have "st' \<in> set (List.map_filter (backupWritten \<circ> fst) (archiveRound st))"
    using assms unfolding nextStatus_def by (auto split: list.splits)
  then show ?thesis by (force simp: List.map_filter_def)
qed

lemma refOwner_new:
  "m_OwnerReferences m = [] \<Longrightarrow>
     refOwner kd own m = Inr (m\<lparr>m_OwnerReferences := [\<lparr>or_Kind = kd, or_Name = m_Name own, or_Controller = True\<rparr>]\<rparr>)"
  by (simp add: refOwner_def Let_def)

lemma desired_unowned:
  "m_OwnerReferences (un_Meta (DesiredVolumeSnapshot g b)) = []"
  "m_OwnerReferences (pvc_Meta (DesiredRestorePVCFromSnapshot g n sn)) = []"
  "m_OwnerReferences (job_Meta (DesiredBackupJob g b img src os)) = []"
  by (simp_all add: DesiredVolumeSnapshot_def DesiredRestorePVCFromSnapshot_def DesiredBackupJob_def buildWorkerJob_def
      newMeta_def Let_def)

lemmas archive_sample_defs = refOwner_new desired_unowned archiveWorld_def archiveBackup_def noDestination_def sampleBackupReconciler_def sampleBackup_def
  newMeta_def refLib_def reconcileBackup_def stepBackup_def startBackup_def reconcileSnapshot_def snapshotDone_def
  reconcileUpload_def cleanupTransient_def createUploadJob_def completeBackup_def requeueBackup_def setBackupCondition_def setStatusCondition_def
  SnapshotReady_def readySnapshot_def SnapshotName_def now_def event_def doneJob_def

lemma archive_rounds:
  "\<exists>st. nextStatus newBackupStatus = Some st \<and> bt_Phase st = BackupPhaseSnapshotting"
  "bt_Phase st = BackupPhaseSnapshotting \<Longrightarrow> \<exists>st'. nextStatus st = Some st' \<and> bt_Phase st' = BackupPhaseUploading"
  "bt_Phase st = BackupPhaseUploading \<Longrightarrow> \<exists>st'. nextStatus st = Some st' \<and> bt_Phase st' = BackupPhaseCompleted"
  by (simp_all add: nextStatus_def List.map_filter_def events_def fin_call val_call Let_def archive_sample_defs newBackupStatus_def)

lemma archive_run:
  "\<exists>st tr. backupRuns sampleBackupReconciler archiveBackup st tr \<and> bt_Phase st = BackupPhaseCompleted"
proof -
  have step: "\<exists>tr'. backupRuns sampleBackupReconciler archiveBackup st' tr'"
    if "backupRuns sampleBackupReconciler archiveBackup st tr" "nextStatus st = Some st'" for st st' tr
    using runs_step [OF that(1), of st' archiveWorld] nextStatus_written [OF that(2)] by blast
  show ?thesis using archive_rounds step [OF runs_start] step by metis
qed

theorem completed_backup_restores_witness:
  "\<exists>st tr plan. backupPlan sampleRestore (archiveBackup\<lparr>b_Status := st\<rparr>) = Inr plan
     \<and> \<not> plan_tarball plan \<and> list_ex (snapshotDeleted archiveBackup) tr"
proof -
  obtain st tr where run: "backupRuns sampleBackupReconciler archiveBackup st tr" "bt_Phase st = BackupPhaseCompleted"
    using archive_run by blast
  have "b_Name archiveBackup \<noteq> []" "rs_GameRef (r_Spec sampleRestore) = bs_GameRef (b_Spec archiveBackup)"
    "g_Name sampleGame = bs_GameRef (b_Spec archiveBackup)" "br_hasSnapshot sampleBackupReconciler"
    "\<not> snapshotDestination archiveBackup"
    by (simp_all add: archiveBackup_def sampleBackup_def newMeta_def sampleRestore_def sampleGame_def sampleBackupReconciler_def
        snapshotDestination_def noDestination_def)
  with completed_backup_restores [OF run, of sampleRestore sampleGame] show ?thesis by auto
qed

section \<open>From the restore to the StatefulSet\<close>

text \<open>The replica count a restore asks for: none while it stops the game, the recorded count at the end.\<close>

definition askedReplicas :: "PalworldRestore \<Rightarrow> int32" where
  "askedReplicas rs =
     (if rt_Phase (r_Status rs) = RestorePhaseStarting
      then (case rt_OriginalReplicas (r_Status rs) of Some n \<Rightarrow> n | None \<Rightarrow> 1) else 0)"

definition asksFor :: "int32 \<Rightarrow> (call \<times> reply) list \<Rightarrow> bool" where
  "asksFor n es \<longleftrightarrow> (\<forall>g x. (Update (OGame g), x) \<in> set es \<longrightarrow> gs_Replicas (g_Spec g) = Some n)"

lemma asksFor_simps [simp]:
  "asksFor n []" "asksFor n (e # es) \<longleftrightarrow> (\<forall>g. fst e = Update (OGame g) \<longrightarrow> gs_Replicas (g_Spec g) = Some n) \<and> asksFor n es"
  "asksFor n (es @ es') \<longleftrightarrow> asksFor n es \<and> asksFor n es'"
  by (cases e; auto simp: asksFor_def)+

lemma scaleGame_asks: "ensures (\<lambda>v es. asksFor n es) (scaleGame g n)"
  unfolding scaleGame_def by (intro ensures_intros) simp_all

lemma failRestore_asks: "ensures (\<lambda>v es. asksFor n es) (failRestore r rs reason msg)"
  unfolding failRestore_def now_def event_def bind_assoc bind_ret by (intro ensures_intros) simp

lemma requeueRestore_asks: "ensures (\<lambda>v es. asksFor n es) (requeueRestore rs d)"
  unfolding requeueRestore_def by (intro ensures_intros) simp

interpretation asks_frame: quiet_frame "\<lambda>c. \<forall>g. c \<noteq> Update (OGame g)" "\<lambda>v. asksFor n"
  by unfold_locales simp

lemmas asks_call = asks_frame.call_bind

lemma asks_scale:
  assumes "\<And>a. ensures (\<lambda>v es. asksFor n es) (f a)"
  shows "ensures (\<lambda>v es. asksFor n es) (State_Monad.bind (scaleGame g n) f)"
  by (rule ensures_bind [OF scaleGame_asks], rule ensures_mono [OF assms]) simp

lemmas asks_intros = ensures_if ensures_sum ensures_option ensures_let asks_call asks_scale failRestore_asks requeueRestore_asks
  ensures_ret

lemma reconcileRestore_asks: "ensures (\<lambda>v es. asksFor (askedReplicas rs) es) (reconcileRestore r rs)"
proof -
  have stop: "ensures (\<lambda>v es. asksFor 0 es) (stopGame r rs g)" for g
    unfolding stopGame_def event_def now_def bind_option bind_assoc bind_ret by (intro asks_intros) simp_all
  have wait: "ensures (\<lambda>v es. asksFor 0 es) (awaitStopped rs g)" "ensures (\<lambda>v es. asksFor 0 es) (awaitRestore r rs g plan)" for g plan
    unfolding awaitStopped_def awaitRestore_def awaitTarballRestore_def awaitSnapshotRestore_def
    by (intro asks_intros; simp)+
  have start: "ensures (\<lambda>v es. asksFor (case rt_OriginalReplicas (r_Status rs) of Some n \<Rightarrow> n | None \<Rightarrow> 1) es) (startGame r rs g)" for g
    unfolding startGame_def Let_def event_def now_def bind_assoc bind_ret by (intro asks_intros) simp_all
  have "ensures (\<lambda>v es. asksFor (askedReplicas rs) es) (stepRestore r rs g plan)" for g plan
    by (cases "rt_Phase (r_Status rs)")
      (simp_all add: stepRestore_def askedReplicas_def stop wait start ensures_ret)
  then show ?thesis
    unfolding reconcileRestore_def resolvePlan_def bind_assoc bind_if bind_ret
    by (intro asks_intros) simp_all
qed

lemma mutate_replicas:
  assumes "mutateStatefulSet r g (DesiredStatefulSet g p h) live = Inr (OSts s)"
  shows "stp_Replicas (sts_Spec s) = Some (DesiredReplicas g)"
  using assms by (auto simp: mutateStatefulSet_def DesiredStatefulSet_def Let_def split: sum.splits if_splits)


text \<open>The sample game is told to stop: the StatefulSet the game controller then builds has no replica.\<close>

definition runningWorld :: "(call, reply) world" where
  "runningWorld = \<lparr>srv = \<lambda>h c. (case c of
        Get kd key \<Rightarrow> if kd = GameKind then RObj (OGame sampleGame) else RObj (OBackup snapshotBackup)
      | _ \<Rightarrow> ROk), hist = []\<rparr>"

abbreviation stoppedGame :: PalworldGame where
  "stoppedGame \<equiv> sampleGame\<lparr>g_Spec := (g_Spec sampleGame)\<lparr>gs_Replicas := Some 0\<rparr>\<rparr>"

lemma stop_events:
  "(Update (OGame stoppedGame), ROk) \<in> set (events (reconcileRestore sampleRestoreReconciler sampleRestore) runningWorld)"
  by (simp add: events_def fin_call val_call Let_def restore_sample_defs runningWorld_def stopGame_def scaleGame_def
      now_def event_def)

lemma mutate_new: "\<exists>s. mutateStatefulSet sampleReconciler g d None = Inr (OSts s)"
  by (simp add: mutateStatefulSet_def Let_def sampleReconciler_def refLib_def refOwner_new blankMeta_def newMeta_def)


end
