(* ===== verification/BackupLifetime.thy ===== *)
theory BackupLifetime
  imports BackupRestore GameDelete
begin

text \<open>
  What becomes of the final backup of a deleted game: across the game and the backup controller no
  operation deletes it.
\<close>

abbreviation backupKey :: "PalworldBackup \<Rightarrow> objKey" where
  "backupKey b \<equiv> (b_Namespace b, b_Name b)"

definition deletesBackup :: "objKey \<Rightarrow> (call \<times> reply) list \<Rightarrow> bool" where
  "deletesBackup key es \<longleftrightarrow> list_ex (\<lambda>e. fst e = Delete BackupKind key) es"

lemma victims_prunable: "v \<in> set (victims g items) \<Longrightarrow> v \<in> set items \<and> prunable g v"
  unfolding victims_def Let_def
  by (auto dest!: in_set_dropD split: if_splits)

lemma retention_keeps_retained:
  "ensures (\<lambda>v es. \<forall>ns l items. (ListBackups ns l, RBackups items) \<in> set es
        \<and> (\<forall>b \<in> set items. backupKey b = key \<longrightarrow> bs_Retain (b_Spec b))
      \<longrightarrow> \<not> deletesBackup key es) (enforceBackupRetention g)"
proof -
  have keep: "\<not> deletesBackup key ((ListBackups ns l, x) # es)"
    if ret: "\<forall>b \<in> set items. backupKey b = key \<longrightarrow> bs_Retain (b_Spec b)"
      and del: "map fst es = take n (map (\<lambda>b. Delete BackupKind (backupKey b)) (victims g items))" for ns l x es n items
  proof
    assume "deletesBackup key ((ListBackups ns l, x) # es)"
    then have "Delete BackupKind key \<in> set (map fst es)" by (force simp: deletesBackup_def list_ex_iff)
    then obtain v where "v \<in> set (victims g items)" "backupKey v = key"
      unfolding del by (auto dest!: in_set_takeD)
    with victims_prunable [of v g items] ret show False by (auto simp: prunable_def)
  qed
  show ?thesis
    unfolding enforceBackupRetention_def
    apply (rule ensures_if)
    subgoal by (rule ensures_ret) simp
    apply (rule ensures_call_bind, rule ensures_sum)
    subgoal by (rule ensures_ret) (auto simp: deletesBackup_def)
    subgoal premises p for x items
    proof (rule ensures_mono [OF deleteVictims_only], elim exE conjE, intro allI impI)
      fix v es n ns l items'
      assume d: "map fst es = take n (map (\<lambda>b. Delete BackupKind (backupKey b)) (victims g items))"
        and a: "(ListBackups ns l, RBackups items') \<in> set ((ListBackups (g_Namespace g) (retentionSelector g), x) # es)
          \<and> (\<forall>b \<in> set items'. backupKey b = key \<longrightarrow> bs_Retain (b_Spec b))"
      have "ListBackups ns l \<notin> set (map fst es)"
        unfolding d by (auto dest!: in_set_takeD)
      then have "(ListBackups ns l, RBackups items') \<notin> set es" by force
      with a p have "items' = items" by (auto simp: asBackups_Inr)
      with a d show "\<not> deletesBackup key ((ListBackups (g_Namespace g) (retentionSelector g), x) # es)"
        by (intro keep) auto
    qed
    done
qed

fun isDeleteBackup :: "call \<Rightarrow> bool" where
  "isDeleteBackup (Delete kd key) = (kd = BackupKind)"
| "isDeleteBackup _ = False"

lemma spares_backups:
  assumes "only (\<lambda>c. \<not> isDeleteBackup c) m" shows "ensures (\<lambda>v es. \<not> deletesBackup key es) m"
  by (rule ensures_mono [OF ensures_only [OF assms]]) (auto simp: deletesBackup_def list_ex_iff)

lemma reconcileDelete_spares: "only (\<lambda>c. \<not> isDeleteBackup c) (reconcileDelete g)"
  unfolding reconcileDelete_def teardown_def deletePVC_def ensureFinalBackup_def awaitFinalBackup_def Let_def now_def event_def
  by (intro only_intros) simp_all

lemma rest_spares:
  assumes "ensures (\<lambda>v es. restOnly es) m" shows "only (\<lambda>c. \<not> isDeleteBackup c) m"
proof (rule only_ensures, rule ensures_mono [OF assms])
  have "restCall c \<Longrightarrow> \<not> isDeleteBackup c" for c by (cases c rule: restCall.cases) simp_all
  then show "\<forall>e \<in> set es. \<not> isDeleteBackup (fst e)" if "restOnly es" for es
    using that by (auto simp: list_all_iff)
qed

lemma reconcileBackup_spares:
  assumes "bs_TTLSecondsAfterFinished (b_Spec b) = None"
  shows "only (\<lambda>c. \<not> isDeleteBackup c) (reconcileBackup r b)"
proof -
  have job: "only (\<lambda>c. \<not> isDeleteBackup c) (createUploadJob r b' g src)" for b' g src
    unfolding createUploadJob_def requeueBackup_def by (intro only_intros) simp_all
  have ends: "only (\<lambda>c. \<not> isDeleteBackup c) (failBackup r b' reason msg)" "only (\<lambda>c. \<not> isDeleteBackup c) (completeBackup r b')"
    "only (\<lambda>c. \<not> isDeleteBackup c) (requeueBackup b' d)" "only (\<lambda>c. \<not> isDeleteBackup c) (timedOut b')" for b' reason msg d
    unfolding failBackup_def completeBackup_def requeueBackup_def timedOut_def now_def event_def
    by (intro only_intros; simp)+
  have "only (\<lambda>c. \<not> isDeleteBackup c) (flushSave r g)" for g
    unfolding flushSave_def by (intro only_intros rest_spares [OF restClientFor_restOnly] rest_spares [OF Save_restOnly]) simp
  then have "only (\<lambda>c. \<not> isDeleteBackup c) (startBackup r b g)" for g
    unfolding startBackup_def now_def by (intro only_intros job ends) simp_all
  moreover have "only (\<lambda>c. \<not> isDeleteBackup c) (reconcileSnapshot r b g)" for g
    unfolding reconcileSnapshot_def snapshotDone_def by (intro only_intros job ends) simp_all
  moreover have "only (\<lambda>c. \<not> isDeleteBackup c) (reconcileUpload r b g)" for g
    unfolding reconcileUpload_def cleanupTransient_def by (intro only_intros ends) simp_all
  ultimately have "only (\<lambda>c. \<not> isDeleteBackup c) (stepBackup r b g)" for g
    by (cases "bt_Phase (b_Status b)") (simp_all add: stepBackup_def only_ret)
  moreover have "handleTTL b = ret (noResult, None)" using assms by (simp add: handleTTL_def)
  ultimately show ?thesis
    unfolding reconcileBackup_def by (auto intro!: only_intros ends)
qed

text \<open>
  C16: the final backup outlives its game. It has no owner, so the deletion of the game does not collect
  it; whatever its status and metadata become, the backup controller never deletes it; the retention
  pass of any game never deletes it, as long as the list it reads shows the backup with its spec; and the
  finalizer of the game itself deletes no backup.
\<close>

theorem final_backup_survives:
  assumes "b_Spec b = b_Spec (finalBackup g pol)"
  shows "m_OwnerReferences (b_Meta (finalBackup g pol)) = []
    \<and> ensures (\<lambda>v es. \<not> deletesBackup key es) (reconcileBackup br b)
    \<and> ensures (\<lambda>v es. \<forall>ns l items. (ListBackups ns l, RBackups items) \<in> set es
          \<and> (\<forall>x \<in> set items. backupKey x = backupKey b \<longrightarrow> b_Spec x = b_Spec b)
        \<longrightarrow> \<not> deletesBackup (backupKey b) es) (enforceBackupRetention g')
    \<and> ensures (\<lambda>v es. \<not> deletesBackup key es) (reconcileDelete g)"
proof (intro conjI)
  show "m_OwnerReferences (b_Meta (finalBackup g pol)) = []" by (simp add: finalBackup_def newMeta_def)
  show "ensures (\<lambda>v es. \<forall>ns l items. (ListBackups ns l, RBackups items) \<in> set es
          \<and> (\<forall>x \<in> set items. backupKey x = backupKey b \<longrightarrow> b_Spec x = b_Spec b)
        \<longrightarrow> \<not> deletesBackup (backupKey b) es) (enforceBackupRetention g')"
  proof (rule ensures_mono [OF retention_keeps_retained [of "backupKey b"]])
    have "bs_Retain (b_Spec b)" by (simp add: assms finalBackup_def)
    then show "\<forall>ns l items. (ListBackups ns l, RBackups items) \<in> set es
          \<and> (\<forall>x \<in> set items. backupKey x = backupKey b \<longrightarrow> b_Spec x = b_Spec b)
        \<longrightarrow> \<not> deletesBackup (backupKey b) es"
      if "\<forall>ns l items. (ListBackups ns l, RBackups items) \<in> set es
          \<and> (\<forall>x \<in> set items. backupKey x = backupKey b \<longrightarrow> bs_Retain (b_Spec x))
        \<longrightarrow> \<not> deletesBackup (backupKey b) es" for es
      using that by metis
  qed
  show "ensures (\<lambda>v es. \<not> deletesBackup key es) (reconcileDelete g)"
    by (rule spares_backups [OF reconcileDelete_spares])
  show "ensures (\<lambda>v es. \<not> deletesBackup key es) (reconcileBackup br b)"
    by (rule spares_backups [OF reconcileBackup_spares]) (simp add: assms finalBackup_def)
qed

theorem final_backup_survives_witness:
  "ensures (\<lambda>v es. \<not> deletesBackup (''games'', ''pal-final'') es)
     (reconcileBackup sampleBackupReconciler (finalBackup sampleGame sampleBackupPolicy))
   \<and> ensures (\<lambda>v es. \<not> deletesBackup (''games'', ''pal-final'') es) (reconcileDelete sampleGame)"
  using final_backup_survives [of "finalBackup sampleGame sampleBackupPolicy" sampleGame sampleBackupPolicy] by simp

end
