(* ===== verification/Scheme.thy ===== *)
theory Scheme
  imports Cluster
begin

text \<open>
  The registration of the custom resources with the runtime scheme: \<^verbatim>\<open>api/v1alpha1/groupversion_info.go\<close>, the
  \<^verbatim>\<open>init\<close> functions of the three type files with their list types, and the one of \<^verbatim>\<open>cmd/main.go\<close>. A scheme is
  the list of the group-version-kinds it knows; what \<^verbatim>\<open>client-go\<close> registers is an argument.
\<close>

type_synonym scheme = "GroupVersionKind list"

definition GroupVersion :: "string \<times> string" where
  "GroupVersion = (''palworld.twodcube.io'', ''v1alpha1'')"

record PalworldGameList =
  gl_Items :: "PalworldGame list"

record PalworldBackupList =
  bl_Items :: "PalworldBackup list"

record PalworldRestoreList =
  rl_Items :: "PalworldRestore list"

text \<open>\<open>SchemeBuilder.Register\<close> collects type names; Go runs the \<open>init\<close> functions of a package in file order.\<close>

definition Register :: "string list \<Rightarrow> string list \<Rightarrow> string list" where
  "Register types builder = builder @ types"

definition initBackupTypes :: "string list \<Rightarrow> string list" where
  "initBackupTypes = Register [''PalworldBackup'', ''PalworldBackupList'']"

definition initGameTypes :: "string list \<Rightarrow> string list" where
  "initGameTypes = Register [''PalworldGame'', ''PalworldGameList'']"

definition initRestoreTypes :: "string list \<Rightarrow> string list" where
  "initRestoreTypes = Register [''PalworldRestore'', ''PalworldRestoreList'']"

definition SchemeBuilder :: "string list" where
  "SchemeBuilder = initRestoreTypes (initGameTypes (initBackupTypes []))"

definition withKind :: "string \<times> string \<Rightarrow> string \<Rightarrow> GroupVersionKind" where
  "withKind gv kd = \<lparr>gvk_Group = fst gv, gvk_Version = snd gv, gvk_Kind = kd\<rparr>"

definition AddToScheme :: "scheme \<Rightarrow> scheme" where
  "AddToScheme s = s @ map (withKind GroupVersion) SchemeBuilder"

definition initScheme :: "(scheme \<Rightarrow> scheme) \<Rightarrow> scheme" where
  "initScheme clientgoAddToScheme = AddToScheme (clientgoAddToScheme [])"

text \<open>The names under which the custom resources of a call are known, alone and as a list.\<close>

fun customKind :: "kkind \<Rightarrow> string option" where
  "customKind GameKind = Some ''PalworldGame''"
| "customKind BackupKind = Some ''PalworldBackup''"
| "customKind RestoreKind = Some ''PalworldRestore''"
| "customKind _ = None"

text \<open>Every custom resource the operator reads, lists or writes is known to its scheme.\<close>

lemma scheme_knows_custom:
  assumes "customKind k = Some kd" and "suffix \<in> {[], ''List''}"
  shows "withKind GroupVersion (kd @ suffix) \<in> set (initScheme clientgo)"
proof -
  have "kd @ suffix \<in> set SchemeBuilder"
    using assms
    by (cases k) (auto simp: SchemeBuilder_def initBackupTypes_def initGameTypes_def initRestoreTypes_def Register_def)
  then show ?thesis by (simp add: initScheme_def AddToScheme_def)
qed

end
