(* ===== verification/GoHeap.thy ===== *)
theory GoHeap
  imports ServerSettings "HOL-Library.AList" "HOL-Library.Monad_Syntax"
begin

text \<open>
  Go's memory as far as the generated deep copies need it. An object of the heap is a value with
  inner locations (the fields of a struct, the elements of an array); a pointer is a location, a
  slice an array with an offset and a length, a map a reference to a table. A statement of the generated code
  reads the location \<open>in\<close> and writes the location \<open>out\<close>; it is \<open>None\<close> where Go panics on
  a nil pointer. What a copy is, is stated over \<open>shape\<close>s, the types of the copied values: a value
  unfolds along its shape into the finite tree of everything it reaches, every reference
  labelled with its address. Two trees have the same content when they differ in the labels only.
\<close>

named_theorems copy_rules \<open>which statement copies which shape\<close>

section \<open>Values, locations and the heap\<close>

datatype scalar = SStr string | SInt int | SBool bool | SFloat float64

datatype step = Fld string | Idx nat

type_synonym loc = "nat \<times> step list"

text \<open>
  \<open>Slice a i n\<close> is the \<open>n\<close> elements from offset \<open>i\<close> of the array at \<open>a\<close>. A table lists its entries in the order
  in which \<open>range\<close> visits them; arrays and tables are objects of the heap, never parts of values.
\<close>

datatype gval = Scal scalar | GNil | Ptr loc | Slice nat nat nat | MapRef nat
  | Struct "(string \<times> gval) list" | Array "gval list" | Table "(string \<times> gval) list"

record heap =
  cells :: "nat \<Rightarrow> gval option"
  lim :: nat

text \<open>Everything from the limit on is free.\<close>

definition heap_ok :: "heap \<Rightarrow> bool" where
  "heap_ok h \<longleftrightarrow> (\<forall>a. cells h a \<noteq> None \<longrightarrow> a < lim h)"

text \<open>The inner value at a path and its replacement.\<close>

fun get :: "gval \<Rightarrow> step list \<Rightarrow> gval option" where
  "get v [] = Some v"
| "get v (Fld F # p) = (case v of Struct vs \<Rightarrow> do { u \<leftarrow> map_of vs F; get u p } | _ \<Rightarrow> None)"
| "get v (Idx i # p) = (case v of Array us \<Rightarrow> if i < length us then get (us ! i) p else None | _ \<Rightarrow> None)"

fun put :: "gval \<Rightarrow> step list \<Rightarrow> gval \<Rightarrow> gval" where
  "put v [] w = w"
| "put v (Fld F # p) w =
     (case v of
        Struct vs \<Rightarrow> (case map_of vs F of Some u \<Rightarrow> Struct (AList.update F (put u p w) vs) | None \<Rightarrow> v)
      | _ \<Rightarrow> v)"
| "put v (Idx i # p) w = (case v of Array us \<Rightarrow> Array (us[i := put (us ! i) p w]) | _ \<Rightarrow> v)"

definition load :: "heap \<Rightarrow> loc \<Rightarrow> gval option" where
  "load h l = do { v \<leftarrow> cells h (fst l); get v (snd l) }"

definition store :: "loc \<Rightarrow> gval \<Rightarrow> heap \<Rightarrow> heap option" where
  "store l w h = do {
     u \<leftarrow> cells h (fst l);
     _ \<leftarrow> get u (snd l);
     Some (h\<lparr>cells := (cells h)(fst l \<mapsto> put u (snd l) w)\<rparr>) }"

text \<open>\<open>new\<close> and \<open>make\<close>: an object at the next free address.\<close>

definition alloc :: "gval \<Rightarrow> heap \<Rightarrow> nat \<times> heap" where
  "alloc v h = (lim h, h\<lparr>cells := (cells h)(lim h \<mapsto> v), lim := Suc (lim h)\<rparr>)"

text \<open>\<open>&in.F\<close>.\<close>

definition sub :: "loc \<Rightarrow> step \<Rightarrow> loc" where
  "sub l e = (fst l, snd l @ [e])"

section \<open>Shapes\<close>

datatype kind = KStr | KInt | KBool | KFloat

datatype shape = Prim kind | PtrTo shape | SliceOf shape | MapOf shape | StructOf "(string \<times> shape) list"

fun scalarKind :: "scalar \<Rightarrow> kind" where
  "scalarKind (SStr s) = KStr"
| "scalarKind (SInt i) = KInt"
| "scalarKind (SBool b) = KBool"
| "scalarKind (SFloat x) = KFloat"

text \<open>The zero value of a type.\<close>

fun zeroScalar :: "kind \<Rightarrow> scalar" where
  "zeroScalar KStr = SStr ''''"
| "zeroScalar KInt = SInt 0"
| "zeroScalar KBool = SBool False"
| "zeroScalar KFloat = SFloat (Flt False 0 0)"

fun zero :: "shape \<Rightarrow> gval" where
  "zero (Prim k) = Scal (zeroScalar k)"
| "zero (StructOf fs) = Struct (map (\<lambda>(F, s). (F, zero s)) fs)"
| "zero _ = GNil"

text \<open>A type without references: assigning such a value copies it.\<close>

fun pure :: "shape \<Rightarrow> bool" where
  "pure (Prim k) \<longleftrightarrow> True"
| "pure (StructOf fs) \<longleftrightarrow> (\<forall>(F, s) \<in> set fs. pure s)"
| "pure _ \<longleftrightarrow> False"

text \<open>The unfolded value.\<close>

datatype 'a tree = TScal scalar | TNil | TPtr 'a "'a tree" | TSlice 'a "'a tree list"
  | TMap 'a "(string \<times> 'a tree) list" | TStruct "(string \<times> 'a tree) list"

fun unfold :: "heap \<Rightarrow> shape \<Rightarrow> gval \<Rightarrow> nat tree option" where
  "unfold h (Prim k) v = (case v of Scal c \<Rightarrow> if scalarKind c = k then Some (TScal c) else None | _ \<Rightarrow> None)"
| "unfold h (PtrTo s) v =
     (case v of
        GNil \<Rightarrow> Some TNil
      | Ptr l \<Rightarrow> do { u \<leftarrow> load h l; map_option (TPtr (fst l)) (unfold h s u) }
      | _ \<Rightarrow> None)"
| "unfold h (SliceOf s) v =
     (case v of
        GNil \<Rightarrow> Some TNil
      | Slice a i n \<Rightarrow>
          (case cells h a of
             Some (Array us) \<Rightarrow>
               if i + n \<le> length us
               then map_option (TSlice a) (those (map (unfold h s) (take n (drop i us))))
               else None
           | _ \<Rightarrow> None)
      | _ \<Rightarrow> None)"
| "unfold h (MapOf s) v =
     (case v of
        GNil \<Rightarrow> Some TNil
      | MapRef a \<Rightarrow>
          (case cells h a of
             Some (Table es) \<Rightarrow>
               if distinct (map fst es)
               then map_option (\<lambda>ts. TMap a (zip (map fst es) ts)) (those (map (\<lambda>e. unfold h s (snd e)) es))
               else None
           | _ \<Rightarrow> None)
      | _ \<Rightarrow> None)"
| "unfold h (StructOf fs) v =
     (case v of
        Struct vs \<Rightarrow>
          if map fst vs = map fst fs
          then map_option (\<lambda>ts. TStruct (zip (map fst fs) ts))
                 (those (map (\<lambda>f. case map_of vs (fst f) of Some u \<Rightarrow> unfold h (snd f) u | None \<Rightarrow> None) fs))
          else None
      | _ \<Rightarrow> None)"

abbreviation content :: "nat tree \<Rightarrow> unit tree" where
  "content \<equiv> map_tree (\<lambda>_. ())"

section \<open>The statements of the generated code\<close>

text \<open>All of them work on a location \<open>in\<close> that is read and a location \<open>out\<close> that is written.\<close>

type_synonym copier = "loc \<Rightarrow> loc \<Rightarrow> heap \<Rightarrow> heap option"

text \<open>\<open>*out = *in\<close>\<close>

definition assign :: copier where
  "assign inp out h = do { v \<leftarrow> load h inp; store out v h }"

text \<open>A statement on the field \<open>F\<close> of both: \<open>in, out := &in.F, &out.F\<close>.\<close>

definition at :: "string \<Rightarrow> copier \<Rightarrow> copier" where
  "at F f inp out = f (sub inp (Fld F)) (sub out (Fld F))"

text \<open>\<open>if *in != nil { ... }\<close>\<close>

definition if_set :: "copier \<Rightarrow> copier" where
  "if_set f inp out h = do { v \<leftarrow> load h inp; if v = GNil then Some h else f inp out h }"

text \<open>Where a pointer points to; a nil pointer panics.\<close>

definition deref :: "gval \<Rightarrow> loc option" where
  "deref v = (case v of Ptr l \<Rightarrow> Some l | _ \<Rightarrow> None)"

text \<open>\<open>*out = new(T)\<close> and then the statement \<open>f\<close> from \<open>*in\<close> to \<open>*out\<close>.\<close>

definition new_into :: "shape \<Rightarrow> copier \<Rightarrow> copier" where
  "new_into s f inp out h = (let (a, h1) = alloc (zero s) h in do {
     h2 \<leftarrow> store out (Ptr (a, [])) h1;
     v \<leftarrow> load h2 inp;
     l \<leftarrow> deref v;
     f l (a, []) h2 })"

text \<open>The statement \<open>f\<close> from \<open>(*in)[i]\<close> to \<open>(*out)[i]\<close>, for \<open>n\<close> indices from \<open>k\<close> on.\<close>

fun each :: "copier \<Rightarrow> nat \<Rightarrow> nat \<Rightarrow> nat \<Rightarrow> nat \<Rightarrow> nat \<Rightarrow> heap \<Rightarrow> heap option" where
  "each f b i a k 0 h = Some h"
| "each f b i a k (Suc n) h = do { h' \<leftarrow> f (b, [Idx (i + k)]) (a, [Idx k]) h; each f b i a (Suc k) n h' }"

text \<open>\<open>*out = make([]T, len(*in))\<close> and then \<open>f\<close> for every index; \<open>copy(*out, *in)\<close> is \<open>f = assign\<close>.\<close>

definition make_into :: "shape \<Rightarrow> copier \<Rightarrow> copier" where
  "make_into s f inp out h = do {
     v \<leftarrow> load h inp;
     case v of
       Slice b i n \<Rightarrow> (let (a, h1) = alloc (Array (replicate n (zero s))) h in do {
         h2 \<leftarrow> store out (Slice a 0 n) h1;
         each f b i a 0 n h2 })
     | _ \<Rightarrow> None }"

text \<open>\<open>for key, val := range *in { (*out)[key] = val }\<close>\<close>

fun insert_all :: "(string \<times> gval) list \<Rightarrow> nat \<Rightarrow> heap \<Rightarrow> heap option" where
  "insert_all [] a h = Some h"
| "insert_all (e # es) a h =
     (case cells h a of
        Some (Table ds) \<Rightarrow> insert_all es a (h\<lparr>cells := (cells h)(a \<mapsto> Table (AList.update (fst e) (snd e) ds))\<rparr>)
      | _ \<Rightarrow> None)"

definition make_map :: copier where
  "make_map inp out h = do {
     v \<leftarrow> load h inp;
     case v of
       MapRef b \<Rightarrow> (let (a, h1) = alloc (Table []) h in do {
         h2 \<leftarrow> store out (MapRef a) h1;
         case cells h2 b of Some (Table es) \<Rightarrow> insert_all es a h2 | _ \<Rightarrow> None })
     | _ \<Rightarrow> None }"

text \<open>\<open>*out = (*in).DeepCopy()\<close>, for a copying function \<open>g\<close> that returns its result.\<close>

definition from_copy :: "(gval \<Rightarrow> heap \<Rightarrow> (gval \<times> heap) option) \<Rightarrow> copier" where
  "from_copy g inp out h = do { v \<leftarrow> load h inp; (w, h') \<leftarrow> g v h; store out w h' }"

text \<open>Statements in sequence.\<close>

fun block :: "copier list \<Rightarrow> copier" where
  "block [] inp out h = Some h"
| "block (f # fs) inp out h = do { h' \<leftarrow> f inp out h; block fs inp out h' }"

text \<open>The generated \<open>DeepCopy\<close> of a type: nil for nil, else a new object that \<open>DeepCopyInto\<close> fills.\<close>

definition deepCopy :: "shape \<Rightarrow> copier \<Rightarrow> gval \<Rightarrow> heap \<Rightarrow> (gval \<times> heap) option" where
  "deepCopy s f v h =
     (if v = GNil then Some (GNil, h)
      else (let (a, h1) = alloc (zero s) h in do {
        l \<leftarrow> deref v;
        h2 \<leftarrow> f l (a, []) h1;
        Some (Ptr (a, []), h2) }))"

text \<open>
  A \<open>runtime.Object\<close> is the nil interface or a type with a pointer. A nil pointer inside an interface is
  not the nil interface, so the generated \<open>DeepCopyObject\<close> tests the copy.
\<close>

datatype iface = INil | IObj string gval

definition deepCopyObject :: "string \<Rightarrow> (gval \<Rightarrow> heap \<Rightarrow> (gval \<times> heap) option) \<Rightarrow> gval \<Rightarrow> heap \<Rightarrow> (iface \<times> heap) option" where
  "deepCopyObject T dc v h = do {
     (c, h') \<leftarrow> dc v h;
     Some (if c \<noteq> GNil then IObj T c else INil, h') }"

section \<open>Paths\<close>

lemma alist_update_same: "map_of vs k = Some v \<Longrightarrow> AList.update k v vs = vs"
  by (induction vs) (auto split: if_splits)

lemma alist_update_keys: "map_of vs k = Some v \<Longrightarrow> map fst (AList.update k w vs) = map fst vs"
  by (induction vs) (auto split: if_splits)

lemma alist_update_twice: "AList.update k w (AList.update k v vs) = AList.update k w vs"
  by (induction vs) auto

lemma alist_map_of_update: "map_of (AList.update k v vs) j = (if j = k then Some v else map_of vs j)"
  by (simp add: update_conv')

lemma get_append: "get v (p @ q) = do { u \<leftarrow> get v p; get u q }"
  by (induction v p rule: get.induct) (auto split: gval.split option.split bind_splits)

lemma get_put: "get v p \<noteq> None \<Longrightarrow> get (put v p w) p = Some w"
  by (induction v p w rule: put.induct)
    (auto simp: alist_map_of_update split: gval.splits option.splits if_splits bind_splits)

lemma put_put: "get v p \<noteq> None \<Longrightarrow> put (put v p w) p x = put v p x"
  by (induction v p w rule: put.induct)
    (auto simp: alist_map_of_update alist_update_twice split: gval.splits option.splits if_splits bind_splits)

lemma put_same: "get v p = Some u \<Longrightarrow> put v p u = v"
  by (induction v p u rule: put.induct)
    (auto simp: alist_update_same split: gval.splits option.splits if_splits bind_splits)

lemma put_append: "get v p = Some u \<Longrightarrow> put v (p @ q) w = put v p (put u q w)"
  by (induction v p w arbitrary: u rule: put.induct)
    (auto split: gval.splits option.splits if_splits bind_splits)

lemma load_sub: "load h (sub l e) = do { u \<leftarrow> load h l; get u [e] }"
  by (auto simp: load_def sub_def get_append split: bind_splits)

lemma fst_sub [simp]: "fst (sub l e) = fst l"
  by (simp add: sub_def)

lemma load_cong: "cells h (fst l) = cells h' (fst l) \<Longrightarrow> load h l = load h' l"
  by (simp add: load_def)

section \<open>Unfolded values\<close>

lemma those_eq_Some: "those xs = Some ys \<longleftrightarrow> xs = map Some ys"
  by (induction xs arbitrary: ys) (auto split: option.splits)

lemma those_map:
  "those (map f xs) = Some ys \<longleftrightarrow> length ys = length xs \<and> (\<forall>i < length xs. f (xs ! i) = Some (ys ! i))"
  by (auto simp: those_eq_Some list_eq_iff_nth_eq)

lemma case_option_Some:
  "(case x of Some u \<Rightarrow> f u | None \<Rightarrow> None) = Some y \<longleftrightarrow> (\<exists>u. x = Some u \<and> f u = Some y)"
  by (cases x) auto

lemma shape_induct [case_names Prim PtrTo SliceOf MapOf StructOf]:
  assumes "\<And>k. P (Prim k)" "\<And>s. P s \<Longrightarrow> P (PtrTo s)" "\<And>s. P s \<Longrightarrow> P (SliceOf s)" "\<And>s. P s \<Longrightarrow> P (MapOf s)"
    and "\<And>fs. (\<And>f. f \<in> set fs \<Longrightarrow> P (snd f)) \<Longrightarrow> P (StructOf fs)"
  shows "P s"
  by (induction s) (auto intro: assms simp: prod_set_defs)

lemma unfold_PtrTo:
  "unfold h (PtrTo s) v = Some t \<longleftrightarrow>
     v = GNil \<and> t = TNil \<or>
     (\<exists>l u t0. v = Ptr l \<and> load h l = Some u \<and> unfold h s u = Some t0 \<and> t = TPtr (fst l) t0)"
  by (auto split: gval.splits bind_splits)

lemma unfold_SliceOf:
  "unfold h (SliceOf s) v = Some t \<longleftrightarrow>
     v = GNil \<and> t = TNil \<or>
     (\<exists>a i n us ts. v = Slice a i n \<and> cells h a = Some (Array us) \<and> i + n \<le> length us \<and>
        length ts = n \<and> (\<forall>k < n. unfold h s (us ! (i + k)) = Some (ts ! k)) \<and> t = TSlice a ts)"
  by (cases v) (auto simp: those_map map_option_eq_Some split: gval.splits option.splits if_splits)

lemma unfold_MapOf:
  "unfold h (MapOf s) v = Some t \<longleftrightarrow>
     v = GNil \<and> t = TNil \<or>
     (\<exists>a es ts. v = MapRef a \<and> cells h a = Some (Table es) \<and> distinct (map fst es) \<and> length ts = length es \<and>
        (\<forall>k < length es. unfold h s (snd (es ! k)) = Some (ts ! k)) \<and> t = TMap a (zip (map fst es) ts))"
  by (cases v) (auto simp: those_map map_option_eq_Some split: gval.splits option.splits if_splits)

lemma unfold_StructOf:
  "unfold h (StructOf fs) v = Some t \<longleftrightarrow>
     (\<exists>vs ts. v = Struct vs \<and> map fst vs = map fst fs \<and> length ts = length fs \<and>
        (\<forall>i < length fs. \<exists>u. map_of vs (fst (fs ! i)) = Some u \<and> unfold h (snd (fs ! i)) u = Some (ts ! i)) \<and>
        t = TStruct (zip (map fst fs) ts))"
  by (cases v) (auto simp: those_map map_option_eq_Some case_option_Some)

lemmas unfold_iffs = unfold_PtrTo unfold_SliceOf unfold_MapOf unfold_StructOf

declare unfold.simps(2-5) [simp del]

lemma set_tree_zip:
  "length ks = length ts \<Longrightarrow> set_tree (TStruct (zip ks ts)) = (\<Union>t \<in> set ts. set_tree t)"
  "length ks = length ts \<Longrightarrow> set_tree (TMap a (zip ks ts)) = insert a (\<Union>t \<in> set ts. set_tree t)"
  by (auto simp: prod_set_defs set_zip in_set_conv_nth; metis nth_mem)+

text \<open>A value unfolds the same way in every heap that has the same objects at the addresses it reaches.\<close>

lemma unfold_frame:
  assumes "unfold h s v = Some t" "\<And>a. a \<in> set_tree t \<Longrightarrow> cells h' a = cells h a"
  shows "unfold h' s v = Some t"
  using assms
proof (induction s arbitrary: v t rule: shape_induct)
  case (Prim k)
  then show ?case by simp
next
  case (PtrTo s)
  then show ?case
  proof (cases v)
    case (Ptr l)
    with PtrTo.prems obtain u t0 where u: "load h l = Some u" "unfold h s u = Some t0" "t = TPtr (fst l) t0"
      by (auto simp: unfold_PtrTo)
    have "load h' l = Some u" "unfold h' s u = Some t0"
      using u PtrTo.prems(2) PtrTo.IH [OF u(2)] load_cong [of h' l h] by auto
    then show ?thesis using u Ptr by (simp add: unfold_PtrTo)
  qed (auto simp: unfold_PtrTo)
next
  case (SliceOf s)
  then show ?case
  proof (cases v)
    case (Slice a i n)
    with SliceOf.prems obtain us ts where u: "cells h a = Some (Array us)" "i + n \<le> length us" "length ts = n"
      "\<And>k. k < n \<Longrightarrow> unfold h s (us ! (i + k)) = Some (ts ! k)" "t = TSlice a ts"
      by (auto simp: unfold_SliceOf)
    have "unfold h' s (us ! (i + k)) = Some (ts ! k)" if "k < n" for k
    proof (rule SliceOf.IH [OF u(4) [OF that]])
      fix x
      assume "x \<in> set_tree (ts ! k)"
      then show "cells h' x = cells h x"
        using SliceOf.prems(2) u(3,5) that by (auto intro: nth_mem)
    qed
    then show ?thesis using u Slice SliceOf.prems(2) by (auto simp: unfold_SliceOf)
  qed (auto simp: unfold_SliceOf)
next
  case (MapOf s)
  then show ?case
  proof (cases v)
    case (MapRef a)
    with MapOf.prems obtain es ts where u: "cells h a = Some (Table es)" "distinct (map fst es)" "length ts = length es"
      "\<And>k. k < length es \<Longrightarrow> unfold h s (snd (es ! k)) = Some (ts ! k)" "t = TMap a (zip (map fst es) ts)"
      unfolding unfold_MapOf by blast
    have same: "cells h' x = cells h x" if "x = a \<or> x \<in> set_tree (ts ! k) \<and> k < length es" for x k
      using MapOf.prems(2) [of x] u(3,5) that
      by (auto simp: set_tree_zip simp del: tree.set; metis nth_mem)
    have "unfold h' s (snd (es ! k)) = Some (ts ! k)" if "k < length es" for k
      using MapOf.IH [OF u(4) [OF that]] same that by blast
    then show ?thesis using u MapRef same [of a] unfolding unfold_MapOf by metis
  qed (auto simp: unfold_MapOf)
next
  case (StructOf fs)
  then obtain vs ts where t: "v = Struct vs" "map fst vs = map fst fs" "t = TStruct (zip (map fst fs) ts)" "length ts = length fs"
    "\<And>i. i < length fs \<Longrightarrow> \<exists>u. map_of vs (fst (fs ! i)) = Some u \<and> unfold h (snd (fs ! i)) u = Some (ts ! i)"
    unfolding unfold_StructOf by blast
  have same: "cells h' x = cells h x" if "x \<in> set_tree (ts ! i)" "i < length fs" for x i
    using StructOf.prems(2) [of x] t(3,4) that
    by (auto simp: set_tree_zip simp del: tree.set; metis nth_mem)
  have "\<exists>u. map_of vs (fst (fs ! i)) = Some u \<and> unfold h' (snd (fs ! i)) u = Some (ts ! i)" if "i < length fs" for i
    using StructOf.IH [OF nth_mem [OF that]] t(5) [OF that] same that by blast
  then show ?case using t(1-4) unfolding unfold_StructOf by blast
qed

lemma unfold_alive:
  assumes "unfold h s v = Some t" "a \<in> set_tree t"
  shows "cells h a \<noteq> None"
  using assms
proof (induction s arbitrary: v t rule: shape_induct)
  case (Prim k)
  then show ?case by (auto split: gval.splits if_splits)
next
  case (PtrTo s)
  then show ?case by (auto simp: unfold_PtrTo load_def split: bind_splits)
next
  case (SliceOf s)
  then show ?case by (fastforce simp: unfold_SliceOf in_set_conv_nth)
next
  case (MapOf s)
  then show ?case by (fastforce simp: unfold_MapOf set_tree_zip in_set_conv_nth)
next
  case (StructOf fs)
  then obtain ts where t: "t = TStruct (zip (map fst fs) ts)" "length ts = length fs"
    "\<And>i. i < length fs \<Longrightarrow> \<exists>u. unfold h (snd (fs ! i)) u = Some (ts ! i)"
    unfolding unfold_StructOf by blast
  obtain i where i: "i < length fs" "a \<in> set_tree (ts ! i)"
    using StructOf.prems(2) t(1,2) by (auto simp: set_tree_zip in_set_conv_nth)
  then show ?case
    using StructOf.IH [of "fs ! i"] t(3) [of i] by auto
qed

text \<open>A value without references unfolds the same way everywhere and reaches nothing.\<close>

lemma unfold_pure:
  assumes "pure s" "unfold h s v = Some t"
  shows "unfold h' s v = Some t \<and> set_tree t = {}"
  using assms
proof (induction s arbitrary: v t rule: shape_induct)
  case (Prim k)
  then show ?case by (auto split: gval.splits if_splits)
next
  case (StructOf fs)
  then obtain vs ts where t: "v = Struct vs" "map fst vs = map fst fs" "t = TStruct (zip (map fst fs) ts)" "length ts = length fs"
    "\<And>i. i < length fs \<Longrightarrow> \<exists>u. map_of vs (fst (fs ! i)) = Some u \<and> unfold h (snd (fs ! i)) u = Some (ts ! i)"
    by (auto simp: unfold_StructOf)
  have part: "\<exists>u. map_of vs (fst (fs ! i)) = Some u \<and> unfold h' (snd (fs ! i)) u = Some (ts ! i)"
    and none: "set_tree (ts ! i) = {}" if "i < length fs" for i
    using StructOf.IH [of "fs ! i"] t(5) [OF that] StructOf.prems(1) nth_mem [OF that]
    by (auto simp: split_beta)
  show ?case
    using t(1-4) part none by (auto simp: unfold_StructOf set_tree_zip in_set_conv_nth)
qed simp_all

end
