(* ===== verification/HeapCopies.thy ===== *)
theory HeapCopies
  imports GoHeap
begin

text \<open>
  What a copying statement or function promises, and the rules by which the statements of the generated
  code keep it. A copy has the content of the original and reaches only objects that were allocated
  while it was made; nothing that existed before changes but the location that is written.
\<close>

section \<open>Contracts\<close>

text \<open>\<open>w\<close> is a copy of a value that unfolds to \<open>t\<close>, made of objects from address \<open>L\<close> on.\<close>

definition copy_of :: "nat \<Rightarrow> heap \<Rightarrow> shape \<Rightarrow> nat tree \<Rightarrow> gval \<Rightarrow> bool" where
  "copy_of L h s t w \<longleftrightarrow> (\<exists>t'. unfold h s w = Some t' \<and> content t' = content t \<and> set_tree t' \<subseteq> {L..<lim h})"

text \<open>From \<open>h\<close> to \<open>h'\<close> only new objects appear and \<open>w\<close> is written to \<open>out\<close>.\<close>

definition extends :: "heap \<Rightarrow> heap \<Rightarrow> bool" where
  "extends h h' \<longleftrightarrow> heap_ok h' \<and> lim h \<le> lim h' \<and> (\<forall>a < lim h. cells h' a = cells h a)"

definition writes :: "loc \<Rightarrow> gval \<Rightarrow> heap \<Rightarrow> heap \<Rightarrow> bool" where
  "writes out w h h' \<longleftrightarrow> heap_ok h' \<and> lim h \<le> lim h' \<and> (\<forall>a < lim h. a \<noteq> fst out \<longrightarrow> cells h' a = cells h a) \<and>
     cells h' (fst out) = map_option (\<lambda>u. put u (snd out) w) (cells h (fst out))"

text \<open>The location \<open>out\<close> may be written while a value that reaches \<open>t\<close> is read from \<open>inp\<close>.\<close>

definition apart :: "loc \<Rightarrow> loc \<Rightarrow> nat tree \<Rightarrow> bool" where
  "apart inp out t \<longleftrightarrow> fst out \<noteq> fst inp \<and> fst out \<notin> set_tree t"

definition copying :: "shape \<Rightarrow> copier \<Rightarrow> loc \<Rightarrow> loc \<Rightarrow> heap \<Rightarrow> nat tree \<Rightarrow> bool" where
  "copying s f inp out h t \<longleftrightarrow> (\<exists>h' w. f inp out h = Some h' \<and> writes out w h h' \<and> copy_of (lim h) h' s t w)"

text \<open>
  \<open>copies_into\<close>: the contract of \<open>DeepCopyInto\<close>, whatever \<open>out\<close> held. \<open>copies_set\<close>: the same for values
  other than nil. \<open>completes\<close>: of a statement that runs after \<open>*out = *in\<close>. \<open>returns_copy\<close>: of \<open>DeepCopy\<close>.
\<close>

definition copies_into :: "shape \<Rightarrow> copier \<Rightarrow> bool" where
  "copies_into s f \<longleftrightarrow>
     (\<forall>h inp out v t. heap_ok h \<longrightarrow> load h inp = Some v \<longrightarrow> unfold h s v = Some t \<longrightarrow> load h out \<noteq> None \<longrightarrow>
        apart inp out t \<longrightarrow> copying s f inp out h t)"

definition copies_set :: "shape \<Rightarrow> copier \<Rightarrow> bool" where
  "copies_set s f \<longleftrightarrow>
     (\<forall>h inp out v t. heap_ok h \<longrightarrow> load h inp = Some v \<longrightarrow> v \<noteq> GNil \<longrightarrow> unfold h s v = Some t \<longrightarrow>
        load h out \<noteq> None \<longrightarrow> apart inp out t \<longrightarrow> copying s f inp out h t)"

definition completes :: "shape \<Rightarrow> copier \<Rightarrow> bool" where
  "completes s f \<longleftrightarrow>
     (\<forall>h inp out v t. heap_ok h \<longrightarrow> load h inp = Some v \<longrightarrow> unfold h s v = Some t \<longrightarrow> load h out = Some v \<longrightarrow>
        apart inp out t \<longrightarrow> copying s f inp out h t)"

definition returns_copy :: "shape \<Rightarrow> (gval \<Rightarrow> heap \<Rightarrow> (gval \<times> heap) option) \<Rightarrow> bool" where
  "returns_copy s g \<longleftrightarrow>
     (\<forall>h v t. heap_ok h \<longrightarrow> unfold h s v = Some t \<longrightarrow>
        (\<exists>h' w. g v h = Some (w, h') \<and> extends h h' \<and> copy_of (lim h) h' s t w))"

section \<open>Steps of the heap\<close>

lemma alive_below: "heap_ok h \<Longrightarrow> unfold h s v = Some t \<Longrightarrow> a \<in> set_tree t \<Longrightarrow> a < lim h"
  using unfold_alive unfolding heap_ok_def by blast

lemma load_below: "heap_ok h \<Longrightarrow> load h l \<noteq> None \<Longrightarrow> fst l < lim h"
  unfolding heap_ok_def load_def by (auto split: bind_splits)

lemma store_writes:
  assumes "heap_ok h" "load h out \<noteq> None"
  obtains h' where "store out w h = Some h'" "writes out w h h'" "lim h' = lim h" "load h' out = Some w"
  using assms get_put
  by (fastforce simp: store_def load_def writes_def heap_ok_def split: bind_splits)

lemma alloc_extends:
  assumes "heap_ok h" "alloc v h = (a, h')"
  shows "extends h h'" "a = lim h" "lim h' = Suc (lim h)" "cells h' a = Some v" "load h' (a, []) = Some v"
  using assms by (auto simp: alloc_def extends_def heap_ok_def load_def less_Suc_eq split: if_splits)

lemma extends_refl: "heap_ok h \<Longrightarrow> extends h h"
  by (simp add: extends_def)

lemma extends_writes: "extends h h1 \<Longrightarrow> writes out w h1 h2 \<Longrightarrow> fst out < lim h \<Longrightarrow> writes out w h h2"
  unfolding extends_def writes_def by auto

text \<open>What a value reaches stays as it is where only new objects appear or a location apart from it is written.\<close>

lemma writes_unfold:
  assumes "writes out w h h'" "heap_ok h" "unfold h s v = Some t" "fst out \<notin> set_tree t"
  shows "unfold h' s v = Some t"
  using assms alive_below [OF assms(2,3)] by (intro unfold_frame [OF assms(3)]) (auto simp: writes_def)

lemma writes_load:
  assumes "writes out w h h'" "heap_ok h" "load h l = Some v" "fst out \<noteq> fst l"
  shows "load h' l = Some v"
  using assms load_below [of h l] by (auto simp: writes_def intro!: trans [OF load_cong assms(3)])

lemma extends_unfold:
  assumes "extends h h'" "heap_ok h" "unfold h s v = Some t"
  shows "unfold h' s v = Some t"
  using assms alive_below [OF assms(2,3)] by (intro unfold_frame [OF assms(3)]) (auto simp: extends_def)

lemma extends_load:
  assumes "extends h h'" "heap_ok h" "load h l = Some v"
  shows "load h' l = Some v"
  using assms load_below [of h l] by (auto simp: extends_def intro!: trans [OF load_cong assms(3)])

lemma writes_writes:
  assumes "writes out w h h1" "writes out x h1 h2" "load h out \<noteq> None" "fst out < lim h"
  shows "writes out x h h2"
proof -
  obtain u where u: "cells h (fst out) = Some u" "get u (snd out) \<noteq> None"
    using assms(3) by (auto simp: load_def split: bind_splits)
  show ?thesis
    using assms u put_put [OF u(2)] by (auto simp: writes_def)
qed

lemma copy_of_writes:
  assumes "copy_of L h s t w" "writes out x h h'" "heap_ok h" "fst out < L \<or> lim h \<le> fst out"
  shows "copy_of L h' s t w"
proof -
  obtain t' where t': "unfold h s w = Some t'" "content t' = content t" "set_tree t' \<subseteq> {L..<lim h}"
    using assms(1) by (auto simp: copy_of_def)
  then have "unfold h' s w = Some t'"
    using assms by (intro writes_unfold [OF assms(2,3) t'(1)]) auto
  then show ?thesis
    using t' assms(2) by (auto simp: copy_of_def writes_def)
qed

lemma copy_of_mono: "copy_of L h s t w \<Longrightarrow> K \<le> L \<Longrightarrow> copy_of K h s t w"
  unfolding copy_of_def by fastforce

lemma writes_extend:
  assumes "writes out w h h1" "heap_ok h2" "lim h1 \<le> lim h2" "\<And>x. x < lim h \<Longrightarrow> cells h2 x = cells h1 x" "fst out < lim h"
  shows "writes out w h h2"
  using assms by (auto simp: writes_def)

section \<open>Single statements\<close>

lemma copies_into_completes [copy_rules]: "copies_into s f \<Longrightarrow> completes s f"
  unfolding copies_into_def completes_def by auto

lemma copies_into_set [copy_rules]: "copies_into s f \<Longrightarrow> copies_set s f"
  unfolding copies_into_def copies_set_def by blast

lemma copies_set_if:
  assumes "copies_set s f" "\<And>h t. unfold h s GNil = Some t \<Longrightarrow> t = TNil"
  shows "completes s (if_set f)"
  unfolding completes_def
proof (intro allI impI)
  fix h inp out v t
  assume h: "heap_ok h" "load h inp = Some v" "unfold h s v = Some t" "load h out = Some v" "apart inp out t"
  show "copying s (if_set f) inp out h t"
  proof (cases "v = GNil")
    case True
    have "writes out v h h"
      using h(1,4) put_same by (auto simp: writes_def load_def split: bind_splits)
    moreover have "t = TNil"
      using h(3) True assms(2) by blast
    then have "copy_of (lim h) h s t v"
      using h(3) by (auto simp: copy_of_def)
    ultimately show ?thesis
      using h(2) True by (auto simp: copying_def if_set_def)
  next
    case False
    then have "copying s f inp out h t"
      using h assms(1) unfolding copies_set_def by (metis option.distinct(1))
    then show ?thesis
      using False h(2) by (simp add: copying_def if_set_def)
  qed
qed

lemma if_set_completes [copy_rules]:
  "copies_set (PtrTo s) f \<Longrightarrow> completes (PtrTo s) (if_set f)"
  "copies_set (SliceOf s) f \<Longrightarrow> completes (SliceOf s) (if_set f)"
  "copies_set (MapOf s) f \<Longrightarrow> completes (MapOf s) (if_set f)"
  by (rule copies_set_if; simp add: unfold_iffs)+

lemma assign_copies [copy_rules]:
  assumes "pure s"
  shows "copies_into s assign"
  unfolding copies_into_def
proof (intro allI impI)
  fix h inp out v t
  assume h: "heap_ok h" "load h inp = Some v" "unfold h s v = Some t" "load h out \<noteq> None" "apart inp out t"
  obtain h' where h': "store out v h = Some h'" "writes out v h h'"
    using store_writes [OF h(1,4)] by metis
  show "copying s assign inp out h t"
    using h' h(2) unfold_pure [OF assms h(3)] by (auto simp: copying_def assign_def copy_of_def)
qed

lemma from_copy_copies [copy_rules]:
  assumes "returns_copy s g"
  shows "copies_into s (from_copy g)"
  unfolding copies_into_def
proof (intro allI impI)
  fix h inp out v t
  assume h: "heap_ok h" "load h inp = Some v" "unfold h s v = Some t" "load h out \<noteq> None" "apart inp out t"
  obtain h1 w where h1: "g v h = Some (w, h1)" "extends h h1" "copy_of (lim h) h1 s t w"
    using assms h(1,3) unfolding returns_copy_def by blast
  have ok1: "heap_ok h1" "load h1 out \<noteq> None" and out: "fst out < lim h"
    using h1(2) h(4) extends_load [OF h1(2) h(1), of out] load_below [OF h(1,4)] by (auto simp: extends_def)
  obtain h2 where h2: "store out w h1 = Some h2" "writes out w h1 h2"
    using store_writes [OF ok1] by metis
  have "writes out w h h2" "copy_of (lim h) h2 s t w"
    using extends_writes [OF h1(2) h2(2) out] copy_of_writes [OF h1(3) h2(2) ok1(1)] out by auto
  then show "copying s (from_copy g) inp out h t"
    using h1(1) h2(1) h(2) by (auto simp: copying_def from_copy_def)
qed

section \<open>Pointers\<close>

text \<open>An object that \<open>new\<close> makes and a copying statement fills.\<close>

lemma fill_new:
  assumes f: "copies_into s f" and h: "heap_ok h" "load h l = Some u" "unfold h s u = Some t" "cells h a \<noteq> None"
    and a: "a \<noteq> fst l" "a \<notin> set_tree t"
  obtains h' t' where "f l (a, []) h = Some h'" "heap_ok h'" "lim h \<le> lim h'"
    "\<And>x. x < lim h \<Longrightarrow> x \<noteq> a \<Longrightarrow> cells h' x = cells h x"
    "unfold h' (PtrTo s) (Ptr (a, [])) = Some (TPtr a t')" "content t' = content t" "set_tree t' \<subseteq> {lim h..<lim h'}"
proof -
  have "load h (a, []) \<noteq> None" "apart l (a, []) t"
    using h(4) a by (auto simp: load_def apart_def)
  then obtain h' w where h': "f l (a, []) h = Some h'" "writes (a, []) w h h'" "copy_of (lim h) h' s t w"
    using f h unfolding copies_into_def copying_def by blast
  moreover have "load h' (a, []) = Some w"
    using h'(2) h(4) by (auto simp: writes_def load_def)
  ultimately show thesis
    using that by (auto simp: copy_of_def writes_def unfold_PtrTo)
qed

lemma new_into_copies [copy_rules]:
  assumes "copies_into s f"
  shows "copies_set (PtrTo s) (new_into s f)"
  unfolding copies_set_def
proof (intro allI impI)
  fix h inp out v t
  assume h: "heap_ok h" "load h inp = Some v" "v \<noteq> GNil" "unfold h (PtrTo s) v = Some t" "load h out \<noteq> None" "apart inp out t"
  obtain l u t0 where l: "v = Ptr l" "load h l = Some u" "unfold h s u = Some t0" "t = TPtr (fst l) t0"
    using h(3,4) by (auto simp: unfold_PtrTo)
  obtain a h1 where alloc: "alloc (zero s) h = (a, h1)" by fastforce
  note h1 = alloc_extends [OF h(1) alloc]
  have ok1: "heap_ok h1" "load h1 out \<noteq> None" and out: "fst out < lim h"
    using h1(1) h(5) extends_load [OF h1(1) h(1), of out] load_below [OF h(1,5)] by (auto simp: extends_def)
  obtain h2 where h2: "store out (Ptr (a, [])) h1 = Some h2" "writes out (Ptr (a, [])) h1 h2" "lim h2 = lim h1"
    using store_writes [OF ok1] by metis
  have at2: "load h2 inp = Some v" "load h2 l = Some u" "unfold h2 s u = Some t0" "cells h2 a \<noteq> None" "heap_ok h2"
    using writes_load [OF h2(2) ok1(1) extends_load [OF h1(1) h(1,2)]]
      writes_load [OF h2(2) ok1(1) extends_load [OF h1(1) h(1) l(2)]]
      writes_unfold [OF h2(2) ok1(1) extends_unfold [OF h1(1) h(1) l(3)]] h2(2) h(6) l(4) h1 out
    by (auto simp: apart_def writes_def)
  have fresh: "a \<noteq> fst l" "a \<notin> set_tree t0"
    using load_below [OF h(1), of l] alive_below [OF h(1) l(3)] l(2) h1(2) by auto
  obtain h3 t' where h3: "f l (a, []) h2 = Some h3" "heap_ok h3" "lim h2 \<le> lim h3"
    "\<And>x. x < lim h2 \<Longrightarrow> x \<noteq> a \<Longrightarrow> cells h3 x = cells h2 x"
    "unfold h3 (PtrTo s) (Ptr (a, [])) = Some (TPtr a t')" "content t' = content t0" "set_tree t' \<subseteq> {lim h2..<lim h3}"
    by (rule fill_new [OF assms at2(5) at2(2-4) fresh]) (rule that; blast)
  have "writes out (Ptr (a, [])) h h3"
    using writes_extend [OF extends_writes [OF h1(1) h2(2) out] h3(2,3)] h3(4) h1 h2(3) out by auto
  moreover have "copy_of (lim h) h3 (PtrTo s) t (Ptr (a, []))"
    using h3(3,5-7) l(4) h1 h2(3) by (fastforce simp: copy_of_def)
  ultimately show "copying (PtrTo s) (new_into s f) inp out h t"
    using h3(1) h2(1) at2(1) alloc l(1) by (auto simp: copying_def new_into_def deref_def)
qed

lemma deepCopy_returns [copy_rules]:
  assumes "copies_into s f"
  shows "returns_copy (PtrTo s) (deepCopy s f)"
  unfolding returns_copy_def
proof (intro allI impI)
  fix h v t
  assume h: "heap_ok h" "unfold h (PtrTo s) v = Some t"
  show "\<exists>h' w. deepCopy s f v h = Some (w, h') \<and> extends h h' \<and> copy_of (lim h) h' (PtrTo s) t w"
  proof (cases "v = GNil")
    case True
    then show ?thesis
      using h extends_refl by (auto simp: deepCopy_def copy_of_def unfold_PtrTo)
  next
    case False
    then obtain l u t0 where l: "v = Ptr l" "load h l = Some u" "unfold h s u = Some t0" "t = TPtr (fst l) t0"
      using h by (auto simp: unfold_PtrTo)
    obtain a h1 where alloc: "alloc (zero s) h = (a, h1)" by fastforce
    note h1 = alloc_extends [OF h(1) alloc]
    have fresh: "a \<noteq> fst l" "a \<notin> set_tree t0" and ok1: "heap_ok h1" "cells h1 a \<noteq> None"
      using load_below [OF h(1), of l] alive_below [OF h(1) l(3)] l(2) h1 by (auto simp: extends_def)
    obtain h2 t' where h2: "f l (a, []) h1 = Some h2" "heap_ok h2" "lim h1 \<le> lim h2"
      "\<And>x. x < lim h1 \<Longrightarrow> x \<noteq> a \<Longrightarrow> cells h2 x = cells h1 x"
      "unfold h2 (PtrTo s) (Ptr (a, [])) = Some (TPtr a t')" "content t' = content t0" "set_tree t' \<subseteq> {lim h1..<lim h2}"
      by (rule fill_new [OF assms ok1(1) extends_load [OF h1(1) h(1) l(2)] extends_unfold [OF h1(1) h(1) l(3)] ok1(2) fresh]) (rule that; blast)
    have "extends h h2" "copy_of (lim h) h2 (PtrTo s) t (Ptr (a, []))"
      using h2(2-7) l(4) h1 by (fastforce simp: extends_def copy_of_def)+
    then show ?thesis
      using h2(1) alloc l(1) by (auto simp: deepCopy_def deref_def)
  qed
qed

section \<open>Slices\<close>

text \<open>
  After \<open>k\<close> rounds the first \<open>k\<close> elements of the new array are copies; a round writes its element
  and allocates, so it keeps the earlier ones.
\<close>

lemma each_copies:
  assumes "copies_into s f"
  shows "heap_ok h \<Longrightarrow> cells h b = Some (Array us) \<Longrightarrow> i + (k + n) \<le> length us \<Longrightarrow> length ts = k + n \<Longrightarrow>
    (\<And>j. j < k + n \<Longrightarrow> unfold h s (us ! (i + j)) = Some (ts ! j) \<and> a \<notin> set_tree (ts ! j)) \<Longrightarrow>
    cells h a = Some (Array ws) \<Longrightarrow> length ws = k + n \<Longrightarrow> a \<noteq> b \<Longrightarrow> a < L \<Longrightarrow> L \<le> lim h \<Longrightarrow>
    (\<And>j. j < k \<Longrightarrow> copy_of L h s (ts ! j) (ws ! j)) \<Longrightarrow>
    \<exists>h' ws'. each f b i a k n h = Some h' \<and> heap_ok h' \<and> lim h \<le> lim h' \<and>
      (\<forall>x < lim h. x \<noteq> a \<longrightarrow> cells h' x = cells h x) \<and> cells h' a = Some (Array ws') \<and> length ws' = k + n \<and>
      (\<forall>j < k + n. copy_of L h' s (ts ! j) (ws' ! j))"
proof (induction n arbitrary: h k ws)
  case 0
  then show ?case by auto
next
  case (Suc n)
  let ?in = "(b, [Idx (i + k)])" and ?out = "(a, [Idx k])"
  have "load h ?in = Some (us ! (i + k))" "load h ?out \<noteq> None" "apart ?in ?out (ts ! k)"
    using Suc.prems by (auto simp: load_def apart_def)
  then obtain h1 w where h1: "f ?in ?out h = Some h1" "writes ?out w h h1" "copy_of (lim h) h1 s (ts ! k) w"
    using assms Suc.prems(1,5) unfolding copies_into_def copying_def by (metis less_add_same_cancel1 zero_less_Suc)
  have b: "b < lim h" "a < lim h"
    using Suc.prems(1,2,6) unfolding heap_ok_def by auto
  have copied: "copy_of L h1 s (ts ! j) (ws[k := w] ! j)" if "j < Suc k" for j
  proof (cases "j = k")
    case True
    then show ?thesis
      using copy_of_mono [OF h1(3)] Suc.prems(7,10) by simp
  next
    case False
    then show ?thesis
      using copy_of_writes [OF _ h1(2) Suc.prems(1)] Suc.prems(9,11) that by auto
  qed
  have left: "unfold h1 s (us ! (i + j)) = Some (ts ! j)" if "j < k + Suc n" for j
    using writes_unfold [OF h1(2) Suc.prems(1)] Suc.prems(5) that by auto
  have "\<exists>h' ws'. each f b i a (Suc k) n h1 = Some h' \<and> heap_ok h' \<and> lim h1 \<le> lim h' \<and>
      (\<forall>x < lim h1. x \<noteq> a \<longrightarrow> cells h' x = cells h1 x) \<and> cells h' a = Some (Array ws') \<and> length ws' = Suc k + n \<and>
      (\<forall>j < Suc k + n. copy_of L h' s (ts ! j) (ws' ! j))"
  proof (rule Suc.IH [where ws = "ws[k := w]"])
    show "heap_ok h1" "cells h1 b = Some (Array us)" "cells h1 a = Some (Array (ws[k := w]))" "L \<le> lim h1"
      using h1(2) Suc.prems b by (auto simp: writes_def)
  qed (use Suc.prems copied left in auto)
  then show ?case
    using h1(1,2) by (fastforce simp: writes_def)
qed

lemma make_into_copies [copy_rules]:
  assumes "copies_into s f"
  shows "copies_set (SliceOf s) (make_into s f)"
  unfolding copies_set_def
proof (intro allI impI)
  fix h inp out v t
  assume h: "heap_ok h" "load h inp = Some v" "v \<noteq> GNil" "unfold h (SliceOf s) v = Some t" "load h out \<noteq> None" "apart inp out t"
  obtain b i n us ts where v: "v = Slice b i n" "cells h b = Some (Array us)" "i + n \<le> length us" "length ts = n"
    "\<And>k. k < n \<Longrightarrow> unfold h s (us ! (i + k)) = Some (ts ! k)" "t = TSlice b ts"
    using h(3,4) by (auto simp: unfold_SliceOf)
  obtain a h1 where alloc: "alloc (Array (replicate n (zero s))) h = (a, h1)" by fastforce
  note h1 = alloc_extends [OF h(1) alloc]
  have ok1: "heap_ok h1" "load h1 out \<noteq> None" and out: "fst out < lim h"
    using h1(1) h(5) extends_load [OF h1(1) h(1), of out] load_below [OF h(1,5)] by (auto simp: extends_def)
  obtain h2 where h2: "store out (Slice a 0 n) h1 = Some h2" "writes out (Slice a 0 n) h1 h2" "lim h2 = lim h1"
    using store_writes [OF ok1] by metis
  have away: "fst out \<notin> set_tree (ts ! k)" if "k < n" for k
    using h(6) v(4,6) that by (auto simp: apart_def)
  have b: "fst out \<noteq> b" "b < lim h"
    using h(1,6) v(2,6) by (auto simp: apart_def heap_ok_def)
  have elems: "unfold h2 s (us ! (i + k)) = Some (ts ! k) \<and> a \<notin> set_tree (ts ! k)" if "k < n" for k
    using writes_unfold [OF h2(2) ok1(1) extends_unfold [OF h1(1) h(1) v(5) [OF that]]] away that
      alive_below [OF h(1) v(5) [OF that], of a] h1(2) by auto
  have cells2: "cells h2 b = Some (Array us)" "cells h2 a = Some (Array (replicate n (zero s)))" "heap_ok h2"
    using h2(2) h1 b v(2) out by (auto simp: writes_def extends_def)
  obtain h3 ws where h3: "each f b i a 0 n h2 = Some h3" "heap_ok h3" "lim h2 \<le> lim h3"
    "\<And>x. x < lim h2 \<Longrightarrow> x \<noteq> a \<Longrightarrow> cells h3 x = cells h2 x" "cells h3 a = Some (Array ws)" "length ws = n"
    "\<And>j. j < n \<Longrightarrow> copy_of (lim h2) h3 s (ts ! j) (ws ! j)"
    using each_copies [OF assms cells2(3,1), of i 0 n ts a "replicate n (zero s)" "lim h2"] v(3,4) elems cells2(2)
      b(2) h1(2,3) h2(3) by auto
  have "writes out (Slice a 0 n) h h3"
    using writes_extend [OF extends_writes [OF h1(1) h2(2) out] h3(2,3)] h3(4) h1 h2(3) out by auto
  moreover have "copy_of (lim h) h3 (SliceOf s) t (Slice a 0 n)"
  proof -
    obtain tr where tr: "\<And>j. j < n \<Longrightarrow> unfold h3 s (ws ! j) = Some (tr j) \<and> content (tr j) = content (ts ! j) \<and>
        set_tree (tr j) \<subseteq> {lim h2..<lim h3}"
      using h3(7) unfolding copy_of_def by metis
    have "map content (map tr [0..<n]) = map content ts"
      using tr v(4) by (auto intro: nth_equalityI)
    then show ?thesis
      using tr h3(3,5,6) v(6) h1(2,3) h2(3)
      by (intro copy_of_def [THEN iffD2] exI [of _ "TSlice a (map tr [0..<n])"]) (fastforce simp: unfold_SliceOf)
  qed
  ultimately show "copying (SliceOf s) (make_into s f) inp out h t"
    using h3(1) h2(1) h(2) alloc v(1) by (auto simp: copying_def make_into_def)
qed

section \<open>Maps\<close>

text \<open>With distinct keys the loop appends one entry a round, in the order of the visit.\<close>

lemma alist_update_new: "k \<notin> set (map fst ds) \<Longrightarrow> AList.update k v ds = ds @ [(k, v)]"
  by (induction ds) auto

lemma insert_all_appends:
  "cells h a = Some (Table ds) \<Longrightarrow> distinct (map fst (ds @ es)) \<Longrightarrow>
   insert_all es a h = Some (h\<lparr>cells := (cells h)(a \<mapsto> Table (ds @ es))\<rparr>)"
proof (induction es arbitrary: h ds)
  case Nil
  then show ?case by (simp add: map_upd_triv)
next
  case (Cons e es)
  then have "AList.update (fst e) (snd e) ds = ds @ [e]"
    by (simp add: alist_update_new)
  then show ?case
    using Cons.IH [of "h\<lparr>cells := (cells h)(a \<mapsto> Table (ds @ [e]))\<rparr>" "ds @ [e]"] Cons.prems by (simp cong: if_cong)
qed

lemma make_map_copies [copy_rules]:
  assumes "pure s"
  shows "copies_set (MapOf s) make_map"
  unfolding copies_set_def
proof (intro allI impI)
  fix h inp out v t
  assume h: "heap_ok h" "load h inp = Some v" "v \<noteq> GNil" "unfold h (MapOf s) v = Some t" "load h out \<noteq> None" "apart inp out t"
  obtain b es ts where v: "v = MapRef b" "cells h b = Some (Table es)" "distinct (map fst es)" "length ts = length es"
    "\<And>k. k < length es \<Longrightarrow> unfold h s (snd (es ! k)) = Some (ts ! k)" "t = TMap b (zip (map fst es) ts)"
    using h(3,4) unfolding unfold_MapOf by blast
  obtain a h1 where alloc: "alloc (Table []) h = (a, h1)" by fastforce
  note h1 = alloc_extends [OF h(1) alloc]
  have ok1: "heap_ok h1" "load h1 out \<noteq> None" and out: "fst out < lim h"
    using h1(1) h(5) extends_load [OF h1(1) h(1), of out] load_below [OF h(1,5)] by (auto simp: extends_def)
  obtain h2 where h2: "store out (MapRef a) h1 = Some h2" "writes out (MapRef a) h1 h2" "lim h2 = lim h1"
    using store_writes [OF ok1] by metis
  have b: "fst out \<noteq> b" "b < lim h"
    using h(1,6) v(2,6) by (auto simp: apart_def heap_ok_def)
  have cells2: "cells h2 b = Some (Table es)" "cells h2 a = Some (Table [])" "heap_ok h2"
    using h2(2) h1 b v(2) out by (auto simp: writes_def extends_def)
  define h3 where "h3 = h2\<lparr>cells := (cells h2)(a \<mapsto> Table es)\<rparr>"
  have h3: "insert_all es a h2 = Some h3" "heap_ok h3" "lim h3 = lim h2"
    "\<And>x. x \<noteq> a \<Longrightarrow> cells h3 x = cells h2 x" "cells h3 a = Some (Table es)"
    using insert_all_appends [of h2 a "[]" es] cells2 v(3) h1(2,3) h2(3) by (auto simp: h3_def heap_ok_def)
  have "writes out (MapRef a) h h3"
    using writes_extend [OF extends_writes [OF h1(1) h2(2) out] h3(2)] h3(3,4) h1 h2(3) out by auto
  moreover have "copy_of (lim h) h3 (MapOf s) t (MapRef a)"
  proof -
    have elems: "unfold h3 s (snd (es ! k)) = Some (ts ! k)" "set_tree (ts ! k) = {}" if "k < length es" for k
      using unfold_pure [OF assms v(5) [OF that]] by auto
    then have "unfold h3 (MapOf s) (MapRef a) = Some (TMap a (zip (map fst es) ts))"
      using v(3,4) h3(5) unfolding unfold_MapOf by blast
    moreover have "set_tree (TMap a (zip (map fst es) ts)) = {a}"
      using elems(2) v(4) by (auto simp: set_tree_zip in_set_conv_nth simp del: tree.set)
    ultimately show ?thesis
      using v(6) h1(2,3) h2(3) h3(3) by (auto simp: copy_of_def simp del: tree.set)
  qed
  ultimately show "copying (MapOf s) make_map inp out h t"
    using h3(1) h2(1) h(2) alloc v(1) cells2(1) by (auto simp: copying_def make_map_def)
qed

section \<open>Structs\<close>

text \<open>
  Between the statements of a \<open>DeepCopyInto\<close> the fields that had their statement are copies and the others are
  as \<open>*out = *in\<close> left them. \<open>midway\<close> says so for the fields \<open>Fs\<close>, \<open>h0\<close> being the heap at the start.
\<close>

definition midway :: "(string \<times> shape) list \<Rightarrow> string set \<Rightarrow> heap \<Rightarrow> loc \<Rightarrow> (string \<times> gval) list \<Rightarrow> nat tree list \<Rightarrow> heap \<Rightarrow> bool" where
  "midway fs Fs h0 out vs ts h \<longleftrightarrow> (\<exists>ws. writes out (Struct ws) h0 h \<and> map fst ws = map fst fs \<and>
     (\<forall>i < length fs. if fst (fs ! i) \<in> Fs
        then \<exists>w. map_of ws (fst (fs ! i)) = Some w \<and> copy_of (lim h0) h (snd (fs ! i)) (ts ! i) w
        else map_of ws (fst (fs ! i)) = map_of vs (fst (fs ! i))))"

lemma midway_step:
  assumes mid: "midway fs Fs h0 out vs ts h" and g: "completes (snd (fs ! i)) g" and i: "i < length fs" "fst (fs ! i) \<notin> Fs"
    and d: "distinct (map fst fs)"
    and h0: "heap_ok h0" "load h0 inp = Some (Struct vs)" "load h0 out \<noteq> None" "fst out \<noteq> fst inp"
    and fields: "\<And>j. j < length fs \<Longrightarrow> \<exists>u. map_of vs (fst (fs ! j)) = Some u \<and> unfold h0 (snd (fs ! j)) u = Some (ts ! j) \<and>
      fst out \<notin> set_tree (ts ! j)"
  shows "\<exists>h'. at (fst (fs ! i)) g inp out h = Some h' \<and> midway fs (insert (fst (fs ! i)) Fs) h0 out vs ts h'"
proof -
  let ?F = "fst (fs ! i)"
  obtain ws where ws: "writes out (Struct ws) h0 h" "map fst ws = map fst fs"
    "\<And>j. j < length fs \<Longrightarrow> fst (fs ! j) \<in> Fs \<Longrightarrow> \<exists>w. map_of ws (fst (fs ! j)) = Some w \<and> copy_of (lim h0) h (snd (fs ! j)) (ts ! j) w"
    "\<And>j. j < length fs \<Longrightarrow> fst (fs ! j) \<notin> Fs \<Longrightarrow> map_of ws (fst (fs ! j)) = map_of vs (fst (fs ! j))"
    using mid unfolding midway_def by (metis (no_types, lifting))
  obtain u where u: "map_of vs ?F = Some u" "unfold h0 (snd (fs ! i)) u = Some (ts ! i)" "fst out \<notin> set_tree (ts ! i)"
    using fields [OF i(1)] by blast
  obtain o0 where o0: "cells h0 (fst out) = Some o0" "get o0 (snd out) \<noteq> None"
    using h0(3) by (auto simp: load_def split: bind_splits)
  have out: "fst out < lim h0" "lim h0 \<le> lim h" "heap_ok h"
    using load_below [OF h0(1,3)] ws(1) by (auto simp: writes_def)
  have cell: "cells h (fst out) = Some (put o0 (snd out) (Struct ws))"
    using ws(1) o0 by (simp add: writes_def)
  then have load_out: "load h out = Some (Struct ws)"
    using get_put [OF o0(2)] by (simp add: load_def)
  have "load h (sub inp (Fld ?F)) = Some u" "load h (sub out (Fld ?F)) = Some u" "unfold h (snd (fs ! i)) u = Some (ts ! i)"
    "apart (sub inp (Fld ?F)) (sub out (Fld ?F)) (ts ! i)"
    using writes_load [OF ws(1) h0(1,2,4)] writes_unfold [OF ws(1) h0(1) u(2,3)] load_out ws(4) [OF i] u h0(4)
    by (simp_all add: load_sub apart_def)
  then obtain h' w where h': "g (sub inp (Fld ?F)) (sub out (Fld ?F)) h = Some h'" "writes (sub out (Fld ?F)) w h h'"
    "copy_of (lim h) h' (snd (fs ! i)) (ts ! i) w"
    using g out(3) unfolding completes_def copying_def by blast
  let ?ws = "AList.update ?F w ws"
  have "put (put o0 (snd out) (Struct ws)) (snd out @ [Fld ?F]) w = put o0 (snd out) (Struct ?ws)"
    using put_append [OF get_put [OF o0(2)]] put_put [OF o0(2)] ws(4) [OF i] u(1) by simp
  then have "writes out (Struct ?ws) h0 h'"
    using h'(2) ws(1) cell o0(1) out by (auto simp: writes_def sub_def)
  moreover have "map fst ?ws = map fst fs"
    using alist_update_keys [of ws ?F u w] ws(2) ws(4) [OF i] u(1) by simp
  moreover have "if fst (fs ! j) \<in> insert ?F Fs
        then \<exists>x. map_of ?ws (fst (fs ! j)) = Some x \<and> copy_of (lim h0) h' (snd (fs ! j)) (ts ! j) x
        else map_of ?ws (fst (fs ! j)) = map_of vs (fst (fs ! j))" if j: "j < length fs" for j
  proof (cases "j = i")
    case True
    then show ?thesis
      using copy_of_mono [OF h'(3) out(2)] by (simp add: alist_map_of_update)
  next
    case False
    then have "fst (fs ! j) \<noteq> ?F"
      using d i(1) j by (metis length_map nth_eq_iff_index_eq nth_map)
    then show ?thesis
      using ws(3,4) [OF j] copy_of_writes [OF _ h'(2) out(3)] out(1) by (fastforce simp: alist_map_of_update)
  qed
  ultimately have "midway fs (insert ?F Fs) h0 out vs ts h'"
    unfolding midway_def by blast
  then show ?thesis
    using h'(1) by (simp add: at_def)
qed

text \<open>A list of field statements and the fields they complete.\<close>

inductive fills :: "(string \<times> shape) list \<Rightarrow> string list \<Rightarrow> copier list \<Rightarrow> bool" for fs where
  fills_nil: "fills fs [] []"
| fills_cons: "fills fs Fs gs \<Longrightarrow> completes (the (map_of fs F)) g \<Longrightarrow> F \<in> fst ` set fs \<Longrightarrow> fills fs (F # Fs) (at F g # gs)"

lemma midway_block:
  assumes "fills fs Fs gs" "distinct (Ds @ Fs)" "midway fs (set Ds) h0 out vs ts h"
    and d: "distinct (map fst fs)"
    and h0: "heap_ok h0" "load h0 inp = Some (Struct vs)" "load h0 out \<noteq> None" "fst out \<noteq> fst inp"
    and fields: "\<And>j. j < length fs \<Longrightarrow> \<exists>u. map_of vs (fst (fs ! j)) = Some u \<and> unfold h0 (snd (fs ! j)) u = Some (ts ! j) \<and>
      fst out \<notin> set_tree (ts ! j)"
  shows "\<exists>h'. block gs inp out h = Some h' \<and> midway fs (set (Ds @ Fs)) h0 out vs ts h'"
  using assms(1-3)
proof (induction arbitrary: Ds h rule: fills.induct)
  case fills_nil
  then show ?case by simp
next
  case (fills_cons Fs gs F g)
  obtain i where i: "i < length fs" "fst (fs ! i) = F"
    using fills_cons.hyps(3) by (auto simp: in_set_conv_nth)
  then have "the (map_of fs F) = snd (fs ! i)"
    using d by (metis map_of_eq_Some_iff nth_mem option.sel prod.collapse)
  then obtain h1 where h1: "at F g inp out h = Some h1" "midway fs (insert F (set Ds)) h0 out vs ts h1"
    using midway_step [OF fills_cons.prems(2) _ i(1) _ d h0 fields, of g] fills_cons.hyps(2) fills_cons.prems(1) i(2) by auto
  then show ?case
    using fills_cons.IH [of "Ds @ [F]" h1] fills_cons.prems(1) by auto
qed

lemma content_zip: "content (TStruct (zip ks ts)) = TStruct (zip ks (map content ts))"
  by (simp add: zip_map2 map_prod_def)

text \<open>
  \<open>*out = *in\<close> and a statement for every field that holds references copy the struct.
\<close>

theorem struct_copies:
  assumes fills: "fills fs Fs gs" and d: "distinct Fs" "distinct (map fst fs)"
    and rest: "\<forall>(F, s) \<in> set fs. F \<in> set Fs \<or> pure s"
  shows "copies_into (StructOf fs) (block (assign # gs))"
  unfolding copies_into_def
proof (intro allI impI)
  fix h inp out v t
  assume h: "heap_ok h" "load h inp = Some v" "unfold h (StructOf fs) v = Some t" "load h out \<noteq> None" "apart inp out t"
  obtain vs ts where v: "v = Struct vs" "map fst vs = map fst fs" "length ts = length fs" "t = TStruct (zip (map fst fs) ts)"
    "\<And>i. i < length fs \<Longrightarrow> \<exists>u. map_of vs (fst (fs ! i)) = Some u \<and> unfold h (snd (fs ! i)) u = Some (ts ! i)"
    using h(3) unfolding unfold_StructOf by blast
  have away: "fst out \<notin> set_tree (ts ! i)" if "i < length fs" for i
    using h(5) v(3,4) that by (auto simp: apart_def set_tree_zip simp del: tree.set)
  obtain h1 where h1: "assign inp out h = Some h1" "writes out (Struct vs) h h1"
    using store_writes [OF h(1,4), of v] h(2) v(1) by (auto simp: assign_def)
  have "midway fs (set []) h out vs ts h1"
    using h1(2) v(2) by (auto simp: midway_def)
  then obtain h2 where h2: "block gs inp out h1 = Some h2" "midway fs (set Fs) h out vs ts h2"
    using midway_block [OF fills _ _ d(2) h(1) _ h(4), of "[]" vs ts h1 inp] d(1) h(2,5) v(1,5) away
    by (auto simp: apart_def)
  obtain ws where ws: "writes out (Struct ws) h h2" "map fst ws = map fst fs"
    "\<And>i. i < length fs \<Longrightarrow> if fst (fs ! i) \<in> set Fs
        then \<exists>w. map_of ws (fst (fs ! i)) = Some w \<and> copy_of (lim h) h2 (snd (fs ! i)) (ts ! i) w
        else map_of ws (fst (fs ! i)) = map_of vs (fst (fs ! i))"
    using h2(2) unfolding midway_def by blast
  have "\<exists>w t'. map_of ws (fst (fs ! i)) = Some w \<and> unfold h2 (snd (fs ! i)) w = Some t' \<and> content t' = content (ts ! i) \<and>
      set_tree t' \<subseteq> {lim h..<lim h2}" if i: "i < length fs" for i
  proof (cases "fst (fs ! i) \<in> set Fs")
    case True
    then show ?thesis
      using ws(3) [OF i] by (auto simp: copy_of_def)
  next
    case False
    then have pure: "pure (snd (fs ! i))"
      using rest nth_mem [OF i] by (auto simp: split_beta)
    obtain u where u: "map_of vs (fst (fs ! i)) = Some u" "unfold h (snd (fs ! i)) u = Some (ts ! i)"
      using v(5) [OF i] by blast
    show ?thesis
      using ws(3) [OF i] u(1) False unfold_pure [OF pure u(2), of h2] by auto
  qed
  then obtain tr where tr: "\<And>i. i < length fs \<Longrightarrow> (\<exists>w. map_of ws (fst (fs ! i)) = Some w \<and> unfold h2 (snd (fs ! i)) w = Some (tr i)) \<and>
      content (tr i) = content (ts ! i) \<and> set_tree (tr i) \<subseteq> {lim h..<lim h2}"
    by metis
  have fresh: "set_tree (tr i) \<subseteq> {lim h..<lim h2}" if "i < length fs" for i
    using tr [OF that] by blast
  let ?ts = "map tr [0..<length fs]"
  have "map content ?ts = map content ts"
    using tr v(3) by (auto intro: nth_equalityI)
  then have "content (TStruct (zip (map fst fs) ?ts)) = content t"
    unfolding v(4) content_zip by (simp only:)
  moreover have "unfold h2 (StructOf fs) (Struct ws) = Some (TStruct (zip (map fst fs) ?ts))"
    using tr ws(2) unfolding unfold_StructOf by (intro exI [of _ ws] exI [of _ ?ts]) auto
  moreover have "set_tree (TStruct (zip (map fst fs) ?ts)) \<subseteq> {lim h..<lim h2}"
    using fresh by (simp add: set_tree_zip UN_subset_iff del: tree.set)
  ultimately show "copying (StructOf fs) (block (assign # gs)) inp out h t"
    using h1(1) h2(1) ws(1) by (auto simp: copying_def copy_of_def)
qed

section \<open>Independence of the copy\<close>

text \<open>A write to an object that a value does not reach leaves the value as it is.\<close>

lemma store_unfold:
  assumes "store l y h = Some h'" "unfold h s v = Some t" "fst l \<notin> set_tree t"
  shows "unfold h' s v = Some t"
  using assms(1,3) by (intro unfold_frame [OF assms(2)]) (auto simp: store_def split: bind_splits)

text \<open>
  The interface of a type with a generated \<open>DeepCopyInto\<close>: its shape and the function, with its contract. What
  \<open>DeepCopy\<close> and \<open>DeepCopyObject\<close> do follows for every such type.
\<close>

locale deep_copied =
  fixes s :: shape and into :: copier
  assumes into: "copies_into s into"
begin

lemma returns: "returns_copy (PtrTo s) (deepCopy s into)"
  using into by (rule deepCopy_returns)

lemma independent:
  assumes "heap_ok h" "unfold h (PtrTo s) v = Some t"
  shows "\<exists>h' w t'. deepCopy s into v h = Some (w, h') \<and> heap_ok h' \<and>
    unfold h' (PtrTo s) w = Some t' \<and> content t' = content t \<and> unfold h' (PtrTo s) v = Some t \<and>
    (\<forall>l y h''. store l y h' = Some h'' \<longrightarrow>
       (fst l \<in> set_tree t' \<longrightarrow> unfold h'' (PtrTo s) v = Some t) \<and>
       (fst l \<in> set_tree t \<longrightarrow> unfold h'' (PtrTo s) w = Some t'))"
proof -
  obtain h' w where h': "deepCopy s into v h = Some (w, h')" "extends h h'" "copy_of (lim h) h' (PtrTo s) t w"
    using returns assms unfolding returns_copy_def by blast
  obtain t' where t': "unfold h' (PtrTo s) w = Some t'" "content t' = content t" "set_tree t' \<subseteq> {lim h..<lim h'}"
    using h'(3) unfolding copy_of_def by blast
  have old: "unfold h' (PtrTo s) v = Some t"
    using extends_unfold [OF h'(2) assms] .
  have disjoint: "set_tree t \<inter> set_tree t' = {}"
    using alive_below [OF assms] t'(3) by fastforce
  have "unfold h'' (PtrTo s) v = Some t" if "store l y h' = Some h''" "fst l \<in> set_tree t'" for l y h''
    using store_unfold [OF that(1) old] that(2) disjoint by blast
  moreover have "unfold h'' (PtrTo s) w = Some t'" if "store l y h' = Some h''" "fst l \<in> set_tree t" for l y h''
    using store_unfold [OF that(1) t'(1)] that(2) disjoint by blast
  ultimately show ?thesis
    using h'(1,2) t'(1,2) old unfolding extends_def by blast
qed

text \<open>The copy as an object: the nil interface for nil, never an interface that holds nil.\<close>

lemma object:
  assumes "heap_ok h" "unfold h (PtrTo s) v = Some t"
  shows "\<exists>h' w. deepCopy s into v h = Some (w, h') \<and>
    deepCopyObject T (deepCopy s into) v h = Some (if v = GNil then INil else IObj T w, h') \<and> (w = GNil \<longleftrightarrow> v = GNil)"
proof -
  obtain h' w where h': "deepCopy s into v h = Some (w, h')"
    using returns assms unfolding returns_copy_def by blast
  then have "w = GNil \<longleftrightarrow> v = GNil"
    by (auto simp: deepCopy_def split: if_splits prod.splits bind_splits)
  then show ?thesis
    using h' by (auto simp: deepCopyObject_def)
qed

end

end

