(* ===== verification/DeepCopy.thy ===== *)
theory DeepCopy
  imports HeapCopies
begin

text \<open>
  The generated \<open>DeepCopyInto\<close>, \<open>DeepCopy\<close> and \<open>DeepCopyObject\<close> of every type of the API package, statement by
  statement. \<open>T_shape\<close> is the struct \<open>T\<close> as its Go declaration has it, so that the contract of
  its copy speaks of every field that the type has today; the statements are those of the generated file.
\<close>

section \<open>Third-party types\<close>

text \<open>
  The types of \<open>k8s.io/api\<close> and \<open>k8s.io/apimachinery\<close> that the structs embed: their layout and their own
  copying functions, by name. \<open>tp_copy\<close> has the ones that return the copy.
\<close>

record third_party =
  tp_shape :: "string \<Rightarrow> shape"
  tp_into :: "string \<Rightarrow> copier"
  tp_copy :: "string \<Rightarrow> gval \<Rightarrow> heap \<Rightarrow> (gval \<times> heap) option"

text \<open>
  Documented behaviour: the first types hold no references, the \<open>DeepCopyInto\<close> of the second kind copies, and so
  do \<open>(*metav1.Time).DeepCopy\<close> and \<open>resource.Quantity.DeepCopy\<close>.
\<close>

definition flatTypes :: "string list" where
  "flatTypes = [''metav1.TypeMeta'', ''corev1.LocalObjectReference'', ''corev1.PullPolicy'', ''corev1.PersistentVolumeAccessMode'']"

definition copiedTypes :: "string list" where
  "copiedTypes = [''metav1.ObjectMeta'', ''metav1.ListMeta'', ''metav1.Condition'', ''corev1.ResourceRequirements'',
     ''corev1.EnvVar'', ''corev1.Container'', ''corev1.PodSecurityContext'', ''corev1.Affinity'', ''corev1.Toleration'',
     ''corev1.TopologySpreadConstraint'']"

definition third_party_ok :: "third_party \<Rightarrow> bool" where
  "third_party_ok x \<longleftrightarrow>
     (\<forall>T \<in> set flatTypes. pure (tp_shape x T)) \<and>
     (\<forall>T \<in> set copiedTypes. copies_into (tp_shape x T) (tp_into x T)) \<and>
     returns_copy (PtrTo (tp_shape x ''metav1.Time'')) (tp_copy x ''metav1.Time'') \<and>
     returns_copy (tp_shape x ''resource.Quantity'') (tp_copy x ''resource.Quantity'')"

section \<open>Shared parts of the specifications\<close>

definition S3Destination_shape :: "shape" where
  "S3Destination_shape = StructOf [
     (''Bucket'', Prim KStr), (''Prefix'', Prim KStr), (''Endpoint'', Prim KStr), (''Region'', Prim KStr),
     (''CredentialsSecret'', Prim KStr), (''AccessKeyIDKey'', Prim KStr), (''SecretAccessKeyKey'', Prim KStr),
     (''InsecureTLS'', Prim KBool)]"

definition S3Destination_DeepCopyInto :: "copier" where
  "S3Destination_DeepCopyInto = block [assign]"

definition S3Destination_DeepCopy :: "gval \<Rightarrow> heap \<Rightarrow> (gval \<times> heap) option" where
  "S3Destination_DeepCopy = deepCopy S3Destination_shape S3Destination_DeepCopyInto"

definition BackupDestination_shape :: "shape" where
  "BackupDestination_shape = StructOf [
     (''Type'', Prim KStr), (''S3'', PtrTo (S3Destination_shape)), (''PVCName'', Prim KStr),
     (''PVCPath'', Prim KStr)]"

definition BackupDestination_DeepCopyInto :: "copier" where
  "BackupDestination_DeepCopyInto = block [assign,
     at ''S3'' (if_set (new_into S3Destination_shape assign))]"

definition BackupDestination_DeepCopy :: "gval \<Rightarrow> heap \<Rightarrow> (gval \<times> heap) option" where
  "BackupDestination_DeepCopy = deepCopy BackupDestination_shape BackupDestination_DeepCopyInto"

definition BackupPolicy_shape :: "shape" where
  "BackupPolicy_shape = StructOf [
     (''Enabled'', Prim KBool), (''Schedule'', Prim KStr), (''Destination'', BackupDestination_shape),
     (''Retention'', Prim KInt), (''Suspend'', Prim KBool), (''OnDelete'', Prim KBool)]"

definition BackupPolicy_DeepCopyInto :: "copier" where
  "BackupPolicy_DeepCopyInto = block [assign,
     at ''Destination'' BackupDestination_DeepCopyInto]"

definition BackupPolicy_DeepCopy :: "gval \<Rightarrow> heap \<Rightarrow> (gval \<times> heap) option" where
  "BackupPolicy_DeepCopy = deepCopy BackupPolicy_shape BackupPolicy_DeepCopyInto"

definition CredentialsSpec_shape :: "shape" where
  "CredentialsSpec_shape = StructOf [
     (''SecretName'', Prim KStr), (''AdminPasswordKey'', Prim KStr), (''ServerPasswordKey'', Prim KStr)]"

definition CredentialsSpec_DeepCopyInto :: "copier" where
  "CredentialsSpec_DeepCopyInto = block [assign]"

definition CredentialsSpec_DeepCopy :: "gval \<Rightarrow> heap \<Rightarrow> (gval \<times> heap) option" where
  "CredentialsSpec_DeepCopy = deepCopy CredentialsSpec_shape CredentialsSpec_DeepCopyInto"

definition ImageSpec_shape :: "third_party \<Rightarrow> shape" where
  "ImageSpec_shape x = StructOf [
     (''Server'', Prim KStr), (''PullPolicy'', tp_shape x ''corev1.PullPolicy''),
     (''PullSecrets'', SliceOf (tp_shape x ''corev1.LocalObjectReference''))]"

definition ImageSpec_DeepCopyInto :: "third_party \<Rightarrow> copier" where
  "ImageSpec_DeepCopyInto x = block [assign,
     at ''PullSecrets'' (if_set (make_into (tp_shape x ''corev1.LocalObjectReference'') assign))]"

definition ImageSpec_DeepCopy :: "third_party \<Rightarrow> gval \<Rightarrow> heap \<Rightarrow> (gval \<times> heap) option" where
  "ImageSpec_DeepCopy x = deepCopy (ImageSpec_shape x) (ImageSpec_DeepCopyInto x)"

definition MonitoringSpec_shape :: "third_party \<Rightarrow> shape" where
  "MonitoringSpec_shape x = StructOf [
     (''ServiceMonitor'', Prim KBool), (''MetricsExporter'', Prim KBool),
     (''ExporterResources'', PtrTo (tp_shape x ''corev1.ResourceRequirements''))]"

definition MonitoringSpec_DeepCopyInto :: "third_party \<Rightarrow> copier" where
  "MonitoringSpec_DeepCopyInto x = block [assign,
     at ''ExporterResources'' (if_set (new_into (tp_shape x ''corev1.ResourceRequirements'') (tp_into x ''corev1.ResourceRequirements'')))]"

definition MonitoringSpec_DeepCopy :: "third_party \<Rightarrow> gval \<Rightarrow> heap \<Rightarrow> (gval \<times> heap) option" where
  "MonitoringSpec_DeepCopy x = deepCopy (MonitoringSpec_shape x) (MonitoringSpec_DeepCopyInto x)"

definition NamespacedName_shape :: "shape" where
  "NamespacedName_shape = StructOf [(''Name'', Prim KStr), (''Namespace'', Prim KStr)]"

definition NamespacedName_DeepCopyInto :: "copier" where
  "NamespacedName_DeepCopyInto = block [assign]"

definition NamespacedName_DeepCopy :: "gval \<Rightarrow> heap \<Rightarrow> (gval \<times> heap) option" where
  "NamespacedName_DeepCopy = deepCopy NamespacedName_shape NamespacedName_DeepCopyInto"

definition RESTAPIExposure_shape :: "shape" where
  "RESTAPIExposure_shape = StructOf [
     (''Route'', Prim KBool), (''Host'', Prim KStr), (''TLS'', Prim KStr)]"

definition RESTAPIExposure_DeepCopyInto :: "copier" where
  "RESTAPIExposure_DeepCopyInto = block [assign]"

definition RESTAPIExposure_DeepCopy :: "gval \<Rightarrow> heap \<Rightarrow> (gval \<times> heap) option" where
  "RESTAPIExposure_DeepCopy = deepCopy RESTAPIExposure_shape RESTAPIExposure_DeepCopyInto"

definition NetworkingSpec_shape :: "shape" where
  "NetworkingSpec_shape = StructOf [
     (''GamePort'', Prim KInt), (''QueryPort'', Prim KInt), (''ServiceType'', Prim KStr),
     (''LoadBalancerIP'', Prim KStr), (''LoadBalancerClass'', PtrTo (Prim KStr)), (''NodePort'', Prim KInt),
     (''ServiceAnnotations'', MapOf (Prim KStr)), (''PublicIP'', Prim KStr), (''PublicPort'', Prim KInt),
     (''RESTAPI'', RESTAPIExposure_shape)]"

definition NetworkingSpec_DeepCopyInto :: "copier" where
  "NetworkingSpec_DeepCopyInto = block [
     assign,
     at ''LoadBalancerClass'' (if_set (new_into (Prim KStr) assign)),
     at ''ServiceAnnotations'' (if_set make_map),
     at ''RESTAPI'' assign]"

definition NetworkingSpec_DeepCopy :: "gval \<Rightarrow> heap \<Rightarrow> (gval \<times> heap) option" where
  "NetworkingSpec_DeepCopy = deepCopy NetworkingSpec_shape NetworkingSpec_DeepCopyInto"

definition NodeDrainPolicy_shape :: "shape" where
  "NodeDrainPolicy_shape = StructOf [
     (''Disabled'', Prim KBool), (''GracePeriodSeconds'', Prim KInt), (''WarnMessage'', Prim KStr)]"

definition NodeDrainPolicy_DeepCopyInto :: "copier" where
  "NodeDrainPolicy_DeepCopyInto = block [assign]"

definition NodeDrainPolicy_DeepCopy :: "gval \<Rightarrow> heap \<Rightarrow> (gval \<times> heap) option" where
  "NodeDrainPolicy_DeepCopy = deepCopy NodeDrainPolicy_shape NodeDrainPolicy_DeepCopyInto"

definition PalworldServerSettings_shape :: "shape" where
  "PalworldServerSettings_shape = StructOf [
     (''Difficulty'', Prim KStr), (''RandomizerType'', Prim KStr), (''RandomizerSeed'', Prim KStr),
     (''IsRandomizerPalLevelRandom'', Prim KBool), (''DayTimeSpeedRate'', Prim KFloat),
     (''NightTimeSpeedRate'', Prim KFloat), (''ExpRate'', Prim KFloat), (''PalCaptureRate'', Prim KFloat),
     (''PalSpawnNumRate'', Prim KFloat), (''PalDamageRateAttack'', Prim KFloat),
     (''PalDamageRateDefense'', Prim KFloat), (''PlayerDamageRateAttack'', Prim KFloat),
     (''PlayerDamageRateDefense'', Prim KFloat), (''PlayerStomachDecreaceRate'', Prim KFloat),
     (''PlayerStaminaDecreaceRate'', Prim KFloat), (''PlayerAutoHPRegeneRate'', Prim KFloat),
     (''PlayerAutoHpRegeneRateInSleep'', Prim KFloat), (''PalStomachDecreaceRate'', Prim KFloat),
     (''PalStaminaDecreaceRate'', Prim KFloat), (''PalAutoHPRegeneRate'', Prim KFloat),
     (''PalAutoHpRegeneRateInSleep'', Prim KFloat), (''BuildObjectHpRate'', Prim KFloat),
     (''BuildObjectDamageRate'', Prim KFloat), (''BuildObjectDeteriorationDamageRate'', Prim KFloat),
     (''CollectionDropRate'', Prim KFloat), (''CollectionObjectHpRate'', Prim KFloat),
     (''CollectionObjectRespawnSpeedRate'', Prim KFloat), (''EnemyDropItemRate'', Prim KFloat),
     (''DeathPenalty'', Prim KStr), (''EnablePlayerToPlayerDamage'', Prim KBool),
     (''EnableFriendlyFire'', Prim KBool), (''EnableInvaderEnemy'', Prim KBool), (''ActiveUNKO'', Prim KBool),
     (''EnableAimAssistPad'', Prim KBool), (''EnableAimAssistKeyboard'', Prim KBool),
     (''DropItemMaxNum'', Prim KInt), (''PhysicsActiveDropItemMaxNum'', Prim KInt),
     (''DropItemMaxNumUNKO'', Prim KInt), (''BaseCampMaxNum'', Prim KInt), (''BaseCampWorkerMaxNum'', Prim KInt),
     (''DropItemAliveMaxHours'', Prim KFloat), (''AutoResetGuildNoOnlinePlayers'', Prim KBool),
     (''AutoResetGuildTimeNoOnlinePlayers'', Prim KFloat), (''GuildPlayerMaxNum'', Prim KInt),
     (''BaseCampMaxNumInGuild'', Prim KInt), (''PalEggDefaultHatchingTime'', Prim KFloat),
     (''WorkSpeedRate'', Prim KFloat), (''AutoSaveSpan'', Prim KFloat), (''IsMultiplay'', Prim KBool),
     (''IsPvP'', Prim KBool), (''Hardcore'', Prim KBool), (''PalLost'', Prim KBool),
     (''CharacterRecreateInHardcore'', Prim KBool), (''CanPickupOtherGuildDeathPenaltyDrop'', Prim KBool),
     (''EnableNonLoginPenalty'', Prim KBool), (''EnableFastTravel'', Prim KBool),
     (''EnableFastTravelOnlyBaseCamp'', Prim KBool), (''IsStartLocationSelectByMap'', Prim KBool),
     (''ExistPlayerAfterLogout'', Prim KBool), (''EnableDefenseOtherGuildPlayer'', Prim KBool),
     (''InvisibleOtherGuildBaseCampAreaFX'', Prim KBool), (''BuildAreaLimit'', Prim KBool),
     (''ItemWeightRate'', Prim KFloat), (''CoopPlayerMaxNum'', Prim KInt), (''ServerPlayerMaxNum'', Prim KInt),
     (''ServerName'', Prim KStr), (''ServerDescription'', Prim KStr), (''AllowClientMod'', Prim KBool),
     (''Region'', Prim KStr), (''UseAuth'', Prim KBool), (''BanListURL'', Prim KStr),
     (''ShowPlayerList'', Prim KBool), (''ChatPostLimitPerMinute'', Prim KInt),
     (''CrossplayPlatforms'', SliceOf (Prim KStr)), (''IsUseBackupSaveData'', Prim KBool),
     (''LogFormatType'', Prim KStr), (''IsShowJoinLeftMessage'', Prim KBool), (''SupplyDropSpan'', Prim KInt),
     (''EnablePredatorBossPal'', Prim KBool), (''MaxBuildingLimitNum'', Prim KInt),
     (''ServerReplicatePawnCullDistance'', Prim KFloat), (''AllowGlobalPalboxExport'', Prim KBool),
     (''AllowGlobalPalboxImport'', Prim KBool), (''EquipmentDurabilityDamageRate'', Prim KFloat),
     (''ItemContainerForceMarkDirtyInterval'', Prim KFloat),
     (''PlayerDataPalStorageUpdateCheckTickInterval'', Prim KFloat), (''ItemCorruptionMultiplier'', Prim KFloat),
     (''MonsterFarmActionSpeedRate'', Prim KFloat), (''DenyTechnologyList'', Prim KStr),
     (''GuildRejoinCooldownMinutes'', Prim KInt), (''AutoTransferMasterCheckIntervalSeconds'', Prim KFloat),
     (''AutoTransferMasterThresholdDays'', Prim KInt), (''MaxGuildsPerFrame'', Prim KInt),
     (''BlockRespawnTime'', Prim KFloat), (''RespawnPenaltyDurationThreshold'', Prim KFloat),
     (''RespawnPenaltyTimeScale'', Prim KFloat), (''DisplayPvPItemNumOnWorldMapBaseCamp'', Prim KBool),
     (''DisplayPvPItemNumOnWorldMapPlayer'', Prim KBool),
     (''AdditionalDropItemWhenPlayerKillingInPvPMode'', Prim KStr),
     (''AdditionalDropItemNumWhenPlayerKillingInPvPMode'', Prim KInt),
     (''BAdditionalDropItemWhenPlayerKillingInPvPMode'', Prim KBool), (''EnableVoiceChat'', Prim KBool),
     (''VoiceChatMaxVolumeDistance'', Prim KFloat), (''VoiceChatZeroVolumeDistance'', Prim KFloat),
     (''AllowEnhanceStatHealth'', Prim KBool), (''AllowEnhanceStatAttack'', Prim KBool),
     (''AllowEnhanceStatStamina'', Prim KBool), (''AllowEnhanceStatWeight'', Prim KBool),
     (''AllowEnhanceStatWorkSpeed'', Prim KBool), (''EnableBuildingPlayerUIdDisplay'', Prim KBool),
     (''BuildingNameDisplayCacheTTLSeconds'', Prim KInt)]"

definition PalworldServerSettings_DeepCopyInto :: "copier" where
  "PalworldServerSettings_DeepCopyInto = block [assign,
     at ''CrossplayPlatforms'' (if_set (make_into (Prim KStr) assign))]"

definition PalworldServerSettings_DeepCopy :: "gval \<Rightarrow> heap \<Rightarrow> (gval \<times> heap) option" where
  "PalworldServerSettings_DeepCopy = deepCopy PalworldServerSettings_shape PalworldServerSettings_DeepCopyInto"

definition StorageSpec_shape :: "third_party \<Rightarrow> shape" where
  "StorageSpec_shape x = StructOf [
     (''Size'', tp_shape x ''resource.Quantity''), (''StorageClassName'', PtrTo (Prim KStr)),
     (''AccessModes'', SliceOf (tp_shape x ''corev1.PersistentVolumeAccessMode'')), (''Retain'', Prim KBool),
     (''VolumeSnapshotClassName'', PtrTo (Prim KStr))]"

definition StorageSpec_DeepCopyInto :: "third_party \<Rightarrow> copier" where
  "StorageSpec_DeepCopyInto x = block [
     assign,
     at ''Size'' (from_copy (tp_copy x ''resource.Quantity'')),
     at ''StorageClassName'' (if_set (new_into (Prim KStr) assign)),
     at ''AccessModes'' (if_set (make_into (tp_shape x ''corev1.PersistentVolumeAccessMode'') assign)),
     at ''VolumeSnapshotClassName'' (if_set (new_into (Prim KStr) assign))]"

definition StorageSpec_DeepCopy :: "third_party \<Rightarrow> gval \<Rightarrow> heap \<Rightarrow> (gval \<times> heap) option" where
  "StorageSpec_DeepCopy x = deepCopy (StorageSpec_shape x) (StorageSpec_DeepCopyInto x)"

definition SchedulingSpec_shape :: "third_party \<Rightarrow> shape" where
  "SchedulingSpec_shape x = StructOf [
     (''NodeSelector'', MapOf (Prim KStr)), (''Affinity'', PtrTo (tp_shape x ''corev1.Affinity'')),
     (''Tolerations'', SliceOf (tp_shape x ''corev1.Toleration'')),
     (''TopologySpreadConstraints'', SliceOf (tp_shape x ''corev1.TopologySpreadConstraint'')),
     (''PriorityClassName'', Prim KStr)]"

definition SchedulingSpec_DeepCopyInto :: "third_party \<Rightarrow> copier" where
  "SchedulingSpec_DeepCopyInto x = block [
     assign,
     at ''NodeSelector'' (if_set make_map),
     at ''Affinity'' (if_set (new_into (tp_shape x ''corev1.Affinity'') (tp_into x ''corev1.Affinity''))),
     at ''Tolerations'' (if_set (make_into (tp_shape x ''corev1.Toleration'') (tp_into x ''corev1.Toleration''))),
     at ''TopologySpreadConstraints'' (if_set (make_into (tp_shape x ''corev1.TopologySpreadConstraint'') (tp_into x ''corev1.TopologySpreadConstraint'')))]"

definition SchedulingSpec_DeepCopy :: "third_party \<Rightarrow> gval \<Rightarrow> heap \<Rightarrow> (gval \<times> heap) option" where
  "SchedulingSpec_DeepCopy x = deepCopy (SchedulingSpec_shape x) (SchedulingSpec_DeepCopyInto x)"

definition UpdatePolicy_shape :: "shape" where
  "UpdatePolicy_shape = StructOf [
     (''Strategy'', Prim KStr), (''Schedule'', Prim KStr), (''DrainTimeoutSeconds'', Prim KInt),
     (''WarnMessage'', Prim KStr), (''WarnIntervalSeconds'', Prim KInt), (''BackupBeforeUpdate'', Prim KBool),
     (''PollIntervalMinutes'', Prim KInt)]"

definition UpdatePolicy_DeepCopyInto :: "copier" where
  "UpdatePolicy_DeepCopyInto = block [assign]"

definition UpdatePolicy_DeepCopy :: "gval \<Rightarrow> heap \<Rightarrow> (gval \<times> heap) option" where
  "UpdatePolicy_DeepCopy = deepCopy UpdatePolicy_shape UpdatePolicy_DeepCopyInto"

definition PodDisruptionSpec_shape :: "shape" where
  "PodDisruptionSpec_shape = StructOf [(''Enabled'', Prim KBool), (''MinAvailable'', PtrTo (Prim KInt))]"

definition PodDisruptionSpec_DeepCopyInto :: "copier" where
  "PodDisruptionSpec_DeepCopyInto = block [assign,
     at ''MinAvailable'' (if_set (new_into (Prim KInt) assign))]"

definition PodDisruptionSpec_DeepCopy :: "gval \<Rightarrow> heap \<Rightarrow> (gval \<times> heap) option" where
  "PodDisruptionSpec_DeepCopy = deepCopy PodDisruptionSpec_shape PodDisruptionSpec_DeepCopyInto"

definition ShutdownPolicy_shape :: "shape" where
  "ShutdownPolicy_shape = StructOf [
     (''WarnSeconds'', Prim KInt), (''WarnIntervalSeconds'', Prim KInt), (''WarnMessage'', Prim KStr)]"

definition ShutdownPolicy_DeepCopyInto :: "copier" where
  "ShutdownPolicy_DeepCopyInto = block [assign]"

definition ShutdownPolicy_DeepCopy :: "gval \<Rightarrow> heap \<Rightarrow> (gval \<times> heap) option" where
  "ShutdownPolicy_DeepCopy = deepCopy ShutdownPolicy_shape ShutdownPolicy_DeepCopyInto"

section \<open>Backups\<close>

definition PalworldBackupSpec_shape :: "shape" where
  "PalworldBackupSpec_shape = StructOf [
     (''GameRef'', Prim KStr), (''Destination'', BackupDestination_shape), (''FlushSave'', Prim KBool),
     (''TTLSecondsAfterFinished'', PtrTo (Prim KInt)), (''Retain'', Prim KBool)]"

definition PalworldBackupSpec_DeepCopyInto :: "copier" where
  "PalworldBackupSpec_DeepCopyInto = block [
     assign,
     at ''Destination'' BackupDestination_DeepCopyInto,
     at ''TTLSecondsAfterFinished'' (if_set (new_into (Prim KInt) assign))]"

definition PalworldBackupSpec_DeepCopy :: "gval \<Rightarrow> heap \<Rightarrow> (gval \<times> heap) option" where
  "PalworldBackupSpec_DeepCopy = deepCopy PalworldBackupSpec_shape PalworldBackupSpec_DeepCopyInto"

definition PalworldBackupStatus_shape :: "third_party \<Rightarrow> shape" where
  "PalworldBackupStatus_shape x = StructOf [
     (''Phase'', Prim KStr), (''Message'', Prim KStr), (''StartTime'', PtrTo (tp_shape x ''metav1.Time'')),
     (''CompletionTime'', PtrTo (tp_shape x ''metav1.Time'')), (''VolumeSnapshotName'', Prim KStr),
     (''Location'', Prim KStr), (''SizeBytes'', Prim KInt), (''ServerVersion'', Prim KStr),
     (''JobName'', Prim KStr), (''Conditions'', SliceOf (tp_shape x ''metav1.Condition''))]"

definition PalworldBackupStatus_DeepCopyInto :: "third_party \<Rightarrow> copier" where
  "PalworldBackupStatus_DeepCopyInto x = block [
     assign,
     at ''StartTime'' (if_set (from_copy (tp_copy x ''metav1.Time''))),
     at ''CompletionTime'' (if_set (from_copy (tp_copy x ''metav1.Time''))),
     at ''Conditions'' (if_set (make_into (tp_shape x ''metav1.Condition'') (tp_into x ''metav1.Condition'')))]"

definition PalworldBackupStatus_DeepCopy :: "third_party \<Rightarrow> gval \<Rightarrow> heap \<Rightarrow> (gval \<times> heap) option" where
  "PalworldBackupStatus_DeepCopy x = deepCopy (PalworldBackupStatus_shape x) (PalworldBackupStatus_DeepCopyInto x)"

definition PalworldBackup_shape :: "third_party \<Rightarrow> shape" where
  "PalworldBackup_shape x = StructOf [
     (''TypeMeta'', tp_shape x ''metav1.TypeMeta''), (''ObjectMeta'', tp_shape x ''metav1.ObjectMeta''),
     (''Spec'', PalworldBackupSpec_shape), (''Status'', PalworldBackupStatus_shape x)]"

definition PalworldBackup_DeepCopyInto :: "third_party \<Rightarrow> copier" where
  "PalworldBackup_DeepCopyInto x = block [
     assign,
     at ''TypeMeta'' assign,
     at ''ObjectMeta'' (tp_into x ''metav1.ObjectMeta''),
     at ''Spec'' PalworldBackupSpec_DeepCopyInto,
     at ''Status'' (PalworldBackupStatus_DeepCopyInto x)]"

definition PalworldBackup_DeepCopy :: "third_party \<Rightarrow> gval \<Rightarrow> heap \<Rightarrow> (gval \<times> heap) option" where
  "PalworldBackup_DeepCopy x = deepCopy (PalworldBackup_shape x) (PalworldBackup_DeepCopyInto x)"

definition PalworldBackup_DeepCopyObject :: "third_party \<Rightarrow> gval \<Rightarrow> heap \<Rightarrow> (iface \<times> heap) option" where
  "PalworldBackup_DeepCopyObject x = deepCopyObject ''PalworldBackup'' (PalworldBackup_DeepCopy x)"

definition PalworldBackupList_shape :: "third_party \<Rightarrow> shape" where
  "PalworldBackupList_shape x = StructOf [
     (''TypeMeta'', tp_shape x ''metav1.TypeMeta''), (''ListMeta'', tp_shape x ''metav1.ListMeta''),
     (''Items'', SliceOf (PalworldBackup_shape x))]"

definition PalworldBackupList_DeepCopyInto :: "third_party \<Rightarrow> copier" where
  "PalworldBackupList_DeepCopyInto x = block [
     assign,
     at ''TypeMeta'' assign,
     at ''ListMeta'' (tp_into x ''metav1.ListMeta''),
     at ''Items'' (if_set (make_into (PalworldBackup_shape x) (PalworldBackup_DeepCopyInto x)))]"

definition PalworldBackupList_DeepCopy :: "third_party \<Rightarrow> gval \<Rightarrow> heap \<Rightarrow> (gval \<times> heap) option" where
  "PalworldBackupList_DeepCopy x = deepCopy (PalworldBackupList_shape x) (PalworldBackupList_DeepCopyInto x)"

definition PalworldBackupList_DeepCopyObject :: "third_party \<Rightarrow> gval \<Rightarrow> heap \<Rightarrow> (iface \<times> heap) option" where
  "PalworldBackupList_DeepCopyObject x = deepCopyObject ''PalworldBackupList'' (PalworldBackupList_DeepCopy x)"

section \<open>Games\<close>

definition PalworldGameSpec_shape :: "third_party \<Rightarrow> shape" where
  "PalworldGameSpec_shape x = StructOf [
     (''Version'', Prim KStr), (''Replicas'', PtrTo (Prim KInt)), (''Image'', ImageSpec_shape x),
     (''ServerSettings'', PalworldServerSettings_shape), (''EngineSettings'', MapOf (Prim KStr)),
     (''Credentials'', CredentialsSpec_shape), (''Storage'', StorageSpec_shape x),
     (''Networking'', NetworkingSpec_shape), (''Resources'', tp_shape x ''corev1.ResourceRequirements''),
     (''Scheduling'', SchedulingSpec_shape x), (''Backup'', PtrTo (BackupPolicy_shape)),
     (''Update'', PtrTo (UpdatePolicy_shape)), (''PodDisruptionBudget'', PtrTo (PodDisruptionSpec_shape)),
     (''NodeDrain'', PtrTo (NodeDrainPolicy_shape)), (''Shutdown'', PtrTo (ShutdownPolicy_shape)),
     (''Monitoring'', MonitoringSpec_shape x), (''ServiceAccountName'', Prim KStr),
     (''TerminationGracePeriodSeconds'', PtrTo (Prim KInt)), (''PodAnnotations'', MapOf (Prim KStr)),
     (''PodLabels'', MapOf (Prim KStr)), (''ExtraEnv'', SliceOf (tp_shape x ''corev1.EnvVar'')),
     (''Sidecars'', SliceOf (tp_shape x ''corev1.Container'')),
     (''PodSecurityContext'', PtrTo (tp_shape x ''corev1.PodSecurityContext''))]"

definition PalworldGameSpec_DeepCopyInto :: "third_party \<Rightarrow> copier" where
  "PalworldGameSpec_DeepCopyInto x = block [
     assign,
     at ''Replicas'' (if_set (new_into (Prim KInt) assign)),
     at ''Image'' (ImageSpec_DeepCopyInto x),
     at ''ServerSettings'' PalworldServerSettings_DeepCopyInto,
     at ''EngineSettings'' (if_set make_map),
     at ''Credentials'' assign,
     at ''Storage'' (StorageSpec_DeepCopyInto x),
     at ''Networking'' NetworkingSpec_DeepCopyInto,
     at ''Resources'' (tp_into x ''corev1.ResourceRequirements''),
     at ''Scheduling'' (SchedulingSpec_DeepCopyInto x),
     at ''Backup'' (if_set (new_into BackupPolicy_shape BackupPolicy_DeepCopyInto)),
     at ''Update'' (if_set (new_into UpdatePolicy_shape assign)),
     at ''PodDisruptionBudget'' (if_set (new_into PodDisruptionSpec_shape PodDisruptionSpec_DeepCopyInto)),
     at ''NodeDrain'' (if_set (new_into NodeDrainPolicy_shape assign)),
     at ''Shutdown'' (if_set (new_into ShutdownPolicy_shape assign)),
     at ''Monitoring'' (MonitoringSpec_DeepCopyInto x),
     at ''TerminationGracePeriodSeconds'' (if_set (new_into (Prim KInt) assign)),
     at ''PodAnnotations'' (if_set make_map),
     at ''PodLabels'' (if_set make_map),
     at ''ExtraEnv'' (if_set (make_into (tp_shape x ''corev1.EnvVar'') (tp_into x ''corev1.EnvVar''))),
     at ''Sidecars'' (if_set (make_into (tp_shape x ''corev1.Container'') (tp_into x ''corev1.Container''))),
     at ''PodSecurityContext'' (if_set (new_into (tp_shape x ''corev1.PodSecurityContext'') (tp_into x ''corev1.PodSecurityContext'')))]"

definition PalworldGameSpec_DeepCopy :: "third_party \<Rightarrow> gval \<Rightarrow> heap \<Rightarrow> (gval \<times> heap) option" where
  "PalworldGameSpec_DeepCopy x = deepCopy (PalworldGameSpec_shape x) (PalworldGameSpec_DeepCopyInto x)"

definition PalworldGameStatus_shape :: "third_party \<Rightarrow> shape" where
  "PalworldGameStatus_shape x = StructOf [
     (''Phase'', Prim KStr), (''ObservedGeneration'', Prim KInt),
     (''Conditions'', SliceOf (tp_shape x ''metav1.Condition'')), (''CurrentVersion'', Prim KStr),
     (''ServerVersion'', Prim KStr), (''AvailableVersion'', Prim KStr), (''Replicas'', Prim KInt),
     (''Selector'', Prim KStr), (''PlayersOnline'', Prim KInt), (''MaxPlayers'', Prim KInt),
     (''ServerName'', Prim KStr), (''GameEndpoint'', Prim KStr), (''RESTEndpoint'', Prim KStr),
     (''RouteURL'', Prim KStr), (''PersistentVolumeClaim'', Prim KStr), (''CurrentNode'', Prim KStr),
     (''CredentialsSecret'', Prim KStr), (''LastBackupTime'', PtrTo (tp_shape x ''metav1.Time'')),
     (''LastBackupName'', Prim KStr), (''NextScheduledBackup'', PtrTo (tp_shape x ''metav1.Time'')),
     (''LastUpdateTime'', PtrTo (tp_shape x ''metav1.Time'')),
     (''NextScheduledUpdateCheck'', PtrTo (tp_shape x ''metav1.Time'')),
     (''UpdateDrainStartTime'', PtrTo (tp_shape x ''metav1.Time'')),
     (''UpdateDrainLastWarnTime'', PtrTo (tp_shape x ''metav1.Time''))]"

definition PalworldGameStatus_DeepCopyInto :: "third_party \<Rightarrow> copier" where
  "PalworldGameStatus_DeepCopyInto x = block [
     assign,
     at ''Conditions'' (if_set (make_into (tp_shape x ''metav1.Condition'') (tp_into x ''metav1.Condition''))),
     at ''LastBackupTime'' (if_set (from_copy (tp_copy x ''metav1.Time''))),
     at ''NextScheduledBackup'' (if_set (from_copy (tp_copy x ''metav1.Time''))),
     at ''LastUpdateTime'' (if_set (from_copy (tp_copy x ''metav1.Time''))),
     at ''NextScheduledUpdateCheck'' (if_set (from_copy (tp_copy x ''metav1.Time''))),
     at ''UpdateDrainStartTime'' (if_set (from_copy (tp_copy x ''metav1.Time''))),
     at ''UpdateDrainLastWarnTime'' (if_set (from_copy (tp_copy x ''metav1.Time'')))]"

definition PalworldGameStatus_DeepCopy :: "third_party \<Rightarrow> gval \<Rightarrow> heap \<Rightarrow> (gval \<times> heap) option" where
  "PalworldGameStatus_DeepCopy x = deepCopy (PalworldGameStatus_shape x) (PalworldGameStatus_DeepCopyInto x)"

definition PalworldGame_shape :: "third_party \<Rightarrow> shape" where
  "PalworldGame_shape x = StructOf [
     (''TypeMeta'', tp_shape x ''metav1.TypeMeta''), (''ObjectMeta'', tp_shape x ''metav1.ObjectMeta''),
     (''Spec'', PalworldGameSpec_shape x), (''Status'', PalworldGameStatus_shape x)]"

definition PalworldGame_DeepCopyInto :: "third_party \<Rightarrow> copier" where
  "PalworldGame_DeepCopyInto x = block [
     assign,
     at ''TypeMeta'' assign,
     at ''ObjectMeta'' (tp_into x ''metav1.ObjectMeta''),
     at ''Spec'' (PalworldGameSpec_DeepCopyInto x),
     at ''Status'' (PalworldGameStatus_DeepCopyInto x)]"

definition PalworldGame_DeepCopy :: "third_party \<Rightarrow> gval \<Rightarrow> heap \<Rightarrow> (gval \<times> heap) option" where
  "PalworldGame_DeepCopy x = deepCopy (PalworldGame_shape x) (PalworldGame_DeepCopyInto x)"

definition PalworldGame_DeepCopyObject :: "third_party \<Rightarrow> gval \<Rightarrow> heap \<Rightarrow> (iface \<times> heap) option" where
  "PalworldGame_DeepCopyObject x = deepCopyObject ''PalworldGame'' (PalworldGame_DeepCopy x)"

definition PalworldGameList_shape :: "third_party \<Rightarrow> shape" where
  "PalworldGameList_shape x = StructOf [
     (''TypeMeta'', tp_shape x ''metav1.TypeMeta''), (''ListMeta'', tp_shape x ''metav1.ListMeta''),
     (''Items'', SliceOf (PalworldGame_shape x))]"

definition PalworldGameList_DeepCopyInto :: "third_party \<Rightarrow> copier" where
  "PalworldGameList_DeepCopyInto x = block [
     assign,
     at ''TypeMeta'' assign,
     at ''ListMeta'' (tp_into x ''metav1.ListMeta''),
     at ''Items'' (if_set (make_into (PalworldGame_shape x) (PalworldGame_DeepCopyInto x)))]"

definition PalworldGameList_DeepCopy :: "third_party \<Rightarrow> gval \<Rightarrow> heap \<Rightarrow> (gval \<times> heap) option" where
  "PalworldGameList_DeepCopy x = deepCopy (PalworldGameList_shape x) (PalworldGameList_DeepCopyInto x)"

definition PalworldGameList_DeepCopyObject :: "third_party \<Rightarrow> gval \<Rightarrow> heap \<Rightarrow> (iface \<times> heap) option" where
  "PalworldGameList_DeepCopyObject x = deepCopyObject ''PalworldGameList'' (PalworldGameList_DeepCopy x)"

definition PalworldGameValidator_shape :: "shape" where
  "PalworldGameValidator_shape = StructOf []"

definition PalworldGameValidator_DeepCopyInto :: "copier" where
  "PalworldGameValidator_DeepCopyInto = block [assign]"

definition PalworldGameValidator_DeepCopy :: "gval \<Rightarrow> heap \<Rightarrow> (gval \<times> heap) option" where
  "PalworldGameValidator_DeepCopy = deepCopy PalworldGameValidator_shape PalworldGameValidator_DeepCopyInto"

section \<open>Restores\<close>

definition PalworldRestoreSpec_shape :: "shape" where
  "PalworldRestoreSpec_shape = StructOf [
     (''GameRef'', Prim KStr), (''BackupRef'', Prim KStr), (''Source'', PtrTo (BackupDestination_shape)),
     (''Force'', Prim KBool)]"

definition PalworldRestoreSpec_DeepCopyInto :: "copier" where
  "PalworldRestoreSpec_DeepCopyInto = block [assign,
     at ''Source'' (if_set (new_into BackupDestination_shape BackupDestination_DeepCopyInto))]"

definition PalworldRestoreSpec_DeepCopy :: "gval \<Rightarrow> heap \<Rightarrow> (gval \<times> heap) option" where
  "PalworldRestoreSpec_DeepCopy = deepCopy PalworldRestoreSpec_shape PalworldRestoreSpec_DeepCopyInto"

definition PalworldRestoreStatus_shape :: "third_party \<Rightarrow> shape" where
  "PalworldRestoreStatus_shape x = StructOf [
     (''Phase'', Prim KStr), (''Message'', Prim KStr), (''StartTime'', PtrTo (tp_shape x ''metav1.Time'')),
     (''CompletionTime'', PtrTo (tp_shape x ''metav1.Time'')), (''JobName'', Prim KStr),
     (''OriginalReplicas'', PtrTo (Prim KInt)), (''Conditions'', SliceOf (tp_shape x ''metav1.Condition''))]"

definition PalworldRestoreStatus_DeepCopyInto :: "third_party \<Rightarrow> copier" where
  "PalworldRestoreStatus_DeepCopyInto x = block [
     assign,
     at ''StartTime'' (if_set (from_copy (tp_copy x ''metav1.Time''))),
     at ''CompletionTime'' (if_set (from_copy (tp_copy x ''metav1.Time''))),
     at ''OriginalReplicas'' (if_set (new_into (Prim KInt) assign)),
     at ''Conditions'' (if_set (make_into (tp_shape x ''metav1.Condition'') (tp_into x ''metav1.Condition'')))]"

definition PalworldRestoreStatus_DeepCopy :: "third_party \<Rightarrow> gval \<Rightarrow> heap \<Rightarrow> (gval \<times> heap) option" where
  "PalworldRestoreStatus_DeepCopy x = deepCopy (PalworldRestoreStatus_shape x) (PalworldRestoreStatus_DeepCopyInto x)"

definition PalworldRestore_shape :: "third_party \<Rightarrow> shape" where
  "PalworldRestore_shape x = StructOf [
     (''TypeMeta'', tp_shape x ''metav1.TypeMeta''), (''ObjectMeta'', tp_shape x ''metav1.ObjectMeta''),
     (''Spec'', PalworldRestoreSpec_shape), (''Status'', PalworldRestoreStatus_shape x)]"

definition PalworldRestore_DeepCopyInto :: "third_party \<Rightarrow> copier" where
  "PalworldRestore_DeepCopyInto x = block [
     assign,
     at ''TypeMeta'' assign,
     at ''ObjectMeta'' (tp_into x ''metav1.ObjectMeta''),
     at ''Spec'' PalworldRestoreSpec_DeepCopyInto,
     at ''Status'' (PalworldRestoreStatus_DeepCopyInto x)]"

definition PalworldRestore_DeepCopy :: "third_party \<Rightarrow> gval \<Rightarrow> heap \<Rightarrow> (gval \<times> heap) option" where
  "PalworldRestore_DeepCopy x = deepCopy (PalworldRestore_shape x) (PalworldRestore_DeepCopyInto x)"

definition PalworldRestore_DeepCopyObject :: "third_party \<Rightarrow> gval \<Rightarrow> heap \<Rightarrow> (iface \<times> heap) option" where
  "PalworldRestore_DeepCopyObject x = deepCopyObject ''PalworldRestore'' (PalworldRestore_DeepCopy x)"

definition PalworldRestoreList_shape :: "third_party \<Rightarrow> shape" where
  "PalworldRestoreList_shape x = StructOf [
     (''TypeMeta'', tp_shape x ''metav1.TypeMeta''), (''ListMeta'', tp_shape x ''metav1.ListMeta''),
     (''Items'', SliceOf (PalworldRestore_shape x))]"

definition PalworldRestoreList_DeepCopyInto :: "third_party \<Rightarrow> copier" where
  "PalworldRestoreList_DeepCopyInto x = block [
     assign,
     at ''TypeMeta'' assign,
     at ''ListMeta'' (tp_into x ''metav1.ListMeta''),
     at ''Items'' (if_set (make_into (PalworldRestore_shape x) (PalworldRestore_DeepCopyInto x)))]"

definition PalworldRestoreList_DeepCopy :: "third_party \<Rightarrow> gval \<Rightarrow> heap \<Rightarrow> (gval \<times> heap) option" where
  "PalworldRestoreList_DeepCopy x = deepCopy (PalworldRestoreList_shape x) (PalworldRestoreList_DeepCopyInto x)"

definition PalworldRestoreList_DeepCopyObject :: "third_party \<Rightarrow> gval \<Rightarrow> heap \<Rightarrow> (iface \<times> heap) option" where
  "PalworldRestoreList_DeepCopyObject x = deepCopyObject ''PalworldRestoreList'' (PalworldRestoreList_DeepCopy x)"

section \<open>All of them\<close>

text \<open>The types with their shapes and their \<open>DeepCopy\<close>.\<close>

definition deepCopies :: "third_party \<Rightarrow> (string \<times> shape \<times> (gval \<Rightarrow> heap \<Rightarrow> (gval \<times> heap) option)) list" where
  "deepCopies x = [
     (''BackupDestination'', BackupDestination_shape, BackupDestination_DeepCopy),
     (''BackupPolicy'', BackupPolicy_shape, BackupPolicy_DeepCopy),
     (''CredentialsSpec'', CredentialsSpec_shape, CredentialsSpec_DeepCopy),
     (''ImageSpec'', ImageSpec_shape x, ImageSpec_DeepCopy x),
     (''MonitoringSpec'', MonitoringSpec_shape x, MonitoringSpec_DeepCopy x),
     (''NamespacedName'', NamespacedName_shape, NamespacedName_DeepCopy),
     (''NetworkingSpec'', NetworkingSpec_shape, NetworkingSpec_DeepCopy),
     (''NodeDrainPolicy'', NodeDrainPolicy_shape, NodeDrainPolicy_DeepCopy),
     (''PalworldBackup'', PalworldBackup_shape x, PalworldBackup_DeepCopy x),
     (''PalworldBackupList'', PalworldBackupList_shape x, PalworldBackupList_DeepCopy x),
     (''PalworldBackupSpec'', PalworldBackupSpec_shape, PalworldBackupSpec_DeepCopy),
     (''PalworldBackupStatus'', PalworldBackupStatus_shape x, PalworldBackupStatus_DeepCopy x),
     (''PalworldGame'', PalworldGame_shape x, PalworldGame_DeepCopy x),
     (''PalworldGameList'', PalworldGameList_shape x, PalworldGameList_DeepCopy x),
     (''PalworldGameSpec'', PalworldGameSpec_shape x, PalworldGameSpec_DeepCopy x),
     (''PalworldGameStatus'', PalworldGameStatus_shape x, PalworldGameStatus_DeepCopy x),
     (''PalworldGameValidator'', PalworldGameValidator_shape, PalworldGameValidator_DeepCopy),
     (''PalworldRestore'', PalworldRestore_shape x, PalworldRestore_DeepCopy x),
     (''PalworldRestoreList'', PalworldRestoreList_shape x, PalworldRestoreList_DeepCopy x),
     (''PalworldRestoreSpec'', PalworldRestoreSpec_shape, PalworldRestoreSpec_DeepCopy),
     (''PalworldRestoreStatus'', PalworldRestoreStatus_shape x, PalworldRestoreStatus_DeepCopy x),
     (''PalworldServerSettings'', PalworldServerSettings_shape, PalworldServerSettings_DeepCopy),
     (''PodDisruptionSpec'', PodDisruptionSpec_shape, PodDisruptionSpec_DeepCopy),
     (''RESTAPIExposure'', RESTAPIExposure_shape, RESTAPIExposure_DeepCopy),
     (''S3Destination'', S3Destination_shape, S3Destination_DeepCopy),
     (''SchedulingSpec'', SchedulingSpec_shape x, SchedulingSpec_DeepCopy x),
     (''ShutdownPolicy'', ShutdownPolicy_shape, ShutdownPolicy_DeepCopy),
     (''StorageSpec'', StorageSpec_shape x, StorageSpec_DeepCopy x),
     (''UpdatePolicy'', UpdatePolicy_shape, UpdatePolicy_DeepCopy)]"

text \<open>The types that the API server stores and lists, with their \<open>DeepCopyObject\<close>.\<close>

definition deepCopyObjects :: "third_party \<Rightarrow> (string \<times> shape \<times> (gval \<Rightarrow> heap \<Rightarrow> (iface \<times> heap) option)) list" where
  "deepCopyObjects x = [
     (''PalworldBackup'', PalworldBackup_shape x, PalworldBackup_DeepCopyObject x),
     (''PalworldBackupList'', PalworldBackupList_shape x, PalworldBackupList_DeepCopyObject x),
     (''PalworldGame'', PalworldGame_shape x, PalworldGame_DeepCopyObject x),
     (''PalworldGameList'', PalworldGameList_shape x, PalworldGameList_DeepCopyObject x),
     (''PalworldRestore'', PalworldRestore_shape x, PalworldRestore_DeepCopyObject x),
     (''PalworldRestoreList'', PalworldRestoreList_shape x, PalworldRestoreList_DeepCopyObject x)]"

section \<open>Every generated function copies\<close>

lemma third_party_flat [copy_rules]: "third_party_ok x \<Longrightarrow> T \<in> set flatTypes \<Longrightarrow> pure (tp_shape x T)"
  by (simp add: third_party_ok_def)

lemma third_party_into [copy_rules]:
  "third_party_ok x \<Longrightarrow> T \<in> set copiedTypes \<Longrightarrow> copies_into (tp_shape x T) (tp_into x T)"
  by (simp add: third_party_ok_def)

lemma third_party_returns [copy_rules]:
  "third_party_ok x \<Longrightarrow> returns_copy (PtrTo (tp_shape x ''metav1.Time'')) (tp_copy x ''metav1.Time'')"
  "third_party_ok x \<Longrightarrow> returns_copy (tp_shape x ''resource.Quantity'') (tp_copy x ''resource.Quantity'')"
  by (simp_all add: third_party_ok_def)

lemma flat_structs [copy_rules]:
  "pure S3Destination_shape"
  "pure CredentialsSpec_shape"
  "pure NamespacedName_shape"
  "pure RESTAPIExposure_shape"
  "pure NodeDrainPolicy_shape"
  "pure UpdatePolicy_shape"
  "pure ShutdownPolicy_shape"
  "pure PalworldGameValidator_shape"
  by (simp_all add: S3Destination_shape_def CredentialsSpec_shape_def NamespacedName_shape_def RESTAPIExposure_shape_def NodeDrainPolicy_shape_def UpdatePolicy_shape_def ShutdownPolicy_shape_def PalworldGameValidator_shape_def)

lemma S3Destination_copies [copy_rules]: "copies_into S3Destination_shape S3Destination_DeepCopyInto"
  unfolding S3Destination_shape_def S3Destination_DeepCopyInto_def
  by (rule struct_copies, (rule fills.intros)+) (simp_all add: copy_rules flatTypes_def copiedTypes_def)

lemma BackupDestination_copies [copy_rules]: "copies_into BackupDestination_shape BackupDestination_DeepCopyInto"
  unfolding BackupDestination_shape_def BackupDestination_DeepCopyInto_def
  by (rule struct_copies, (rule fills.intros)+) (simp_all add: copy_rules flatTypes_def copiedTypes_def)

lemma BackupPolicy_copies [copy_rules]: "copies_into BackupPolicy_shape BackupPolicy_DeepCopyInto"
  unfolding BackupPolicy_shape_def BackupPolicy_DeepCopyInto_def
  by (rule struct_copies, (rule fills.intros)+) (simp_all add: copy_rules flatTypes_def copiedTypes_def)

lemma CredentialsSpec_copies [copy_rules]: "copies_into CredentialsSpec_shape CredentialsSpec_DeepCopyInto"
  unfolding CredentialsSpec_shape_def CredentialsSpec_DeepCopyInto_def
  by (rule struct_copies, (rule fills.intros)+) (simp_all add: copy_rules flatTypes_def copiedTypes_def)

lemma ImageSpec_copies [copy_rules]: "third_party_ok x \<Longrightarrow> copies_into (ImageSpec_shape x) (ImageSpec_DeepCopyInto x)"
  unfolding ImageSpec_shape_def ImageSpec_DeepCopyInto_def
  by (rule struct_copies, (rule fills.intros)+) (simp_all add: copy_rules flatTypes_def copiedTypes_def)

lemma MonitoringSpec_copies [copy_rules]: "third_party_ok x \<Longrightarrow> copies_into (MonitoringSpec_shape x) (MonitoringSpec_DeepCopyInto x)"
  unfolding MonitoringSpec_shape_def MonitoringSpec_DeepCopyInto_def
  by (rule struct_copies, (rule fills.intros)+) (simp_all add: copy_rules flatTypes_def copiedTypes_def)

lemma NamespacedName_copies [copy_rules]: "copies_into NamespacedName_shape NamespacedName_DeepCopyInto"
  unfolding NamespacedName_shape_def NamespacedName_DeepCopyInto_def
  by (rule struct_copies, (rule fills.intros)+) (simp_all add: copy_rules flatTypes_def copiedTypes_def)

lemma RESTAPIExposure_copies [copy_rules]: "copies_into RESTAPIExposure_shape RESTAPIExposure_DeepCopyInto"
  unfolding RESTAPIExposure_shape_def RESTAPIExposure_DeepCopyInto_def
  by (rule struct_copies, (rule fills.intros)+) (simp_all add: copy_rules flatTypes_def copiedTypes_def)

lemma NetworkingSpec_copies [copy_rules]: "copies_into NetworkingSpec_shape NetworkingSpec_DeepCopyInto"
  unfolding NetworkingSpec_shape_def NetworkingSpec_DeepCopyInto_def
  by (rule struct_copies, (rule fills.intros)+) (simp_all add: copy_rules flatTypes_def copiedTypes_def)

lemma NodeDrainPolicy_copies [copy_rules]: "copies_into NodeDrainPolicy_shape NodeDrainPolicy_DeepCopyInto"
  unfolding NodeDrainPolicy_shape_def NodeDrainPolicy_DeepCopyInto_def
  by (rule struct_copies, (rule fills.intros)+) (simp_all add: copy_rules flatTypes_def copiedTypes_def)

lemma PalworldBackupSpec_copies [copy_rules]: "copies_into PalworldBackupSpec_shape PalworldBackupSpec_DeepCopyInto"
  unfolding PalworldBackupSpec_shape_def PalworldBackupSpec_DeepCopyInto_def
  by (rule struct_copies, (rule fills.intros)+) (simp_all add: copy_rules flatTypes_def copiedTypes_def)

lemma PalworldBackupStatus_copies [copy_rules]: "third_party_ok x \<Longrightarrow> copies_into (PalworldBackupStatus_shape x) (PalworldBackupStatus_DeepCopyInto x)"
  unfolding PalworldBackupStatus_shape_def PalworldBackupStatus_DeepCopyInto_def
  by (rule struct_copies, (rule fills.intros)+) (simp_all add: copy_rules flatTypes_def copiedTypes_def)

lemma PalworldBackup_copies [copy_rules]: "third_party_ok x \<Longrightarrow> copies_into (PalworldBackup_shape x) (PalworldBackup_DeepCopyInto x)"
  unfolding PalworldBackup_shape_def PalworldBackup_DeepCopyInto_def
  by (rule struct_copies, (rule fills.intros)+) (simp_all add: copy_rules flatTypes_def copiedTypes_def)

lemma PalworldBackupList_copies [copy_rules]: "third_party_ok x \<Longrightarrow> copies_into (PalworldBackupList_shape x) (PalworldBackupList_DeepCopyInto x)"
  unfolding PalworldBackupList_shape_def PalworldBackupList_DeepCopyInto_def
  by (rule struct_copies, (rule fills.intros)+) (simp_all add: copy_rules flatTypes_def copiedTypes_def)

lemma PalworldServerSettings_copies [copy_rules]: "copies_into PalworldServerSettings_shape PalworldServerSettings_DeepCopyInto"
  unfolding PalworldServerSettings_shape_def PalworldServerSettings_DeepCopyInto_def
proof (rule struct_copies, (rule fills.intros)+, goal_cases)
  case 1
  show ?case by (simp add: copy_rules)
qed code_simp+

lemma StorageSpec_copies [copy_rules]: "third_party_ok x \<Longrightarrow> copies_into (StorageSpec_shape x) (StorageSpec_DeepCopyInto x)"
  unfolding StorageSpec_shape_def StorageSpec_DeepCopyInto_def
  by (rule struct_copies, (rule fills.intros)+) (simp_all add: copy_rules flatTypes_def copiedTypes_def)

lemma SchedulingSpec_copies [copy_rules]: "third_party_ok x \<Longrightarrow> copies_into (SchedulingSpec_shape x) (SchedulingSpec_DeepCopyInto x)"
  unfolding SchedulingSpec_shape_def SchedulingSpec_DeepCopyInto_def
  by (rule struct_copies, (rule fills.intros)+) (simp_all add: copy_rules flatTypes_def copiedTypes_def)

lemma UpdatePolicy_copies [copy_rules]: "copies_into UpdatePolicy_shape UpdatePolicy_DeepCopyInto"
  unfolding UpdatePolicy_shape_def UpdatePolicy_DeepCopyInto_def
  by (rule struct_copies, (rule fills.intros)+) (simp_all add: copy_rules flatTypes_def copiedTypes_def)

lemma PodDisruptionSpec_copies [copy_rules]: "copies_into PodDisruptionSpec_shape PodDisruptionSpec_DeepCopyInto"
  unfolding PodDisruptionSpec_shape_def PodDisruptionSpec_DeepCopyInto_def
  by (rule struct_copies, (rule fills.intros)+) (simp_all add: copy_rules flatTypes_def copiedTypes_def)

lemma ShutdownPolicy_copies [copy_rules]: "copies_into ShutdownPolicy_shape ShutdownPolicy_DeepCopyInto"
  unfolding ShutdownPolicy_shape_def ShutdownPolicy_DeepCopyInto_def
  by (rule struct_copies, (rule fills.intros)+) (simp_all add: copy_rules flatTypes_def copiedTypes_def)

lemma PalworldGameSpec_copies [copy_rules]: "third_party_ok x \<Longrightarrow> copies_into (PalworldGameSpec_shape x) (PalworldGameSpec_DeepCopyInto x)"
  unfolding PalworldGameSpec_shape_def PalworldGameSpec_DeepCopyInto_def
  by (rule struct_copies, (rule fills.intros)+) (simp_all add: copy_rules flatTypes_def copiedTypes_def)

lemma PalworldGameStatus_copies [copy_rules]: "third_party_ok x \<Longrightarrow> copies_into (PalworldGameStatus_shape x) (PalworldGameStatus_DeepCopyInto x)"
  unfolding PalworldGameStatus_shape_def PalworldGameStatus_DeepCopyInto_def
  by (rule struct_copies, (rule fills.intros)+) (simp_all add: copy_rules flatTypes_def copiedTypes_def)

lemma PalworldGame_copies [copy_rules]: "third_party_ok x \<Longrightarrow> copies_into (PalworldGame_shape x) (PalworldGame_DeepCopyInto x)"
  unfolding PalworldGame_shape_def PalworldGame_DeepCopyInto_def
  by (rule struct_copies, (rule fills.intros)+) (simp_all add: copy_rules flatTypes_def copiedTypes_def)

lemma PalworldGameList_copies [copy_rules]: "third_party_ok x \<Longrightarrow> copies_into (PalworldGameList_shape x) (PalworldGameList_DeepCopyInto x)"
  unfolding PalworldGameList_shape_def PalworldGameList_DeepCopyInto_def
  by (rule struct_copies, (rule fills.intros)+) (simp_all add: copy_rules flatTypes_def copiedTypes_def)

lemma PalworldGameValidator_copies [copy_rules]: "copies_into PalworldGameValidator_shape PalworldGameValidator_DeepCopyInto"
  unfolding PalworldGameValidator_shape_def PalworldGameValidator_DeepCopyInto_def
  by (rule struct_copies, (rule fills.intros)+) (simp_all add: copy_rules flatTypes_def copiedTypes_def)

lemma PalworldRestoreSpec_copies [copy_rules]: "copies_into PalworldRestoreSpec_shape PalworldRestoreSpec_DeepCopyInto"
  unfolding PalworldRestoreSpec_shape_def PalworldRestoreSpec_DeepCopyInto_def
  by (rule struct_copies, (rule fills.intros)+) (simp_all add: copy_rules flatTypes_def copiedTypes_def)

lemma PalworldRestoreStatus_copies [copy_rules]: "third_party_ok x \<Longrightarrow> copies_into (PalworldRestoreStatus_shape x) (PalworldRestoreStatus_DeepCopyInto x)"
  unfolding PalworldRestoreStatus_shape_def PalworldRestoreStatus_DeepCopyInto_def
  by (rule struct_copies, (rule fills.intros)+) (simp_all add: copy_rules flatTypes_def copiedTypes_def)

lemma PalworldRestore_copies [copy_rules]: "third_party_ok x \<Longrightarrow> copies_into (PalworldRestore_shape x) (PalworldRestore_DeepCopyInto x)"
  unfolding PalworldRestore_shape_def PalworldRestore_DeepCopyInto_def
  by (rule struct_copies, (rule fills.intros)+) (simp_all add: copy_rules flatTypes_def copiedTypes_def)

lemma PalworldRestoreList_copies [copy_rules]: "third_party_ok x \<Longrightarrow> copies_into (PalworldRestoreList_shape x) (PalworldRestoreList_DeepCopyInto x)"
  unfolding PalworldRestoreList_shape_def PalworldRestoreList_DeepCopyInto_def
  by (rule struct_copies, (rule fills.intros)+) (simp_all add: copy_rules flatTypes_def copiedTypes_def)

lemma deepCopies_generated:
  assumes "third_party_ok x" "(T, s, dc) \<in> set (deepCopies x)"
  shows "\<exists>into. dc = deepCopy s into \<and> deep_copied s into"
  using assms unfolding deepCopies_def deep_copied_def
    BackupDestination_DeepCopy_def BackupPolicy_DeepCopy_def CredentialsSpec_DeepCopy_def ImageSpec_DeepCopy_def
    MonitoringSpec_DeepCopy_def NamespacedName_DeepCopy_def NetworkingSpec_DeepCopy_def NodeDrainPolicy_DeepCopy_def
    PalworldBackup_DeepCopy_def PalworldBackupList_DeepCopy_def PalworldBackupSpec_DeepCopy_def
    PalworldBackupStatus_DeepCopy_def PalworldGame_DeepCopy_def PalworldGameList_DeepCopy_def
    PalworldGameSpec_DeepCopy_def PalworldGameStatus_DeepCopy_def PalworldGameValidator_DeepCopy_def
    PalworldRestore_DeepCopy_def PalworldRestoreList_DeepCopy_def PalworldRestoreSpec_DeepCopy_def
    PalworldRestoreStatus_DeepCopy_def PalworldServerSettings_DeepCopy_def PodDisruptionSpec_DeepCopy_def
    RESTAPIExposure_DeepCopy_def S3Destination_DeepCopy_def SchedulingSpec_DeepCopy_def ShutdownPolicy_DeepCopy_def
    StorageSpec_DeepCopy_def UpdatePolicy_DeepCopy_def
  by (simp only: set_simps insert_iff empty_iff prod.inject) (elim disjE conjE; force simp: copy_rules)

lemma deepCopyObjects_generated:
  assumes "third_party_ok x" "(T, s, dco) \<in> set (deepCopyObjects x)"
  shows "\<exists>into. dco = deepCopyObject T (deepCopy s into) \<and> deep_copied s into"
  using assms unfolding deepCopyObjects_def deep_copied_def
    PalworldBackup_DeepCopyObject_def PalworldBackupList_DeepCopyObject_def PalworldGame_DeepCopyObject_def
    PalworldGameList_DeepCopyObject_def PalworldRestore_DeepCopyObject_def PalworldRestoreList_DeepCopyObject_def
    PalworldBackup_DeepCopy_def PalworldBackupList_DeepCopy_def PalworldGame_DeepCopy_def
    PalworldGameList_DeepCopy_def PalworldRestore_DeepCopy_def PalworldRestoreList_DeepCopy_def
  by (simp only: set_simps insert_iff empty_iff prod.inject) (elim disjE conjE; force simp: copy_rules)

text \<open>
  The shape of the settings agrees with the fields that the renderer reads by reflection: same names, order and types.
\<close>

fun rvalueShape :: "rvalue \<Rightarrow> shape" where
  "rvalueShape (VBool b) = Prim KBool"
| "rvalueShape (VInt i) = Prim KInt"
| "rvalueShape (VFloat x) = Prim KFloat"
| "rvalueShape (VStr s) = Prim KStr"
| "rvalueShape (VStrs ss) = SliceOf (Prim KStr)"

lemma settings_shape_fields:
  "PalworldServerSettings_shape = StructOf (map (\<lambda>(F, tag, v). (F, rvalueShape v)) (structFields s))"
  by (simp add: PalworldServerSettings_shape_def structFields_def fields_palWorld_def fields_palBase_def fields_palRules_def
      fields_palServer_def fields_PalworldServerSettings_def)

text \<open>Types without third-party parts are copied whatever those are.\<close>

interpretation backup_destination: deep_copied BackupDestination_shape BackupDestination_DeepCopyInto
  by unfold_locales (rule BackupDestination_copies)

interpretation server_settings: deep_copied PalworldServerSettings_shape PalworldServerSettings_DeepCopyInto
  by unfold_locales (rule PalworldServerSettings_copies)

interpretation networking: deep_copied NetworkingSpec_shape NetworkingSpec_DeepCopyInto
  by unfold_locales (rule NetworkingSpec_copies)

text \<open>
  \<open>DeepCopyObject\<close> of a stored type gives the interface of the copied object, with its content, and for
  a nil pointer the nil interface, never an interface of the type that holds nil (which would differ from nil).
\<close>

theorem deep_copied_objects:
  assumes "third_party_ok x" "(T, s, dco) \<in> set (deepCopyObjects x)" "heap_ok h" "unfold h (PtrTo s) v = Some t"
  shows "if v = GNil then dco v h = Some (INil, h)
    else \<exists>h' w t'. dco v h = Some (IObj T w, h') \<and> w \<noteq> GNil \<and> unfold h' (PtrTo s) w = Some t' \<and> content t' = content t"
proof -
  obtain into where into: "dco = deepCopyObject T (deepCopy s into)" "deep_copied s into"
    using deepCopyObjects_generated [OF assms(1,2)] by blast
  show ?thesis
    using into(1) deep_copied.independent [OF into(2) assms(3,4)] deep_copied.object [OF into(2) assms(3,4), of T]
    by (auto simp: deepCopyObject_def deepCopy_def)
qed

section \<open>Samples\<close>

text \<open>Third-party types cut down to a few fields, and a backup to S3 whose labels and destination are on the heap.\<close>

definition sampleMeta :: shape where
  "sampleMeta = StructOf [(''Name'', Prim KStr), (''Labels'', MapOf (Prim KStr))]"

definition sampleParty :: third_party where
  "sampleParty = \<lparr>
     tp_shape = (\<lambda>T. if T = ''metav1.ObjectMeta'' then sampleMeta else Prim KInt),
     tp_into = (\<lambda>T. if T = ''metav1.ObjectMeta'' then block [assign, at ''Labels'' (if_set make_map)] else assign),
     tp_copy = (\<lambda>T. if T = ''metav1.Time'' then deepCopy (Prim KInt) assign else (\<lambda>v h. Some (v, h)))\<rparr>"

definition sampleHeap :: heap where
  "sampleHeap = \<lparr>
     cells = [
       0 \<mapsto> put (put (zero (PalworldBackup_shape sampleParty)) [Fld ''ObjectMeta'', Fld ''Labels''] (MapRef 1))
              [Fld ''Spec'', Fld ''Destination'', Fld ''S3''] (Ptr (2, [])),
       1 \<mapsto> Table [(''app'', Scal (SStr ''palworld''))],
       2 \<mapsto> put (zero S3Destination_shape) [Fld ''Bucket''] (Scal (SStr ''saves''))],
     lim = 3\<rparr>"

definition sampleTree :: "nat tree" where
  "sampleTree = the (unfold sampleHeap (PtrTo (PalworldBackup_shape sampleParty)) (Ptr (0, [])))"

lemma pure_returns: "pure s \<Longrightarrow> returns_copy s (\<lambda>v h. Some (v, h))"
  unfolding returns_copy_def copy_of_def by (auto simp: extends_refl dest: unfold_pure)

lemma sampleParty_ok: "third_party_ok sampleParty"
proof -
  have "copies_into sampleMeta (block [assign, at ''Labels'' (if_set make_map)])"
    unfolding sampleMeta_def by (rule struct_copies, (rule fills.intros)+) (simp_all add: copy_rules)
  then show ?thesis
    by (simp add: third_party_ok_def flatTypes_def copiedTypes_def sampleParty_def copy_rules pure_returns)
qed

lemma sampleHeap_ok: "heap_ok sampleHeap"
  by (simp add: heap_ok_def sampleHeap_def)

lemma sampleHeap_unfolds:
  "unfold sampleHeap (PtrTo (PalworldBackup_shape sampleParty)) (Ptr (0, [])) = Some sampleTree" "1 \<in> set_tree sampleTree"
  by code_simp+

lemma sample_listed: "(''PalworldBackup'', PalworldBackup_shape x, PalworldBackup_DeepCopy x) \<in> set (deepCopies x)"
  by (simp add: deepCopies_def)

section \<open>Copies share nothing with their originals\<close>

text \<open>
  C19: a generated \<open>DeepCopy\<close> returns, for every type of the API, a value with the same content as the original, down to
  everything it reaches, and the two share no memory. Whatever is written afterwards to an object that the copy reaches
  leaves the original as it was (the informer's cache hands out pointers into its own objects), and whatever is
  written to the original leaves the copy. A nil pointer gives nil, and no input panics.
\<close>

theorem deep_copies_independent:
  assumes "third_party_ok x" "(T, s, dc) \<in> set (deepCopies x)" "heap_ok h" "unfold h (PtrTo s) v = Some t"
  shows "\<exists>h' w t'. dc v h = Some (w, h') \<and> heap_ok h' \<and>
    unfold h' (PtrTo s) w = Some t' \<and> content t' = content t \<and> unfold h' (PtrTo s) v = Some t \<and>
    (\<forall>l y h''. store l y h' = Some h'' \<longrightarrow>
       (fst l \<in> set_tree t' \<longrightarrow> unfold h'' (PtrTo s) v = Some t) \<and>
       (fst l \<in> set_tree t \<longrightarrow> unfold h'' (PtrTo s) w = Some t'))"
proof -
  obtain into where "dc = deepCopy s into" "deep_copied s into"
    using deepCopies_generated [OF assms(1,2)] by blast
  then show ?thesis
    using deep_copied.independent [OF _ assms(3,4), of into] by simp
qed

theorem deep_copies_independent_witness:
  "\<exists>h' w t'. PalworldBackup_DeepCopy sampleParty (Ptr (0, [])) sampleHeap = Some (w, h') \<and>
     unfold h' (PtrTo (PalworldBackup_shape sampleParty)) w = Some t' \<and> content t' = content sampleTree \<and>
     (\<forall>l y h''. store l y h' = Some h'' \<longrightarrow> fst l \<in> set_tree t' \<longrightarrow>
        unfold h'' (PtrTo (PalworldBackup_shape sampleParty)) (Ptr (0, [])) = Some sampleTree)"
  using deep_copies_independent [OF sampleParty_ok sample_listed sampleHeap_ok sampleHeap_unfolds(1)] by blast

end
