(* ===== verification/Spec2Isabelle.thy ===== *)
theory Spec2Isabelle
  imports Webhook CacheVisibility RestoreProgress BackupLifetime Scheme DeepCopy
begin

text \<open>
  \<^bold>\<open>A verification of the Palworld operator.\<close>

  The program is a Kubernetes operator for Palworld dedicated game servers, written in Go. Three
  custom resources describe a server (\<^verbatim>\<open>PalworldGame\<close>), a backup of its world and a restore. Three
  reconcilers drive the cluster towards them: each \<^verbatim>\<open>Reconcile\<close> reads one object, talks to the API
  server, to the game server (REST) and to Steam, writes what is missing and says when it wants to
  be called again. An admission webhook checks games before they are stored. The same binary runs, as a
  sidecar of the game server, an exporter that turns the server's REST metrics into a Prometheus page.

  \<^bold>\<open>How code becomes definitions.\<close> Pure functions are HOL functions with the names of the source;
  structs are records whose fields carry a short prefix (\<open>g_Spec\<close>, \<open>gs_Backup\<close>), enumerations and
  optional pointers are datatypes and \<open>option\<close>. Integers are \<open>int\<close> with Go's wrap-around written out
  (\<open>wrap32\<close>, \<open>wrap64\<close>), durations and instants are nanoseconds, strings are byte lists. Code with
  effects is a state-monad action over a \<open>world\<close> (theory \<open>Effects\<close>): an action makes \<open>call\<close>s, the world
  answers each from its history by an arbitrary function \<open>srv\<close>, and the history grows. A theorem over
  all worlds is therefore a theorem over every behaviour of the cluster, of concurrent writers and of
  the network between two calls. \<open>ensures Q m\<close> says that from every world the value of \<open>m\<close> and the
  events it adds satisfy \<open>Q\<close>; its rules are the proof calculus of the controllers. Every action is a
  total function: no model uses fuel, and a reconcile always returns.

  \<^bold>\<open>Parts and theories.\<close>

  \<^item> \<open>GoPrelude\<close>: Go's integers, strings, sorting and durations, and lemmas on them. \<open>GoTime\<close>: RFC 3339
    formatting and parsing with their round trip. \<open>GoFloat\<close>: conversion of integers to \<^verbatim>\<open>float64\<close> and the
    shortest decimal formatting. \<open>Effects\<close>: the effect model and its program logic.
  \<^item> \<open>ServerSettings\<close>: \<^verbatim>\<open>api/v1alpha1/palworldsettings_types.go\<close>, \<^verbatim>\<open>internal/settings/render.go\<close>. Round
    trip of the rendered file, typing of the struct tags, the defaults, the effect of \<^verbatim>\<open>omitempty\<close>.
  \<^item> \<open>ApiTypes\<close>: the other API types and their methods. \<open>KubeObjects\<close>: the Kubernetes objects used.
  \<^item> \<open>ResourceMeta\<close>, \<open>ConfigResources\<close>, \<open>WorkloadResources\<close>, \<open>NetworkResources\<close>, \<open>BackupResources\<close>:
    \<^verbatim>\<open>internal/resources\<close>, one definition per builder, with the traffic the NetworkPolicy admits and the
    archive a worker Job reads or writes.
  \<^item> \<open>Webhook\<close>: \<^verbatim>\<open>api/v1alpha1/palworldgame_webhook.go\<close>; what admission guarantees to the builders.
  \<^item> \<open>Cluster\<close>: errors, the calls and replies, and third-party functions as fields of a record \<open>Lib\<close>.
    \<open>Samples\<close>: concrete objects and an implementation of \<open>Lib\<close> for instances of the properties.
  \<^item> \<open>PalworldClients\<close>: \<^verbatim>\<open>internal/palworld\<close> (REST, RCON, Steam).
  \<^item> \<open>ControllerHelpers\<close>: \<^verbatim>\<open>helpers.go\<close> and \<^verbatim>\<open>conditions.go\<close> of \<^verbatim>\<open>internal/controller\<close>.
  \<^item> \<open>GameResources\<close>, \<open>GameStatus\<close>, \<open>GameNodeDrain\<close>, \<open>GameUpdate\<close>, \<open>GameBackups\<close>, \<open>GameDelete\<close>,
    \<open>GameController\<close>: the game reconciler, one theory per file, composed in \<open>Reconcile\<close>. Credentials,
    convergence of the owned objects, the node drain, the player drain of an update as an automaton
    that the code refines, when an update may restart the server, retention, deletion (safety and
    progress), and that a live game is always reconciled again.
  \<^item> \<open>PhaseMachine\<close>: an abstract phase machine (locales) with runs, ranks and evidence;
    \<open>BackupController\<close> and \<open>RestoreController\<close> model their files and interpret it.
  \<^item> \<open>PhaseProgress\<close>: endless schedules of reconciles, and the locale that bounds the reconciles without
    an excuse. \<open>BackupProgress\<close> and \<open>RestoreProgress\<close> interpret it: backups and restores terminate unless
    the cluster holds them up, and which of them can drop out of the work queue.
  \<^item> \<open>BackupRestore\<close>: the controllers composed: what a restore of a completed backup reads, and how the
    replica count a restore asks for reaches the StatefulSet. \<open>BackupLifetime\<close>: the final backup of a
    deleted game is deleted by no part of the operator.
  \<^item> \<open>Exporter\<close>: \<^verbatim>\<open>internal/exporter\<close>, with a reader of the Prometheus text format as reference.
  \<^item> \<open>Scheme\<close>: \<^verbatim>\<open>groupversion_info.go\<close> and the \<^verbatim>\<open>init\<close> functions: the kinds the binary knows.
  \<^item> \<open>GoHeap\<close>, \<open>HeapCopies\<close>, \<open>DeepCopy\<close>: \<^verbatim>\<open>zz_generated.deepcopy.go\<close> over an explicit heap with pointers, slices and
    maps: the kinds of statement the generator emits, the contract of a copy with a rule per kind of
    statement, and the functions of all 29 types with the layout of their structs. A copy has the content of
    its original and shares no memory with it; the other theories rest on that where they treat a copy
    taken before a change as a value of its own.
  \<^item> \<open>Manager\<close>: \<^verbatim>\<open>cmd/main.go\<close>: flags, the informer cache configuration, the start-up sequence.
  \<^item> \<open>Rbac\<close>: the RBAC markers of the reconcilers and what each call demands.
  \<^item> \<open>CacheVisibility\<close>: every write of the three reconcilers is one the filtered cache can see, and every
    call one the operator's role permits. The
    properties that span the exporter, the manager and the builders are in this theory.

  \<^bold>\<open>Interfaces.\<close> Locales state what a component relies on: \<open>scalar_codec\<close> (decoding a JSON field),
  \<open>slice_sorter\<close> (what sorting by a strict order gives), \<open>quiet_frame\<close> (a condition on the events of an action
  that some calls cannot break, with an instance per condition of the controllers), \<open>phase_machine\<close> with its extensions
  \<open>evidenced_phases\<close> and \<open>guarded_phases\<close> (what a step of a reconciler may do to the phase of its object
  and what it must have seen) and \<open>progressing_phases\<close> (when it has to move the phase on), \<open>backup_gate\<close> (waiting for a backup before an update or a
  deletion) and \<open>deep_copied\<close> (a type with a generated copying function). Each is interpreted on the definitions of the model, and the properties rest on the facts
  this gives.

  \<^bold>\<open>Not modelled.\<close> The registration of watches and
  handlers with the controller runtime, log lines and their flags, the HTTP transport and TLS handshakes, JSON
  scanning and the JSON text of requests (a request carries the JSON value), and floating-point
  arithmetic (the program only converts and prints floats). Third-party functions are arguments with
  named assumptions where a property needs one.
\<close>

section \<open>The exporter sidecar\<close>

text \<open>
  The environment of a container, as a process sees it: the last entry of a name counts, and a
  reference to a Secret is replaced by the value of its key.
\<close>

definition containerEnv :: "(string \<times> string \<Rightarrow> string) \<Rightarrow> EnvVar list \<Rightarrow> string \<Rightarrow> string" where
  "containerEnv secrets env name =
     (case find (\<lambda>e. env_Name e = name) (rev env) of
        None \<Rightarrow> []
      | Some e \<Rightarrow> (case env_ValueFrom e of None \<Rightarrow> env_Value e | Some r \<Rightarrow> secrets (sks_Name r, sks_Key r)))"

text \<open>
  C38: the sidecar the operator adds to the pod runs the exporter against its own server. Started with the
  container's arguments and environment, the binary takes the exporter branch whatever flags exist,
  listens on the metrics port, queries the REST port of the same pod with the admin password of the
  game's credentials Secret, and the metrics Service targets the port the container declares.
\<close>

theorem sidecar_runs_exporter:
  "main other L (containerEnv secrets (ct_Env (metricsSidecar g p))) (''/manager'' # ct_Args (metricsSidecar g p)) =
     orExit (ListenAndServe
       \<lparr>xs_Addr = '':'' @ itoa MetricsPort,
        xs_Client = \<lparr>rc_baseURL = ''http://127.0.0.1:'' @ itoa RESTPort,
                     rc_password = secrets (CredentialsSecretName g, AdminPasswordKey g), rc_timeout = 5 * Second\<rparr>,
        xs_ReadHeaderTimeout = 5 * Second\<rparr>) (ret 0)
   \<and> map cp_ContainerPort (ct_Ports (metricsSidecar g p)) = [MetricsPort]
   \<and> map sp_TargetPort (ssp_Ports (svc_Spec (DesiredMetricsService g))) = map cp_Name (ct_Ports (metricsSidecar g p))"
proof -
  have "itoa RESTPort = ''8212''" "itoa MetricsPort = ''9877''" 
    by (simp_all add: port_defs itoa_def natStr.simps digit_texts)
  then show ?thesis
    by (simp add: main_def metricsSidecar_def newContainer_def containerEnv_def envVar_def secretEnv_def
        exporterServer_def exporterEnvOr_def Let_def NewRESTClientURL_def WithTimeout_def trimRightSlash_def
        DesiredMetricsService_def newService_def svcPort_def)
qed

section \<open>Selectors\<close>

text \<open>
  The Services, the disruption budget, the NetworkPolicy and the StatefulSet of a game select the
  same labels. The server pods carry them, and so do the pods of the backup and restore Jobs.
\<close>

lemma selectors_match_pods:
  "map (\<lambda>s. ssp_Selector (svc_Spec s)) (desiredServices r g) = replicate (length (desiredServices r g)) (SelectorLabels g)
   \<and> pdb_Selector (DesiredPodDisruptionBudget g) = SelectorLabels g
   \<and> np_PodSelector (DesiredNetworkPolicy g ns) = SelectorLabels g
   \<and> stp_Selector (sts_Spec (DesiredStatefulSet g p h)) = SelectorLabels g
   \<and> SelectorLabels g \<subseteq>\<^sub>m pt_Labels (stp_Template (sts_Spec (DesiredStatefulSet g p h)))
   \<and> SelectorLabels g \<subseteq>\<^sub>m pt_Labels (job_Template (buildWorkerJob g js))"
  by (simp add: desiredServices_def DesiredHeadlessService_def DesiredGameService_def DesiredAdminService_def
      DesiredMetricsService_def newService_def DesiredPodDisruptionBudget_def DesiredNetworkPolicy_def
      DesiredStatefulSet_def buildWorkerJob_def Let_def SelectorLabels_le_CommonLabels)

end
